(* ===== verification/Prelude.thy ===== *)
theory Prelude
  imports Main "HOL-Library.Word" "HOL-Library.AList" "HOL-Library.Multiset"
begin

text \<open>
  What every other theory of the development shares: the result type of
  client/src/support/Result.h, first-match tables (the \<open>std::find_if\<close> then assign or
  \<open>push_back\<close> idiom of client/src/storage/JsonLocalStore.cpp) with their lemmas, the
  bytes the code moves around, and the fact collections the component theories extend.
\<close>

named_theorems store_simps \<open>field-wise effect of the operations of the local store\<close>
named_theorems step_simps \<open>what one step of a service does to the fields of the client\<close>
named_theorems text_simps \<open>evaluation of the QString operations on literals\<close>

type_synonym byte = "8 word"
type_synonym bytes = "byte list"

section \<open>First-match tables\<close>

text \<open>
  \<open>upsert_by p f x xs\<close>: the first element that satisfies \<open>p\<close> is replaced by its image
  under \<open>f\<close>; if there is none, \<open>x\<close> is appended. The store writes every one of its
  vectors with it.
\<close>

fun upsert_by :: "('a \<Rightarrow> bool) \<Rightarrow> ('a \<Rightarrow> 'a) \<Rightarrow> 'a \<Rightarrow> 'a list \<Rightarrow> 'a list" where
  "upsert_by p f x [] = [x]"
| "upsert_by p f x (y # ys) = (if p y then f y # ys else y # upsert_by p f x ys)"

lemma upsert_by_ne [simp]: "upsert_by p f x xs \<noteq> []"
  by (cases xs) auto

lemma upsert_by_absent: "find p xs = None \<Longrightarrow> upsert_by p f x xs = xs @ [x]"
  by (induction xs) (auto split: if_splits)

lemma set_upsert_by: "set (upsert_by p f x xs) \<subseteq> set xs \<union> {x} \<union> f ` set xs"
  by (induction xs) auto

lemma length_upsert_by:
  "length (upsert_by p f x xs) = (if find p xs = None then Suc (length xs) else length xs)"
  by (induction xs) auto

lemma find_upsert_by_same:
  assumes "q x" and "\<And>y. p y \<longleftrightarrow> q y" and "\<And>y. p y \<Longrightarrow> q (f y)"
  shows "find q (upsert_by p f x xs) = Some (case find q xs of None \<Rightarrow> x | Some y \<Rightarrow> f y)"
  using assms by (induction xs) auto

lemma find_upsert_by_other:
  assumes "\<not> q x" and "\<And>y. p y \<Longrightarrow> \<not> q y" and "\<And>y. p y \<Longrightarrow> \<not> q (f y)"
  shows "find q (upsert_by p f x xs) = find q xs"
  using assms by (induction xs) auto

text \<open>The keys of a table stay distinct, and grow by at most the key written.\<close>

lemma map_key_upsert_by:
  assumes "\<And>y. p y \<longleftrightarrow> k y = k x" and "\<And>y. p y \<Longrightarrow> k (f y) = k x"
  shows "map k (upsert_by p f x xs) = (if k x \<in> k ` set xs then map k xs else map k xs @ [k x])"
  using assms by (induction xs) auto

lemma distinct_upsert_by:
  assumes "\<And>y. p y \<longleftrightarrow> k y = k x" and "\<And>y. p y \<Longrightarrow> k (f y) = k x"
    and "distinct (map k xs)"
  shows "distinct (map k (upsert_by p f x xs))"
  using assms(3) by (simp add: map_key_upsert_by [OF assms(1,2)])

lemma find_Some_D: "find p xs = Some x \<Longrightarrow> x \<in> set xs \<and> p x"
  by (induction xs) (auto split: if_splits)

lemma find_distinct:
  assumes "distinct (map k xs)" and "x \<in> set xs"
  shows "find (\<lambda>y. k y = k x) xs = Some x"
  using assms by (induction xs) (auto simp: rev_image_eqI)

lemma find_map_same:
  assumes "\<And>y. p (g y) \<longleftrightarrow> p y"
  shows "find p (map g xs) = map_option g (find p xs)"
  using assms by (induction xs) auto

section \<open>Sums and options\<close>

lemma case_sum_if: "case_sum f g (if b then x else y) = (if b then case_sum f g x else case_sum f g y)"
  by simp

lemma list_all_mapI: "(\<And>x. x \<in> set xs \<Longrightarrow> P (f x)) \<Longrightarrow> list_all P (map f xs)"
  by (simp add: list_all_iff)

section \<open>Lists\<close>

lemma takeWhile_dropWhile_split: "takeWhile p xs @ dropWhile p xs = xs"
  by simp

lemma dropWhile_idem: "dropWhile p (dropWhile p xs) = dropWhile p xs"
  by (induction xs) auto

lemma dropWhile_hd: "dropWhile p xs = y # ys \<Longrightarrow> \<not> p y"
  by (induction xs) (auto split: if_splits)

lemma dropWhile_id: "(xs = [] \<or> \<not> p (hd xs)) \<Longrightarrow> dropWhile p xs = xs"
  by (cases xs) auto

lemma sum_list_map_filter:
  "sum_list (map f (filter p xs)) = sum_list (map (\<lambda>x. if p x then f x else (0::nat)) xs)"
  by (induction xs) auto

end
