(* ===== verification/QtText.thy ===== *)
theory QtText
  imports Prelude
begin

text \<open>
  QString and QChar as the client uses them. A QChar is a UTF-16 code unit, so a QString is
  a list of 16-bit words; \<open>Q ''...''\<close> is the QString of a source literal. The members
  the sources call (\<open>trimmed\<close>, \<open>indexOf\<close>, \<open>mid\<close>, \<open>startsWith\<close>, \<open>endsWith\<close>, \<open>left\<close>,
  \<open>toInt\<close>, \<open>number\<close>, \<open>arg\<close>, \<open>contains\<close>) are computed here; case folding, encodings and
  URLs need Unicode and RFC tables the repository does not hold and are parameters (the
  record \<open>platform\<close> of theory Models).
\<close>

type_synonym qchar = "16 word"
type_synonym qstring = "qchar list"

definition Q :: "string \<Rightarrow> qstring" where
  "Q s = map of_char s"

lemma inj_of_char16: "inj (of_char :: char \<Rightarrow> 16 word)"
proof (rule injI)
  fix a b :: char
  assume eq: "(of_char a :: 16 word) = of_char b"
  have *: "unat (of_char c :: 16 word) = of_char c" for c :: char
  proof -
    have "(of_char c :: nat) < 256"
      using of_char_mod_256 [where ?'a = nat, of c] mod_less_divisor [of 256 "of_char c"] by simp
    then have "(of_char c :: nat) mod 65536 = of_char c"
      by (intro mod_less) linarith
    then have "unat (of_nat (of_char c) :: 16 word) = of_char c"
      by (simp add: unat_of_nat)
    then show ?thesis by (simp add: of_nat_of_char)
  qed
  have "unat (of_char a :: 16 word) = unat (of_char b :: 16 word)"
    by (simp only: eq)
  then have "(of_char a :: nat) = of_char b"
    by (simp only: *)
  then show "a = b" by simp
qed

lemma Q_eq [simp]: "Q s = Q t \<longleftrightarrow> s = t"
  by (simp add: Q_def inj_of_char16 inj_map_eq_map)

lemma Q_Nil [simp]: "Q [] = []"
  by (simp add: Q_def)

lemma Q_eq_Nil [simp]: "Q s = [] \<longleftrightarrow> s = []" "[] = Q s \<longleftrightarrow> s = []"
  by (auto simp: Q_def)

lemma Q_append [simp]: "Q (s @ t) = Q s @ Q t"
  by (simp add: Q_def)

section \<open>Character classes\<close>

text \<open>QChar::isSpace: the ASCII white space, NEL, NBSP and the Unicode separators.\<close>

definition isSpace :: "qchar \<Rightarrow> bool" where
  "isSpace c \<longleftrightarrow> c = 32 \<or> (9 \<le> c \<and> c \<le> 13) \<or> c = 133 \<or> c = 160 \<or> c = 5760
     \<or> (8192 \<le> c \<and> c \<le> 8202) \<or> c = 8232 \<or> c = 8233 \<or> c = 8239 \<or> c = 8287 \<or> c = 12288"

definition isDigit :: "qchar \<Rightarrow> bool" where
  "isDigit c \<longleftrightarrow> 48 \<le> c \<and> c \<le> 57"

definition digitValue :: "qchar \<Rightarrow> nat" where
  "digitValue c = unat c - 48"

section \<open>Members of QString\<close>

definition trimmed :: "qstring \<Rightarrow> qstring" where
  "trimmed s = rev (dropWhile isSpace (rev (dropWhile isSpace s)))"

definition startsWith :: "qstring \<Rightarrow> qstring \<Rightarrow> bool" where
  "startsWith s p \<longleftrightarrow> take (length p) s = p"

definition endsWith :: "qstring \<Rightarrow> qstring \<Rightarrow> bool" where
  "endsWith s p \<longleftrightarrow> startsWith (rev s) (rev p)"

fun indexOf :: "qchar \<Rightarrow> qstring \<Rightarrow> nat option" where
  "indexOf c [] = None"
| "indexOf c (d # s) = (if c = d then Some 0 else map_option Suc (indexOf c s))"

fun containsStr :: "qstring \<Rightarrow> qstring \<Rightarrow> bool" where
  "containsStr [] p = (p = [])"
| "containsStr (c # s) p = (startsWith (c # s) p \<or> containsStr s p)"

fun digitsOf :: "nat \<Rightarrow> qstring" where
  "digitsOf n = (if n < 10 then [of_nat (48 + n)] else digitsOf (n div 10) @ [of_nat (48 + n mod 10)])"

declare digitsOf.simps [simp del]

definition qNumber :: "int \<Rightarrow> qstring" where
  "qNumber i = (if i < 0 then Q ''-'' @ digitsOf (nat (- i)) else digitsOf (nat i))"

definition decimal :: "qstring \<Rightarrow> nat" where
  "decimal s = foldl (\<lambda>n c. 10 * n + digitValue c) 0 s"

text \<open>
  \<open>QString::toInt(&ok)\<close> in base 10: surrounding white space is ignored, one sign is
  accepted, anything but digits or a value outside the range of a 32-bit int gives
  \<open>ok = false\<close> (here \<open>None\<close>).
\<close>

definition intMin :: int where "intMin = - 2147483648"
definition intMax :: int where "intMax = 2147483647"

definition inIntRange :: "int \<Rightarrow> bool" where
  "inIntRange i \<longleftrightarrow> intMin \<le> i \<and> i \<le> intMax"

definition toIntOk :: "qstring \<Rightarrow> int option" where
  "toIntOk s =
     (let t = trimmed s;
          neg = startsWith t (Q ''-'');
          body = (if neg \<or> startsWith t (Q ''+'') then drop 1 t else t);
          v = (if neg then - int (decimal body) else int (decimal body))
      in if body \<noteq> [] \<and> list_all isDigit body \<and> inIntRange v then Some v else None)"

section \<open>QString::arg\<close>

text \<open>
  A place marker is a percent sign, an optional L and one or two digits. \<open>arg\<close> replaces
  every occurrence of the lowest-numbered marker; with several arguments, the markers'
  numbers are taken in increasing order and all are replaced in one pass.
\<close>

datatype piece = Plain qchar | Marker nat qstring

definition markerAt :: "qstring \<Rightarrow> (nat \<times> nat) option" where
  "markerAt s =
     (let off = (if startsWith s (Q ''L'') then 1 else 0); t = drop off s
      in case t of
           [] \<Rightarrow> None
         | d # u \<Rightarrow> (if \<not> isDigit d then None
                   else case u of
                          [] \<Rightarrow> Some (digitValue d, off + 1)
                        | e # _ \<Rightarrow> (if isDigit e then Some (10 * digitValue d + digitValue e, off + 2)
                                  else Some (digitValue d, off + 1))))"

function pieces :: "qstring \<Rightarrow> piece list" where
  "pieces [] = []"
| "pieces (c # s) =
     (if c = 37 then (case markerAt s of
                        None \<Rightarrow> Plain c # pieces s
                      | Some (n, k) \<Rightarrow> Marker n (c # take k s) # pieces (drop k s))
      else Plain c # pieces s)"
  by pat_completeness auto
termination
  by (relation "measure length") auto

fun markerNumbers :: "piece list \<Rightarrow> nat list" where
  "markerNumbers [] = []"
| "markerNumbers (Plain c # ps) = markerNumbers ps"
| "markerNumbers (Marker n r # ps) = n # markerNumbers ps"

fun fillPiece :: "(nat \<times> qstring) list \<Rightarrow> piece \<Rightarrow> qstring" where
  "fillPiece al (Plain c) = [c]"
| "fillPiece al (Marker n r) = (case map_of al n of None \<Rightarrow> r | Some v \<Rightarrow> v)"

definition argN :: "qstring \<Rightarrow> qstring list \<Rightarrow> qstring" where
  "argN s vs =
     (let ps = pieces s
      in concat (map (fillPiece (zip (sort (remdups (markerNumbers ps))) vs)) ps))"

abbreviation arg1 :: "qstring \<Rightarrow> qstring \<Rightarrow> qstring" where
  "arg1 s v \<equiv> argN s [v]"

abbreviation argInt :: "qstring \<Rightarrow> int \<Rightarrow> qstring" where
  "argInt s i \<equiv> argN s [qNumber i]"

section \<open>Lemmas\<close>

lemma trimmed_Nil [simp]: "trimmed [] = []"
  by (simp add: trimmed_def)

lemma trimmed_idem [simp]: "trimmed (trimmed s) = trimmed s"
proof (cases "trimmed s")
  case Nil
  then show ?thesis by simp
next
  case (Cons c t)
  let ?d = "dropWhile isSpace s"
  have d: "?d \<noteq> []"
  proof
    assume "?d = []"
    then have "trimmed s = []" by (simp only: trimmed_def) simp
    with Cons show False by simp
  qed
  then have "\<not> isSpace (hd ?d)" by (rule hd_dropWhile)
  moreover have "hd (trimmed s) = hd ?d"
  proof -
    have "?d = trimmed s @ rev (takeWhile isSpace (rev ?d))"
      unfolding trimmed_def
      by (metis rev_append rev_rev_ident takeWhile_dropWhile_id)
    then show ?thesis using Cons by (metis hd_append list.distinct(1))
  qed
  ultimately have "dropWhile isSpace (trimmed s) = trimmed s"
    by (intro dropWhile_id) auto
  moreover have "dropWhile isSpace (rev (trimmed s)) = rev (trimmed s)"
    by (simp add: trimmed_def dropWhile_idem)
  ultimately show ?thesis
    by (metis rev_rev_ident trimmed_def)
qed

lemma trimmed_eq_Nil: "trimmed s = [] \<longleftrightarrow> list_all isSpace s"
proof -
  have "list_all isSpace (dropWhile isSpace s) \<longleftrightarrow> list_all isSpace s"
    by (induction s) auto
  then show ?thesis by (simp add: trimmed_def list_all_iff)
qed

lemma trimmed_no_space:
  assumes "s \<noteq> []" "\<not> isSpace (hd s)" "\<not> isSpace (last s)"
  shows "trimmed s = s"
proof -
  have "dropWhile isSpace s = s" using assms by (intro dropWhile_id) auto
  moreover have "dropWhile isSpace (rev s) = rev s"
    using assms by (intro dropWhile_id) (auto simp: hd_rev)
  ultimately show ?thesis by (simp add: trimmed_def)
qed

lemma startsWith_append [simp]: "startsWith (p @ s) p"
  by (simp add: startsWith_def)

lemma startsWith_iff: "startsWith s p \<longleftrightarrow> (\<exists>t. s = p @ t)"
  by (auto simp: startsWith_def) (metis append_take_drop_id)

lemma startsWith_Nil [simp]: "startsWith s []"
  by (simp add: startsWith_def)

lemma indexOf_Some:
  "indexOf c s = Some i \<Longrightarrow> i < length s \<and> s ! i = c \<and> c \<notin> set (take i s)"
proof (induction s arbitrary: i)
  case Nil
  then show ?case by simp
next
  case (Cons d s)
  then show ?case by (cases i) (auto split: if_splits)
qed

lemma indexOf_None: "indexOf c s = None \<longleftrightarrow> c \<notin> set s"
  by (induction s) auto

end
