(* ===== verification/Constants.thy ===== *)
theory Constants
  imports QtText
begin

text \<open>
  client/src/support/ClientConstants.h: every text, key and number the client compares
  with, prints or stores, under the name of its namespace. The definitions stay folded in
  proofs; the collection \<open>const_defs\<close> unfolds them where two of them are compared.
\<close>

named_theorems const_defs \<open>the text constants of ClientConstants.h\<close>

section \<open>AppText\<close>

definition AppText_ApplicationName :: qstring where [const_defs]:
  "AppText_ApplicationName = Q ''EpicKfcClient''"

definition AppText_OrganizationName :: qstring where [const_defs]:
  "AppText_OrganizationName = Q ''CS4455''"

definition AppText_DefaultStateFile :: qstring where [const_defs]:
  "AppText_DefaultStateFile = Q ''client-state.json''"

definition AppText_DefaultApiUrl :: qstring where [const_defs]:
  "AppText_DefaultApiUrl = Q ''https://kfc.theburkenator.com/api/v1''"

definition AppText_DefaultMode :: qstring where [const_defs]:
  "AppText_DefaultMode = Q ''real''"

definition AppText_MockMode :: qstring where [const_defs]:
  "AppText_MockMode = Q ''mock''"

definition AppText_RealMode :: qstring where [const_defs]:
  "AppText_RealMode = Q ''real''"

definition AppText_ApiPrefix :: qstring where [const_defs]:
  "AppText_ApiPrefix = Q ''/api/v1''"

definition AppText_BearerPrefix :: qstring where [const_defs]:
  "AppText_BearerPrefix = Q ''Bearer ''"

definition AppText_JsonContentType :: qstring where [const_defs]:
  "AppText_JsonContentType = Q ''application/json''"

definition AppText_HttpRequestTimeoutMilliseconds :: int where [const_defs]: "AppText_HttpRequestTimeoutMilliseconds = 30000"

definition AppText_ModeFlag :: qstring where [const_defs]:
  "AppText_ModeFlag = Q ''--mode''"

definition AppText_DebugFlag :: qstring where [const_defs]:
  "AppText_DebugFlag = Q ''--debug''"

definition AppText_DebugErrorsFlag :: qstring where [const_defs]:
  "AppText_DebugErrorsFlag = Q ''--debug-errors''"

definition AppText_ApiUrlFlag :: qstring where [const_defs]:
  "AppText_ApiUrlFlag = Q ''--api-url''"

definition AppText_DeviceIdFlag :: qstring where [const_defs]:
  "AppText_DeviceIdFlag = Q ''--device-id''"

definition AppText_StatePathFlag :: qstring where [const_defs]:
  "AppText_StatePathFlag = Q ''--state-path''"

definition AppText_HelpFlag :: qstring where [const_defs]:
  "AppText_HelpFlag = Q ''--help''"

definition AppText_HttpsScheme :: qstring where [const_defs]:
  "AppText_HttpsScheme = Q ''https''"

definition AppText_LocalhostHost :: qstring where [const_defs]:
  "AppText_LocalhostHost = Q ''localhost''"

definition AppText_LoopbackHost :: qstring where [const_defs]:
  "AppText_LoopbackHost = Q ''127.0.0.1''"

definition AppText_Ipv6LoopbackHost :: qstring where [const_defs]:
  "AppText_Ipv6LoopbackHost = Q ''::1''"

definition AppText_MissingRealApiUrl :: qstring where [const_defs]:
  "AppText_MissingRealApiUrl = Q ''Real mode requires --api-url <https://host/api/v1>.''"

definition AppText_InvalidMode :: qstring where [const_defs]:
  "AppText_InvalidMode = Q ''Mode must be mock or real.''"

definition AppText_InvalidDeviceId :: qstring where [const_defs]:
  "AppText_InvalidDeviceId = Q ''Device id must be a positive integer.''"

definition AppText_DebugRealModeConflict :: qstring where [const_defs]:
  "AppText_DebugRealModeConflict = Q ''--debug starts mock mode and cannot be combined with --mode real.''"

definition AppText_DebugApiUrlConflict :: qstring where [const_defs]:
  "AppText_DebugApiUrlConflict = Q ''--debug starts mock mode and cannot be combined with --api-url.''"

definition AppText_TlsRequired :: qstring where [const_defs]:
  "AppText_TlsRequired = Q ''Real mode requires HTTPS with certificate validation.''"

definition AppText_HttpRequestTimedOut :: qstring where [const_defs]:
  "AppText_HttpRequestTimedOut = Q ''Request timed out while contacting the backend.''"

definition AppText_OperationInProgress :: qstring where [const_defs]:
  "AppText_OperationInProgress = Q ''Operation still in progress. Please wait for it to finish.''"

definition AppText_StartupUsage :: qstring where [const_defs]:
  "AppText_StartupUsage = Q ''Usage: client [--debug] [--debug-errors] [--mode mock|real] [--api-url https://host/api/v1] [--device-id 1] [--state-path path]''"

definition AppText_Prompt :: qstring where [const_defs]:
  "AppText_Prompt = Q ''> ''"

definition AppText_ConversationPrompt :: qstring where [const_defs]:
  "AppText_ConversationPrompt = Q ''[%1] > ''"

definition AppText_PasswordPrompt :: qstring where [const_defs]:
  "AppText_PasswordPrompt = Q ''password> ''"

definition AppText_MessagePrompt :: qstring where [const_defs]:
  "AppText_MessagePrompt = Q ''message> ''"

definition AppText_Greeting :: qstring where [const_defs]:
  "AppText_Greeting = Q ''Epic KFC secure messaging client. Type /help to begin.''"

definition AppText_MockStatus :: qstring where [const_defs]:
  "AppText_MockStatus = Q ''Mock mode is active. No backend is required. Device ID: %1''"

definition AppText_RealStatus :: qstring where [const_defs]:
  "AppText_RealStatus = Q ''Real mode is active. Backend API: %1. Device ID: %2''"

definition AppText_AuthRequired :: qstring where [const_defs]:
  "AppText_AuthRequired = Q ''You must /login before using this command.''"

definition AppText_UsernameResolveUnavailable :: qstring where [const_defs]:
  "AppText_UsernameResolveUnavailable = Q ''Username lookup failed. Check the username and login state.''"

definition AppText_EmptyUsername :: qstring where [const_defs]:
  "AppText_EmptyUsername = Q ''Username must not be empty.''"

definition AppText_NoComposition :: qstring where [const_defs]:
  "AppText_NoComposition = Q ''There is no active message composition.''"

definition AppText_EmptyMessage :: qstring where [const_defs]:
  "AppText_EmptyMessage = Q ''Cannot send an empty message.''"

definition AppText_RegisteringUser :: qstring where [const_defs]:
  "AppText_RegisteringUser = Q ''Registering user...''"

definition AppText_LoggingIn :: qstring where [const_defs]:
  "AppText_LoggingIn = Q ''Logging in...''"

definition AppText_LoggingOut :: qstring where [const_defs]:
  "AppText_LoggingOut = Q ''Logging out...''"

definition AppText_LoadingConversations :: qstring where [const_defs]:
  "AppText_LoadingConversations = Q ''Loading conversations...''"

definition AppText_LoadingUnreadInbox :: qstring where [const_defs]:
  "AppText_LoadingUnreadInbox = Q ''Loading unread inbox...''"

definition AppText_SyncingMessages :: qstring where [const_defs]:
  "AppText_SyncingMessages = Q ''Syncing messages...''"

definition AppText_LoadingSentMessages :: qstring where [const_defs]:
  "AppText_LoadingSentMessages = Q ''Loading sent messages...''"

definition AppText_LoadingConversation :: qstring where [const_defs]:
  "AppText_LoadingConversation = Q ''Loading conversation...''"

definition AppText_ForwardingMessage :: qstring where [const_defs]:
  "AppText_ForwardingMessage = Q ''Forwarding message...''"

definition AppText_RevokingMessage :: qstring where [const_defs]:
  "AppText_RevokingMessage = Q ''Revoking message...''"

definition AppText_DeletingMessage :: qstring where [const_defs]:
  "AppText_DeletingMessage = Q ''Deleting message...''"

definition AppText_ExportingMessage :: qstring where [const_defs]:
  "AppText_ExportingMessage = Q ''Exporting message...''"

definition AppText_CheckingTrust :: qstring where [const_defs]:
  "AppText_CheckingTrust = Q ''Checking trust...''"

definition AppText_VerifyingMessage :: qstring where [const_defs]:
  "AppText_VerifyingMessage = Q ''Verifying message...''"

definition AppText_SendingMessage :: qstring where [const_defs]:
  "AppText_SendingMessage = Q ''Sending message...''"

definition AppText_AnchorUnavailable :: qstring where [const_defs]:
  "AppText_AnchorUnavailable = Q ''No blockchain anchor is available for %1 yet.''"

definition AppText_AnchorPending :: qstring where [const_defs]:
  "AppText_AnchorPending = Q ''Blockchain anchor for %1 is %2 on %3. Verification will be available once it is confirmed.''"

definition AppText_AnchorFailed :: qstring where [const_defs]:
  "AppText_AnchorFailed = Q ''Blockchain anchor for %1 failed on %2. Fidelity cannot be verified yet.''"

definition AppText_AnchorVerified :: qstring where [const_defs]:
  "AppText_AnchorVerified = Q ''Blockchain anchor verified for %1 on %2. Status: %3.''"

definition AppText_AnchorVerifiedWithTransaction :: qstring where [const_defs]:
  "AppText_AnchorVerifiedWithTransaction = Q ''Blockchain anchor verified for %1 on %2. Status: %3. Transaction: %4''"

definition AppText_AnchorMismatch :: qstring where [const_defs]:
  "AppText_AnchorMismatch = Q ''Blockchain anchor check failed for %1. Fidelity could not be verified.''"

definition AppText_NotLoggedIn :: qstring where [const_defs]:
  "AppText_NotLoggedIn = Q ''Not logged in.''"

definition AppText_LoggedInAs :: qstring where [const_defs]:
  "AppText_LoggedInAs = Q ''Logged in as %1 (%2).''"

definition AppText_RegisteredUser :: qstring where [const_defs]:
  "AppText_RegisteredUser = Q ''Registered %1. Use /login to start a session.''"

definition AppText_SessionEnded :: qstring where [const_defs]:
  "AppText_SessionEnded = Q ''Session ended.''"

definition AppText_ReturnedToMainMenu :: qstring where [const_defs]:
  "AppText_ReturnedToMainMenu = Q ''Returned to the main menu.''"

definition AppText_KeysUploaded :: qstring where [const_defs]:
  "AppText_KeysUploaded = Q ''Device keys uploaded for device %1.''"

definition AppText_NativeCryptoUnavailable :: qstring where [const_defs]:
  "AppText_NativeCryptoUnavailable = Q ''Real mode requires OpenSSL-backed native crypto. Install OpenSSL 3 development libraries and rebuild the client.''"

definition AppText_CompositionStarted :: qstring where [const_defs]:
  "AppText_CompositionStarted = Q ''Composing message for %1. Type body lines, /send to submit, or /cancel.''"

definition AppText_CompositionCancelled :: qstring where [const_defs]:
  "AppText_CompositionCancelled = Q ''Message composition cancelled.''"

definition AppText_DraftLength :: qstring where [const_defs]:
  "AppText_DraftLength = Q ''Draft length: %1 character(s).''"

definition AppText_MessageSent :: qstring where [const_defs]:
  "AppText_MessageSent = Q ''Message %1 sent.''"

definition AppText_MessageOpened :: qstring where [const_defs]:
  "AppText_MessageOpened = Q ''Message %1:''"

definition AppText_MessageForwarded :: qstring where [const_defs]:
  "AppText_MessageForwarded = Q ''Message forwarded as %1.''"

definition AppText_MessageRevoked :: qstring where [const_defs]:
  "AppText_MessageRevoked = Q ''Message %1 revoked.''"

definition AppText_MessageDeleted :: qstring where [const_defs]:
  "AppText_MessageDeleted = Q ''Message %1 deleted.''"

definition AppText_MessageDownloaded :: qstring where [const_defs]:
  "AppText_MessageDownloaded = Q ''Message %1 exported to %2.''"

definition AppText_TrustFirstUse :: qstring where [const_defs]:
  "AppText_TrustFirstUse = Q ''Pinned first-use identity.''"

definition AppText_TrustAlreadyMatches :: qstring where [const_defs]:
  "AppText_TrustAlreadyMatches = Q ''Identity is already trusted.''"

definition AppText_TrustMismatch :: qstring where [const_defs]:
  "AppText_TrustMismatch = Q ''Trust mismatch. Sending is blocked.''"

definition AppText_EmptyConversationList :: qstring where [const_defs]:
  "AppText_EmptyConversationList = Q ''No cached conversations found.''"

definition AppText_EmptyUnreadInbox :: qstring where [const_defs]:
  "AppText_EmptyUnreadInbox = Q ''No unread messages.''"

definition AppText_EmptyMessageList :: qstring where [const_defs]:
  "AppText_EmptyMessageList = Q ''No messages found.''"

definition AppText_ConversationHeader :: qstring where [const_defs]:
  "AppText_ConversationHeader = Q ''Conversations:''"

definition AppText_UnreadInboxHeader :: qstring where [const_defs]:
  "AppText_UnreadInboxHeader = Q ''Unread inbox:''"

definition AppText_ConversationLogHeader :: qstring where [const_defs]:
  "AppText_ConversationLogHeader = Q ''Conversation with %1 (%2), page %3/%4:''"

definition AppText_ConversationLogLine :: qstring where [const_defs]:
  "AppText_ConversationLogLine = Q ''  [%1] %2 %3: %4''"

definition AppText_ConversationLogDecryptFailed :: qstring where [const_defs]:
  "AppText_ConversationLogDecryptFailed = Q ''  [%1] %2 %3: <could not decrypt: %4>''"

definition AppText_SentMessageCiphertextOnly :: qstring where [const_defs]:
  "AppText_SentMessageCiphertextOnly = Q ''<sent message encrypted for recipient>''"

definition AppText_SentMessageLocalCopyUnavailable :: qstring where [const_defs]:
  "AppText_SentMessageLocalCopyUnavailable = Q ''This sent message was cached before local sender-copy encryption was available.''"

definition AppText_MessageHeader :: qstring where [const_defs]:
  "AppText_MessageHeader = Q ''Messages:''"

definition AppText_ErrorPrefix :: qstring where [const_defs]:
  "AppText_ErrorPrefix = Q ''Error [''"

definition AppText_ErrorSeparator :: qstring where [const_defs]:
  "AppText_ErrorSeparator = Q '']: ''"

definition AppText_InvalidCommandError :: qstring where [const_defs]:
  "AppText_InvalidCommandError = Q ''That command could not be understood. Type /help to see available commands.''"

definition AppText_InvalidConfigurationError :: qstring where [const_defs]:
  "AppText_InvalidConfigurationError = Q ''The client startup options are invalid.''"

definition AppText_AuthRequiredError :: qstring where [const_defs]:
  "AppText_AuthRequiredError = Q ''Authentication failed or your session expired. Log in and try again.''"

definition AppText_NetworkError :: qstring where [const_defs]:
  "AppText_NetworkError = Q ''The backend could not be reached. Check the server status and try again.''"

definition AppText_TlsError :: qstring where [const_defs]:
  "AppText_TlsError = Q ''The secure connection failed. Certificate validation or TLS setup needs attention.''"

definition AppText_HttpError :: qstring where [const_defs]:
  "AppText_HttpError = Q ''The server could not complete that request. Please try again later.''"

definition AppText_CryptoError :: qstring where [const_defs]:
  "AppText_CryptoError = Q ''The message could not be processed securely.''"

definition AppText_TrustError :: qstring where [const_defs]:
  "AppText_TrustError = Q ''The recipient is not trusted yet, or their trusted identity changed.''"

definition AppText_StorageError :: qstring where [const_defs]:
  "AppText_StorageError = Q ''The local client state could not be read or written.''"

definition AppText_NotFoundError :: qstring where [const_defs]:
  "AppText_NotFoundError = Q ''The requested item could not be found.''"

definition AppText_OperationFailedError :: qstring where [const_defs]:
  "AppText_OperationFailedError = Q ''The operation could not be completed.''"

definition AppText_DebugErrorHint :: qstring where [const_defs]:
  "AppText_DebugErrorHint = Q '' Run with --debug-errors to show technical details.''"

definition AppText_Help :: qstring where [const_defs]:
  "AppText_Help = Q ''Available slash commands:\<newline>  /help\<newline>  /register <username> <email>\<newline>  /login <usernameOrEmail>\<newline>  /logout\<newline>  /whoami\<newline>  /status\<newline>  /conversations\<newline>  /inbox\<newline>  /sent\<newline>  /msg <username> [message]\<newline>  /send [message]\<newline>  /read <username> [page]\<newline>  /forward <messageId> <username>\<newline>  /revoke <messageId>\<newline>  /delete <messageId>\<newline>  /download <messageId>\<newline>  /trust <username>\<newline>  /verify <messageId>\<newline>  /sync\<newline>  /cancel\<newline>  /back\<newline>  /exit''"

section \<open>CommandText\<close>

definition CommandText_SlashPrefix :: qchar where [const_defs]: "CommandText_SlashPrefix = 47"

definition CommandText_Quote :: qchar where [const_defs]: "CommandText_Quote = 34"

definition CommandText_Escape :: qchar where [const_defs]: "CommandText_Escape = 92"

definition CommandText_Space :: qchar where [const_defs]: "CommandText_Space = 32"

definition CommandText_SubmitCommand :: qstring where [const_defs]:
  "CommandText_SubmitCommand = Q ''/send''"

definition CommandText_CancelCommand :: qstring where [const_defs]:
  "CommandText_CancelCommand = Q ''/cancel''"

definition CommandText_BackCommand :: qstring where [const_defs]:
  "CommandText_BackCommand = Q ''/back''"

definition CommandText_HelpPrompt :: qstring where [const_defs]:
  "CommandText_HelpPrompt = Q ''Type /help to see available commands.''"

definition CommandText_EmptyIgnored :: qstring where [const_defs]:
  "CommandText_EmptyIgnored = Q ''Empty input is ignored. %1''"

definition CommandText_MissingSlash :: qstring where [const_defs]:
  "CommandText_MissingSlash = Q ''Commands must start with /. %1''"

definition CommandText_MissingName :: qstring where [const_defs]:
  "CommandText_MissingName = Q ''Command name is missing after /. %1''"

definition CommandText_UnknownCommand :: qstring where [const_defs]:
  "CommandText_UnknownCommand = Q ''Unknown command /%1. %2''"

definition CommandText_UnclosedQuote :: qstring where [const_defs]:
  "CommandText_UnclosedQuote = Q ''Quoted argument is missing its closing quote.''"

definition CommandText_ArgumentCount :: qstring where [const_defs]:
  "CommandText_ArgumentCount = Q ''/%1 expects %2.''"

definition CommandText_AtLeast :: qstring where [const_defs]:
  "CommandText_AtLeast = Q ''at least %1 argument(s)''"

definition CommandText_Exactly :: qstring where [const_defs]:
  "CommandText_Exactly = Q ''%1 argument(s)''"

definition CommandText_PositiveDeviceId :: qstring where [const_defs]:
  "CommandText_PositiveDeviceId = Q ''/%1 expects deviceId to be a positive integer.''"

definition CommandText_PositivePage :: qstring where [const_defs]:
  "CommandText_PositivePage = Q ''/%1 expects page to be a positive integer.''"

section \<open>CommandNames\<close>

definition CommandNames_Help :: qstring where [const_defs]:
  "CommandNames_Help = Q ''help''"

definition CommandNames_Register :: qstring where [const_defs]:
  "CommandNames_Register = Q ''register''"

definition CommandNames_Login :: qstring where [const_defs]:
  "CommandNames_Login = Q ''login''"

definition CommandNames_Logout :: qstring where [const_defs]:
  "CommandNames_Logout = Q ''logout''"

definition CommandNames_Whoami :: qstring where [const_defs]:
  "CommandNames_Whoami = Q ''whoami''"

definition CommandNames_Status :: qstring where [const_defs]:
  "CommandNames_Status = Q ''status''"

definition CommandNames_Conversations :: qstring where [const_defs]:
  "CommandNames_Conversations = Q ''conversations''"

definition CommandNames_Inbox :: qstring where [const_defs]:
  "CommandNames_Inbox = Q ''inbox''"

definition CommandNames_Sent :: qstring where [const_defs]:
  "CommandNames_Sent = Q ''sent''"

definition CommandNames_Msg :: qstring where [const_defs]:
  "CommandNames_Msg = Q ''msg''"

definition CommandNames_Send :: qstring where [const_defs]:
  "CommandNames_Send = Q ''send''"

definition CommandNames_Read :: qstring where [const_defs]:
  "CommandNames_Read = Q ''read''"

definition CommandNames_Forward :: qstring where [const_defs]:
  "CommandNames_Forward = Q ''forward''"

definition CommandNames_Revoke :: qstring where [const_defs]:
  "CommandNames_Revoke = Q ''revoke''"

definition CommandNames_Delete :: qstring where [const_defs]:
  "CommandNames_Delete = Q ''delete''"

definition CommandNames_Download :: qstring where [const_defs]:
  "CommandNames_Download = Q ''download''"

definition CommandNames_Trust :: qstring where [const_defs]:
  "CommandNames_Trust = Q ''trust''"

definition CommandNames_Verify :: qstring where [const_defs]:
  "CommandNames_Verify = Q ''verify''"

definition CommandNames_Sync :: qstring where [const_defs]:
  "CommandNames_Sync = Q ''sync''"

definition CommandNames_Cancel :: qstring where [const_defs]:
  "CommandNames_Cancel = Q ''cancel''"

definition CommandNames_Back :: qstring where [const_defs]:
  "CommandNames_Back = Q ''back''"

definition CommandNames_Exit :: qstring where [const_defs]:
  "CommandNames_Exit = Q ''exit''"

section \<open>StorageKeys\<close>

definition StorageKeys_RootVersion :: qstring where [const_defs]:
  "StorageKeys_RootVersion = Q ''version''"

definition StorageKeys_AccessToken :: qstring where [const_defs]:
  "StorageKeys_AccessToken = Q ''accessToken''"

definition StorageKeys_RefreshToken :: qstring where [const_defs]:
  "StorageKeys_RefreshToken = Q ''refreshToken''"

definition StorageKeys_CurrentUser :: qstring where [const_defs]:
  "StorageKeys_CurrentUser = Q ''currentUser''"

definition StorageKeys_DeviceKeys :: qstring where [const_defs]:
  "StorageKeys_DeviceKeys = Q ''deviceKeys''"

definition StorageKeys_OneTimePreKeys :: qstring where [const_defs]:
  "StorageKeys_OneTimePreKeys = Q ''oneTimePreKeys''"

definition StorageKeys_KnownUsers :: qstring where [const_defs]:
  "StorageKeys_KnownUsers = Q ''knownUsers''"

definition StorageKeys_TrustPins :: qstring where [const_defs]:
  "StorageKeys_TrustPins = Q ''trustPins''"

definition StorageKeys_Messages :: qstring where [const_defs]:
  "StorageKeys_Messages = Q ''messages''"

definition StorageKeys_Sessions :: qstring where [const_defs]:
  "StorageKeys_Sessions = Q ''sessions''"

definition StorageKeys_LastAccountId :: qstring where [const_defs]:
  "StorageKeys_LastAccountId = Q ''lastAccountId''"

definition StorageKeys_Id :: qstring where [const_defs]:
  "StorageKeys_Id = Q ''id''"

definition StorageKeys_UserId :: qstring where [const_defs]:
  "StorageKeys_UserId = Q ''userId''"

definition StorageKeys_Username :: qstring where [const_defs]:
  "StorageKeys_Username = Q ''username''"

definition StorageKeys_Email :: qstring where [const_defs]:
  "StorageKeys_Email = Q ''email''"

definition StorageKeys_DeviceId :: qstring where [const_defs]:
  "StorageKeys_DeviceId = Q ''deviceId''"

definition StorageKeys_RegistrationId :: qstring where [const_defs]:
  "StorageKeys_RegistrationId = Q ''registrationId''"

definition StorageKeys_IdentityKey :: qstring where [const_defs]:
  "StorageKeys_IdentityKey = Q ''identityKey''"

definition StorageKeys_IdentityPrivateKey :: qstring where [const_defs]:
  "StorageKeys_IdentityPrivateKey = Q ''identityPrivateKey''"

definition StorageKeys_IdentitySigningKey :: qstring where [const_defs]:
  "StorageKeys_IdentitySigningKey = Q ''identitySigningKey''"

definition StorageKeys_IdentitySigningPrivateKey :: qstring where [const_defs]:
  "StorageKeys_IdentitySigningPrivateKey = Q ''identitySigningPrivateKey''"

definition StorageKeys_SignedPreKeyId :: qstring where [const_defs]:
  "StorageKeys_SignedPreKeyId = Q ''signedPreKeyId''"

definition StorageKeys_SignedPreKey :: qstring where [const_defs]:
  "StorageKeys_SignedPreKey = Q ''signedPreKey''"

definition StorageKeys_SignedPreKeyPrivate :: qstring where [const_defs]:
  "StorageKeys_SignedPreKeyPrivate = Q ''signedPreKeyPrivate''"

definition StorageKeys_SignedPreKeySignature :: qstring where [const_defs]:
  "StorageKeys_SignedPreKeySignature = Q ''signedPreKeySignature''"

definition StorageKeys_PreKeyId :: qstring where [const_defs]:
  "StorageKeys_PreKeyId = Q ''preKeyId''"

definition StorageKeys_PreKeyPublic :: qstring where [const_defs]:
  "StorageKeys_PreKeyPublic = Q ''preKeyPublic''"

definition StorageKeys_PreKeyPrivate :: qstring where [const_defs]:
  "StorageKeys_PreKeyPrivate = Q ''preKeyPrivate''"

definition StorageKeys_FirstSeenAt :: qstring where [const_defs]:
  "StorageKeys_FirstSeenAt = Q ''firstSeenAt''"

definition StorageKeys_SenderUserId :: qstring where [const_defs]:
  "StorageKeys_SenderUserId = Q ''senderUserId''"

definition StorageKeys_SenderDeviceId :: qstring where [const_defs]:
  "StorageKeys_SenderDeviceId = Q ''senderDeviceId''"

definition StorageKeys_RecipientUserId :: qstring where [const_defs]:
  "StorageKeys_RecipientUserId = Q ''recipientUserId''"

definition StorageKeys_RecipientDeviceId :: qstring where [const_defs]:
  "StorageKeys_RecipientDeviceId = Q ''recipientDeviceId''"

definition StorageKeys_WirePayloadJson :: qstring where [const_defs]:
  "StorageKeys_WirePayloadJson = Q ''wirePayloadJson''"

definition StorageKeys_ConsumedOneTimePreKeyId :: qstring where [const_defs]:
  "StorageKeys_ConsumedOneTimePreKeyId = Q ''consumedOneTimePreKeyId''"

definition StorageKeys_CreatedAt :: qstring where [const_defs]:
  "StorageKeys_CreatedAt = Q ''createdAt''"

definition StorageKeys_CreatedAtRaw :: qstring where [const_defs]:
  "StorageKeys_CreatedAtRaw = Q ''createdAtRaw''"

definition StorageKeys_AccessRevokedAt :: qstring where [const_defs]:
  "StorageKeys_AccessRevokedAt = Q ''accessRevokedAt''"

definition StorageKeys_SenderDeletedAt :: qstring where [const_defs]:
  "StorageKeys_SenderDeletedAt = Q ''senderDeletedAt''"

definition StorageKeys_RecipientDeletedAt :: qstring where [const_defs]:
  "StorageKeys_RecipientDeletedAt = Q ''recipientDeletedAt''"

definition StorageKeys_DeletedAt :: qstring where [const_defs]:
  "StorageKeys_DeletedAt = Q ''deletedAt''"

definition StorageKeys_ReadAt :: qstring where [const_defs]:
  "StorageKeys_ReadAt = Q ''readAt''"

definition StorageKeys_LocalSenderCopyWirePayloadJson :: qstring where [const_defs]:
  "StorageKeys_LocalSenderCopyWirePayloadJson = Q ''localSenderCopyWirePayloadJson''"

definition StorageKeys_CachedAnchor :: qstring where [const_defs]:
  "StorageKeys_CachedAnchor = Q ''cachedAnchor''"

definition StorageKeys_AnchorId :: qstring where [const_defs]:
  "StorageKeys_AnchorId = Q ''anchorId''"

definition StorageKeys_AnchorMessageId :: qstring where [const_defs]:
  "StorageKeys_AnchorMessageId = Q ''messageId''"

definition StorageKeys_AnchorRecordId :: qstring where [const_defs]:
  "StorageKeys_AnchorRecordId = Q ''recordId''"

definition StorageKeys_AnchorDigest :: qstring where [const_defs]:
  "StorageKeys_AnchorDigest = Q ''digest''"

definition StorageKeys_AnchorMerkleRoot :: qstring where [const_defs]:
  "StorageKeys_AnchorMerkleRoot = Q ''merkleRoot''"

definition StorageKeys_AnchorTransactionHash :: qstring where [const_defs]:
  "StorageKeys_AnchorTransactionHash = Q ''transactionHash''"

definition StorageKeys_AnchorContractAddress :: qstring where [const_defs]:
  "StorageKeys_AnchorContractAddress = Q ''contractAddress''"

definition StorageKeys_AnchorChain :: qstring where [const_defs]:
  "StorageKeys_AnchorChain = Q ''chain''"

definition StorageKeys_AnchorStatus :: qstring where [const_defs]:
  "StorageKeys_AnchorStatus = Q ''status''"

definition StorageKeys_AnchorAnchoredAt :: qstring where [const_defs]:
  "StorageKeys_AnchorAnchoredAt = Q ''anchoredAt''"

section \<open>CryptoText\<close>

definition CryptoText_Protocol :: qstring where [const_defs]:
  "CryptoText_Protocol = Q ''qt-native-signal-compatible-v1''"

definition CryptoText_X3dhInfo :: qstring where [const_defs]:
  "CryptoText_X3dhInfo = Q ''epic-messaging/v1/signal-x3dh-sk''"

definition CryptoText_LocalStorageInfo :: qstring where [const_defs]:
  "CryptoText_LocalStorageInfo = Q ''epic-messaging/v1/local-storage-key''"

definition CryptoText_WireCounter :: qstring where [const_defs]:
  "CryptoText_WireCounter = Q ''counter''"

definition CryptoText_WirePreviousCounter :: qstring where [const_defs]:
  "CryptoText_WirePreviousCounter = Q ''previousCounter''"

definition CryptoText_WireCiphertext :: qstring where [const_defs]:
  "CryptoText_WireCiphertext = Q ''ciphertext''"

definition CryptoText_WireIv :: qstring where [const_defs]:
  "CryptoText_WireIv = Q ''iv''"

definition CryptoText_WireAuthTag :: qstring where [const_defs]:
  "CryptoText_WireAuthTag = Q ''authTag''"

definition CryptoText_WireRatchetPublicKey :: qstring where [const_defs]:
  "CryptoText_WireRatchetPublicKey = Q ''ratchetPublicKey''"

definition CryptoText_WireX3dh :: qstring where [const_defs]:
  "CryptoText_WireX3dh = Q ''x3dh''"

definition CryptoText_WireIdentityKey :: qstring where [const_defs]:
  "CryptoText_WireIdentityKey = Q ''identityKey''"

definition CryptoText_WireEphemeralKey :: qstring where [const_defs]:
  "CryptoText_WireEphemeralKey = Q ''ephemeralKey''"

definition CryptoText_WireFormat :: qstring where [const_defs]:
  "CryptoText_WireFormat = Q ''format''"

definition CryptoText_WireFormatValue :: qstring where [const_defs]:
  "CryptoText_WireFormatValue = Q ''libsignal-v1''"

definition CryptoText_WireType :: qstring where [const_defs]:
  "CryptoText_WireType = Q ''type''"

definition CryptoText_WireBodyB64 :: qstring where [const_defs]:
  "CryptoText_WireBodyB64 = Q ''bodyB64''"

definition CryptoText_WireRegistrationId :: qstring where [const_defs]:
  "CryptoText_WireRegistrationId = Q ''registrationId''"

definition CryptoText_WireWhisperMessageType :: int where [const_defs]: "CryptoText_WireWhisperMessageType = 1"

definition CryptoText_WirePreKeyWhisperMessageType :: int where [const_defs]: "CryptoText_WirePreKeyWhisperMessageType = 3"

definition CryptoText_KeyBytes :: nat where [const_defs]: "CryptoText_KeyBytes = 32"

definition CryptoText_IvBytes :: nat where [const_defs]: "CryptoText_IvBytes = 12"

definition CryptoText_AuthTagBytes :: nat where [const_defs]: "CryptoText_AuthTagBytes = 16"

definition CryptoText_DefaultPreKeyCount :: int where [const_defs]: "CryptoText_DefaultPreKeyCount = 8"

definition CryptoText_FirstPreKeyId :: int where [const_defs]: "CryptoText_FirstPreKeyId = 1"

definition CryptoText_SignedPreKeyId :: int where [const_defs]: "CryptoText_SignedPreKeyId = 1"

definition CryptoText_DefaultRegistrationIdMinimum :: int where [const_defs]: "CryptoText_DefaultRegistrationIdMinimum = 10000"

definition CryptoText_DefaultRegistrationIdRange :: int where [const_defs]: "CryptoText_DefaultRegistrationIdRange = 90000"

section \<open>Paging\<close>

definition Paging_ConversationPageSize :: int where [const_defs]: "Paging_ConversationPageSize = 10"

end
