(* ===== verification/Json.thy ===== *)
theory Json
  imports QtText
begin

text \<open>
  QJsonValue, QJsonObject and QJsonArray as the client uses them: a value is null, a
  boolean, a number, a string, an array or an object; an object is a list of key-value
  pairs with distinct keys. A number is an integer or (\<open>JFrac\<close>) one that no int conversion
  accepts. Looking a key up gives \<open>None\<close> for \<open>QJsonValue::Undefined\<close>, and each conversion
  returns its default on a value of another kind, as the members of QJsonValue do.
\<close>

datatype json = JNull | JBool bool | JInt int | JFrac | JStr qstring
  | JArr "json list" | JObj "(qstring \<times> json) list"

type_synonym json_obj = "(qstring \<times> json) list"

definition jget :: "json_obj \<Rightarrow> qstring \<Rightarrow> json option" where
  "jget ob k = map_of ob k"

definition jcontains :: "json_obj \<Rightarrow> qstring \<Rightarrow> bool" where
  "jcontains ob k \<longleftrightarrow> jget ob k \<noteq> None"

definition jinsert :: "qstring \<Rightarrow> json \<Rightarrow> json_obj \<Rightarrow> json_obj" where
  "jinsert k v ob = AList.update k v ob"

fun toStr :: "json option \<Rightarrow> qstring" where
  "toStr (Some (JStr s)) = s"
| "toStr _ = []"

fun toIntD :: "int \<Rightarrow> json option \<Rightarrow> int" where
  "toIntD d (Some (JInt i)) = (if inIntRange i then i else d)"
| "toIntD d _ = d"

abbreviation toInt0 :: "json option \<Rightarrow> int" where
  "toInt0 \<equiv> toIntD 0"

fun toBoolD :: "bool \<Rightarrow> json option \<Rightarrow> bool" where
  "toBoolD d (Some (JBool b)) = b"
| "toBoolD d _ = d"

fun toObj :: "json option \<Rightarrow> json_obj" where
  "toObj (Some (JObj ob)) = ob"
| "toObj _ = []"

fun toArr :: "json option \<Rightarrow> json list" where
  "toArr (Some (JArr xs)) = xs"
| "toArr _ = []"

fun isDoubleJ :: "json option \<Rightarrow> bool" where
  "isDoubleJ (Some (JInt i)) = True"
| "isDoubleJ (Some JFrac) = True"
| "isDoubleJ _ = False"

fun isObjectJ :: "json option \<Rightarrow> bool" where
  "isObjectJ (Some (JObj ob)) = True"
| "isObjectJ _ = False"

fun isNullOrUndefined :: "json option \<Rightarrow> bool" where
  "isNullOrUndefined None = True"
| "isNullOrUndefined (Some JNull) = True"
| "isNullOrUndefined _ = False"

lemma jget_jinsert: "jget (jinsert k v ob) k' = (if k' = k then Some v else jget ob k')"
  by (auto simp: jget_def jinsert_def update_conv')

lemma jget_jinsert_same [simp]: "jget (jinsert k v ob) k = Some v"
  by (simp add: jget_jinsert)

lemma jget_jinsert_other: "k' \<noteq> k \<Longrightarrow> jget (jinsert k v ob) k' = jget ob k'"
  by (simp add: jget_jinsert)

lemma jget_Nil [simp]: "jget [] k = None"
  by (simp add: jget_def)

lemma jget_Cons [simp]: "jget ((k', v) # ob) k = (if k = k' then Some v else jget ob k)"
  by (simp add: jget_def)

lemma toIntD_range: "inIntRange d \<Longrightarrow> inIntRange (toIntD d v)"
  by (cases "(d, v)" rule: toIntD.cases) auto

end
