(* ===== verification/Models.thy ===== *)
theory Models
  imports Constants Json
begin

text \<open>
  client/src/domain/Models.h, Models.cpp and client/src/support/Result.h: the enumerations,
  the plain structs (as records whose fields carry the struct's initials), the result type,
  the text constants other components compare with, the command-name table, and the record
  \<open>platform\<close> of the library functions the client calls but does not contain (Qt's case
  folding, encodings, URL and date formatting; OpenSSL's primitives).
\<close>

section \<open>Enumerations\<close>

datatype ErrorCode = InvalidCommand | InvalidConfiguration | AuthRequired | NetworkError | TlsError
  | HttpError | CryptoError | TrustError | StorageError | NotFound | OperationFailed

datatype CommandType = Help | Register | Login | Logout | Whoami | Status | Conversations | Inbox
  | Sent | Msg | Send | ReadCmd | Forward | Revoke | DeleteMessage | Download | Trust | Verify
  | Sync | Cancel | BackCmd | Exit

datatype ClientMode = Mock | Real

datatype MessageDirection = SentDir | ReceivedDir

definition DefaultDeviceId :: int where "DefaultDeviceId = 1"

section \<open>Structs\<close>

text \<open>
  A \<open>QDateTime\<close> is invalid or an instant (milliseconds since the epoch, in UTC).
\<close>

datatype QDateTime = InvalidDate | Instant int

definition isValidDate :: "QDateTime \<Rightarrow> bool" where
  "isValidDate d \<longleftrightarrow> d \<noteq> InvalidDate"

record ClientError =
  ce_code :: ErrorCode
  ce_message :: qstring

text \<open>\<open>Result<T>\<close>: \<open>Inl\<close> is \<open>failure\<close>, \<open>Inr\<close> is \<open>success\<close>.\<close>

type_synonym 'a result = "ClientError + 'a"

definition mkError :: "ErrorCode \<Rightarrow> qstring \<Rightarrow> ClientError" where
  "mkError c m = \<lparr>ce_code = c, ce_message = m\<rparr>"

lemma mkError_sel [simp]: "ce_code (mkError c m) = c" "ce_message (mkError c m) = m"
  by (simp_all add: mkError_def)

abbreviation failure :: "ErrorCode \<Rightarrow> qstring \<Rightarrow> 'a result" where
  "failure c m \<equiv> Inl (mkError c m)"

record StartupConfig =
  sc_mode :: ClientMode
  sc_apiUrl :: qstring
  sc_deviceId :: int
  sc_statePath :: qstring
  sc_statePathExplicit :: bool
  sc_showRawErrors :: bool

record SlashCommand =
  cmd_type :: CommandType
  cmd_name :: qstring
  cmd_arguments :: "qstring list"
  cmd_originalLine :: qstring

record UserProfile =
  up_id :: qstring
  up_username :: qstring
  up_email :: qstring

record TokenSet =
  ts_accessToken :: qstring
  ts_refreshToken :: qstring
  ts_tokenType :: qstring
  ts_expiresIn :: int

record AuthSession =
  as_user :: UserProfile
  as_tokens :: TokenSet

record UserAddress =
  ua_userId :: qstring
  ua_username :: qstring
  ua_deviceId :: int

record KnownUser =
  ku_userId :: qstring
  ku_username :: qstring
  ku_deviceId :: int

record DeviceKeyMaterial =
  dk_deviceId :: int
  dk_registrationId :: int
  dk_identityKey :: qstring
  dk_identityPrivateKey :: qstring
  dk_identitySigningKey :: qstring
  dk_identitySigningPrivateKey :: qstring
  dk_signedPreKeyId :: int
  dk_signedPreKey :: qstring
  dk_signedPreKeyPrivate :: qstring
  dk_signedPreKeySignature :: qstring

record OneTimePreKey =
  otk_deviceId :: int
  otk_preKeyId :: int
  otk_publicKey :: qstring
  otk_privateKey :: qstring
  otk_uploaded :: bool

record PreKeyBundle =
  pkb_userId :: qstring
  pkb_registrationId :: int
  pkb_deviceId :: int
  pkb_identityKey :: qstring
  pkb_identitySigningKey :: qstring
  pkb_signedPreKeyId :: int
  pkb_signedPreKey :: qstring
  pkb_signedPreKeySignature :: qstring
  pkb_oneTimePreKeyId :: "int option"
  pkb_oneTimePreKey :: qstring

record TrustPin =
  tp_userId :: qstring
  tp_deviceId :: int
  tp_identityKey :: qstring
  tp_firstSeenAt :: QDateTime

record EncryptedPayload =
  ep_wirePayloadJson :: qstring
  ep_consumedOneTimePreKeyId :: "int option"

record BlockchainAnchor =
  ba_id :: qstring
  ba_messageId :: qstring
  ba_recordId :: qstring
  ba_digest :: qstring
  ba_merkleRoot :: qstring
  ba_transactionHash :: qstring
  ba_contractAddress :: qstring
  ba_chain :: qstring
  ba_status :: qstring
  ba_anchoredAt :: qstring

record LocalMessage =
  lm_id :: qstring
  lm_senderUserId :: qstring
  lm_senderDeviceId :: int
  lm_recipientUserId :: qstring
  lm_recipientDeviceId :: int
  lm_wirePayloadJson :: qstring
  lm_consumedOneTimePreKeyId :: "int option"
  lm_createdAt :: QDateTime
  lm_accessRevokedAt :: qstring
  lm_senderDeletedAt :: qstring
  lm_recipientDeletedAt :: qstring
  lm_deletedAt :: qstring
  lm_readAt :: qstring
  lm_localSenderCopyWirePayloadJson :: qstring
  lm_direction :: MessageDirection
  lm_createdAtRaw :: qstring
  lm_cachedAnchor :: BlockchainAnchor

record BlockchainVerification =
  bv_valid :: bool
  bv_chain :: qstring
  bv_status :: qstring
  bv_anchorId :: qstring
  bv_messageId :: qstring
  bv_recordId :: qstring
  bv_digest :: qstring
  bv_transactionHash :: qstring
  bv_contractAddress :: qstring
  bv_verifiedAt :: qstring

record ConversationSummary =
  cs_peerUserId :: qstring
  cs_peerUsername :: qstring
  cs_peerDeviceId :: int
  cs_messageCount :: int
  cs_unreadCount :: int
  cs_latestMessageAt :: QDateTime

record ConversationLogEntry =
  cle_message :: LocalMessage
  cle_plaintext :: qstring
  cle_decryptError :: "ClientError option"

section \<open>Code outside the repository\<close>

text \<open>
  OpenSSL's key types, and the outcomes of a derivation: the context could not be set up,
  the derivation itself failed, or it gave its output.
\<close>

datatype key_type = X25519 | Ed25519

datatype ssl_outcome = SetupFailed | DeriveFailed | Derived bytes

text \<open>
  What the client calls in Qt and OpenSSL beyond the QString members of QtText and the JSON
  accessors of Json. Each field is one library function; \<open>pf_hasOpenSsl\<close> is the build flag
  \<open>CLIENT_HAS_OPENSSL\<close>. OpenSSL calls that can fail return an option.
\<close>

record platform =
  pf_toLower :: "qstring \<Rightarrow> qstring"
  pf_foldCase :: "qstring \<Rightarrow> qstring"
  pf_isLetterOrNumber :: "qchar \<Rightarrow> bool"
  pf_toUtf8 :: "qstring \<Rightarrow> bytes"
  pf_fromUtf8 :: "bytes \<Rightarrow> qstring"
  pf_toBase64 :: "bytes \<Rightarrow> qstring"
  pf_fromBase64 :: "qstring \<Rightarrow> bytes"
  pf_urlScheme :: "qstring \<Rightarrow> qstring"
  pf_siblingPath :: "qstring \<Rightarrow> qstring \<Rightarrow> qstring"
  pf_dirPath :: "qstring \<Rightarrow> qstring"
  pf_currentDirPath :: "qstring \<Rightarrow> qstring"
  pf_dateToString :: "QDateTime \<Rightarrow> qstring"
  pf_dateToIso :: "QDateTime \<Rightarrow> qstring"
  pf_dateFromString :: "qstring \<Rightarrow> QDateTime"
  pf_dateBefore :: "QDateTime \<Rightarrow> QDateTime \<Rightarrow> bool"
  pf_sortMessages :: "(LocalMessage \<Rightarrow> LocalMessage \<Rightarrow> bool) \<Rightarrow> LocalMessage list \<Rightarrow> LocalMessage list"
  pf_jsonCompact :: "json_obj \<Rightarrow> bytes"
  pf_jsonParse :: "bytes \<Rightarrow> json_obj"
  pf_hasOpenSsl :: bool
  ssl_pbkdf2 :: "bytes \<Rightarrow> bytes \<Rightarrow> nat \<Rightarrow> nat \<Rightarrow> bytes option"
  ssl_gcmEncrypt :: "bytes \<Rightarrow> bytes \<Rightarrow> bytes \<Rightarrow> bytes \<Rightarrow> (bytes \<times> bytes) option"
  ssl_gcmDecrypt :: "bytes \<Rightarrow> bytes \<Rightarrow> bytes \<Rightarrow> bytes \<Rightarrow> bytes \<Rightarrow> bytes option"
  ssl_publicKey :: "key_type \<Rightarrow> bytes \<Rightarrow> bytes"
  ssl_sign :: "bytes \<Rightarrow> bytes \<Rightarrow> bytes option"
  ssl_verify :: "bytes \<Rightarrow> bytes \<Rightarrow> bytes \<Rightarrow> bool"
  ssl_x25519 :: "bytes \<Rightarrow> bytes \<Rightarrow> bytes option"
  ssl_hkdf :: "bytes \<Rightarrow> bytes \<Rightarrow> bytes \<Rightarrow> nat \<Rightarrow> ssl_outcome"
  ssl_hmac :: "bytes \<Rightarrow> bytes \<Rightarrow> bytes"
  pf_sha256 :: "bytes \<Rightarrow> bytes"
  pf_hmacSha256 :: "bytes \<Rightarrow> bytes \<Rightarrow> bytes"

text \<open>
  What one run of an operation reads from its surroundings: the clock, what the file system
  allows, and the random generators (\<open>env_random k n\<close> is the \<open>k\<close>-th draw, of \<open>n\<close> bytes,
  \<open>None\<close> when the generator fails; \<open>env_keygen t k\<close> the private key of a generated pair;
  \<open>env_bounded k n\<close> a number below \<open>n\<close>), and what uninitialised memory of a size holds.
\<close>

record env = platform +
  env_now :: QDateTime
  env_dirReady :: "qstring \<Rightarrow> bool"
  env_canRead :: "qstring \<Rightarrow> bool"
  env_canWrite :: "qstring \<Rightarrow> bool"
  env_random :: "nat \<Rightarrow> nat \<Rightarrow> bytes option"
  env_keygen :: "key_type \<Rightarrow> nat \<Rightarrow> bytes option"
  env_bounded :: "nat \<Rightarrow> nat \<Rightarrow> nat"
  env_stale :: "nat \<Rightarrow> bytes"

text \<open>Documented behaviour of those functions, as the theorems assume it.\<close>

definition asciiLowerChar :: "qchar \<Rightarrow> qchar" where
  "asciiLowerChar c = (if 65 \<le> c \<and> c \<le> 90 then c + 32 else c)"

definition lower_ascii :: "'x platform_scheme \<Rightarrow> bool" where
  "lower_ascii P \<longleftrightarrow>
     (\<forall>s. list_all (\<lambda>c. c < 128) s \<longrightarrow> pf_toLower P s = map asciiLowerChar s)"

definition utf8_roundtrip :: "'x platform_scheme \<Rightarrow> qstring \<Rightarrow> bool" where
  "utf8_roundtrip P s \<longleftrightarrow> pf_fromUtf8 P (pf_toUtf8 P s) = s"

definition base64_roundtrip :: "'x platform_scheme \<Rightarrow> bool" where
  "base64_roundtrip P \<longleftrightarrow> (\<forall>b. pf_fromBase64 P (pf_toBase64 P b) = b)"

definition date_roundtrip :: "'x platform_scheme \<Rightarrow> QDateTime \<Rightarrow> bool" where
  "date_roundtrip P d \<longleftrightarrow> pf_dateFromString P (pf_dateToString P d) = d"

section \<open>Models.cpp\<close>

fun errorCodeToString :: "ErrorCode \<Rightarrow> qstring" where
  "errorCodeToString InvalidCommand = Q ''invalid-command''"
| "errorCodeToString InvalidConfiguration = Q ''invalid-configuration''"
| "errorCodeToString AuthRequired = Q ''auth-required''"
| "errorCodeToString NetworkError = Q ''network-error''"
| "errorCodeToString TlsError = Q ''tls-error''"
| "errorCodeToString HttpError = Q ''http-error''"
| "errorCodeToString CryptoError = Q ''crypto-error''"
| "errorCodeToString TrustError = Q ''trust-error''"
| "errorCodeToString StorageError = Q ''storage-error''"
| "errorCodeToString NotFound = Q ''not-found''"
| "errorCodeToString OperationFailed = Q ''operation-failed''"

definition commandLookup :: "(qstring \<times> CommandType) list" where
  "commandLookup =
    [(CommandNames_Help, Help), (CommandNames_Register, Register), (CommandNames_Login, Login),
     (CommandNames_Logout, Logout), (CommandNames_Whoami, Whoami), (CommandNames_Status, Status),
     (CommandNames_Conversations, Conversations), (CommandNames_Inbox, Inbox),
     (CommandNames_Sent, Sent), (CommandNames_Msg, Msg), (CommandNames_Send, Send),
     (CommandNames_Read, ReadCmd), (CommandNames_Forward, Forward),
     (CommandNames_Revoke, Revoke), (CommandNames_Delete, DeleteMessage),
     (CommandNames_Download, Download), (CommandNames_Trust, Trust),
     (CommandNames_Verify, Verify), (CommandNames_Sync, Sync), (CommandNames_Cancel, Cancel),
     (CommandNames_Back, BackCmd), (CommandNames_Exit, Exit)]"

definition commandKey :: "'x platform_scheme \<Rightarrow> qstring \<Rightarrow> qstring" where
  "commandKey P name = pf_toLower P (trimmed name)"

text \<open>The loop over the table returns the first name whose type matches.\<close>

definition commandTypeName :: "CommandType \<Rightarrow> qstring" where
  "commandTypeName t =
     (case find (\<lambda>(n, ct). ct = t) commandLookup of None \<Rightarrow> Q ''unknown'' | Some (n, ct) \<Rightarrow> n)"

definition commandTypeFromName :: "'x platform_scheme \<Rightarrow> qstring \<Rightarrow> CommandType option" where
  "commandTypeFromName P name = map_of commandLookup (commandKey P name)"

definition clientModeToString :: "ClientMode \<Rightarrow> qstring" where
  "clientModeToString m = (if m = Real then AppText_RealMode else AppText_MockMode)"

lemma errorCodeToString_inj [simp]: "errorCodeToString a = errorCodeToString b \<longleftrightarrow> a = b"
  by (cases a; cases b; simp)

lemma commandLookup_distinct: "distinct (map fst commandLookup)" "distinct (map snd commandLookup)"
  by (simp_all add: commandLookup_def const_defs)

lemma commandLookup_total: "t \<in> snd ` set commandLookup"
  by (cases t) (simp_all add: commandLookup_def)

lemma commandTypeName_lookup: "map_of commandLookup (commandTypeName t) = Some t"
  by (cases t) (simp_all add: commandTypeName_def commandLookup_def const_defs)

end
