(* ===== verification/Keccak.thy ===== *)
theory Keccak
  imports Prelude
begin

text \<open>
  The Keccak-256 of client/src/support/EthereumHash.cpp: rotation, little-endian lanes, the
  permutation, padding, absorbing and squeezing, each loop written as the code has it
  (folds over the index ranges, with the array updated in place). The lemmas show that the
  loops are total and in range, that they compute the round function of the Keccak
  specification, that a digest is 32 bytes, and for which lengths the padding is the
  specified one.
\<close>

unbundle bit_operations_syntax

type_synonym u64 = "64 word"

definition KeccakRateBytes :: nat where "KeccakRateBytes = 136"
definition KeccakDigestBytes :: nat where "KeccakDigestBytes = 32"
definition KeccakStateWords :: nat where "KeccakStateWords = 25"
definition KeccakPaddingStart :: byte where "KeccakPaddingStart = 1"
definition KeccakPaddingEnd :: byte where "KeccakPaddingEnd = 128"

lemmas keccak_consts = KeccakRateBytes_def KeccakDigestBytes_def KeccakStateWords_def
  KeccakPaddingStart_def KeccakPaddingEnd_def

definition RotationOffsets :: "nat list" where
  "RotationOffsets =
    [0, 1, 62, 28, 27,
     36, 44, 6, 55, 20,
     3, 10, 43, 25, 39,
     41, 45, 15, 21, 8,
     18, 2, 61, 56, 14]"

definition RoundConstants :: "u64 list" where
  "RoundConstants =
    [0x0000000000000001, 0x0000000000008082, 0x800000000000808a,
     0x8000000080008000, 0x000000000000808b, 0x0000000080000001,
     0x8000000080008081, 0x8000000000008009, 0x000000000000008a,
     0x0000000000000088, 0x0000000080008009, 0x000000008000000a,
     0x000000008000808b, 0x800000000000008b, 0x8000000000008089,
     0x8000000000008003, 0x8000000000008002, 0x8000000000000080,
     0x000000000000800a, 0x800000008000000a, 0x8000000080008081,
     0x8000000000008080, 0x0000000080000001, 0x8000000080008008]"

definition rotateLeft :: "u64 \<Rightarrow> nat \<Rightarrow> u64" where
  "rotateLeft w s = (if s = 0 then w else push_bit s w OR drop_bit (64 - s) w)"

definition readLittleEndianWord :: "bytes \<Rightarrow> nat \<Rightarrow> u64" where
  "readLittleEndianWord block off =
     fold (\<lambda>i v. v OR push_bit (8 * i) (ucast (block ! (off + i)))) [0..<8] 0"

definition appendLittleEndianWord :: "bytes \<Rightarrow> u64 \<Rightarrow> bytes" where
  "appendLittleEndianWord out w =
     fold (\<lambda>i o'. o' @ [ucast (drop_bit (8 * i) w AND 0xff)]) [0..<8] out"

text \<open>The index pairs of the nested loops over \<open>x\<close> and \<open>y\<close>, in their order.\<close>

definition loopXY :: "(nat \<times> nat) list" where
  "loopXY = List.product [0..<5] [0..<5]"

definition columnParity :: "u64 list \<Rightarrow> u64 list" where
  "columnParity st =
     map (\<lambda>x. st ! x XOR st ! (x + 5) XOR st ! (x + 10) XOR st ! (x + 15) XOR st ! (x + 20)) [0..<5]"

definition thetaEffect :: "u64 list \<Rightarrow> u64 list" where
  "thetaEffect cp = map (\<lambda>x. cp ! ((x + 4) mod 5) XOR rotateLeft (cp ! ((x + 1) mod 5)) 1) [0..<5]"

definition thetaStep :: "u64 list \<Rightarrow> u64 list" where
  "thetaStep st =
     (let th = thetaEffect (columnParity st)
      in fold (\<lambda>(x, y) s. s[x + 5 * y := s ! (x + 5 * y) XOR th ! x]) loopXY st)"

definition rhoPiDestination :: "nat \<Rightarrow> nat \<Rightarrow> nat" where
  "rhoPiDestination x y = y + 5 * ((2 * x + 3 * y) mod 5)"

definition rhoPiStep :: "u64 list \<Rightarrow> u64 list" where
  "rhoPiStep st =
     fold (\<lambda>(x, y) r. r[rhoPiDestination x y := rotateLeft (st ! (x + 5 * y)) (RotationOffsets ! (x + 5 * y))])
       loopXY (replicate KeccakStateWords 0)"

definition chiStep :: "u64 list \<Rightarrow> u64 list \<Rightarrow> u64 list" where
  "chiStep rotated st =
     fold (\<lambda>(x, y) s. s[x + 5 * y :=
         rotated ! (x + 5 * y) XOR (NOT (rotated ! ((x + 1) mod 5 + 5 * y)) AND rotated ! ((x + 2) mod 5 + 5 * y))])
       loopXY st"

definition keccakRound :: "u64 \<Rightarrow> u64 list \<Rightarrow> u64 list" where
  "keccakRound rc st =
     (let s1 = thetaStep st; rotated = rhoPiStep s1; s2 = chiStep rotated s1
      in s2[0 := s2 ! 0 XOR rc])"

definition keccakPermutation :: "u64 list \<Rightarrow> u64 list" where
  "keccakPermutation st = fold keccakRound RoundConstants st"

function padLoop :: "bytes \<Rightarrow> bytes" where
  "padLoop p = (if length p mod KeccakRateBytes \<noteq> KeccakRateBytes - 1 then padLoop (p @ [0]) else p)"
  by pat_completeness auto
termination
proof (relation "measure (\<lambda>p. KeccakRateBytes - 1 - length p mod KeccakRateBytes)")
  fix p :: bytes
  assume "length p mod KeccakRateBytes \<noteq> KeccakRateBytes - 1"
  then show "(p @ [0], p) \<in> measure (\<lambda>p. KeccakRateBytes - 1 - length p mod KeccakRateBytes)"
    by (auto simp: KeccakRateBytes_def mod_Suc)
qed simp

declare padLoop.simps [simp del]

definition padded :: "bytes \<Rightarrow> bytes" where
  "padded input = padLoop (input @ [KeccakPaddingStart]) @ [KeccakPaddingEnd]"

definition absorbBlock :: "bytes \<Rightarrow> nat \<Rightarrow> u64 list \<Rightarrow> u64 list" where
  "absorbBlock p off st =
     keccakPermutation
       (fold (\<lambda>lane s. s[lane := s ! lane XOR readLittleEndianWord p (off + lane * 8)])
         [0..<KeccakRateBytes div 8] st)"

fun absorbFrom :: "nat \<Rightarrow> bytes \<Rightarrow> nat \<Rightarrow> u64 list \<Rightarrow> u64 list" where
  "absorbFrom 0 p off st = st"
| "absorbFrom (Suc n) p off st = absorbFrom n p (off + KeccakRateBytes) (absorbBlock p off st)"

text \<open>The offsets \<open>0, 136, ...\<close> below the length: one pass per started block.\<close>

definition absorbAll :: "bytes \<Rightarrow> u64 list" where
  "absorbAll p = absorbFrom ((length p + KeccakRateBytes - 1) div KeccakRateBytes) p 0 (replicate KeccakStateWords 0)"

function squeeze :: "u64 list \<Rightarrow> nat \<Rightarrow> bytes \<Rightarrow> bytes" where
  "squeeze st lane out =
     (if length out < KeccakDigestBytes
      then squeeze st (Suc lane)
             (out @ take (KeccakDigestBytes - length out) (appendLittleEndianWord [] (st ! lane)))
      else out)"
  by pat_completeness auto
termination
  by (relation "measure (\<lambda>(st, lane, out). KeccakDigestBytes - length out)")
     (auto simp: appendLittleEndianWord_def upt_rec)

declare squeeze.simps [simp del]

definition keccak256 :: "bytes \<Rightarrow> bytes" where
  "keccak256 input = squeeze (absorbAll (padded input)) 0 []"

section \<open>Loops over the state array\<close>

lemma length_fold_update [simp]:
  "length (fold (\<lambda>q s. s[d q := h q (s ! d q)]) ps s) = length s"
  by (induction ps arbitrary: s) auto

lemma fold_update_out:
  "i \<notin> d ` set ps \<Longrightarrow> fold (\<lambda>q s. s[d q := h q (s ! d q)]) ps s ! i = s ! i"
  by (induction ps arbitrary: s) auto

lemma fold_update_in:
  assumes "distinct (map d ps)" "p \<in> set ps" "d p < length s"
  shows "fold (\<lambda>q s. s[d q := h q (s ! d q)]) ps s ! d p = h p (s ! d p)"
  using assms
proof (induction ps arbitrary: s)
  case Nil
  then show ?case by simp
next
  case (Cons q qs)
  show ?case
  proof (cases "p = q")
    case True
    with Cons.prems have "d p \<notin> d ` set qs" by auto
    with True Cons.prems(3) show ?thesis by (simp add: fold_update_out)
  next
    case False
    with Cons.prems have "d q \<noteq> d p" "p \<in> set qs" by (auto simp: image_iff)
    with Cons.prems Cons.IH [of "s[d q := h q (s ! d q)]"] show ?thesis by simp
  qed
qed

definition lane :: "u64 list \<Rightarrow> nat \<Rightarrow> nat \<Rightarrow> u64" where
  "lane st x y = st ! (x + 5 * y)"

definition xyIndex :: "nat \<times> nat \<Rightarrow> nat" where
  "xyIndex p = fst p + 5 * snd p"

lemma loopXY_eq:
  "loopXY = [(0, 0), (0, 1), (0, 2), (0, 3), (0, 4), (1, 0), (1, 1), (1, 2), (1, 3), (1, 4),
    (2, 0), (2, 1), (2, 2), (2, 3), (2, 4), (3, 0), (3, 1), (3, 2), (3, 3), (3, 4),
    (4, 0), (4, 1), (4, 2), (4, 3), (4, 4)]"
  by (simp add: loopXY_def upt_rec)

lemma set_loopXY: "set loopXY = {0..<5} \<times> {0..<5}"
  by (auto simp: loopXY_def)

lemma distinct_xyIndex: "distinct (map xyIndex loopXY)"
  by (simp add: loopXY_eq xyIndex_def)

text \<open>Every lane is written once by the combined rho and pi loop: its target indices are a
  permutation of the 25 lanes.\<close>

lemma distinct_rhoPi: "distinct (map (\<lambda>p. rhoPiDestination (fst p) (snd p)) loopXY)"
  by (simp add: loopXY_eq rhoPiDestination_def)

lemma five_cases: "(n::nat) < 5 \<Longrightarrow> n = 0 \<or> n = 1 \<or> n = 2 \<or> n = 3 \<or> n = 4"
  by arith

lemma rhoPi_inverse: "\<lbrakk>x < 5; y < 5\<rbrakk> \<Longrightarrow> rhoPiDestination ((x + 3 * y) mod 5) x = x + 5 * y"
  by (auto simp: rhoPiDestination_def dest!: five_cases)

lemma in_loopXY [simp]: "(x, y) \<in> set loopXY \<longleftrightarrow> x < 5 \<and> y < 5"
  by (auto simp: set_loopXY)

section \<open>The round function of the specification\<close>

text \<open>
  Keccak-f[1600] on an array of lanes indexed by coordinates, step by step as the Keccak
  specification states it, with rotation from the library.
\<close>

type_synonym lanes = "nat \<Rightarrow> nat \<Rightarrow> u64"

definition specParity :: "lanes \<Rightarrow> nat \<Rightarrow> u64" where
  "specParity A x = A x 0 XOR A x 1 XOR A x 2 XOR A x 3 XOR A x 4"

definition specTheta :: "lanes \<Rightarrow> lanes" where
  "specTheta A x y =
     A x y XOR (specParity A ((x + 4) mod 5) XOR word_rotl 1 (specParity A ((x + 1) mod 5)))"

text \<open>The rotation offsets: \<open>(t + 1) (t + 2) / 2\<close> along the walk \<open>(x, y) := (y, 2 x + 3 y)\<close> from
  \<open>(1, 0)\<close>, and 0 at the origin.\<close>

fun rhoWalk :: "nat \<Rightarrow> nat \<times> nat" where
  "rhoWalk 0 = (1, 0)"
| "rhoWalk (Suc t) = (case rhoWalk t of (x, y) \<Rightarrow> (y, (2 * x + 3 * y) mod 5))"

definition specOffset :: "nat \<Rightarrow> nat \<Rightarrow> nat" where
  "specOffset x y =
     (case find (\<lambda>t. rhoWalk t = (x, y)) [0..<24] of
        None \<Rightarrow> 0 | Some t \<Rightarrow> ((t + 1) * (t + 2) div 2) mod 64)"

definition specRho :: "lanes \<Rightarrow> lanes" where
  "specRho A x y = word_rotl (specOffset x y) (A x y)"

definition specPi :: "lanes \<Rightarrow> lanes" where
  "specPi A x y = A ((x + 3 * y) mod 5) x"

definition specChi :: "lanes \<Rightarrow> lanes" where
  "specChi A x y = A x y XOR (NOT (A ((x + 1) mod 5) y) AND A ((x + 2) mod 5) y)"

definition specIota :: "u64 \<Rightarrow> lanes \<Rightarrow> lanes" where
  "specIota rc A x y = (if x = 0 \<and> y = 0 then A x y XOR rc else A x y)"

definition specRound :: "u64 \<Rightarrow> lanes \<Rightarrow> lanes" where
  "specRound rc A = specIota rc (specChi (specPi (specRho (specTheta A))))"

text \<open>The round constants: bit \<open>2^j - 1\<close> of constant \<open>i\<close> is the output \<open>j + 7 i\<close> of the degree-8
  shift register of the specification.\<close>

fun lfsr :: "nat \<Rightarrow> bool list" where
  "lfsr 0 = [True, False, False, False, False, False, False, False]"
| "lfsr (Suc t) =
    (case lfsr t of
       [r0, r1, r2, r3, r4, r5, r6, r7] \<Rightarrow>
         [r7, r0, r1, r2, r3 \<noteq> r7, r4 \<noteq> r7, r5 \<noteq> r7, r6]
     | _ \<Rightarrow> [])"

definition specRoundConstantBits :: "nat \<Rightarrow> nat list" where
  "specRoundConstantBits i = map (\<lambda>j. 2 ^ j - 1) (filter (\<lambda>j. hd (lfsr (j + 7 * i))) [0..<7])"

section \<open>Rotation and lanes\<close>

lemma rotateLeft_rotl:
  assumes n: "n < 64"
  shows "rotateLeft w n = word_rotl n w"
proof (rule bit_word_eqI)
  fix k
  assume "k < LENGTH(64)"
  then have k: "k < 64" by simp
  have a: "64 + k - n = k + 64 - n" by simp
  show "bit (rotateLeft w n) k \<longleftrightarrow> bit (word_rotl n w) k"
  proof (cases "n \<le> k")
    case True
    then have "(k + 64 - n) mod 64 = k - n"
      using k n by (metis Nat.diff_add_assoc2 less_imp_diff_less mod_add_self2 mod_less)
    moreover have "64 \<le> k + 64 - n" using True by simp
    then have "\<not> bit w (k + 64 - n)" using bit_imp_le_length [of w "k + 64 - n"] by fastforce
    ultimately show ?thesis
      using k n True by (auto simp: rotateLeft_def bit_simps bit_word_rotl_iff a)
  next
    case False
    then have "(k + 64 - n) mod 64 = k + 64 - n" using k n by (intro mod_less) linarith
    then show ?thesis
      using k n False by (auto simp: rotateLeft_def bit_simps bit_word_rotl_iff a)
  qed
qed
lemma bit_lane_byte:
  "\<lbrakk>i < 8; j < 8\<rbrakk> \<Longrightarrow> bit (ucast (drop_bit (8 * i) w AND 255) :: byte) j = bit (w :: 64 word) (8 * i + j)"
proof -
  assume "i < 8" "j < 8"
  moreover have "(255 :: 64 word) = mask 8" by (simp add: mask_eq_exp_minus_1)
  ultimately show ?thesis by (simp only: bit_simps) simp
qed

lemma append_map_fold: "fold (\<lambda>i o'. o' @ [f i]) xs out = out @ map f xs"
  by (induction xs arbitrary: out) auto

lemma appendLittleEndianWord_eq:
  "appendLittleEndianWord out w = out @ map (\<lambda>i. ucast (drop_bit (8 * i) w AND 255)) [0..<8]"
  by (simp add: appendLittleEndianWord_def append_map_fold)

lemma length_appendLittleEndianWord [simp]: "length (appendLittleEndianWord out w) = length out + 8"
  by (simp add: appendLittleEndianWord_eq)

lemma bit_fold_or: "bit (fold (\<lambda>i v. v OR f i) xs (a :: u64)) n \<longleftrightarrow> bit a n \<or> (\<exists>i\<in>set xs. bit (f i) n)"
  by (induction xs arbitrary: a) (auto simp: bit_or_iff)

lemma bit_push_byte:
  "bit (push_bit (8 * i) (ucast (x :: byte)) :: u64) n \<longleftrightarrow> n < 64 \<and> n div 8 = i \<and> bit x (n mod 8)"
proof (cases "n div 8 = i")
  case True
  then have n: "n = 8 * i + n mod 8" using mult_div_mod_eq [of 8 n] by simp
  have "bit x (n - 8 * i) = bit x (n mod 8)" using n by (metis add_diff_cancel_left')
  then show ?thesis using True n by (auto simp: bit_simps)
next
  case False
  then have "n < 8 * i \<or> 8 \<le> n - 8 * i" by auto
  then have "n < 8 * i \<or> \<not> bit x (n - 8 * i)"
    using bit_imp_le_length [of x "n - 8 * i"] by fastforce
  then show ?thesis using False by (auto simp: bit_simps)
qed

lemma bit_readLittleEndianWord:
  "bit (readLittleEndianWord b off) n \<longleftrightarrow> n < 64 \<and> bit (b ! (off + n div 8)) (n mod 8)"
  by (auto simp: readLittleEndianWord_def bit_fold_or bit_push_byte)

lemma read_append_aux:
  "readLittleEndianWord (appendLittleEndianWord out w @ post) (length out) = w"
proof (rule bit_word_eqI)
  fix n
  assume "n < LENGTH(64)"
  then have n: "n < 64" "n div 8 < 8" by auto
  then have "(appendLittleEndianWord out w @ post) ! (length out + n div 8) = ucast (drop_bit (8 * (n div 8)) w AND 255)"
    by (simp add: appendLittleEndianWord_eq nth_append)
  moreover have "bit (ucast (drop_bit (8 * (n div 8)) w AND 255) :: byte) (n mod 8) = bit w n"
    using n by (subst bit_lane_byte) auto
  ultimately show "bit (readLittleEndianWord (appendLittleEndianWord out w @ post) (length out)) n = bit w n"
    using n by (simp add: bit_readLittleEndianWord)
qed

section \<open>The loops compute the specified round\<close>

lemma specOffset_table: "\<lbrakk>x < 5; y < 5\<rbrakk> \<Longrightarrow> RotationOffsets ! (x + 5 * y) = specOffset x y"
proof -
  have "map (\<lambda>i. specOffset (i mod 5) (i div 5)) [0..<25] = RotationOffsets" by code_simp
  moreover assume "x < 5" "y < 5"
  then have "x + 5 * y < 25" by arith
  then have "map (\<lambda>i. specOffset (i mod 5) (i div 5)) [0..<25] ! (x + 5 * y)
      = specOffset ((x + 5 * y) mod 5) ((x + 5 * y) div 5)"
    by (simp only: nth_map length_upt nth_upt diff_zero add_0)
  ultimately show ?thesis using \<open>x < 5\<close> by simp
qed

lemma RotationOffsets_lt: "\<lbrakk>x < 5; y < 5\<rbrakk> \<Longrightarrow> RotationOffsets ! (x + 5 * y) < 64"
  by (auto simp: RotationOffsets_def dest!: five_cases)

lemma length_thetaStep [simp]: "length (thetaStep st) = length st"
  using length_fold_update [of "\<lambda>p. fst p + 5 * snd p" "\<lambda>p v. v XOR thetaEffect (columnParity st) ! fst p" loopXY st]
  by (simp add: thetaStep_def Let_def case_prod_beta')

lemma length_rhoPiStep [simp]: "length (rhoPiStep st) = 25"
  using length_fold_update [of "\<lambda>p. rhoPiDestination (fst p) (snd p)"
      "\<lambda>p v. rotateLeft (st ! (fst p + 5 * snd p)) (RotationOffsets ! (fst p + 5 * snd p))" loopXY
      "replicate KeccakStateWords 0"]
  by (simp add: rhoPiStep_def case_prod_beta' KeccakStateWords_def)

lemma length_chiStep [simp]: "length (chiStep r st) = length st"
  using length_fold_update [of "\<lambda>p. fst p + 5 * snd p"
      "\<lambda>p v. r ! (fst p + 5 * snd p) XOR (NOT (r ! ((fst p + 1) mod 5 + 5 * snd p))
          AND r ! ((fst p + 2) mod 5 + 5 * snd p))" loopXY st]
  by (simp add: chiStep_def case_prod_beta')

lemma xy_in_range: "\<lbrakk>x < 5; y < 5\<rbrakk> \<Longrightarrow> x + 5 * y < (25::nat)"
  by arith

lemma distinct_xy: "distinct (map (\<lambda>p. fst p + 5 * snd p) loopXY)"
  using distinct_xyIndex by (simp add: xyIndex_def [abs_def])

lemma lane_thetaStep:
  assumes "length st = 25" "x < 5" "y < 5"
  shows "lane (thetaStep st) x y = specTheta (lane st) x y"
proof -
  have "thetaStep st ! (x + 5 * y) = st ! (x + 5 * y) XOR thetaEffect (columnParity st) ! x"
    using fold_update_in [OF distinct_xy, of "(x, y)" st "\<lambda>p v. v XOR thetaEffect (columnParity st) ! fst p"]
      assms xy_in_range [OF assms(2,3)]
    by (simp add: thetaStep_def Let_def case_prod_beta')
  moreover have "columnParity st ! z = specParity (lane st) z" if "z < 5" for z
    using that by (simp add: columnParity_def specParity_def lane_def)
  ultimately show ?thesis
    using assms by (simp add: specTheta_def lane_def thetaEffect_def rotateLeft_rotl)
qed

lemma lane_rhoPiStep:
  assumes "length st = 25" "x < 5" "y < 5"
  shows "lane (rhoPiStep st) x y = specPi (specRho (lane st)) x y"
proof -
  let ?x = "(x + 3 * y) mod 5"
  have x: "?x < 5" by simp
  have d: "rhoPiDestination ?x x = x + 5 * y" using assms by (intro rhoPi_inverse)
  have "rhoPiStep st ! rhoPiDestination ?x x = rotateLeft (st ! (?x + 5 * x)) (RotationOffsets ! (?x + 5 * x))"
    using fold_update_in [OF distinct_rhoPi, of "(?x, x)" "replicate KeccakStateWords 0"
        "\<lambda>p v. rotateLeft (st ! (fst p + 5 * snd p)) (RotationOffsets ! (fst p + 5 * snd p))"]
      assms x d xy_in_range [OF assms(2,3)]
    by (simp add: rhoPiStep_def case_prod_beta' KeccakStateWords_def)
  also have "\<dots> = word_rotl (specOffset ?x x) (lane st ?x x)"
    using rotateLeft_rotl [OF RotationOffsets_lt [OF x assms(2)], of "st ! (?x + 5 * x)"]
    by (simp add: lane_def specOffset_table [OF x assms(2)])
  finally show ?thesis by (simp add: d lane_def specPi_def specRho_def)
qed

lemma lane_chiStep:
  assumes "length st = 25" "x < 5" "y < 5"
  shows "lane (chiStep r st) x y = specChi (lane r) x y"
  using fold_update_in [OF distinct_xy, of "(x, y)" st
      "\<lambda>p v. r ! (fst p + 5 * snd p) XOR (NOT (r ! ((fst p + 1) mod 5 + 5 * snd p))
          AND r ! ((fst p + 2) mod 5 + 5 * snd p))"]
    assms xy_in_range [OF assms(2,3)]
  by (simp add: chiStep_def case_prod_beta' lane_def specChi_def)

lemma length_keccakRound [simp]: "length (keccakRound rc st) = length st"
  by (simp add: keccakRound_def Let_def)

text \<open>The specification functions read lanes with coordinates below 5 only.\<close>

definition lanes_eq :: "lanes \<Rightarrow> lanes \<Rightarrow> bool" where
  "lanes_eq A B \<longleftrightarrow> (\<forall>x<5. \<forall>y<5. A x y = B x y)"

lemma lanes_eqI: "(\<And>x y. \<lbrakk>x < 5; y < 5\<rbrakk> \<Longrightarrow> A x y = B x y) \<Longrightarrow> lanes_eq A B"
  by (simp add: lanes_eq_def)

lemma lanes_eqD: "\<lbrakk>lanes_eq A B; x < 5; y < 5\<rbrakk> \<Longrightarrow> A x y = B x y"
  by (simp add: lanes_eq_def)

lemma lanes_eq_trans: "lanes_eq A B \<Longrightarrow> lanes_eq B C \<Longrightarrow> lanes_eq A C"
  by (simp add: lanes_eq_def)

lemma lanes_eq_theta: "lanes_eq A B \<Longrightarrow> lanes_eq (specTheta A) (specTheta B)"
  by (intro lanes_eqI) (simp add: specTheta_def specParity_def lanes_eqD)

lemma lanes_eq_rhoPi: "lanes_eq A B \<Longrightarrow> lanes_eq (specPi (specRho A)) (specPi (specRho B))"
  by (intro lanes_eqI) (simp add: specPi_def specRho_def lanes_eqD)

lemma lanes_eq_chi: "lanes_eq A B \<Longrightarrow> lanes_eq (specChi A) (specChi B)"
  by (intro lanes_eqI) (simp add: specChi_def lanes_eqD)

lemma lanes_eq_iota: "lanes_eq A B \<Longrightarrow> lanes_eq (specIota rc A) (specIota rc B)"
  by (intro lanes_eqI) (simp add: specIota_def lanes_eqD)

lemmas lanes_eq_steps = lanes_eq_theta lanes_eq_rhoPi lanes_eq_chi lanes_eq_iota

lemma lanes_eq_round: "lanes_eq A B \<Longrightarrow> lanes_eq (specRound rc A) (specRound rc B)"
  unfolding specRound_def by (intro lanes_eq_steps)

lemma keccakRound_lanes:
  assumes "length st = 25"
  shows "lanes_eq (lane (keccakRound rc st)) (specRound rc (lane st))"
proof -
  let ?t = "thetaStep st"
  have t: "lanes_eq (lane ?t) (specTheta (lane st))"
    using assms by (intro lanes_eqI) (rule lane_thetaStep)
  have r: "lanes_eq (lane (rhoPiStep ?t)) (specPi (specRho (lane ?t)))"
    using assms by (intro lanes_eqI) (simp add: lane_rhoPiStep)
  have c: "lanes_eq (lane (chiStep (rhoPiStep ?t) ?t)) (specChi (lane (rhoPiStep ?t)))"
    using assms by (intro lanes_eqI) (simp add: lane_chiStep)
  have i: "lanes_eq (lane (keccakRound rc st)) (specIota rc (lane (chiStep (rhoPiStep ?t) ?t)))"
    using assms by (intro lanes_eqI) (auto simp: keccakRound_def Let_def lane_def specIota_def nth_list_update)
  have "lanes_eq (lane (chiStep (rhoPiStep ?t) ?t)) (specChi (specPi (specRho (specTheta (lane st)))))"
    using c lanes_eq_chi [OF lanes_eq_trans [OF r lanes_eq_rhoPi [OF t]]] by (rule lanes_eq_trans)
  then show ?thesis
    unfolding specRound_def using i lanes_eq_iota lanes_eq_trans by blast
qed

lemma fold_round_lanes:
  "\<lbrakk>length st = 25; lanes_eq (lane st) A\<rbrakk>
   \<Longrightarrow> lanes_eq (lane (fold keccakRound rcs st)) (fold specRound rcs A)"
proof (induction rcs arbitrary: st A)
  case Nil
  then show ?case by simp
next
  case (Cons rc rcs)
  have "lanes_eq (lane (keccakRound rc st)) (specRound rc A)"
    using keccakRound_lanes [OF Cons.prems(1), of rc] lanes_eq_round [OF Cons.prems(2), of rc]
    by (rule lanes_eq_trans)
  then show ?case using Cons.prems(1) Cons.IH [of "keccakRound rc st"] by simp
qed

lemma length_fold_round [simp]: "length (fold keccakRound rcs st) = length st"
  by (induction rcs arbitrary: st) auto

lemma length_keccakPermutation [simp]: "length (keccakPermutation st) = length st"
  by (simp add: keccakPermutation_def)

section \<open>Padding\<close>

text \<open>The padding of Keccak (without a domain suffix): a bit 1, zeros, a bit 1, up to the next
  multiple of the rate. On bytes, one byte 0x81 when a single byte is left.\<close>

definition specPad :: "bytes \<Rightarrow> bytes" where
  "specPad m =
     (let q = 136 - length m mod 136
      in m @ (if q = 1 then [0x81] else 1 # replicate (q - 2) 0 @ [0x80]))"

lemma padLoop_eq:
  "padLoop p = p @ replicate (135 - length p mod 136) 0"
proof (induction p rule: padLoop.induct)
  case (1 p)
  show ?case
  proof (cases "length p mod 136 = 135")
    case True
    then show ?thesis by (subst padLoop.simps) (simp add: KeccakRateBytes_def)
  next
    case False
    have lt: "length p mod 136 < 135" using False mod_less_divisor [of 136 "length p"] by linarith
    then have m: "length (p @ [0]) mod 136 = Suc (length p mod 136)" by (simp add: mod_Suc)
    have "padLoop (p @ [0]) = (p @ [0]) @ replicate (135 - length (p @ [0]) mod 136) 0"
      using False by (intro "1") (simp add: KeccakRateBytes_def)
    also have "\<dots> = p @ replicate (Suc (135 - Suc (length p mod 136))) 0"
      using m by (simp add: replicate_app_Cons_same)
    also have "Suc (135 - Suc (length p mod 136)) = 135 - length p mod 136" using lt by simp
    finally show ?thesis using False by (subst padLoop.simps) (simp add: KeccakRateBytes_def)
  qed
qed

lemma padded_eq:
  "padded m = m @ 1 # replicate (135 - Suc (length m) mod 136) 0 @ [0x80]"
  by (simp add: padded_def padLoop_eq keccak_consts)

lemma length_padded: "length (padded m) mod 136 = 0" "length m < length (padded m)"
proof -
  let ?n = "Suc (length m)"
  have "?n mod 136 < 136" by simp
  moreover have "136 * (?n div 136) + ?n mod 136 = ?n" by (rule mult_div_mod_eq)
  moreover have "n + (135 - r) + 1 = 136 * Suc q" if "r < 136" "136 * q + r = n" for q r n :: nat
    using that by simp
  ultimately have "?n + (135 - ?n mod 136) + 1 = 136 * Suc (?n div 136)" by blast
  then have "(?n + (135 - ?n mod 136) + 1) mod 136 = 0" by (simp only: mod_mult_self1_is_0)
  then show "length (padded m) mod 136 = 0" by (simp add: padded_eq)
qed (simp add: padded_eq)

section \<open>The digest\<close>

lemma length_absorbBlock [simp]: "length (absorbBlock p off st) = length st"
  using length_fold_update [of "\<lambda>l. l" "\<lambda>l v. v XOR readLittleEndianWord p (off + l * 8)"]
  by (simp add: absorbBlock_def)

lemma length_absorbFrom [simp]: "length (absorbFrom n p off st) = length st"
  by (induction n p off st rule: absorbFrom.induct) auto

lemma squeeze_step:
  "length out + 8 \<le> 32 \<Longrightarrow> squeeze st l out = squeeze st (Suc l) (out @ appendLittleEndianWord [] (st ! l))"
  by (subst squeeze.simps) (simp add: KeccakDigestBytes_def)

lemma squeeze_done: "32 \<le> length out \<Longrightarrow> squeeze st l out = out"
  by (subst squeeze.simps) (simp add: KeccakDigestBytes_def)

lemma squeeze_lanes:
  "squeeze st 0 [] =
    appendLittleEndianWord [] (st ! 0) @ appendLittleEndianWord [] (st ! 1)
      @ appendLittleEndianWord [] (st ! 2) @ appendLittleEndianWord [] (st ! 3)"
  by (simp add: squeeze_step squeeze_done eval_nat_numeral)

lemma length_keccak256 [simp]: "length (keccak256 m) = 32"
  by (simp add: keccak256_def squeeze_lanes)

section \<open>The sponge of the specification\<close>

definition specRoundConstant :: "nat \<Rightarrow> u64" where
  "specRoundConstant i = fold (\<lambda>b w. w OR push_bit b 1) (specRoundConstantBits i) 0"

definition specPermutation :: "lanes \<Rightarrow> lanes" where
  "specPermutation A = fold specRound (map specRoundConstant [0..<24]) A"

definition specXorBlock :: "bytes \<Rightarrow> lanes \<Rightarrow> lanes" where
  "specXorBlock b A x y =
     (if x + 5 * y < 17 then A x y XOR readLittleEndianWord b (8 * (x + 5 * y)) else A x y)"

definition specBlocks :: "bytes \<Rightarrow> bytes list" where
  "specBlocks p = map (\<lambda>i. take 136 (drop (136 * i) p)) [0..<length p div 136]"

definition specAbsorb :: "bytes \<Rightarrow> lanes" where
  "specAbsorb p = fold (\<lambda>b A. specPermutation (specXorBlock b A)) (specBlocks p) (\<lambda>x y. 0)"

definition specKeccak256 :: "bytes \<Rightarrow> bytes" where
  "specKeccak256 m =
     concat (map (\<lambda>x. appendLittleEndianWord [] (specAbsorb (specPad m) x 0)) [0..<4])"

lemma RoundConstants_spec: "map specRoundConstant [0..<24] = RoundConstants"
  by code_simp

lemma keccakPermutation_aux:
  "\<lbrakk>length st = 25; lanes_eq (lane st) A\<rbrakk> \<Longrightarrow> lanes_eq (lane (keccakPermutation st)) (specPermutation A)"
  unfolding keccakPermutation_def specPermutation_def RoundConstants_spec by (rule fold_round_lanes)

lemma readLE_block:
  assumes "l < 17" "off + 136 \<le> length p"
  shows "readLittleEndianWord (take 136 (drop off p)) (8 * l) = readLittleEndianWord p (off + l * 8)"
proof (rule bit_word_eqI)
  fix n
  assume "n < LENGTH(64)"
  then have "8 * l + n div 8 < 136" using assms(1) by auto
  then have "take 136 (drop off p) ! (8 * l + n div 8) = p ! (off + l * 8 + n div 8)"
    using assms by (simp add: mult.commute add.assoc)
  then show "bit (readLittleEndianWord (take 136 (drop off p)) (8 * l)) n
      = bit (readLittleEndianWord p (off + l * 8)) n"
    by (simp add: bit_readLittleEndianWord)
qed

lemma absorbBlock_lanes:
  assumes "length st = 25" "lanes_eq (lane st) A" "off + 136 \<le> length p"
  shows "lanes_eq (lane (absorbBlock p off st)) (specPermutation (specXorBlock (take 136 (drop off p)) A))"
proof -
  let ?h = "\<lambda>l v. v XOR readLittleEndianWord p (off + l * 8)"
  let ?x = "fold (\<lambda>l s. s[l := ?h l (s ! l)]) [0..<17] st"
  have len: "length ?x = 25"
    using assms(1) length_fold_update [of "\<lambda>l. l" ?h "[0..<17]" st] by simp
  have "lanes_eq (lane ?x) (specXorBlock (take 136 (drop off p)) A)"
  proof (rule lanes_eqI)
    fix x y :: nat
    assume xy: "x < 5" "y < 5"
    have A: "A x y = st ! (x + 5 * y)" using lanes_eqD [OF assms(2) xy] by (simp add: lane_def)
    show "lane ?x x y = specXorBlock (take 136 (drop off p)) A x y"
    proof (cases "x + 5 * y < 17")
      case True
      then have "?x ! (x + 5 * y) = ?h (x + 5 * y) (st ! (x + 5 * y))"
        using fold_update_in [of "\<lambda>l. l" "[0..<17]" "x + 5 * y" st ?h] assms(1) by simp
      with True A readLE_block [OF True assms(3)] show ?thesis
        by (simp only: lane_def specXorBlock_def if_True)
    next
      case False
      then have "?x ! (x + 5 * y) = st ! (x + 5 * y)"
        using fold_update_out [of "x + 5 * y" "\<lambda>l. l" "[0..<17]" ?h st] by simp
      with False A show ?thesis by (simp only: lane_def specXorBlock_def if_False)
    qed
  qed
  with keccakPermutation_aux [OF len] show ?thesis
    by (simp add: absorbBlock_def KeccakRateBytes_def)
qed

lemma absorbFrom_lanes:
  "\<lbrakk>length st = 25; lanes_eq (lane st) A; off + 136 * n \<le> length p\<rbrakk>
   \<Longrightarrow> lanes_eq (lane (absorbFrom n p off st))
        (fold (\<lambda>b A. specPermutation (specXorBlock b A))
          (map (\<lambda>i. take 136 (drop (off + 136 * i) p)) [0..<n]) A)"
proof (induction n arbitrary: off st A)
  case 0
  then show ?case by simp
next
  case (Suc n)
  let ?A = "specPermutation (specXorBlock (take 136 (drop off p)) A)"
  have "lanes_eq (lane (absorbBlock p off st)) ?A"
    using Suc.prems by (intro absorbBlock_lanes) auto
  then have "lanes_eq (lane (absorbFrom n p (off + 136) (absorbBlock p off st)))
        (fold (\<lambda>b A. specPermutation (specXorBlock b A))
          (map (\<lambda>i. take 136 (drop (off + 136 + 136 * i) p)) [0..<n]) ?A)"
    using Suc.prems by (intro Suc.IH) auto
  moreover have "map (\<lambda>i. take 136 (drop (off + 136 * i) p)) [0..<Suc n]
      = take 136 (drop off p) # map (\<lambda>i. take 136 (drop (off + 136 + 136 * i) p)) [0..<n]"
    by (simp only: map_upt_Suc) (simp add: add.assoc)
  ultimately show ?case by (simp add: KeccakRateBytes_def)
qed

lemma keccak256_refines:
  assumes "padded m = specPad m"
  shows "keccak256 m = specKeccak256 m"
proof -
  let ?p = "padded m" and ?st = "replicate KeccakStateWords (0 :: u64)"
  obtain q where q: "length ?p = 136 * q" using length_padded(1) [of m] by fastforce
  have l0: "lanes_eq (lane ?st) (\<lambda>x y. 0)"
    by (intro lanes_eqI) (simp add: lane_def KeccakStateWords_def)
  have "(length ?p + KeccakRateBytes - 1) div KeccakRateBytes = q"
    by (simp add: q KeccakRateBytes_def)
  then have "lanes_eq (lane (absorbAll ?p)) (specAbsorb ?p)"
    using absorbFrom_lanes [of ?st "\<lambda>x y. 0" 0 q ?p] l0 q
    by (simp add: absorbAll_def specAbsorb_def specBlocks_def KeccakStateWords_def)
  then have "absorbAll ?p ! x = specAbsorb ?p x 0" if "x < 5" for x
    using lanes_eqD [of "lane (absorbAll ?p)" _ x 0] that by (simp add: lane_def)
  then have "absorbAll ?p ! 0 = specAbsorb ?p 0 0" "absorbAll ?p ! 1 = specAbsorb ?p 1 0"
    "absorbAll ?p ! 2 = specAbsorb ?p 2 0" "absorbAll ?p ! 3 = specAbsorb ?p 3 0"
    by simp_all
  moreover have "[0..<4] = [0, 1, 2, 3 :: nat]" by (simp add: upt_rec)
  ultimately show ?thesis
    by (simp only: keccak256_def squeeze_lanes specKeccak256_def assms list.map concat.simps append_Nil2)
qed

section \<open>Properties\<close>

text \<open>Property C24: the permutation is the Keccak-f[1600] of the specification. On every state of 25
  lanes, the 24 rounds of the code's in-place loops give, at every coordinate, the composition
  of theta, rho, pi, chi and iota, with rotation offsets and round constants generated as the
  specification generates them (the offset walk and the shift register), not copied from a
  table.\<close>

theorem keccakPermutation_is_keccak_f:
  assumes "length st = 25" and "x < 5" and "y < 5"
  shows "lane (keccakPermutation st) x y = specPermutation (lane st) x y"
  using keccakPermutation_aux [OF assms(1), of "lane st"] assms(2,3)
  by (simp add: lanes_eq_def)

theorem keccakPermutation_is_keccak_f_witness:
  "lane (keccakPermutation (replicate 25 1)) 2 3 = specPermutation (lane (replicate 25 1)) 2 3"
  by (rule keccakPermutation_is_keccak_f) simp_all

text \<open>Property C25: exactly which messages are padded as Keccak prescribes. The padding loop of the
  code agrees with the specified padding for every message length except those that are 135
  modulo the rate of 136: there one byte is left, the specification merges the two pad bits into
  the byte 0x81, and the code starts another block.\<close>

theorem padded_iff_specified:
  "padded m = specPad m \<longleftrightarrow> length m mod 136 \<noteq> 135"
proof (cases "length m mod 136 = 135")
  case True
  then have "Suc (length m) mod 136 = 0" by (simp add: mod_Suc)
  with True show ?thesis by (simp add: padded_eq specPad_def)
next
  case False
  have lt: "length m mod 136 < 135" using False mod_less_divisor [of 136 "length m"] by linarith
  then have "Suc (length m) mod 136 = Suc (length m mod 136)" by (simp add: mod_Suc)
  with lt show ?thesis by (simp add: padded_eq specPad_def Let_def)
qed

text \<open>Property C23: the digest the client computes is Keccak-256 for every message whose length is not
  135 modulo 136: absorbing the padded message lane by lane and squeezing four lanes equals the
  sponge of the specification over the specified blocks.\<close>

theorem keccak256_is_keccak:
  assumes "length m mod 136 \<noteq> 135"
  shows "keccak256 m = specKeccak256 m"
proof (rule keccak256_refines)
  have lt: "length m mod 136 < 135" using assms mod_less_divisor [of 136 "length m"] by linarith
  then have "Suc (length m) mod 136 = Suc (length m mod 136)" by (simp add: mod_Suc)
  with lt show "padded m = specPad m" by (simp add: padded_eq specPad_def Let_def)
qed

theorem keccak256_is_keccak_witness: "keccak256 [1, 2, 3] = specKeccak256 [1, 2, 3]"
  by (rule keccak256_is_keccak) simp

text \<open>For every message the padding loop ends on a whole number of blocks, longer than
  the message, and the digest is 32 bytes.\<close>

theorem keccak256_total:
  "length (padded m) mod KeccakRateBytes = 0 \<and> length m < length (padded m)
    \<and> length (keccak256 m) = KeccakDigestBytes"
  using length_padded [of m] by (simp add: KeccakRateBytes_def KeccakDigestBytes_def)

text \<open>Reading a lane back from the bytes it was written to, at any offset, gives the
  lane (the byte order of absorbing and squeezing is the same).\<close>

theorem lane_bytes_roundtrip:
  "readLittleEndianWord (appendLittleEndianWord out w @ post) (length out) = w"
  by (rule read_append_aux)

end
