(* ===== verification/EthereumHash.thy ===== *)
theory EthereumHash
  imports Models Keccak
begin

text \<open>
  The message side of client/src/support/EthereumHash.cpp: the canonical form of a message,
  its digest, and the record id. The compact JSON printer and UTF-8 are Qt's (\<open>platform\<close>).
\<close>

definition hexDigit :: "nat \<Rightarrow> qchar" where
  "hexDigit n = (if n < 10 then of_nat (48 + n) else of_nat (87 + n))"

text \<open>\<open>QByteArray::toHex\<close>: two lower-case digits per byte.\<close>

definition toHex :: "bytes \<Rightarrow> qstring" where
  "toHex bs = concat (map (\<lambda>b. [hexDigit (unat b div 16), hexDigit (unat b mod 16)]) bs)"

definition keccakHex :: "bytes \<Rightarrow> qstring" where
  "keccakHex b = arg1 (Q ''0x%1'') (toHex (keccak256 b))"

definition replaceChar :: "qchar \<Rightarrow> qstring \<Rightarrow> qstring \<Rightarrow> qstring" where
  "replaceChar c r s = concat (map (\<lambda>d. if d = c then r else [d]) s)"

definition charZ :: qchar where "charZ = 90"

definition utcOffset :: qstring where "utcOffset = Q ''+00:00''"

definition canonicalInstant :: "'x platform_scheme \<Rightarrow> QDateTime \<Rightarrow> qstring" where
  "canonicalInstant P d =
     (if \<not> isValidDate d then [] else replaceChar charZ utcOffset (pf_dateToString P d))"

definition canonicalDateTime :: "'x platform_scheme \<Rightarrow> LocalMessage \<Rightarrow> qstring" where
  "canonicalDateTime P m =
     (if lm_createdAtRaw m \<noteq> [] then
        (let raw = lm_createdAtRaw m
         in if endsWith raw [charZ] then butlast raw @ utcOffset else raw)
      else canonicalInstant P (lm_createdAt m))"

definition canonicalMessage :: "'x platform_scheme \<Rightarrow> LocalMessage \<Rightarrow> json_obj" where
  "canonicalMessage P m =
    [(Q ''created_at'', JStr (canonicalDateTime P m)),
     (Q ''forwarded_from_message_id'', JNull),
     (Q ''id'', JStr (lm_id m)),
     (Q ''recipient_device_id'', JInt (lm_recipientDeviceId m)),
     (Q ''recipient_user_id'', JStr (lm_recipientUserId m)),
     (Q ''sender_device_id'', JInt (lm_senderDeviceId m)),
     (Q ''sender_user_id'', JStr (lm_senderUserId m)),
     (Q ''wire_payload_json'', JStr (lm_wirePayloadJson m))]"

definition canonicalMessageBytes :: "'x platform_scheme \<Rightarrow> LocalMessage \<Rightarrow> bytes" where
  "canonicalMessageBytes P m = pf_jsonCompact P (canonicalMessage P m)"

definition recordIdForMessage :: "'x platform_scheme \<Rightarrow> qstring \<Rightarrow> qstring" where
  "recordIdForMessage P mid = keccakHex (pf_toUtf8 P (arg1 (Q ''message:%1'') mid))"

definition hasRequiredMetadata :: "LocalMessage \<Rightarrow> bool" where
  "hasRequiredMetadata m \<longleftrightarrow> lm_id m \<noteq> [] \<and> lm_senderUserId m \<noteq> [] \<and> lm_recipientUserId m \<noteq> []
     \<and> lm_wirePayloadJson m \<noteq> [] \<and> isValidDate (lm_createdAt m)"

definition digestForMessage :: "'x platform_scheme \<Rightarrow> LocalMessage \<Rightarrow> qstring result" where
  "digestForMessage P m =
     (if \<not> hasRequiredMetadata m
      then failure OperationFailed (Q ''Message metadata is incomplete for blockchain verification.'')
      else Inr (keccakHex (canonicalMessageBytes P m)))"

section \<open>Lemmas\<close>

definition isHexDigit :: "qchar \<Rightarrow> bool" where
  "isHexDigit c \<longleftrightarrow> (48 \<le> c \<and> c \<le> 57) \<or> (97 \<le> c \<and> c \<le> 102) \<or> (65 \<le> c \<and> c \<le> 70)"

text \<open>The shape \<open>0x\<close> and 64 hexadecimal digits.\<close>

definition isDigestText :: "qstring \<Rightarrow> bool" where
  "isDigestText s \<longleftrightarrow> take 2 s = Q ''0x'' \<and> length s = 66 \<and> list_all isHexDigit (drop 2 s)"

lemma hexDigits_ok: "list_all (\<lambda>n. isHexDigit (hexDigit n)) [0..<16]"
  by (simp add: hexDigit_def isHexDigit_def upt_rec)

lemma hexDigit_ok: "n < 16 \<Longrightarrow> isHexDigit (hexDigit n)"
  using hexDigits_ok by (simp add: list_all_iff)

lemma byte_nibbles: "unat (b :: byte) div 16 < 16" "unat (b :: byte) mod 16 < 16"
proof -
  have "unat b < 256" using unsigned_less [of b] by simp
  then show "unat b div 16 < 16" by simp
qed simp

lemma toHex_hex: "list_all isHexDigit (toHex bs)"
  by (induction bs) (auto simp: toHex_def hexDigit_ok byte_nibbles)

lemma length_toHex [simp]: "length (toHex bs) = 2 * length bs"
  by (induction bs) (auto simp: toHex_def)

lemma pieces_0x: "pieces (Q ''0x%1'') = [Plain 48, Plain 120, Marker 1 (Q ''%1'')]"
  by (simp add: Q_def markerAt_def startsWith_def isDigit_def digitValue_def)

lemma arg_0x: "arg1 (Q ''0x%1'') v = Q ''0x'' @ v"
  by (simp add: argN_def Let_def pieces_0x) (simp add: Q_def)

lemma keccakHex_shape: "isDigestText (keccakHex b)"
  by (simp add: keccakHex_def arg_0x isDigestText_def toHex_hex) (simp add: Q_def toHex_hex)

section \<open>Properties\<close>

text \<open>Which messages have a digest and what it looks like. A digest exists exactly
  for messages with an id, both user ids, a payload and a valid creation time; it is \<open>0x\<close> and
  64 hexadecimal digits; any other message is refused with an operation-failed error.\<close>

theorem digestForMessage_complete:
  "(if hasRequiredMetadata m then \<exists>d. digestForMessage P m = Inr d \<and> isDigestText d
    else \<exists>e. digestForMessage P m = Inl e \<and> ce_code e = OperationFailed)"
  by (simp add: digestForMessage_def keccakHex_shape)

text \<open>The hashed record identifies the message as sent. Two messages have the same
  canonical record exactly when they agree on id, both users, both devices, payload and the
  canonical creation time; whatever is local to this client (read, deletion and revocation
  marks, sender copies, cached anchors, consumed pre-keys, directions) is not hashed, and
  nothing of what was sent is left out.\<close>

theorem canonical_record_exact:
  "canonicalMessage P m = canonicalMessage P n \<longleftrightarrow>
     (lm_id m, lm_senderUserId m, lm_senderDeviceId m, lm_recipientUserId m, lm_recipientDeviceId m,
      lm_wirePayloadJson m, canonicalDateTime P m)
   = (lm_id n, lm_senderUserId n, lm_senderDeviceId n, lm_recipientUserId n, lm_recipientDeviceId n,
      lm_wirePayloadJson n, canonicalDateTime P n)"
  by (auto simp: canonicalMessage_def)

text \<open>The two spellings of UTC are one. A creation time the server sent with a final
  Z and the same time with the offset +00:00 give the same canonical message, hence the same
  digest.\<close>

theorem canonical_time_normalises_utc:
  "canonicalMessageBytes P (m\<lparr>lm_createdAtRaw := raw @ [charZ]\<rparr>)
   = canonicalMessageBytes P (m\<lparr>lm_createdAtRaw := raw @ utcOffset\<rparr>)"
proof -
  have "endsWith (raw @ [charZ]) [charZ]" by (simp add: endsWith_def startsWith_def)
  moreover have "\<not> endsWith (raw @ utcOffset) [charZ]"
    by (simp add: endsWith_def startsWith_def utcOffset_def charZ_def Q_def)
  moreover have "raw @ utcOffset \<noteq> []" by (simp add: utcOffset_def)
  ultimately show ?thesis
    by (simp add: canonicalMessageBytes_def canonicalMessage_def canonicalDateTime_def)
qed

end
