(* ===== verification/StoreJson.thy ===== *)
theory StoreJson
  imports Models
begin

text \<open>
  The JSON form of the client's saved data (the anonymous namespace of
  client/src/storage/JsonLocalStore.cpp, up to \<open>messageFromJson\<close>): one pair of functions per
  struct, and for each pair the exact sense in which reading gives back what was written.
\<close>

definition SessionKey :: qstring where [const_defs]: "SessionKey = Q ''session''"

section \<open>Conversions\<close>

definition userToJson :: "UserProfile \<Rightarrow> json_obj" where
  "userToJson u =
    [(StorageKeys_Id, JStr (up_id u)),
     (StorageKeys_Username, JStr (up_username u)),
     (StorageKeys_Email, JStr (up_email u))]"

definition userFromJson :: "json_obj \<Rightarrow> UserProfile" where
  "userFromJson j =
    \<lparr>up_id = toStr (jget j StorageKeys_Id),
     up_username = toStr (jget j StorageKeys_Username),
     up_email = toStr (jget j StorageKeys_Email)\<rparr>"

definition sessionToJson :: "AuthSession \<Rightarrow> json_obj" where
  "sessionToJson s =
    [(StorageKeys_CurrentUser, JObj (userToJson (as_user s))),
     (StorageKeys_AccessToken, JStr (ts_accessToken (as_tokens s))),
     (StorageKeys_RefreshToken, JStr (ts_refreshToken (as_tokens s)))]"

definition sessionFromJson :: "json_obj \<Rightarrow> AuthSession" where
  "sessionFromJson j =
    \<lparr>as_user = userFromJson (toObj (jget j StorageKeys_CurrentUser)),
     as_tokens =
       \<lparr>ts_accessToken = toStr (jget j StorageKeys_AccessToken),
        ts_refreshToken = toStr (jget j StorageKeys_RefreshToken),
        ts_tokenType = Q ''bearer'', ts_expiresIn = 0\<rparr>\<rparr>"

definition deviceToJson :: "DeviceKeyMaterial \<Rightarrow> json_obj" where
  "deviceToJson x =
    [(StorageKeys_DeviceId, JInt (dk_deviceId x)),
     (StorageKeys_RegistrationId, JInt (dk_registrationId x)),
     (StorageKeys_IdentityKey, JStr (dk_identityKey x)),
     (StorageKeys_IdentityPrivateKey, JStr (dk_identityPrivateKey x)),
     (StorageKeys_IdentitySigningKey, JStr (dk_identitySigningKey x)),
     (StorageKeys_IdentitySigningPrivateKey, JStr (dk_identitySigningPrivateKey x)),
     (StorageKeys_SignedPreKeyId, JInt (dk_signedPreKeyId x)),
     (StorageKeys_SignedPreKey, JStr (dk_signedPreKey x)),
     (StorageKeys_SignedPreKeyPrivate, JStr (dk_signedPreKeyPrivate x)),
     (StorageKeys_SignedPreKeySignature, JStr (dk_signedPreKeySignature x))]"

definition deviceFromJson :: "json_obj \<Rightarrow> DeviceKeyMaterial" where
  "deviceFromJson j =
    \<lparr>dk_deviceId = toInt0 (jget j StorageKeys_DeviceId),
     dk_registrationId = toInt0 (jget j StorageKeys_RegistrationId),
     dk_identityKey = toStr (jget j StorageKeys_IdentityKey),
     dk_identityPrivateKey = toStr (jget j StorageKeys_IdentityPrivateKey),
     dk_identitySigningKey = toStr (jget j StorageKeys_IdentitySigningKey),
     dk_identitySigningPrivateKey = toStr (jget j StorageKeys_IdentitySigningPrivateKey),
     dk_signedPreKeyId = toInt0 (jget j StorageKeys_SignedPreKeyId),
     dk_signedPreKey = toStr (jget j StorageKeys_SignedPreKey),
     dk_signedPreKeyPrivate = toStr (jget j StorageKeys_SignedPreKeyPrivate),
     dk_signedPreKeySignature = toStr (jget j StorageKeys_SignedPreKeySignature)\<rparr>"

definition preKeyToJson :: "OneTimePreKey \<Rightarrow> json_obj" where
  "preKeyToJson x =
    [(StorageKeys_DeviceId, JInt (otk_deviceId x)),
     (StorageKeys_PreKeyId, JInt (otk_preKeyId x)),
     (StorageKeys_PreKeyPublic, JStr (otk_publicKey x)),
     (StorageKeys_PreKeyPrivate, JStr (otk_privateKey x)),
     (Q ''uploaded'', JBool (otk_uploaded x))]"

definition preKeyFromJson :: "json_obj \<Rightarrow> OneTimePreKey" where
  "preKeyFromJson j =
    \<lparr>otk_deviceId = toInt0 (jget j StorageKeys_DeviceId),
     otk_preKeyId = toInt0 (jget j StorageKeys_PreKeyId),
     otk_publicKey = toStr (jget j StorageKeys_PreKeyPublic),
     otk_privateKey = toStr (jget j StorageKeys_PreKeyPrivate),
     otk_uploaded = toBoolD False (jget j (Q ''uploaded''))\<rparr>"

definition knownUserToJson :: "KnownUser \<Rightarrow> json_obj" where
  "knownUserToJson x =
    [(StorageKeys_UserId, JStr (ku_userId x)),
     (StorageKeys_Username, JStr (ku_username x)),
     (StorageKeys_DeviceId, JInt (ku_deviceId x))]"

definition knownUserFromJson :: "json_obj \<Rightarrow> KnownUser" where
  "knownUserFromJson j =
    \<lparr>ku_userId = toStr (jget j StorageKeys_UserId),
     ku_username = toStr (jget j StorageKeys_Username),
     ku_deviceId = toIntD DefaultDeviceId (jget j StorageKeys_DeviceId)\<rparr>"

definition trustPinToJson :: "'x platform_scheme \<Rightarrow> TrustPin \<Rightarrow> json_obj" where
  "trustPinToJson P x =
    [(StorageKeys_UserId, JStr (tp_userId x)),
     (StorageKeys_DeviceId, JInt (tp_deviceId x)),
     (StorageKeys_IdentityKey, JStr (tp_identityKey x)),
     (StorageKeys_FirstSeenAt, JStr (pf_dateToString P (tp_firstSeenAt x)))]"

definition trustPinFromJson :: "'x platform_scheme \<Rightarrow> json_obj \<Rightarrow> TrustPin" where
  "trustPinFromJson P j =
    \<lparr>tp_userId = toStr (jget j StorageKeys_UserId),
     tp_deviceId = toInt0 (jget j StorageKeys_DeviceId),
     tp_identityKey = toStr (jget j StorageKeys_IdentityKey),
     tp_firstSeenAt = pf_dateFromString P (toStr (jget j StorageKeys_FirstSeenAt))\<rparr>"

definition anchorToJson :: "BlockchainAnchor \<Rightarrow> json_obj" where
  "anchorToJson x =
    [(StorageKeys_AnchorId, JStr (ba_id x)),
     (StorageKeys_AnchorMessageId, JStr (ba_messageId x)),
     (StorageKeys_AnchorRecordId, JStr (ba_recordId x)),
     (StorageKeys_AnchorDigest, JStr (ba_digest x)),
     (StorageKeys_AnchorMerkleRoot, JStr (ba_merkleRoot x)),
     (StorageKeys_AnchorTransactionHash, JStr (ba_transactionHash x)),
     (StorageKeys_AnchorContractAddress, JStr (ba_contractAddress x)),
     (StorageKeys_AnchorChain, JStr (ba_chain x)),
     (StorageKeys_AnchorStatus, JStr (ba_status x)),
     (StorageKeys_AnchorAnchoredAt, JStr (ba_anchoredAt x))]"

definition anchorFromJson :: "json_obj \<Rightarrow> BlockchainAnchor" where
  "anchorFromJson j =
    \<lparr>ba_id = toStr (jget j StorageKeys_AnchorId),
     ba_messageId = toStr (jget j StorageKeys_AnchorMessageId),
     ba_recordId = toStr (jget j StorageKeys_AnchorRecordId),
     ba_digest = toStr (jget j StorageKeys_AnchorDigest),
     ba_merkleRoot = toStr (jget j StorageKeys_AnchorMerkleRoot),
     ba_transactionHash = toStr (jget j StorageKeys_AnchorTransactionHash),
     ba_contractAddress = toStr (jget j StorageKeys_AnchorContractAddress),
     ba_chain = toStr (jget j StorageKeys_AnchorChain),
     ba_status = toStr (jget j StorageKeys_AnchorStatus),
     ba_anchoredAt = toStr (jget j StorageKeys_AnchorAnchoredAt)\<rparr>"

definition messageToJson :: "'x platform_scheme \<Rightarrow> LocalMessage \<Rightarrow> json_obj" where
  "messageToJson P x =
    [(StorageKeys_Id, JStr (lm_id x)),
     (StorageKeys_SenderUserId, JStr (lm_senderUserId x)),
     (StorageKeys_SenderDeviceId, JInt (lm_senderDeviceId x)),
     (StorageKeys_RecipientUserId, JStr (lm_recipientUserId x)),
     (StorageKeys_RecipientDeviceId, JInt (lm_recipientDeviceId x)),
     (StorageKeys_WirePayloadJson, JStr (lm_wirePayloadJson x)),
     (StorageKeys_ConsumedOneTimePreKeyId,
        case lm_consumedOneTimePreKeyId x of Some k \<Rightarrow> JInt k | None \<Rightarrow> JNull),
     (StorageKeys_CreatedAt, JStr (pf_dateToString P (lm_createdAt x))),
     (StorageKeys_CreatedAtRaw, JStr (lm_createdAtRaw x)),
     (StorageKeys_AccessRevokedAt, JStr (lm_accessRevokedAt x)),
     (StorageKeys_SenderDeletedAt, JStr (lm_senderDeletedAt x)),
     (StorageKeys_RecipientDeletedAt, JStr (lm_recipientDeletedAt x)),
     (StorageKeys_DeletedAt, JStr (lm_deletedAt x)),
     (StorageKeys_ReadAt, JStr (lm_readAt x)),
     (StorageKeys_LocalSenderCopyWirePayloadJson, JStr (lm_localSenderCopyWirePayloadJson x)),
     (Q ''direction'', JStr (if lm_direction x = SentDir then Q ''sent'' else Q ''received'')),
     (StorageKeys_CachedAnchor, JObj (anchorToJson (lm_cachedAnchor x)))]"

definition messageFromJson :: "'x platform_scheme \<Rightarrow> json_obj \<Rightarrow> LocalMessage" where
  "messageFromJson P j =
    \<lparr>lm_id = toStr (jget j StorageKeys_Id),
     lm_senderUserId = toStr (jget j StorageKeys_SenderUserId),
     lm_senderDeviceId = toInt0 (jget j StorageKeys_SenderDeviceId),
     lm_recipientUserId = toStr (jget j StorageKeys_RecipientUserId),
     lm_recipientDeviceId = toInt0 (jget j StorageKeys_RecipientDeviceId),
     lm_wirePayloadJson = toStr (jget j StorageKeys_WirePayloadJson),
     lm_consumedOneTimePreKeyId =
       (if isDoubleJ (jget j StorageKeys_ConsumedOneTimePreKeyId)
        then Some (toInt0 (jget j StorageKeys_ConsumedOneTimePreKeyId)) else None),
     lm_createdAt = pf_dateFromString P (toStr (jget j StorageKeys_CreatedAt)),
     lm_accessRevokedAt = toStr (jget j StorageKeys_AccessRevokedAt),
     lm_senderDeletedAt = toStr (jget j StorageKeys_SenderDeletedAt),
     lm_recipientDeletedAt = toStr (jget j StorageKeys_RecipientDeletedAt),
     lm_deletedAt = toStr (jget j StorageKeys_DeletedAt),
     lm_readAt = toStr (jget j StorageKeys_ReadAt),
     lm_localSenderCopyWirePayloadJson =
       toStr (jget j StorageKeys_LocalSenderCopyWirePayloadJson),
     lm_direction =
       (if toStr (jget j (Q ''direction'')) = Q ''sent'' then SentDir else ReceivedDir),
     lm_createdAtRaw = toStr (jget j StorageKeys_CreatedAtRaw),
     lm_cachedAnchor = anchorFromJson (toObj (jget j StorageKeys_CachedAnchor))\<rparr>"

section \<open>Reading what was written\<close>

text \<open>
  Numbers come back when they fit a C++ int, which every int field of the structs does.
\<close>

definition deviceInts :: "DeviceKeyMaterial \<Rightarrow> bool" where
  "deviceInts x \<longleftrightarrow> inIntRange (dk_deviceId x) \<and> inIntRange (dk_registrationId x)
     \<and> inIntRange (dk_signedPreKeyId x)"

definition preKeyInts :: "OneTimePreKey \<Rightarrow> bool" where
  "preKeyInts x \<longleftrightarrow> inIntRange (otk_deviceId x) \<and> inIntRange (otk_preKeyId x)"

definition messageInts :: "LocalMessage \<Rightarrow> bool" where
  "messageInts x \<longleftrightarrow> inIntRange (lm_senderDeviceId x) \<and> inIntRange (lm_recipientDeviceId x)
     \<and> (case lm_consumedOneTimePreKeyId x of None \<Rightarrow> True | Some k \<Rightarrow> inIntRange k)"

text \<open>A session read back has the token type and lifetime the loader fills in.\<close>

definition storedSession :: "AuthSession \<Rightarrow> AuthSession" where
  "storedSession s = s\<lparr>as_tokens := (as_tokens s)\<lparr>ts_tokenType := Q ''bearer'', ts_expiresIn := 0\<rparr>\<rparr>"

lemma user_json [simp]: "userFromJson (userToJson u) = u"
  by (simp add: userFromJson_def userToJson_def const_defs)

lemma session_json [simp]: "sessionFromJson (sessionToJson s) = storedSession s"
  by (simp add: sessionFromJson_def sessionToJson_def storedSession_def const_defs)

lemma device_json [simp]: "deviceInts x \<Longrightarrow> deviceFromJson (deviceToJson x) = x"
  by (simp add: deviceFromJson_def deviceToJson_def deviceInts_def const_defs)

lemma preKey_json [simp]: "preKeyInts x \<Longrightarrow> preKeyFromJson (preKeyToJson x) = x"
  by (simp add: preKeyFromJson_def preKeyToJson_def preKeyInts_def const_defs)

lemma knownUser_json [simp]:
  "inIntRange (ku_deviceId x) \<Longrightarrow> knownUserFromJson (knownUserToJson x) = x"
  by (simp add: knownUserFromJson_def knownUserToJson_def const_defs)

lemma trustPin_json [simp]:
  "inIntRange (tp_deviceId x) \<Longrightarrow> date_roundtrip P (tp_firstSeenAt x)
   \<Longrightarrow> trustPinFromJson P (trustPinToJson P x) = x"
  by (simp add: trustPinFromJson_def trustPinToJson_def date_roundtrip_def const_defs)

lemma anchor_json [simp]: "anchorFromJson (anchorToJson x) = x"
  by (simp add: anchorFromJson_def anchorToJson_def const_defs)

lemma direction_json [simp]:
  "(if (if d = SentDir then Q ''sent'' else Q ''received'') = Q ''sent'' then SentDir else ReceivedDir) = d"
  by (cases d) simp_all

lemma message_json [simp]:
  "messageInts x \<Longrightarrow> date_roundtrip P (lm_createdAt x)
   \<Longrightarrow> messageFromJson P (messageToJson P x) = x"
  by (cases "lm_consumedOneTimePreKeyId x")
    (simp_all add: messageFromJson_def messageToJson_def date_roundtrip_def messageInts_def
      const_defs)

end
