(* ===== verification/Secrets.thy ===== *)
theory Secrets
  imports StoreJson
begin

text \<open>
  Protection of the secrets in the client's state file (the second half of the anonymous
  namespace of client/src/storage/JsonLocalStore.cpp and \<open>protectSecrets\<close>,
  \<open>unprotectSecrets\<close>): a secret string becomes an AES-256-GCM blob under a key that PBKDF2
  derives from the local passphrase, with the field's name as associated data.

  A computation that draws random bytes threads the position of the generator, a number;
  \<open>thenD\<close> sequences two of them and stops at the first failure, \<open>thenR\<close> does the same
  without a generator, \<open>mapD\<close> and \<open>mapR\<close> are the loops over a JSON array.
\<close>

section \<open>Sequencing\<close>

definition thenR :: "'e + 'a \<Rightarrow> ('a \<Rightarrow> 'e + 'b) \<Rightarrow> 'e + 'b" where
  "thenR r f = (case r of Inl e \<Rightarrow> Inl e | Inr x \<Rightarrow> f x)"

definition thenD :: "('e + 'a) \<times> nat \<Rightarrow> ('a \<Rightarrow> nat \<Rightarrow> ('e + 'b) \<times> nat) \<Rightarrow> ('e + 'b) \<times> nat" where
  "thenD r f = (case fst r of Inl e \<Rightarrow> (Inl e, snd r) | Inr x \<Rightarrow> f x (snd r))"

fun mapR :: "('a \<Rightarrow> 'e + 'b) \<Rightarrow> 'a list \<Rightarrow> 'e + 'b list" where
  "mapR f [] = Inr []"
| "mapR f (x # xs) = thenR (f x) (\<lambda>y. thenR (mapR f xs) (\<lambda>ys. Inr (y # ys)))"

fun mapD :: "('a \<Rightarrow> nat \<Rightarrow> ('e + 'b) \<times> nat) \<Rightarrow> 'a list \<Rightarrow> nat \<Rightarrow> ('e + 'b list) \<times> nat" where
  "mapD f [] c = (Inr [], c)"
| "mapD f (x # xs) c = thenD (f x c) (\<lambda>y c1. thenD (mapD f xs c1) (\<lambda>ys c2. (Inr (y # ys), c2)))"

lemma thenR_simps [simp]: "thenR (Inl e) f = Inl e" "thenR (Inr x) f = f x"
  by (simp_all add: thenR_def)

lemma thenD_simps [simp]: "thenD (Inl e, c) f = (Inl e, c)" "thenD (Inr x, c) f = f x c"
  by (simp_all add: thenD_def)

lemma thenR_Inr: "thenR r f = Inr y \<longleftrightarrow> (\<exists>x. r = Inr x \<and> f x = Inr y)"
  by (cases r) auto

lemma thenD_Inr: "thenD r f = (Inr y, c) \<longleftrightarrow> (\<exists>x c1. r = (Inr x, c1) \<and> f x c1 = (Inr y, c))"
  by (cases r; cases "fst r") auto

lemma mapD_mapR:
  assumes "mapD f xs c = (Inr ys, c')"
    and "\<And>x d y d'. x \<in> set xs \<Longrightarrow> f x d = (Inr y, d') \<Longrightarrow> \<exists>z. g y = Inr z \<and> R x z"
  shows "\<exists>zs. mapR g ys = Inr zs \<and> list_all2 R xs zs"
  using assms
proof (induction xs arbitrary: c ys)
  case Nil
  then show ?case by simp
next
  case (Cons x xs)
  from Cons.prems(1) obtain y c1 ys' where
    f: "f x c = (Inr y, c1)" and m: "mapD f xs c1 = (Inr ys', c')" and ys: "ys = y # ys'"
    by (auto simp: thenD_Inr)
  from Cons.prems(2) [OF _ f] obtain z where "g y = Inr z" "R x z" by auto
  moreover from Cons.IH [OF m] Cons.prems(2) obtain zs where
    "mapR g ys' = Inr zs" "list_all2 R xs zs" by force
  ultimately show ?case using ys by auto
qed

lemma mapD_all:
  assumes "mapD f xs c = (Inr ys, c')"
    and "\<And>x d y d'. f x d = (Inr y, d') \<Longrightarrow> P y"
  shows "list_all P ys"
  using assms(1)
proof (induction xs arbitrary: c ys)
  case (Cons x xs)
  then show ?case by (auto simp: thenD_Inr dest: assms(2))
qed simp

section \<open>The blob of one secret\<close>

definition SecretBlobVersion :: int where "SecretBlobVersion = 1"
definition SecretPbkdf2Iterations :: nat where "SecretPbkdf2Iterations = 210000"
definition SecretSaltBytes :: nat where "SecretSaltBytes = 16"
definition SecretIvBytes :: nat where "SecretIvBytes = 12"
definition SecretKeyBytes :: nat where "SecretKeyBytes = 32"

definition SecretSaltKey :: qstring where [const_defs]: "SecretSaltKey = Q ''secretSalt''"
definition SecretVersionKey :: qstring where [const_defs]: "SecretVersionKey = Q ''version''"
definition SecretKdfKey :: qstring where [const_defs]: "SecretKdfKey = Q ''kdf''"
definition SecretIterationsKey :: qstring where [const_defs]: "SecretIterationsKey = Q ''iterations''"
definition SecretIvKey :: qstring where [const_defs]: "SecretIvKey = Q ''iv''"
definition SecretAuthTagKey :: qstring where [const_defs]: "SecretAuthTagKey = Q ''authTag''"
definition SecretCiphertextKey :: qstring where [const_defs]: "SecretCiphertextKey = Q ''ciphertext''"
definition SecretKdfName :: qstring where "SecretKdfName = Q ''PBKDF2-HMAC-SHA256''"

definition base64ToBytes :: "'x platform_scheme \<Rightarrow> qstring \<Rightarrow> bytes" where
  "base64ToBytes P v = pf_fromBase64 P v"

definition bytesToBase64 :: "'x platform_scheme \<Rightarrow> bytes \<Rightarrow> qstring" where
  "bytesToBase64 P v = pf_toBase64 P v"

definition randomBytes :: "'x env_scheme \<Rightarrow> nat \<Rightarrow> nat \<Rightarrow> bytes \<times> nat" where
  "randomBytes E n c =
     (if pf_hasOpenSsl E
      then (case env_random E c n of Some b \<Rightarrow> b | None \<Rightarrow> [], Suc c)
      else ([], c))"

definition deriveStorageKey :: "'x platform_scheme \<Rightarrow> qstring \<Rightarrow> bytes \<Rightarrow> bytes option" where
  "deriveStorageKey P passphrase salt =
     ssl_pbkdf2 P (pf_toUtf8 P passphrase) salt SecretPbkdf2Iterations SecretKeyBytes"

definition secretBlob :: "'x platform_scheme \<Rightarrow> bytes \<Rightarrow> bytes \<Rightarrow> bytes \<Rightarrow> json_obj" where
  "secretBlob P iv tag ciphertext =
    [(SecretVersionKey, JInt SecretBlobVersion),
     (SecretKdfKey, JStr SecretKdfName),
     (SecretIterationsKey, JInt (int SecretPbkdf2Iterations)),
     (SecretIvKey, JStr (bytesToBase64 P iv)),
     (SecretAuthTagKey, JStr (bytesToBase64 P tag)),
     (SecretCiphertextKey, JStr (bytesToBase64 P ciphertext))]"

definition encryptSecretString ::
  "'x env_scheme \<Rightarrow> qstring \<Rightarrow> qstring \<Rightarrow> qstring \<Rightarrow> bytes \<Rightarrow> nat \<Rightarrow> json_obj option \<times> nat" where
  "encryptSecretString E v fieldName passphrase salt c =
     (case deriveStorageKey E passphrase salt of
        None \<Rightarrow> (None, c)
      | Some key \<Rightarrow>
          (let (iv, c1) = randomBytes E SecretIvBytes c
           in if length iv \<noteq> SecretIvBytes then (None, c1)
              else case ssl_gcmEncrypt E key iv (pf_toUtf8 E fieldName) (pf_toUtf8 E v) of
                     None \<Rightarrow> (None, c1)
                   | Some (ciphertext, tag) \<Rightarrow> (Some (secretBlob E iv tag ciphertext), c1)))"

definition decryptSecretString ::
  "'x platform_scheme \<Rightarrow> json_obj \<Rightarrow> qstring \<Rightarrow> qstring \<Rightarrow> bytes \<Rightarrow> qstring option" where
  "decryptSecretString P blob fieldName passphrase salt =
     (if toInt0 (jget blob SecretVersionKey) \<noteq> SecretBlobVersion then None
      else case deriveStorageKey P passphrase salt of
        None \<Rightarrow> None
      | Some key \<Rightarrow>
          (let iv = base64ToBytes P (toStr (jget blob SecretIvKey));
               tag = base64ToBytes P (toStr (jget blob SecretAuthTagKey));
               ciphertext = base64ToBytes P (toStr (jget blob SecretCiphertextKey))
           in map_option (pf_fromUtf8 P)
                (ssl_gcmDecrypt P key iv (pf_toUtf8 P fieldName) ciphertext tag)))"

section \<open>Secret fields of an object\<close>

definition protectString ::
  "'x env_scheme \<Rightarrow> qstring \<Rightarrow> qstring \<Rightarrow> bytes \<Rightarrow> json_obj \<Rightarrow> nat \<Rightarrow> json_obj result \<times> nat" where
  "protectString E key passphrase salt ob c =
     (if \<not> pf_hasOpenSsl E then (failure StorageError AppText_NativeCryptoUnavailable, c)
      else if isNullOrUndefined (jget ob key) \<or> isObjectJ (jget ob key) then (Inr ob, c)
      else case encryptSecretString E (toStr (jget ob key)) key passphrase salt c of
             (None, c1) \<Rightarrow>
               (failure StorageError (arg1 (Q ''Could not encrypt local secret field %1.'') key), c1)
           | (Some blob, c1) \<Rightarrow> (Inr (jinsert key (JObj blob) ob), c1))"

definition unprotectString ::
  "'x platform_scheme \<Rightarrow> qstring \<Rightarrow> qstring \<Rightarrow> bytes \<Rightarrow> json_obj \<Rightarrow> json_obj result" where
  "unprotectString P key passphrase salt ob =
     (if \<not> pf_hasOpenSsl P then failure StorageError AppText_NativeCryptoUnavailable
      else if isNullOrUndefined (jget ob key) \<or> \<not> isObjectJ (jget ob key) then Inr ob
      else case decryptSecretString P (toObj (jget ob key)) key passphrase salt of
             None \<Rightarrow>
               failure StorageError (arg1 (Q ''Could not decrypt local secret field %1.'') key)
           | Some plaintext \<Rightarrow> Inr (jinsert key (JStr plaintext) ob))"

fun protectStrings ::
  "'x env_scheme \<Rightarrow> qstring list \<Rightarrow> qstring \<Rightarrow> bytes \<Rightarrow> json_obj \<Rightarrow> nat \<Rightarrow> json_obj result \<times> nat" where
  "protectStrings E [] passphrase salt ob c = (Inr ob, c)"
| "protectStrings E (key # keys) passphrase salt ob c =
     thenD (protectString E key passphrase salt ob c) (protectStrings E keys passphrase salt)"

fun unprotectStrings ::
  "'x platform_scheme \<Rightarrow> qstring list \<Rightarrow> qstring \<Rightarrow> bytes \<Rightarrow> json_obj \<Rightarrow> json_obj result" where
  "unprotectStrings P [] passphrase salt ob = Inr ob"
| "unprotectStrings P (key # keys) passphrase salt ob =
     thenR (unprotectString P key passphrase salt ob) (unprotectStrings P keys passphrase salt)"

section \<open>Secret fields of the state file\<close>

definition sessionSecrets :: "qstring list" where
  "sessionSecrets = [StorageKeys_AccessToken, StorageKeys_RefreshToken]"

definition deviceSecrets :: "qstring list" where
  "deviceSecrets = [StorageKeys_IdentityPrivateKey, StorageKeys_IdentitySigningPrivateKey,
     StorageKeys_SignedPreKeyPrivate]"

definition protectElements ::
  "'x env_scheme \<Rightarrow> qstring list \<Rightarrow> qstring \<Rightarrow> bytes \<Rightarrow> qstring \<Rightarrow> json_obj \<Rightarrow> nat \<Rightarrow> json_obj result \<times> nat" where
  "protectElements E keys passphrase salt arrayKey root c =
     thenD (mapD (\<lambda>v c. thenD (protectStrings E keys passphrase salt (toObj (Some v)) c)
                          (\<lambda>ob c. (Inr (JObj ob), c)))
             (toArr (jget root arrayKey)) c)
       (\<lambda>vs c. (Inr (jinsert arrayKey (JArr vs) root), c))"

definition unprotectElements ::
  "'x platform_scheme \<Rightarrow> qstring list \<Rightarrow> qstring \<Rightarrow> bytes \<Rightarrow> qstring \<Rightarrow> json_obj \<Rightarrow> json_obj result" where
  "unprotectElements P keys passphrase salt arrayKey root =
     thenR (mapR (\<lambda>v. thenR (unprotectStrings P keys passphrase salt (toObj (Some v)))
                        (\<lambda>ob. Inr (JObj ob)))
             (toArr (jget root arrayKey)))
       (\<lambda>vs. Inr (jinsert arrayKey (JArr vs) root))"

definition protectSession ::
  "'x env_scheme \<Rightarrow> qstring \<Rightarrow> bytes \<Rightarrow> json_obj \<Rightarrow> nat \<Rightarrow> json_obj result \<times> nat" where
  "protectSession E passphrase salt root c =
     (if jcontains root SessionKey
      then thenD (protectStrings E sessionSecrets passphrase salt (toObj (jget root SessionKey)) c)
             (\<lambda>session c. (Inr (jinsert SessionKey (JObj session) root), c))
      else (Inr root, c))"

definition unprotectSession ::
  "'x platform_scheme \<Rightarrow> qstring \<Rightarrow> bytes \<Rightarrow> json_obj \<Rightarrow> json_obj result" where
  "unprotectSession P passphrase salt root =
     (if jcontains root SessionKey
      then thenR (unprotectStrings P sessionSecrets passphrase salt (toObj (jget root SessionKey)))
             (\<lambda>session. Inr (jinsert SessionKey (JObj session) root))
      else Inr root)"

text \<open>\<open>secretSalt\<close> is the member \<open>m_secretSalt\<close>; an empty one is drawn for this save.\<close>

definition protectSecrets ::
  "'x env_scheme \<Rightarrow> qstring \<Rightarrow> bytes \<Rightarrow> json_obj \<Rightarrow> nat \<Rightarrow> json_obj result \<times> nat" where
  "protectSecrets E passphrase secretSalt root c =
     (if passphrase = []
      then (failure StorageError (Q ''A local state passphrase is required before saving real-mode secrets.''), c)
      else let (salt, c0) = (if secretSalt = [] then randomBytes E SecretSaltBytes c else (secretSalt, c))
        in if length salt \<noteq> SecretSaltBytes
           then (failure StorageError (Q ''Could not create local state encryption salt.''), c0)
           else thenD (protectSession E passphrase salt
                         (jinsert SecretSaltKey (JStr (bytesToBase64 E salt)) root) c0)
               (\<lambda>r1 c1. thenD (protectElements E deviceSecrets passphrase salt StorageKeys_DeviceKeys r1 c1)
               (\<lambda>r2 c2. thenD (protectElements E [StorageKeys_PreKeyPrivate] passphrase salt
                                 StorageKeys_OneTimePreKeys r2 c2)
               (\<lambda>r3 c3. protectElements E [StorageKeys_IdentityKey] passphrase salt
                           StorageKeys_TrustPins r3 c3))))"

definition unprotectSecrets ::
  "'x platform_scheme \<Rightarrow> qstring \<Rightarrow> bytes \<Rightarrow> json_obj \<Rightarrow> json_obj result" where
  "unprotectSecrets P passphrase secretSalt root =
     (if passphrase = []
      then failure StorageError (Q ''A local state passphrase is required before loading real-mode secrets.'')
      else if length secretSalt \<noteq> SecretSaltBytes
      then failure StorageError (Q ''Local state encryption salt is invalid.'')
      else thenR (unprotectSession P passphrase secretSalt root)
          (\<lambda>r1. thenR (unprotectElements P deviceSecrets passphrase secretSalt StorageKeys_DeviceKeys r1)
          (\<lambda>r2. thenR (unprotectElements P [StorageKeys_PreKeyPrivate] passphrase secretSalt
                          StorageKeys_OneTimePreKeys r2)
          (\<lambda>r3. unprotectElements P [StorageKeys_IdentityKey] passphrase secretSalt
                   StorageKeys_TrustPins r3))))"

section \<open>Reading back what was protected\<close>

text \<open>The law of AES-GCM the round trip rests on.\<close>

definition gcm_roundtrip :: "'x platform_scheme \<Rightarrow> bool" where
  "gcm_roundtrip P \<longleftrightarrow>
     (\<forall>key iv aad pt ct tag. ssl_gcmEncrypt P key iv aad pt = Some (ct, tag)
        \<longrightarrow> ssl_gcmDecrypt P key iv aad ct tag = Some pt)"

definition secret_laws :: "'x platform_scheme \<Rightarrow> bool" where
  "secret_laws P \<longleftrightarrow> gcm_roundtrip P \<and> base64_roundtrip P"

lemma encrypt_decrypt:
  assumes "encryptSecretString E v f p s c = (Some blob, c')"
    and "secret_laws E" "utf8_roundtrip E v"
  shows "decryptSecretString E blob f p s = Some v"
  using assms
  by (auto simp: encryptSecretString_def decryptSecretString_def Let_def case_prod_beta'
      secret_laws_def gcm_roundtrip_def base64_roundtrip_def utf8_roundtrip_def secretBlob_def
      base64ToBytes_def bytesToBase64_def const_defs SecretBlobVersion_def inIntRange_def
      intMin_def intMax_def split: option.splits if_splits)

text \<open>\<open>hidden\<close>: the named fields hold blobs that decrypt to what they were; the rest is the same.\<close>

definition hidden :: "'x platform_scheme \<Rightarrow> qstring \<Rightarrow> bytes \<Rightarrow> qstring list \<Rightarrow> json_obj \<Rightarrow> json_obj \<Rightarrow> bool" where
  "hidden P p s keys ob ob' \<longleftrightarrow>
     (\<forall>k. if k \<in> set keys
          then \<exists>v b. jget ob k = Some (JStr v) \<and> jget ob' k = Some (JObj b)
                 \<and> decryptSecretString P b k p s = Some v
          else jget ob' k = jget ob k)"

definition textSecrets :: "'x platform_scheme \<Rightarrow> qstring list \<Rightarrow> json_obj \<Rightarrow> bool" where
  "textSecrets P keys ob \<longleftrightarrow>
     (\<forall>k \<in> set keys. \<exists>v. jget ob k = Some (JStr v) \<and> utf8_roundtrip P v)"

lemma protectString_text:
  assumes "protectString E k p s ob c = (Inr ob', c')" "jget ob k = Some (JStr v)"
  obtains blob where "encryptSecretString E v k p s c = (Some blob, c')"
    "ob' = jinsert k (JObj blob) ob"
  using assms by (auto simp: protectString_def split: if_splits prod.splits option.splits)

lemma protectStrings_hidden:
  assumes "secret_laws E" "distinct keys" "textSecrets E keys ob"
    and "protectStrings E keys p s ob c = (Inr ob', c')"
  shows "hidden E p s keys ob ob'"
  using assms(2-4)
proof (induction keys arbitrary: ob c)
  case Nil
  then show ?case by (simp add: hidden_def)
next
  case (Cons k ks)
  from Cons.prems(3) obtain ob1 c1 where
    1: "protectString E k p s ob c = (Inr ob1, c1)" and
    2: "protectStrings E ks p s ob1 c1 = (Inr ob', c')"
    by (auto simp: thenD_Inr)
  from Cons.prems(2) obtain v where v: "jget ob k = Some (JStr v)" "utf8_roundtrip E v"
    by (auto simp: textSecrets_def)
  from 1 v(1) obtain blob where b: "encryptSecretString E v k p s c = (Some blob, c1)"
    and ob1: "ob1 = jinsert k (JObj blob) ob" by (rule protectString_text)
  have k: "k \<notin> set ks" using Cons.prems(1) by simp
  have "textSecrets E ks ob1"
    using Cons.prems(2) k by (auto simp: textSecrets_def ob1 jget_jinsert)
  then have "hidden E p s ks ob1 ob'" using Cons.IH [OF _ _ 2] Cons.prems(1) by simp
  then show ?case
    using k v(1) encrypt_decrypt [OF b assms(1) v(2)]
    by (auto simp: hidden_def ob1 jget_jinsert split: if_splits)
qed

lemma unprotectStrings_hidden:
  assumes "pf_hasOpenSsl P" "distinct keys" "hidden P p s keys ob ob'"
  shows "\<exists>ob''. unprotectStrings P keys p s ob' = Inr ob'' \<and> jget ob'' = jget ob"
  using assms(2,3)
proof (induction keys arbitrary: ob')
  case Nil
  then show ?case by (auto simp: hidden_def)
next
  case (Cons k ks)
  have k: "k \<notin> set ks" using Cons.prems(1) by simp
  from Cons.prems(2) [unfolded hidden_def, rule_format, of k] obtain v b where
    vb: "jget ob k = Some (JStr v)" "jget ob' k = Some (JObj b)"
      "decryptSecretString P b k p s = Some v" by auto
  then have 1: "unprotectString P k p s ob' = Inr (jinsert k (JStr v) ob')"
    using assms(1) by (simp add: unprotectString_def)
  have "hidden P p s ks ob (jinsert k (JStr v) ob')"
    using Cons.prems(2) k vb(1) by (auto simp: hidden_def jget_jinsert split: if_splits)
  with Cons.IH [OF _ this] Cons.prems(1) 1 show ?case by simp
qed

lemma protectElements_hidden:
  assumes "secret_laws E" "distinct keys"
    and "\<And>v. v \<in> set (toArr (jget root ak)) \<Longrightarrow> textSecrets E keys (toObj (Some v))"
    and "protectElements E keys p s ak root c = (Inr r, c')"
  shows "\<exists>vs. r = jinsert ak (JArr vs) root
           \<and> (\<exists>zs. mapR (\<lambda>v. thenR (unprotectStrings E keys p s (toObj (Some v))) (\<lambda>ob. Inr (JObj ob))) vs = Inr zs
                \<and> list_all2 (\<lambda>x z. jget (toObj (Some z)) = jget (toObj (Some x))) (toArr (jget root ak)) zs)"
proof -
  from assms(4) obtain vs where
    m: "mapD (\<lambda>v c. thenD (protectStrings E keys p s (toObj (Some v)) c) (\<lambda>ob c. (Inr (JObj ob), c)))
          (toArr (jget root ak)) c = (Inr vs, c')" and r: "r = jinsert ak (JArr vs) root"
    by (auto simp: protectElements_def thenD_Inr)
  have "\<exists>zs. mapR (\<lambda>v. thenR (unprotectStrings E keys p s (toObj (Some v))) (\<lambda>ob. Inr (JObj ob))) vs = Inr zs
      \<and> list_all2 (\<lambda>x z. jget (toObj (Some z)) = jget (toObj (Some x))) (toArr (jget root ak)) zs"
  proof (rule mapD_mapR [OF m])
    fix x d y d'
    assume x: "x \<in> set (toArr (jget root ak))"
      and f: "thenD (protectStrings E keys p s (toObj (Some x)) d) (\<lambda>ob c. (Inr (JObj ob), c)) = (Inr y, d')"
    from f obtain ob where y: "y = JObj ob"
      and ps: "protectStrings E keys p s (toObj (Some x)) d = (Inr ob, d')" by (auto simp: thenD_Inr)
    have "hidden E p s keys (toObj (Some x)) ob"
      by (rule protectStrings_hidden [OF assms(1,2) assms(3) [OF x] ps])
    moreover have "pf_hasOpenSsl E \<or> keys = []"
      using ps by (cases keys) (auto simp: protectString_def thenD_Inr split: if_splits)
    ultimately obtain ob'' where "unprotectStrings E keys p s ob = Inr ob''" "jget ob'' = jget (toObj (Some x))"
      using unprotectStrings_hidden [OF _ assms(2)] by (metis ext hidden_def list.set(1) empty_iff unprotectStrings.simps(1))
    then show "\<exists>z. thenR (unprotectStrings E keys p s (toObj (Some y))) (\<lambda>ob. Inr (JObj ob)) = Inr z
        \<and> jget (toObj (Some z)) = jget (toObj (Some x))" by (auto simp: y)
  qed
  with r show ?thesis by blast
qed

lemma unprotectElements_Inr:
  assumes "jget r ak = Some (JArr vs)"
    and "mapR (\<lambda>v. thenR (unprotectStrings P keys p s (toObj (Some v))) (\<lambda>ob. Inr (JObj ob))) vs = Inr zs"
  shows "unprotectElements P keys p s ak r = Inr (jinsert ak (JArr zs) r)"
  using assms by (simp add: unprotectElements_def)

lemma protectSession_hidden:
  assumes "secret_laws E" "jcontains root SessionKey \<longrightarrow> textSecrets E sessionSecrets (toObj (jget root SessionKey))"
    and "protectSession E p s root c = (Inr r, c')"
  shows "(\<not> jcontains root SessionKey \<and> r = root) \<or>
     (jcontains root SessionKey \<and> (\<exists>ob ob'. r = jinsert SessionKey (JObj ob) root
        \<and> unprotectStrings E sessionSecrets p s ob = Inr ob'
        \<and> jget ob' = jget (toObj (jget root SessionKey))))"
proof (cases "jcontains root SessionKey")
  case True
  with assms(3) obtain ob where r: "r = jinsert SessionKey (JObj ob) root"
    and ps: "protectStrings E sessionSecrets p s (toObj (jget root SessionKey)) c = (Inr ob, c')"
    by (auto simp: protectSession_def thenD_Inr)
  have d: "distinct sessionSecrets" by (simp add: sessionSecrets_def const_defs)
  have "pf_hasOpenSsl E"
    using ps by (auto simp: sessionSecrets_def protectString_def thenD_Inr split: if_splits)
  with unprotectStrings_hidden [OF _ d protectStrings_hidden [OF assms(1) d assms(2) [rule_format, OF True] ps]]
  show ?thesis using True r by blast
qed (use assms(3) in \<open>simp add: protectSession_def\<close>)

text \<open>The state file whose secrets are texts, and what reading it back preserves.\<close>

definition secretTexts :: "'x platform_scheme \<Rightarrow> json_obj \<Rightarrow> bool" where
  "secretTexts P root \<longleftrightarrow>
     (jcontains root SessionKey \<longrightarrow> textSecrets P sessionSecrets (toObj (jget root SessionKey)))
   \<and> (\<forall>v \<in> set (toArr (jget root StorageKeys_DeviceKeys)). textSecrets P deviceSecrets (toObj (Some v)))
   \<and> (\<forall>v \<in> set (toArr (jget root StorageKeys_OneTimePreKeys)). textSecrets P [StorageKeys_PreKeyPrivate] (toObj (Some v)))
   \<and> (\<forall>v \<in> set (toArr (jget root StorageKeys_TrustPins)). textSecrets P [StorageKeys_IdentityKey] (toObj (Some v)))"

definition sameObjects :: "json list \<Rightarrow> json list \<Rightarrow> bool" where
  "sameObjects = list_all2 (\<lambda>x z. jget (toObj (Some z)) = jget (toObj (Some x)))"

definition protectedArrays :: "qstring list" where
  "protectedArrays = [StorageKeys_DeviceKeys, StorageKeys_OneTimePreKeys, StorageKeys_TrustPins]"

definition restores :: "json_obj \<Rightarrow> json_obj \<Rightarrow> bool" where
  "restores root z \<longleftrightarrow>
     (\<forall>k. k \<notin> set (SecretSaltKey # SessionKey # protectedArrays) \<longrightarrow> jget z k = jget root k)
   \<and> jcontains z SessionKey = jcontains root SessionKey
   \<and> jget (toObj (jget z SessionKey)) = jget (toObj (jget root SessionKey))
   \<and> (\<forall>k \<in> set protectedArrays. sameObjects (toArr (jget root k)) (toArr (jget z k)))"

lemma root_keys_neq [simp]:
  "SecretSaltKey \<noteq> SessionKey" "SecretSaltKey \<noteq> StorageKeys_DeviceKeys" "SecretSaltKey \<noteq> StorageKeys_OneTimePreKeys" "SecretSaltKey \<noteq> StorageKeys_TrustPins" "SecretSaltKey \<noteq> StorageKeys_KnownUsers" "SecretSaltKey \<noteq> StorageKeys_Messages" "SecretSaltKey \<noteq> StorageKeys_RootVersion"
  "SessionKey \<noteq> SecretSaltKey" "SessionKey \<noteq> StorageKeys_DeviceKeys" "SessionKey \<noteq> StorageKeys_OneTimePreKeys" "SessionKey \<noteq> StorageKeys_TrustPins" "SessionKey \<noteq> StorageKeys_KnownUsers" "SessionKey \<noteq> StorageKeys_Messages" "SessionKey \<noteq> StorageKeys_RootVersion"
  "StorageKeys_DeviceKeys \<noteq> SecretSaltKey" "StorageKeys_DeviceKeys \<noteq> SessionKey" "StorageKeys_DeviceKeys \<noteq> StorageKeys_OneTimePreKeys" "StorageKeys_DeviceKeys \<noteq> StorageKeys_TrustPins" "StorageKeys_DeviceKeys \<noteq> StorageKeys_KnownUsers" "StorageKeys_DeviceKeys \<noteq> StorageKeys_Messages" "StorageKeys_DeviceKeys \<noteq> StorageKeys_RootVersion"
  "StorageKeys_OneTimePreKeys \<noteq> SecretSaltKey" "StorageKeys_OneTimePreKeys \<noteq> SessionKey" "StorageKeys_OneTimePreKeys \<noteq> StorageKeys_DeviceKeys" "StorageKeys_OneTimePreKeys \<noteq> StorageKeys_TrustPins" "StorageKeys_OneTimePreKeys \<noteq> StorageKeys_KnownUsers" "StorageKeys_OneTimePreKeys \<noteq> StorageKeys_Messages" "StorageKeys_OneTimePreKeys \<noteq> StorageKeys_RootVersion"
  "StorageKeys_TrustPins \<noteq> SecretSaltKey" "StorageKeys_TrustPins \<noteq> SessionKey" "StorageKeys_TrustPins \<noteq> StorageKeys_DeviceKeys" "StorageKeys_TrustPins \<noteq> StorageKeys_OneTimePreKeys" "StorageKeys_TrustPins \<noteq> StorageKeys_KnownUsers" "StorageKeys_TrustPins \<noteq> StorageKeys_Messages" "StorageKeys_TrustPins \<noteq> StorageKeys_RootVersion"
  "StorageKeys_KnownUsers \<noteq> SecretSaltKey" "StorageKeys_KnownUsers \<noteq> SessionKey" "StorageKeys_KnownUsers \<noteq> StorageKeys_DeviceKeys" "StorageKeys_KnownUsers \<noteq> StorageKeys_OneTimePreKeys" "StorageKeys_KnownUsers \<noteq> StorageKeys_TrustPins" "StorageKeys_KnownUsers \<noteq> StorageKeys_Messages" "StorageKeys_KnownUsers \<noteq> StorageKeys_RootVersion"
  "StorageKeys_Messages \<noteq> SecretSaltKey" "StorageKeys_Messages \<noteq> SessionKey" "StorageKeys_Messages \<noteq> StorageKeys_DeviceKeys" "StorageKeys_Messages \<noteq> StorageKeys_OneTimePreKeys" "StorageKeys_Messages \<noteq> StorageKeys_TrustPins" "StorageKeys_Messages \<noteq> StorageKeys_KnownUsers" "StorageKeys_Messages \<noteq> StorageKeys_RootVersion"
  "StorageKeys_RootVersion \<noteq> SecretSaltKey" "StorageKeys_RootVersion \<noteq> SessionKey" "StorageKeys_RootVersion \<noteq> StorageKeys_DeviceKeys" "StorageKeys_RootVersion \<noteq> StorageKeys_OneTimePreKeys" "StorageKeys_RootVersion \<noteq> StorageKeys_TrustPins" "StorageKeys_RootVersion \<noteq> StorageKeys_KnownUsers" "StorageKeys_RootVersion \<noteq> StorageKeys_Messages"
  by (simp_all add: const_defs)

lemma protectSecrets_unprotect:
  assumes laws: "secret_laws E" and texts: "secretTexts E root" and salt: "jget root SecretSaltKey = None"
    and p: "protectSecrets E p salt0 root c = (Inr r, c')"
  shows "\<exists>salt z. jget r SecretSaltKey = Some (JStr (bytesToBase64 E salt)) \<and> length salt = SecretSaltBytes
     \<and> (salt0 \<noteq> [] \<longrightarrow> salt = salt0) \<and> unprotectSecrets E p salt r = Inr z \<and> restores root z"
proof -
  define s where "s = fst (if salt0 = [] then randomBytes E SecretSaltBytes c else (salt0, c))"
  define c0 where "c0 = snd (if salt0 = [] then randomBytes E SecretSaltBytes c else (salt0, c))"
  have sc: "(if salt0 = [] then randomBytes E SecretSaltBytes c else (salt0, c)) = (s, c0)"
    by (simp add: s_def c0_def)
  define root0 where "root0 = jinsert SecretSaltKey (JStr (bytesToBase64 E s)) root"
  from p have pne: "p \<noteq> []" by (auto simp: protectSecrets_def)
  from p have len: "length s = SecretSaltBytes"
    by (auto simp: protectSecrets_def Let_def sc simp del: if_split split: prod.splits if_split_asm)
  from p obtain r1 c1 r2 c2 r3 c3 where
    1: "protectSession E p s root0 c0 = (Inr r1, c1)" and
    2: "protectElements E deviceSecrets p s StorageKeys_DeviceKeys r1 c1 = (Inr r2, c2)" and
    3: "protectElements E [StorageKeys_PreKeyPrivate] p s StorageKeys_OneTimePreKeys r2 c2 = (Inr r3, c3)" and
    4: "protectElements E [StorageKeys_IdentityKey] p s StorageKeys_TrustPins r3 c3 = (Inr r, c')"
    by (simp only: protectSecrets_def Let_def sc pne len prod.case simp_thms if_False root0_def thenD_Inr) blast
  have texts1: "jcontains root0 SessionKey \<longrightarrow> textSecrets E sessionSecrets (toObj (jget root0 SessionKey))"
    using texts by (simp add: secretTexts_def root0_def jcontains_def jget_jinsert)
  note S = protectSession_hidden [OF laws texts1 1]
  then have r1: "k \<noteq> SessionKey \<Longrightarrow> jget r1 k = jget root0 k" for k
    by (auto simp: jget_jinsert)
  have d: "distinct deviceSecrets" by (simp add: deviceSecrets_def const_defs)
  from protectElements_hidden [OF laws d _ 2] obtain v2 z2 where
    r2: "r2 = jinsert StorageKeys_DeviceKeys (JArr v2) r1" and
    m2: "mapR (\<lambda>v. thenR (unprotectStrings E deviceSecrets p s (toObj (Some v))) (\<lambda>ob. Inr (JObj ob))) v2 = Inr z2" and
    e2: "sameObjects (toArr (jget root StorageKeys_DeviceKeys)) z2"
    using texts by (auto simp: r1 root0_def jget_jinsert secretTexts_def sameObjects_def)
  from protectElements_hidden [OF laws _ _ 3] obtain v3 z3 where
    r3: "r3 = jinsert StorageKeys_OneTimePreKeys (JArr v3) r2" and
    m3: "mapR (\<lambda>v. thenR (unprotectStrings E [StorageKeys_PreKeyPrivate] p s (toObj (Some v))) (\<lambda>ob. Inr (JObj ob))) v3 = Inr z3" and
    e3: "sameObjects (toArr (jget root StorageKeys_OneTimePreKeys)) z3"
    using texts by (auto simp: r2 r1 root0_def jget_jinsert secretTexts_def sameObjects_def)
  from protectElements_hidden [OF laws _ _ 4] obtain v4 z4 where
    r4: "r = jinsert StorageKeys_TrustPins (JArr v4) r3" and
    m4: "mapR (\<lambda>v. thenR (unprotectStrings E [StorageKeys_IdentityKey] p s (toObj (Some v))) (\<lambda>ob. Inr (JObj ob))) v4 = Inr z4" and
    e4: "sameObjects (toArr (jget root StorageKeys_TrustPins)) z4"
    using texts by (auto simp: r3 r2 r1 root0_def jget_jinsert secretTexts_def sameObjects_def)
  have rk: "k \<noteq> SessionKey \<Longrightarrow> k \<notin> set protectedArrays \<Longrightarrow> jget r k = jget root0 k" for k
    by (auto simp: r4 r3 r2 r1 jget_jinsert protectedArrays_def)
  have rs: "jget r SessionKey = jget r1 SessionKey" by (simp add: r4 r3 r2 jget_jinsert)
  obtain q where q: "unprotectSession E p s r = Inr q" and
    qk: "\<And>k. k \<noteq> SessionKey \<Longrightarrow> jget q k = jget r k" and
    qc: "jcontains q SessionKey = jcontains root SessionKey" and
    qs: "jget (toObj (jget q SessionKey)) = jget (toObj (jget root SessionKey))"
    using S
    by (elim disjE conjE exE)
      (force simp: unprotectSession_def jcontains_def rs root0_def jget_jinsert)+
  let ?z = "jinsert StorageKeys_TrustPins (JArr z4) (jinsert StorageKeys_OneTimePreKeys (JArr z3)
     (jinsert StorageKeys_DeviceKeys (JArr z2) q))"
  have "jget q StorageKeys_DeviceKeys = Some (JArr v2)" "jget q StorageKeys_OneTimePreKeys = Some (JArr v3)"
    "jget q StorageKeys_TrustPins = Some (JArr v4)"
    by (simp_all add: qk r4 r3 r2 jget_jinsert)
  then have "unprotectSecrets E p s r = Inr ?z"
    by (simp add: unprotectSecrets_def q pne len unprotectElements_Inr [OF _ m2] unprotectElements_Inr [OF _ m3]
        unprotectElements_Inr [OF _ m4] jget_jinsert)
  moreover have "jcontains ?z SessionKey = jcontains root SessionKey"
    using qc by (simp add: jcontains_def jget_jinsert)
  then have "restores root ?z"
    using e2 e3 e4
    by (auto simp: restores_def protectedArrays_def jget_jinsert qk qs rk root0_def)
  moreover have "jget r SecretSaltKey = Some (JStr (bytesToBase64 E s))"
    by (simp add: rk root0_def protectedArrays_def)
  moreover have "salt0 \<noteq> [] \<longrightarrow> s = salt0" by (simp add: s_def)
  ultimately show ?thesis using len by blast
qed

end
