(* ===== verification/Store.thy ===== *)
theory Store
  imports Secrets "HOL-Library.List_Lexorder"
begin

text \<open>
  class JsonLocalStore of client/src/storage: the account state a client keeps in memory and
  rewrites to its state file after every change. Each operation takes the surroundings it
  runs in (\<open>env\<close>) and the store, and returns its result with the new store; \<open>ls_files\<close> is
  the disk (a file is the JSON object it holds), \<open>ls_draws\<close> the position of the random
  generator. A failed save leaves the memory changed and the disk as it was, as in the code.
\<close>

record local_store =
  ls_indexPath :: qstring
  ls_path :: qstring
  ls_secretProtectionRequired :: bool
  ls_secretPassphrase :: qstring
  ls_secretSalt :: bytes
  ls_session :: AuthSession
  ls_hasSession :: bool
  ls_deviceKeys :: "DeviceKeyMaterial list"
  ls_oneTimePreKeys :: "OneTimePreKey list"
  ls_knownUsers :: "KnownUser list"
  ls_trustPins :: "TrustPin list"
  ls_messages :: "LocalMessage list"
  ls_files :: "qstring \<Rightarrow> json_obj option"
  ls_draws :: nat

section \<open>Saving\<close>

definition emptySession :: AuthSession where
  "emptySession =
    \<lparr>as_user = \<lparr>up_id = [], up_username = [], up_email = []\<rparr>,
     as_tokens = \<lparr>ts_accessToken = [], ts_refreshToken = [], ts_tokenType = [], ts_expiresIn = 0\<rparr>\<rparr>"

text \<open>The document \<open>save\<close> builds before it protects the secrets.\<close>

definition stateToJson :: "'x platform_scheme \<Rightarrow> local_store \<Rightarrow> json_obj" where
  "stateToJson P s =
    [(StorageKeys_RootVersion, JInt 1)]
    @ (if ls_hasSession s then [(SessionKey, JObj (sessionToJson (ls_session s)))] else [])
    @ [(StorageKeys_DeviceKeys, JArr (map (JObj \<circ> deviceToJson) (ls_deviceKeys s))),
       (StorageKeys_OneTimePreKeys, JArr (map (JObj \<circ> preKeyToJson) (ls_oneTimePreKeys s))),
       (StorageKeys_KnownUsers, JArr (map (JObj \<circ> knownUserToJson) (ls_knownUsers s))),
       (StorageKeys_TrustPins, JArr (map (JObj \<circ> trustPinToJson P) (ls_trustPins s))),
       (StorageKeys_Messages, JArr (map (JObj \<circ> messageToJson P) (ls_messages s)))]"

definition writeFile :: "'x env_scheme \<Rightarrow> qstring \<Rightarrow> json_obj \<Rightarrow> local_store \<Rightarrow> bool result \<times> local_store" where
  "writeFile E path root s =
     (if \<not> env_canWrite E path then (failure StorageError (arg1 (Q ''Could not write %1.'') path), s)
      else (Inr True, s\<lparr>ls_files := (ls_files s)(path \<mapsto> root)\<rparr>))"

definition save :: "'x env_scheme \<Rightarrow> local_store \<Rightarrow> bool result \<times> local_store" where
  "save E s =
     (if \<not> env_dirReady E (ls_path s)
      then (failure StorageError (arg1 (Q ''Could not create %1.'') (pf_dirPath E (ls_path s))), s)
      else let root = stateToJson E s
        in if ls_secretProtectionRequired s
           then (case protectSecrets E (ls_secretPassphrase s) (ls_secretSalt s) root (ls_draws s) of
                   (Inl e, c) \<Rightarrow> (Inl e, s\<lparr>ls_draws := c\<rparr>)
                 | (Inr r, c) \<Rightarrow> writeFile E (ls_path s) r (s\<lparr>ls_draws := c\<rparr>))
           else writeFile E (ls_path s) root s)"

section \<open>Loading\<close>

definition clearMemory :: "local_store \<Rightarrow> local_store" where
  "clearMemory s = s\<lparr>ls_session := emptySession, ls_hasSession := False, ls_deviceKeys := [],
     ls_oneTimePreKeys := [], ls_knownUsers := [], ls_trustPins := [], ls_messages := []\<rparr>"

definition readState :: "'x platform_scheme \<Rightarrow> json_obj \<Rightarrow> local_store \<Rightarrow> local_store" where
  "readState P root s =
     (let sess = sessionFromJson (toObj (jget root SessionKey));
          s1 = (if jcontains root SessionKey
                then s\<lparr>ls_session := sess, ls_hasSession := ts_accessToken (as_tokens sess) \<noteq> []\<rparr>
                else s);
          objects = (\<lambda>k. map (\<lambda>v. toObj (Some v)) (toArr (jget root k)))
      in s1\<lparr>ls_deviceKeys := ls_deviceKeys s1 @ map deviceFromJson (objects StorageKeys_DeviceKeys),
            ls_oneTimePreKeys := ls_oneTimePreKeys s1 @ map preKeyFromJson (objects StorageKeys_OneTimePreKeys),
            ls_knownUsers := ls_knownUsers s1 @ map knownUserFromJson (objects StorageKeys_KnownUsers),
            ls_trustPins := ls_trustPins s1 @ map (trustPinFromJson P) (objects StorageKeys_TrustPins),
            ls_messages := ls_messages s1 @ map (messageFromJson P) (objects StorageKeys_Messages)\<rparr>)"

definition load :: "'x env_scheme \<Rightarrow> local_store \<Rightarrow> bool result \<times> local_store" where
  "load E s0 =
     (let s = clearMemory s0
      in case ls_files s (ls_path s) of
           None \<Rightarrow> (Inr True, s)
         | Some root \<Rightarrow>
             (if \<not> env_canRead E (ls_path s)
              then (failure StorageError (arg1 (Q ''Could not read %1.'') (ls_path s)), s)
              else if jcontains root SecretSaltKey
              then (let s' = s\<lparr>ls_secretSalt := base64ToBytes E (toStr (jget root SecretSaltKey))\<rparr>
                    in if ls_secretPassphrase s' = [] then (Inr True, s')
                       else case unprotectSecrets E (ls_secretPassphrase s') (ls_secretSalt s') root of
                              Inl e \<Rightarrow> (Inl e, s')
                            | Inr plain \<Rightarrow> (Inr True, readState E plain s'))
              else (Inr True, readState E root s)))"

definition reload :: "'x env_scheme \<Rightarrow> local_store \<Rightarrow> bool result \<times> local_store" where
  "reload E s = load E s"

text \<open>The constructor; the disk and the generator are those of the process.\<close>

definition newStore :: "'x env_scheme \<Rightarrow> qstring \<Rightarrow> bool \<Rightarrow> (qstring \<Rightarrow> json_obj option) \<Rightarrow> nat \<Rightarrow> local_store" where
  "newStore E path required files draws =
     snd (load E \<lparr>ls_indexPath = path, ls_path = path, ls_secretProtectionRequired = required,
        ls_secretPassphrase = [], ls_secretSalt = [], ls_session = emptySession,
        ls_hasSession = False, ls_deviceKeys = [], ls_oneTimePreKeys = [], ls_knownUsers = [],
        ls_trustPins = [], ls_messages = [], ls_files = files, ls_draws = draws\<rparr>)"

section \<open>Accounts and the passphrase\<close>

definition setSecretProtectionRequired :: "bool \<Rightarrow> local_store \<Rightarrow> local_store" where
  "setSecretProtectionRequired b s = s\<lparr>ls_secretProtectionRequired := b\<rparr>"

definition setSecretPassphrase :: "qstring \<Rightarrow> local_store \<Rightarrow> local_store" where
  "setSecretPassphrase p s = s\<lparr>ls_secretPassphrase := p\<rparr>"

definition clearSecretPassphrase :: "local_store \<Rightarrow> local_store" where
  "clearSecretPassphrase s = s\<lparr>ls_secretPassphrase := []\<rparr>"

definition AccountStateFallbackName :: qstring where
  "AccountStateFallbackName = Q ''account''"

definition safeStateName :: "'x platform_scheme \<Rightarrow> qstring \<Rightarrow> qstring" where
  "safeStateName P v =
     (let safeName = map (\<lambda>c. if pf_isLetterOrNumber P c \<or> c = 45 \<or> c = 95 then c else 95) v
      in if safeName = [] then AccountStateFallbackName else safeName)"

definition lastAccountId :: "'x env_scheme \<Rightarrow> local_store \<Rightarrow> qstring option result" where
  "lastAccountId E s =
     (case ls_files s (ls_indexPath s) of
        None \<Rightarrow> Inr None
      | Some root \<Rightarrow>
          (if \<not> env_canRead E (ls_indexPath s)
           then failure StorageError (arg1 (Q ''Could not read %1.'') (ls_indexPath s))
           else let accountId = toStr (jget root StorageKeys_LastAccountId)
             in Inr (if accountId = [] then None else Some accountId)))"

definition rememberLastAccountId :: "'x env_scheme \<Rightarrow> qstring \<Rightarrow> local_store \<Rightarrow> bool result \<times> local_store" where
  "rememberLastAccountId E accountId s =
     (if \<not> env_dirReady E (ls_indexPath s)
      then (failure StorageError (arg1 (Q ''Could not create %1.'') (pf_dirPath E (ls_indexPath s))), s)
      else writeFile E (ls_indexPath s)
             [(StorageKeys_RootVersion, JInt 1), (StorageKeys_LastAccountId, JStr accountId)] s)"

definition useAccountScopedPath ::
  "'x env_scheme \<Rightarrow> qstring \<Rightarrow> bool \<Rightarrow> local_store \<Rightarrow> bool result \<times> local_store" where
  "useAccountScopedPath E accountId rememberAccount s =
     (let remembered = (if rememberAccount then rememberLastAccountId E accountId s else (Inr True, s))
      in case remembered of
           (Inl e, s1) \<Rightarrow> (Inl e, s1)
         | (Inr _, s1) \<Rightarrow>
             (Inr True, s1\<lparr>ls_path := pf_siblingPath E (ls_indexPath s1)
                (argN (Q ''%1-%2'') [safeStateName E accountId, AppText_DefaultStateFile])\<rparr>))"

section \<open>Session, keys, known users, trust pins\<close>

definition saveSession :: "'x env_scheme \<Rightarrow> AuthSession \<Rightarrow> local_store \<Rightarrow> bool result \<times> local_store" where
  "saveSession E session s = save E (s\<lparr>ls_session := session, ls_hasSession := True\<rparr>)"

definition loadSession :: "local_store \<Rightarrow> AuthSession option result" where
  "loadSession s = Inr (if ls_hasSession s then Some (ls_session s) else None)"

definition clearSession :: "'x env_scheme \<Rightarrow> local_store \<Rightarrow> bool result \<times> local_store" where
  "clearSession E s = save E (s\<lparr>ls_hasSession := False, ls_session := emptySession\<rparr>)"

definition saveDeviceKeys :: "'x env_scheme \<Rightarrow> DeviceKeyMaterial \<Rightarrow> local_store \<Rightarrow> bool result \<times> local_store" where
  "saveDeviceKeys E material s =
     save E (s\<lparr>ls_deviceKeys :=
       upsert_by (\<lambda>existing. dk_deviceId existing = dk_deviceId material) (\<lambda>_. material) material
         (ls_deviceKeys s)\<rparr>)"

definition loadDeviceKeys :: "int \<Rightarrow> local_store \<Rightarrow> DeviceKeyMaterial option result" where
  "loadDeviceKeys deviceId s = Inr (find (\<lambda>m. dk_deviceId m = deviceId) (ls_deviceKeys s))"

definition storePreKey :: "OneTimePreKey \<Rightarrow> OneTimePreKey list \<Rightarrow> OneTimePreKey list" where
  "storePreKey preKey =
     upsert_by (\<lambda>existing. otk_deviceId existing = otk_deviceId preKey
                  \<and> otk_preKeyId existing = otk_preKeyId preKey) (\<lambda>_. preKey) preKey"

definition saveOneTimePreKeys ::
  "'x env_scheme \<Rightarrow> OneTimePreKey list \<Rightarrow> local_store \<Rightarrow> bool result \<times> local_store" where
  "saveOneTimePreKeys E preKeys s =
     save E (s\<lparr>ls_oneTimePreKeys := fold storePreKey preKeys (ls_oneTimePreKeys s)\<rparr>)"

definition loadOneTimePreKeys :: "int \<Rightarrow> local_store \<Rightarrow> OneTimePreKey list result" where
  "loadOneTimePreKeys deviceId s = Inr (filter (\<lambda>k. otk_deviceId k = deviceId) (ls_oneTimePreKeys s))"

definition saveKnownUser :: "'x env_scheme \<Rightarrow> UserAddress \<Rightarrow> local_store \<Rightarrow> bool result \<times> local_store" where
  "saveKnownUser E address s =
     (if ua_userId address = [] \<or> ua_username address = [] then (Inr True, s)
      else let user = \<lparr>ku_userId = ua_userId address, ku_username = ua_username address,
                       ku_deviceId = ua_deviceId address\<rparr>
        in save E (s\<lparr>ls_knownUsers :=
             upsert_by (\<lambda>existing. ku_userId existing = ku_userId user
                          \<and> ku_deviceId existing = ku_deviceId user) (\<lambda>_. user) user
               (ls_knownUsers s)\<rparr>))"

definition knownUser :: "qstring \<Rightarrow> int \<Rightarrow> local_store \<Rightarrow> KnownUser option result" where
  "knownUser userId deviceId s =
     Inr (find (\<lambda>u. ku_userId u = userId \<and> ku_deviceId u = deviceId) (ls_knownUsers s))"

definition saveTrustPin :: "'x env_scheme \<Rightarrow> TrustPin \<Rightarrow> local_store \<Rightarrow> bool result \<times> local_store" where
  "saveTrustPin E pin s =
     save E (s\<lparr>ls_trustPins :=
       upsert_by (\<lambda>existing. tp_userId existing = tp_userId pin
                    \<and> tp_deviceId existing = tp_deviceId pin) (\<lambda>_. pin) pin (ls_trustPins s)\<rparr>)"

definition trustPin :: "qstring \<Rightarrow> int \<Rightarrow> local_store \<Rightarrow> TrustPin option result" where
  "trustPin userId deviceId s =
     Inr (find (\<lambda>p. tp_userId p = userId \<and> tp_deviceId p = deviceId) (ls_trustPins s))"

section \<open>Messages\<close>

definition isMessageVisibleToUser :: "LocalMessage \<Rightarrow> qstring \<Rightarrow> bool" where
  "isMessageVisibleToUser message currentUserId =
     (let globallyDeleted = lm_deletedAt message \<noteq> [];
          revoked = lm_accessRevokedAt message \<noteq> [];
          sentByCurrentUser = lm_senderUserId message = currentUserId;
          receivedByCurrentUser = lm_recipientUserId message = currentUserId;
          deletedBySender = sentByCurrentUser \<and> lm_senderDeletedAt message \<noteq> [];
          deletedByRecipient = receivedByCurrentUser \<and> lm_recipientDeletedAt message \<noteq> []
      in \<not> globallyDeleted \<and> \<not> revoked \<and> \<not> deletedBySender \<and> \<not> deletedByRecipient)"

definition firstNonEmpty :: "qstring \<Rightarrow> qstring \<Rightarrow> qstring" where
  "firstNonEmpty first fallback = (if first = [] then fallback else first)"

text \<open>What \<open>saveMessage\<close> leaves in the slot of an earlier message with the same id.\<close>

definition mergeMessage :: "LocalMessage \<Rightarrow> LocalMessage \<Rightarrow> LocalMessage" where
  "mergeMessage message previous =
     message\<lparr>
       lm_readAt := (if lm_readAt message = [] then lm_readAt previous else lm_readAt message),
       lm_localSenderCopyWirePayloadJson :=
         (if lm_localSenderCopyWirePayloadJson message = []
          then lm_localSenderCopyWirePayloadJson previous
          else lm_localSenderCopyWirePayloadJson message),
       lm_cachedAnchor :=
         (if ba_digest (lm_cachedAnchor message) = [] then lm_cachedAnchor previous
          else lm_cachedAnchor message),
       lm_accessRevokedAt := firstNonEmpty (lm_accessRevokedAt message) (lm_accessRevokedAt previous),
       lm_senderDeletedAt := firstNonEmpty (lm_senderDeletedAt message) (lm_senderDeletedAt previous),
       lm_recipientDeletedAt := firstNonEmpty (lm_recipientDeletedAt message) (lm_recipientDeletedAt previous),
       lm_deletedAt := firstNonEmpty (lm_deletedAt message) (lm_deletedAt previous)\<rparr>"

definition saveMessage :: "'x env_scheme \<Rightarrow> LocalMessage \<Rightarrow> local_store \<Rightarrow> bool result \<times> local_store" where
  "saveMessage E message s =
     save E (s\<lparr>ls_messages :=
       upsert_by (\<lambda>existing. lm_id existing = lm_id message) (mergeMessage message) message
         (ls_messages s)\<rparr>)"

definition deletedFor :: "qstring \<Rightarrow> qstring \<Rightarrow> LocalMessage \<Rightarrow> LocalMessage" where
  "deletedFor currentUserId now m =
     (let m1 = (if lm_senderUserId m = currentUserId
                then m\<lparr>lm_senderDeletedAt := firstNonEmpty (lm_senderDeletedAt m) now\<rparr> else m);
          m2 = (if lm_recipientUserId m1 = currentUserId
                then m1\<lparr>lm_recipientDeletedAt := firstNonEmpty (lm_recipientDeletedAt m1) now\<rparr> else m1)
      in if lm_senderUserId m2 \<noteq> currentUserId \<and> lm_recipientUserId m2 \<noteq> currentUserId
         then m2\<lparr>lm_deletedAt := firstNonEmpty (lm_deletedAt m2) now\<rparr> else m2)"

definition updateFirst :: "('a \<Rightarrow> bool) \<Rightarrow> ('a \<Rightarrow> 'a) \<Rightarrow> 'a list \<Rightarrow> 'a list" where
  "updateFirst p f xs =
     (case dropWhile (\<lambda>x. \<not> p x) xs of
        [] \<Rightarrow> xs
      | x # rest \<Rightarrow> takeWhile (\<lambda>x. \<not> p x) xs @ f x # rest)"

definition markMessageDeletedFor ::
  "'x env_scheme \<Rightarrow> qstring \<Rightarrow> qstring \<Rightarrow> local_store \<Rightarrow> bool result \<times> local_store" where
  "markMessageDeletedFor E currentUserId messageId s =
     (if find (\<lambda>m. lm_id m = messageId) (ls_messages s) = None then (Inr True, s)
      else let now = pf_dateToString E (env_now E)
        in save E (s\<lparr>ls_messages := updateFirst (\<lambda>m. lm_id m = messageId)
                      (deletedFor currentUserId now) (ls_messages s)\<rparr>))"

definition reconcileMessage ::
  "qstring \<Rightarrow> qstring \<Rightarrow> MessageDirection \<Rightarrow> qstring set \<Rightarrow> LocalMessage \<Rightarrow> LocalMessage" where
  "reconcileMessage now currentUserId direction visibleMessageIds message =
     (let relevantReceivedMessage = (direction = ReceivedDir \<and> lm_recipientUserId message = currentUserId);
          relevantSentMessage = (direction = SentDir \<and> lm_senderUserId message = currentUserId);
          relevantMessage = (relevantReceivedMessage \<or> relevantSentMessage);
          stillVisible = (lm_id message \<in> visibleMessageIds)
      in if \<not> relevantMessage \<or> stillVisible \<or> \<not> isMessageVisibleToUser message currentUserId
         then message
         else if relevantReceivedMessage
         then message\<lparr>lm_accessRevokedAt := firstNonEmpty (lm_accessRevokedAt message) now\<rparr>
         else message\<lparr>lm_senderDeletedAt := firstNonEmpty (lm_senderDeletedAt message) now\<rparr>)"

definition reconcileVisibleMessages ::
  "'x env_scheme \<Rightarrow> qstring \<Rightarrow> MessageDirection \<Rightarrow> qstring set \<Rightarrow> local_store \<Rightarrow> bool result \<times> local_store" where
  "reconcileVisibleMessages E currentUserId direction visibleMessageIds s =
     (let now = pf_dateToString E (env_now E)
      in save E (s\<lparr>ls_messages :=
           map (reconcileMessage now currentUserId direction visibleMessageIds) (ls_messages s)\<rparr>))"

definition findMessage :: "qstring \<Rightarrow> local_store \<Rightarrow> LocalMessage option result" where
  "findMessage messageId s = Inr (find (\<lambda>m. lm_id m = messageId) (ls_messages s))"

definition allMessages :: "local_store \<Rightarrow> LocalMessage list result" where
  "allMessages s = Inr (ls_messages s)"

definition betweenPeers :: "qstring \<Rightarrow> qstring \<Rightarrow> LocalMessage \<Rightarrow> bool" where
  "betweenPeers currentUserId peerUserId message =
     (let sentToPeer = (lm_senderUserId message = currentUserId \<and> lm_recipientUserId message = peerUserId);
          receivedFromPeer = (lm_senderUserId message = peerUserId \<and> lm_recipientUserId message = currentUserId)
      in (sentToPeer \<or> receivedFromPeer) \<and> isMessageVisibleToUser message currentUserId)"

definition createdBefore :: "'x platform_scheme \<Rightarrow> LocalMessage \<Rightarrow> LocalMessage \<Rightarrow> bool" where
  "createdBefore P left right = pf_dateBefore P (lm_createdAt left) (lm_createdAt right)"

definition messagesWithPeer ::
  "'x platform_scheme \<Rightarrow> qstring \<Rightarrow> qstring \<Rightarrow> local_store \<Rightarrow> LocalMessage list result" where
  "messagesWithPeer P currentUserId peerUserId s =
     Inr (pf_sortMessages P (createdBefore P)
            (filter (betweenPeers currentUserId peerUserId) (ls_messages s)))"

section \<open>Conversations\<close>

text \<open>
  \<open>std::map<QString, ...>\<close>: an association list in the order of the keys; QStrings are
  ordered by their code units (\<open>List_Lexorder\<close>).
\<close>

fun insert_or_assign :: "'k::linorder \<Rightarrow> 'v \<Rightarrow> ('k \<times> 'v) list \<Rightarrow> ('k \<times> 'v) list" where
  "insert_or_assign k v [] = [(k, v)]"
| "insert_or_assign k v ((k', w) # m) =
     (if k = k' then (k, v) # m
      else if k < k' then (k, v) # (k', w) # m
      else (k', w) # insert_or_assign k v m)"

definition conversationKey :: "qstring \<Rightarrow> int \<Rightarrow> qstring" where
  "conversationKey peerUserId peerDeviceId = argInt (arg1 (Q ''%1:%2'') peerUserId) peerDeviceId"

definition peerUserIdOf :: "qstring \<Rightarrow> LocalMessage \<Rightarrow> qstring" where
  "peerUserIdOf currentUserId message =
     (if lm_senderUserId message = currentUserId then lm_recipientUserId message else lm_senderUserId message)"

definition peerDeviceIdOf :: "qstring \<Rightarrow> LocalMessage \<Rightarrow> int" where
  "peerDeviceIdOf currentUserId message =
     (if lm_senderUserId message = currentUserId then lm_recipientDeviceId message else lm_senderDeviceId message)"

definition keyOfMessage :: "qstring \<Rightarrow> LocalMessage \<Rightarrow> qstring" where
  "keyOfMessage currentUserId message =
     conversationKey (peerUserIdOf currentUserId message) (peerDeviceIdOf currentUserId message)"

text \<open>The summary one more message leaves at its key.\<close>

definition updatedSummary ::
  "'x platform_scheme \<Rightarrow> local_store \<Rightarrow> qstring \<Rightarrow> (qstring \<times> ConversationSummary) list
     \<Rightarrow> LocalMessage \<Rightarrow> ConversationSummary" where
  "updatedSummary P s currentUserId summaries message =
     (let sentByCurrentUser = (lm_senderUserId message = currentUserId);
          peerUserId = peerUserIdOf currentUserId message;
          peerDeviceId = peerDeviceIdOf currentUserId message;
          peerUsername = (case knownUser peerUserId peerDeviceId s of
                            Inr (Some u) \<Rightarrow> ku_username u | _ \<Rightarrow> []);
          summary0 = (case map_of summaries (keyOfMessage currentUserId message) of
                        Some c \<Rightarrow> c
                      | None \<Rightarrow> \<lparr>cs_peerUserId = peerUserId, cs_peerUsername = peerUsername,
                                 cs_peerDeviceId = peerDeviceId, cs_messageCount = 0,
                                 cs_unreadCount = 0, cs_latestMessageAt = InvalidDate\<rparr>);
          summary1 = (if cs_peerUsername summary0 = [] \<and> peerUsername \<noteq> []
                      then summary0\<lparr>cs_peerUsername := peerUsername\<rparr> else summary0);
          summary2 = summary1\<lparr>cs_messageCount := cs_messageCount summary1 + 1\<rparr>;
          unreadIncoming = (\<not> sentByCurrentUser \<and> lm_readAt message = []);
          summary3 = (if unreadIncoming then summary2\<lparr>cs_unreadCount := cs_unreadCount summary2 + 1\<rparr>
                      else summary2)
      in if \<not> isValidDate (cs_latestMessageAt summary3)
            \<or> pf_dateBefore P (cs_latestMessageAt summary3) (lm_createdAt message)
         then summary3\<lparr>cs_latestMessageAt := lm_createdAt message\<rparr> else summary3)"

definition addToConversations ::
  "'x platform_scheme \<Rightarrow> local_store \<Rightarrow> qstring \<Rightarrow> (qstring \<times> ConversationSummary) list
     \<Rightarrow> LocalMessage \<Rightarrow> (qstring \<times> ConversationSummary) list" where
  "addToConversations P s currentUserId summaries message =
     (if \<not> isMessageVisibleToUser message currentUserId then summaries
      else insert_or_assign (keyOfMessage currentUserId message)
             (updatedSummary P s currentUserId summaries message) summaries)"

definition conversationsFor ::
  "'x platform_scheme \<Rightarrow> qstring \<Rightarrow> local_store \<Rightarrow> ConversationSummary list result" where
  "conversationsFor P currentUserId s =
     Inr (map snd (foldl (addToConversations P s currentUserId) [] (ls_messages s)))"

definition unreadConversationsFor ::
  "'x platform_scheme \<Rightarrow> qstring \<Rightarrow> local_store \<Rightarrow> ConversationSummary list result" where
  "unreadConversationsFor P currentUserId s =
     (case conversationsFor P currentUserId s of
        Inl e \<Rightarrow> Inl e
      | Inr conversations \<Rightarrow> Inr (filter (\<lambda>c. cs_unreadCount c > 0) conversations))"

definition markRead :: "qstring \<Rightarrow> qstring \<Rightarrow> qstring \<Rightarrow> LocalMessage \<Rightarrow> LocalMessage" where
  "markRead now currentUserId peerUserId message =
     (let incomingFromPeer = (lm_senderUserId message = peerUserId \<and> lm_recipientUserId message = currentUserId)
      in if incomingFromPeer \<and> lm_readAt message = [] then message\<lparr>lm_readAt := now\<rparr> else message)"

definition markConversationRead ::
  "'x env_scheme \<Rightarrow> qstring \<Rightarrow> qstring \<Rightarrow> local_store \<Rightarrow> bool result \<times> local_store" where
  "markConversationRead E currentUserId peerUserId s =
     (let now = pf_dateToString E (env_now E)
      in save E (s\<lparr>ls_messages := map (markRead now currentUserId peerUserId) (ls_messages s)\<rparr>))"

end
