(* ===== verification/Wire.thy ===== *)
theory Wire
  imports Models "HOL-Library.List_Lexorder"
begin

text \<open>
  JSON text as the wire carries it. QJsonDocument keeps an object's keys in order and is
  outside the repository; \<open>json_text\<close> is what the client relies on: parsing what was printed
  gives the object back with its keys in order, and the text survives the conversion to a
  QString. It is assumed only of objects a QJsonDocument can hold: distinct keys, valid
  UTF-16 strings, whole numbers in the range of int. \<open>WirePayload\<close> envelopes are built on it
  by both crypto providers.
\<close>

primrec normalJson :: "json \<Rightarrow> json" where
  "normalJson JNull = JNull"
| "normalJson (JBool b) = JBool b"
| "normalJson (JInt i) = JInt i"
| "normalJson JFrac = JFrac"
| "normalJson (JStr s) = JStr s"
| "normalJson (JArr xs) = JArr (map normalJson xs)"
| "normalJson (JObj ob) = JObj (sort_key fst (map (map_prod id normalJson) ob))"

definition normalObject :: "json_obj \<Rightarrow> json_obj" where
  "normalObject ob = sort_key fst (map (map_prod id normalJson) ob)"

primrec goodJson :: "'x platform_scheme \<Rightarrow> json \<Rightarrow> bool" where
  "goodJson P JNull = True"
| "goodJson P (JBool b) = True"
| "goodJson P (JInt i) = inIntRange i"
| "goodJson P JFrac = False"
| "goodJson P (JStr s) = utf8_roundtrip P s"
| "goodJson P (JArr xs) = list_all id (map (goodJson P) xs)"
| "goodJson P (JObj ob) =
     (distinct (map fst ob)
      \<and> list_all (\<lambda>(k, ok). utf8_roundtrip P k \<and> ok) (map (map_prod id (goodJson P)) ob))"

definition json_text :: "'x platform_scheme \<Rightarrow> bool" where
  "json_text P \<longleftrightarrow>
     (\<forall>ob. goodJson P (JObj ob) \<longrightarrow>
        pf_jsonParse P (pf_jsonCompact P ob) = normalObject ob
        \<and> pf_toUtf8 P (pf_fromUtf8 P (pf_jsonCompact P ob)) = pf_jsonCompact P ob)"

definition ascii_text :: "'x platform_scheme \<Rightarrow> bool" where
  "ascii_text P \<longleftrightarrow> (\<forall>s. list_all (\<lambda>c. c < 128) s \<longrightarrow> utf8_roundtrip P s)"

definition base64_text :: "'x platform_scheme \<Rightarrow> bool" where
  "base64_text P \<longleftrightarrow> (\<forall>b. utf8_roundtrip P (pf_toBase64 P b))"

definition empty_text :: "'x platform_scheme \<Rightarrow> bool" where
  "empty_text P \<longleftrightarrow> pf_toUtf8 P [] = [] \<and> pf_fromUtf8 P [] = [] \<and> pf_jsonParse P [] = []"

definition wire_laws :: "'x platform_scheme \<Rightarrow> bool" where
  "wire_laws P \<longleftrightarrow> json_text P \<and> ascii_text P \<and> base64_text P \<and> base64_roundtrip P \<and> empty_text P"

section \<open>Looking up in what was parsed\<close>

lemma normalObject_Nil [simp]: "normalObject [] = []"
  by (simp add: normalObject_def)

lemma normalObject_eq_Nil [simp]: "normalObject ob = [] \<longleftrightarrow> ob = []"
proof -
  have "length (normalObject ob) = length ob" by (simp add: normalObject_def)
  then show ?thesis by (metis length_0_conv)
qed

lemma jget_normalObject:
  assumes "distinct (map fst ob)"
  shows "jget (normalObject ob) k = map_option normalJson (jget ob k)"
proof -
  let ?ob = "map (map_prod id normalJson) ob"
  have keys: "map fst ?ob = map fst ob" by simp
  have "distinct (map fst (sort_key fst ?ob))"
    using assms keys by (metis distinct_map distinct_sort inj_on_cong set_sort)
  then have "map_of (sort_key fst ?ob) = map_of ?ob"
    using assms keys map_of_inject_set [of "sort_key fst ?ob" ?ob] by simp
  moreover have "map_of ?ob k = map_option normalJson (map_of ob k)"
    by (induction ob) auto
  ultimately show ?thesis by (simp add: jget_def normalObject_def)
qed

lemma normal_conversions [simp]:
  "toStr (map_option normalJson v) = toStr v"
  "toIntD d (map_option normalJson v) = toIntD d v"
  "toBoolD b (map_option normalJson v) = toBoolD b v"
  by (cases v rule: toStr.cases; simp)+

lemma toObj_normal [simp]: "toObj (map_option normalJson v) = normalObject (toObj v)"
  by (cases v rule: toObj.cases) (simp_all add: normalObject_def)

lemma goodObject_Nil [simp]: "goodJson P (JObj [])"
  by simp

lemma goodObject_Cons:
  "goodJson P (JObj ((k, v) # ob)) \<longleftrightarrow>
     k \<notin> fst ` set ob \<and> utf8_roundtrip P k \<and> goodJson P v \<and> goodJson P (JObj ob)"
  by auto

lemma goodObject_distinct: "goodJson P (JObj ob) \<Longrightarrow> distinct (map fst ob)"
  by simp

lemma json_textD:
  assumes "json_text P" and "goodJson P (JObj ob)"
  shows "pf_jsonParse P (pf_jsonCompact P ob) = normalObject ob"
    and "pf_toUtf8 P (pf_fromUtf8 P (pf_jsonCompact P ob)) = pf_jsonCompact P ob"
  using assms unfolding json_text_def by blast+

lemma wire_base64: "wire_laws P \<Longrightarrow> utf8_roundtrip P (pf_toBase64 P b)"
  by (simp add: wire_laws_def base64_text_def)

lemma wire_literal: "wire_laws P \<Longrightarrow> list_all (\<lambda>c. c < 128) s \<Longrightarrow> utf8_roundtrip P s"
  by (simp add: wire_laws_def ascii_text_def)

lemma wire_keys:
  assumes "wire_laws P"
  shows "utf8_roundtrip P CryptoText_WireCounter" "utf8_roundtrip P CryptoText_WirePreviousCounter"
    "utf8_roundtrip P CryptoText_WireCiphertext" "utf8_roundtrip P CryptoText_WireIv"
    "utf8_roundtrip P CryptoText_WireAuthTag" "utf8_roundtrip P CryptoText_WireRatchetPublicKey"
    "utf8_roundtrip P CryptoText_WireX3dh" "utf8_roundtrip P CryptoText_WireIdentityKey"
    "utf8_roundtrip P CryptoText_WireEphemeralKey" "utf8_roundtrip P CryptoText_WireFormat"
    "utf8_roundtrip P CryptoText_WireFormatValue" "utf8_roundtrip P CryptoText_WireType"
    "utf8_roundtrip P CryptoText_WireBodyB64" "utf8_roundtrip P CryptoText_WireRegistrationId"
  by (rule wire_literal [OF assms], simp add: const_defs Q_def)+


text \<open>Printed text of an object with members is not empty.\<close>

lemma printed_nonempty:
  assumes "wire_laws P" and "goodJson P (JObj ob)" and "ob \<noteq> []"
  shows "pf_fromUtf8 P (pf_jsonCompact P ob) \<noteq> []"
proof
  assume empty: "pf_fromUtf8 P (pf_jsonCompact P ob) = []"
  have "json_text P" and e: "empty_text P" using assms(1) by (simp_all add: wire_laws_def)
  note printed = json_textD [OF this(1) assms(2)]
  from e printed(2) empty have "pf_jsonCompact P ob = []" by (simp add: empty_text_def)
  with e printed(1) have "normalObject ob = []" by (simp add: empty_text_def)
  with assms(3) show False by simp
qed

end
