(* ===== verification/SampleJson.thy ===== *)
theory SampleJson
  imports Wire
begin

text \<open>
  A concrete printer and parser of JSON values (tagged, self-delimiting; not the text format)
  with the proof that it satisfies \<open>json_text\<close>'s law, for the instance of theory Sample.
\<close>

unbundle bit_operations_syntax

fun textBytes :: "qstring \<Rightarrow> bytes" where
  "textBytes [] = [0]"
| "textBytes (c # s) = 1 # ucast c # ucast (drop_bit 8 c) # textBytes s"

fun readText :: "bytes \<Rightarrow> (qstring \<times> bytes) option" where
  "readText [] = None"
| "readText (t # r) =
     (if t = 0 then Some ([], r)
      else case r of
             lo # hi # r' \<Rightarrow>
               map_option (\<lambda>(s, rest). ((ucast lo OR push_bit 8 (ucast hi)) # s, rest)) (readText r')
           | _ \<Rightarrow> None)"

definition intText :: "int \<Rightarrow> qstring" where
  "intText i = (let w = of_int i :: 32 word in [ucast w, ucast (drop_bit 16 w)])"

definition textInt :: "qstring \<Rightarrow> int" where
  "textInt s = (case s of [lo, hi] \<Rightarrow> sint (ucast lo OR push_bit 16 (ucast hi) :: 32 word) | _ \<Rightarrow> 0)"

primrec jsonBytes :: "json \<Rightarrow> bytes" where
  "jsonBytes JNull = [0]"
| "jsonBytes (JBool b) = [1, if b then 1 else 0]"
| "jsonBytes (JInt i) = 2 # textBytes (intText i)"
| "jsonBytes JFrac = [3]"
| "jsonBytes (JStr s) = 4 # textBytes s"
| "jsonBytes (JArr xs) = 5 # concat (map (\<lambda>b. 1 # b) (map jsonBytes xs)) @ [0]"
| "jsonBytes (JObj ob) =
     6 # concat (map (\<lambda>(k, b). 1 # textBytes k @ b) (map (map_prod id jsonBytes) ob)) @ [0]"

fun readJson :: "nat \<Rightarrow> bytes \<Rightarrow> (json \<times> bytes) option"
  and readArray :: "nat \<Rightarrow> bytes \<Rightarrow> (json list \<times> bytes) option"
  and readObject :: "nat \<Rightarrow> bytes \<Rightarrow> (json_obj \<times> bytes) option" where
  "readJson 0 b = None"
| "readJson (Suc n) b =
     (case b of
        [] \<Rightarrow> None
      | t # r \<Rightarrow>
          (if t = 0 then Some (JNull, r)
           else if t = 1 then (case r of [] \<Rightarrow> None | v # rest \<Rightarrow> Some (JBool (v \<noteq> 0), rest))
           else if t = 2 then map_option (\<lambda>(s, rest). (JInt (textInt s), rest)) (readText r)
           else if t = 3 then Some (JFrac, r)
           else if t = 4 then map_option (\<lambda>(s, rest). (JStr s, rest)) (readText r)
           else if t = 5 then map_option (\<lambda>(xs, rest). (JArr xs, rest)) (readArray n r)
           else map_option (\<lambda>(ob, rest). (JObj ob, rest)) (readObject n r)))"
| "readArray 0 b = None"
| "readArray (Suc n) b =
     (case b of
        [] \<Rightarrow> None
      | t # r \<Rightarrow>
          (if t = 0 then Some ([], r)
           else case readJson n r of
                  None \<Rightarrow> None
                | Some (x, r') \<Rightarrow> map_option (\<lambda>(xs, rest). (x # xs, rest)) (readArray n r')))"
| "readObject 0 b = None"
| "readObject (Suc n) b =
     (case b of
        [] \<Rightarrow> None
      | t # r \<Rightarrow>
          (if t = 0 then Some ([], r)
           else case readText r of
                  None \<Rightarrow> None
                | Some (k, r1) \<Rightarrow>
                    (case readJson n r1 of
                       None \<Rightarrow> None
                     | Some (x, r2) \<Rightarrow> map_option (\<lambda>(ob, rest). ((k, x) # ob, rest)) (readObject n r2))))"

definition samplePrint :: "json_obj \<Rightarrow> bytes" where
  "samplePrint ob = jsonBytes (JObj ob)"

definition sampleParse :: "bytes \<Rightarrow> json_obj" where
  "sampleParse b =
     (case readJson (length b) b of Some (JObj ob, rest) \<Rightarrow> normalObject ob | _ \<Rightarrow> [])"

lemma readText_textBytes [simp]: "readText (textBytes s @ r) = Some (s, r)"
proof (induction s)
  case (Cons c s)
  have "ucast (ucast c :: byte) OR push_bit 8 (ucast (ucast (drop_bit 8 c) :: byte)) = (c :: 16 word)"
    by (rule bit_word_eqI) (auto simp: bit_simps)
  with Cons show ?case by simp
qed simp

lemma textInt_intText: "inIntRange i \<Longrightarrow> textInt (intText i) = i"
proof -
  assume i: "inIntRange i"
  have word: "ucast (ucast w :: 16 word) OR push_bit 16 (ucast (ucast (drop_bit 16 w) :: 16 word)) = w"
    for w :: "32 word"
    by (rule bit_word_eqI) (auto simp: bit_simps)
  from i have "sint (of_int i :: 32 word) = i"
    by (simp add: inIntRange_def intMin_def intMax_def sint_sbintrunc' signed_take_bit_int_eq_self)
  then show ?thesis
    by (simp only: textInt_def intText_def Let_def list.case word)
qed

lemma readJson_jsonBytes:
  "goodJson P j \<Longrightarrow> length (jsonBytes j) \<le> n \<Longrightarrow> readJson n (jsonBytes j @ r) = Some (j, r)"
proof (induction j arbitrary: n r)
  case (JArr xs)
  have "readArray m (concat (map (\<lambda>b. 1 # b) (map jsonBytes ys)) @ 0 # r) = Some (ys, r)"
    if "set ys \<subseteq> set xs" "length (concat (map (\<lambda>b. 1 # b) (map jsonBytes ys))) < m" for ys m
    using that
  proof (induction ys arbitrary: m)
    case (Cons y ys)
    then obtain k where k: "m = Suc k" by (cases m) auto
    have "goodJson P y" using JArr.prems Cons.prems by (auto simp: list_all_iff)
    moreover have "length (jsonBytes y) \<le> k" using Cons.prems k by simp
    ultimately have "readJson k (jsonBytes y @ s) = Some (y, s)" for s
      using JArr.IH Cons.prems by auto
    moreover have "readArray k (concat (map (\<lambda>b. 1 # b) (map jsonBytes ys)) @ 0 # r) = Some (ys, r)"
      using Cons.prems k by (intro Cons.IH) auto
    ultimately show ?case by (simp add: k)
  next
    case Nil
    then show ?case by (cases m) simp_all
  qed
  from this [of xs] JArr.prems show ?case by (cases n) simp_all
next
  case (JObj ob)
  have "readObject m (concat (map (\<lambda>(k, b). 1 # textBytes k @ b) (map (map_prod id jsonBytes) ys)) @ 0 # r)
      = Some (ys, r)"
    if "set ys \<subseteq> set ob"
      "length (concat (map (\<lambda>(k, b). 1 # textBytes k @ b) (map (map_prod id jsonBytes) ys))) < m" for ys m
    using that
  proof (induction ys arbitrary: m)
    case (Cons y ys)
    obtain key v where y: "y = (key, v)" by (cases y)
    from Cons.prems obtain k where k: "m = Suc k" by (cases m) auto
    have "goodJson P v" using JObj.prems Cons.prems y by (auto simp: list_all_iff)
    moreover have "length (jsonBytes v) \<le> k" using Cons.prems k y by simp
    moreover have "(key, v) \<in> set ob" using Cons.prems y by simp
    ultimately have "readJson k (jsonBytes v @ s) = Some (v, s)" for s
      using JObj.IH [of "(key, v)" v] by simp
    moreover have "readObject k (concat (map (\<lambda>(k, b). 1 # textBytes k @ b) (map (map_prod id jsonBytes) ys)) @ 0 # r) = Some (ys, r)"
      using Cons.prems k y by (intro Cons.IH) auto
    ultimately show ?case by (simp add: k y id_def)
  next
    case Nil
    then show ?case by (cases m) simp_all
  qed
  from this [of ob] JObj.prems show ?case by (cases n) simp_all
qed (case_tac n; simp add: textInt_intText)+

lemma sampleParse_samplePrint:
  "goodJson P (JObj ob) \<Longrightarrow> sampleParse (samplePrint ob) = normalObject ob"
  using readJson_jsonBytes [of P "JObj ob" "length (samplePrint ob)" "[]"]
  by (simp add: sampleParse_def samplePrint_def)

end
