(* ===== verification/Sample.thy ===== *)
theory Sample
  imports SampleJson
begin

text \<open>
  A concrete instance of the library functions outside the repository and a few values, on
  which the theorems with hypotheses are exercised. The encodings are one byte or one code
  unit per character and the cipher is the identity: they satisfy the laws the theorems
  assume (each is proved here), which is all an instance is for.
\<close>

fun insertMessage :: "(LocalMessage \<Rightarrow> LocalMessage \<Rightarrow> bool) \<Rightarrow> LocalMessage \<Rightarrow> LocalMessage list \<Rightarrow> LocalMessage list" where
  "insertMessage before m [] = [m]"
| "insertMessage before m (x # xs) = (if before m x then m # x # xs else x # insertMessage before m xs)"

definition sampleSort :: "(LocalMessage \<Rightarrow> LocalMessage \<Rightarrow> bool) \<Rightarrow> LocalMessage list \<Rightarrow> LocalMessage list" where
  "sampleSort before ms = foldr (insertMessage before) ms []"

fun sampleDateText :: "QDateTime \<Rightarrow> qstring" where
  "sampleDateText InvalidDate = []"
| "sampleDateText (Instant i) = qNumber i"

fun sampleDate :: "qstring \<Rightarrow> QDateTime" where
  "sampleDate s = (case toIntOk s of None \<Rightarrow> InvalidDate | Some i \<Rightarrow> Instant i)"

text \<open>Instants are ordered as QDateTime orders them: an invalid one comes first.\<close>

instantiation QDateTime :: linorder
begin

fun less_eq_QDateTime :: "QDateTime \<Rightarrow> QDateTime \<Rightarrow> bool" where
  "less_eq_QDateTime InvalidDate d = True"
| "less_eq_QDateTime (Instant a) (Instant b) = (a \<le> b)"
| "less_eq_QDateTime (Instant a) InvalidDate = False"

definition less_QDateTime :: "QDateTime \<Rightarrow> QDateTime \<Rightarrow> bool" where
  "less_QDateTime d e \<longleftrightarrow> \<not> e \<le> d"

instance
proof
  fix a b c :: QDateTime
  show "a \<le> a" by (cases a) simp_all
  show "a \<le> b \<or> b \<le> a" by (cases a; cases b) auto
  show "(a < b) = (a \<le> b \<and> \<not> b \<le> a)" by (cases a; cases b) (auto simp: less_QDateTime_def)
  show "a \<le> b \<Longrightarrow> b \<le> c \<Longrightarrow> a \<le> c" by (cases a; cases b; cases c) auto
  show "a \<le> b \<Longrightarrow> b \<le> a \<Longrightarrow> a = b" by (cases a; cases b) auto
qed

end

definition sampleEnv :: env where
  "sampleEnv =
    \<lparr>pf_toLower = map asciiLowerChar, pf_foldCase = map asciiLowerChar,
     pf_isLetterOrNumber = (\<lambda>c. (48 \<le> c \<and> c \<le> 57) \<or> (65 \<le> c \<and> c \<le> 90) \<or> (97 \<le> c \<and> c \<le> 122)),
     pf_toUtf8 = map ucast, pf_fromUtf8 = map ucast, pf_toBase64 = map ucast, pf_fromBase64 = map ucast,
     pf_urlScheme = takeWhile (\<lambda>c. c \<noteq> 58), pf_siblingPath = (\<lambda>p f. Q ''/state/'' @ f), pf_dirPath = (\<lambda>p. Q ''/state''),
     pf_currentDirPath = (\<lambda>f. Q ''/work/'' @ f),
     pf_dateToString = sampleDateText, pf_dateToIso = sampleDateText, pf_dateFromString = sampleDate,
     pf_dateBefore = (<), pf_sortMessages = sampleSort,
     pf_jsonCompact = samplePrint, pf_jsonParse = sampleParse, pf_hasOpenSsl = True,
     ssl_pbkdf2 = (\<lambda>p s i n. Some (take n (p @ s))),
     ssl_gcmEncrypt = (\<lambda>key iv aad pt. Some (pt, replicate 16 0)),
     ssl_gcmDecrypt = (\<lambda>key iv aad ct tag. Some ct),
     ssl_publicKey = (\<lambda>t k. k), ssl_sign = (\<lambda>k m. Some (1 # m)), ssl_verify = (\<lambda>k m s. s = 1 # m),
     ssl_x25519 = (\<lambda>a b. Some (map2 (\<lambda>x y. x * y) a b)), ssl_hkdf = (\<lambda>ikm salt info n. Derived (replicate n 7)),
     ssl_hmac = (\<lambda>k m. replicate 32 9), pf_sha256 = (\<lambda>m. replicate 32 (of_nat (length m))),
     pf_hmacSha256 = (\<lambda>k m. replicate 32 9),
     env_now = Instant 1000, env_dirReady = (\<lambda>_. True), env_canRead = (\<lambda>_. True),
     env_canWrite = (\<lambda>_. True), env_random = (\<lambda>k n. Some (replicate n (of_nat k))),
     env_keygen = (\<lambda>t k. Some (replicate 32 (of_nat k))), env_bounded = (\<lambda>k n. k mod n),
     env_stale = (\<lambda>n. replicate n 0)\<rparr>"

definition sampleAnchor :: BlockchainAnchor where
  "sampleAnchor = \<lparr>ba_id = [], ba_messageId = [], ba_recordId = [], ba_digest = [], ba_merkleRoot = [],
     ba_transactionHash = [], ba_contractAddress = [], ba_chain = [], ba_status = [], ba_anchoredAt = []\<rparr>"

definition sampleMessage :: "string \<Rightarrow> string \<Rightarrow> string \<Rightarrow> int \<Rightarrow> LocalMessage" where
  "sampleMessage i sender recipient at =
    \<lparr>lm_id = Q i, lm_senderUserId = Q sender, lm_senderDeviceId = 1, lm_recipientUserId = Q recipient,
     lm_recipientDeviceId = 1, lm_wirePayloadJson = Q ''{}'', lm_consumedOneTimePreKeyId = None,
     lm_createdAt = Instant at, lm_accessRevokedAt = [], lm_senderDeletedAt = [],
     lm_recipientDeletedAt = [], lm_deletedAt = [], lm_readAt = [],
     lm_localSenderCopyWirePayloadJson = [],
     lm_direction = ReceivedDir, lm_createdAtRaw = [], lm_cachedAnchor = sampleAnchor\<rparr>"

lemma sample_base64: "base64_roundtrip sampleEnv"
proof -
  have "ucast (ucast (b :: byte) :: 16 word) = b" for b
    by (rule bit_word_eqI) (auto simp: bit_simps)
  then show ?thesis by (simp add: base64_roundtrip_def sampleEnv_def map_idI)
qed

lemma sample_now [simp]: "env_now sampleEnv = Instant 1000"
  by (simp add: sampleEnv_def)

lemma sample_date [simp]: "pf_dateToString sampleEnv (Instant 1000) = Q ''1000''"
  by (simp add: sampleEnv_def qNumber_def digitsOf.simps Q_def)

lemma sample_sort [simp]: "pf_sortMessages sampleEnv = sampleSort"
  by (simp add: sampleEnv_def)

lemma sample_utf8: "list_all (\<lambda>c. c < 256) v \<Longrightarrow> utf8_roundtrip sampleEnv v"
proof (induction v)
  case (Cons c v)
  have "(ucast (ucast c :: byte) :: 16 word) = c" if "c < 256"
  proof -
    from that have "unat c < 256" by (simp add: word_less_nat_alt)
    then show ?thesis by (simp add: word_unat_eq_iff unsigned_ucast_eq unsigned_take_bit_eq take_bit_nat_eq_self)
  qed
  with Cons show ?case by (simp add: utf8_roundtrip_def sampleEnv_def)
qed (simp add: utf8_roundtrip_def sampleEnv_def)

lemma sample_wire_laws: "wire_laws sampleEnv"
proof -
  have "pf_toUtf8 sampleEnv (pf_fromUtf8 sampleEnv b) = b" for b
  proof -
    have "ucast (ucast (x :: byte) :: 16 word) = x" for x
      by (rule bit_word_eqI) (auto simp: bit_simps)
    then show ?thesis by (simp add: sampleEnv_def map_idI)
  qed
  moreover have "pf_jsonParse sampleEnv (pf_jsonCompact sampleEnv ob) = normalObject ob"
    if "goodJson sampleEnv (JObj ob)" for ob
    using sampleParse_samplePrint [OF that] by (simp add: sampleEnv_def)
  ultimately have "json_text sampleEnv"
    unfolding json_text_def by blast
  moreover have "utf8_roundtrip sampleEnv s" if "list_all (\<lambda>c. c < 128) s" for s
    by (rule sample_utf8, rule list.pred_mono_strong [OF that]) (auto elim: order.strict_trans)
  then have "ascii_text sampleEnv" by (simp add: ascii_text_def)
  moreover have "utf8_roundtrip sampleEnv (map ucast (b :: bytes))" for b
  proof (rule sample_utf8)
    have "(ucast (x :: byte) :: 16 word) < 256" for x
      using unsigned_less [of x, where 'a = nat]
      by (simp add: word_less_nat_alt unsigned_ucast_eq take_bit_nat_eq_self)
    then show "list_all (\<lambda>c. c < 256) (map ucast b :: qstring)" by (simp add: list_all_iff)
  qed
  then have "base64_text sampleEnv" by (simp add: base64_text_def) (simp add: sampleEnv_def)
  moreover have "empty_text sampleEnv"
    by (simp add: empty_text_def sampleEnv_def sampleParse_def)
  ultimately show ?thesis using sample_base64 by (simp add: wire_laws_def)
qed

end
