(* ===== verification/StoreLaws.thy ===== *)
theory StoreLaws
  imports Store Sample
begin

text \<open>
  The laws of JsonLocalStore. Its five vectors are one kind of table, written by key
  (locale \<open>keyed_table\<close>, and \<open>overwriting_table\<close> where a write replaces the row), interpreted
  here on the operations of the store; then what reconciling, reading and deleting do to the
  messages, the conversation counts, and what goes to disk and comes back.
\<close>

section \<open>What saving changes\<close>

lemma writeFile_fields [simp]:
  "ls_indexPath (snd (writeFile E p r s)) = ls_indexPath s" "ls_path (snd (writeFile E p r s)) = ls_path s"
  "ls_secretProtectionRequired (snd (writeFile E p r s)) = ls_secretProtectionRequired s"
  "ls_secretPassphrase (snd (writeFile E p r s)) = ls_secretPassphrase s"
  "ls_secretSalt (snd (writeFile E p r s)) = ls_secretSalt s"
  "ls_session (snd (writeFile E p r s)) = ls_session s" "ls_hasSession (snd (writeFile E p r s)) = ls_hasSession s"
  "ls_deviceKeys (snd (writeFile E p r s)) = ls_deviceKeys s"
  "ls_oneTimePreKeys (snd (writeFile E p r s)) = ls_oneTimePreKeys s"
  "ls_knownUsers (snd (writeFile E p r s)) = ls_knownUsers s"
  "ls_trustPins (snd (writeFile E p r s)) = ls_trustPins s"
  "ls_messages (snd (writeFile E p r s)) = ls_messages s"
  by (simp_all add: writeFile_def)

lemma save_fields [simp]:
  "ls_indexPath (snd (save E s)) = ls_indexPath s" "ls_path (snd (save E s)) = ls_path s"
  "ls_secretProtectionRequired (snd (save E s)) = ls_secretProtectionRequired s"
  "ls_secretPassphrase (snd (save E s)) = ls_secretPassphrase s"
  "ls_secretSalt (snd (save E s)) = ls_secretSalt s"
  "ls_session (snd (save E s)) = ls_session s" "ls_hasSession (snd (save E s)) = ls_hasSession s"
  "ls_deviceKeys (snd (save E s)) = ls_deviceKeys s"
  "ls_oneTimePreKeys (snd (save E s)) = ls_oneTimePreKeys s"
  "ls_knownUsers (snd (save E s)) = ls_knownUsers s"
  "ls_trustPins (snd (save E s)) = ls_trustPins s"
  "ls_messages (snd (save E s)) = ls_messages s"
  by (simp_all add: save_def Let_def split: prod.split sum.split)

section \<open>Tables\<close>

locale keyed_table =
  fixes key :: "'v \<Rightarrow> 'k" and rows :: "'s \<Rightarrow> 'v list" and enter :: "'v \<Rightarrow> 's \<Rightarrow> 's"
    and merge :: "'v \<Rightarrow> 'v \<Rightarrow> 'v" and admits :: "'v \<Rightarrow> bool"
  assumes rows_write: "admits v \<Longrightarrow> rows (enter v s) = upsert_by (\<lambda>e. key e = key v) (merge v) v (rows s)"
    and key_merge: "key e = key v \<Longrightarrow> key (merge v e) = key v"
begin

lemma lookup_same:
  "admits v \<Longrightarrow> find (\<lambda>e. key e = key v) (rows (enter v s))
     = Some (case find (\<lambda>e. key e = key v) (rows s) of None \<Rightarrow> v | Some e \<Rightarrow> merge v e)"
  by (simp add: rows_write find_upsert_by_same key_merge)

lemma lookup_other:
  "admits v \<Longrightarrow> k \<noteq> key v \<Longrightarrow> find (\<lambda>e. key e = k) (rows (enter v s)) = find (\<lambda>e. key e = k) (rows s)"
  by (auto simp: rows_write key_merge intro!: find_upsert_by_other)

text \<open>As a map from keys to rows, a write is a map update.\<close>

lemma write_is_update:
  "admits v \<Longrightarrow> (\<lambda>k. find (\<lambda>e. key e = k) (rows (enter v s)))
     = (\<lambda>k. find (\<lambda>e. key e = k) (rows s))
         (key v \<mapsto> (case find (\<lambda>e. key e = key v) (rows s) of None \<Rightarrow> v | Some e \<Rightarrow> merge v e))"
  by (rule ext) (simp add: lookup_same lookup_other)

lemma keys_write:
  "admits v \<Longrightarrow> key ` set (rows (enter v s)) = insert (key v) (key ` set (rows s))"
proof -
  assume "admits v"
  then have "map key (rows (enter v s))
    = (if key v \<in> key ` set (rows s) then map key (rows s) else map key (rows s) @ [key v])"
    by (simp add: rows_write map_key_upsert_by key_merge)
  then have "set (map key (rows (enter v s))) = insert (key v) (set (map key (rows s)))"
    by (auto split: if_splits)
  then show ?thesis by simp
qed

lemma distinct_write:
  "admits v \<Longrightarrow> distinct (map key (rows s)) \<Longrightarrow> distinct (map key (rows (enter v s)))"
  by (simp add: rows_write distinct_upsert_by key_merge)

end

locale overwriting_table = keyed_table +
  assumes merge_new: "merge v e = v"
begin

lemma last_write_wins: "admits v \<Longrightarrow> find (\<lambda>e. key e = key v) (rows (enter v s)) = Some v"
  by (simp add: lookup_same merge_new split: option.split)

lemma write_is_put:
  "admits v \<Longrightarrow> (\<lambda>k. find (\<lambda>e. key e = k) (rows (enter v s))) = (\<lambda>k. find (\<lambda>e. key e = k) (rows s))(key v \<mapsto> v)"
  by (simp add: write_is_update merge_new split: option.split)

lemma write_twice: "admits v \<Longrightarrow> rows (enter v (enter v s)) = rows (enter v s)"
proof -
  have "upsert_by (\<lambda>e. key e = key v) (merge v) v (upsert_by (\<lambda>e. key e = key v) (merge v) v xs)
      = upsert_by (\<lambda>e. key e = key v) (merge v) v xs" for xs
    by (induction xs) (auto simp: merge_new)
  then show "admits v \<Longrightarrow> ?thesis" by (simp add: rows_write)
qed

end

abbreviation pinKey :: "TrustPin \<Rightarrow> qstring \<times> int" where
  "pinKey p \<equiv> (tp_userId p, tp_deviceId p)"

abbreviation preKeyKey :: "OneTimePreKey \<Rightarrow> int \<times> int" where
  "preKeyKey k \<equiv> (otk_deviceId k, otk_preKeyId k)"

abbreviation userKey :: "KnownUser \<Rightarrow> qstring \<times> int" where
  "userKey u \<equiv> (ku_userId u, ku_deviceId u)"

abbreviation userAddress :: "KnownUser \<Rightarrow> UserAddress" where
  "userAddress u \<equiv> \<lparr>ua_userId = ku_userId u, ua_username = ku_username u, ua_deviceId = ku_deviceId u\<rparr>"

interpretation pins: overwriting_table pinKey ls_trustPins "\<lambda>p s. snd (saveTrustPin E p s)"
    "\<lambda>p _. p" "\<lambda>_. True" for E
  by unfold_locales (simp_all add: saveTrustPin_def)

interpretation devices: overwriting_table dk_deviceId ls_deviceKeys "\<lambda>d s. snd (saveDeviceKeys E d s)"
    "\<lambda>d _. d" "\<lambda>_. True" for E
  by unfold_locales (simp_all add: saveDeviceKeys_def)

interpretation preKeys: overwriting_table preKeyKey ls_oneTimePreKeys
    "\<lambda>k s. snd (saveOneTimePreKeys E [k] s)" "\<lambda>k _. k" "\<lambda>_. True" for E
  by unfold_locales (simp_all add: saveOneTimePreKeys_def storePreKey_def)

lemma user_of_address [simp]:
  "\<lparr>ku_userId = ku_userId u, ku_username = ku_username u, ku_deviceId = ku_deviceId u\<rparr> = u"
  by (cases u) simp

interpretation users: overwriting_table userKey ls_knownUsers
    "\<lambda>u s. snd (saveKnownUser E (userAddress u) s)" "\<lambda>u _. u" "\<lambda>u. ku_userId u \<noteq> [] \<and> ku_username u \<noteq> []" for E
  by unfold_locales (simp_all add: saveKnownUser_def Let_def)

interpretation messages: keyed_table lm_id ls_messages "\<lambda>m s. snd (saveMessage E m s)"
    mergeMessage "\<lambda>_. True" for E
  by unfold_locales (simp_all add: saveMessage_def mergeMessage_def)

section \<open>Lookups after writes\<close>

lemma find_pair:
  "find (\<lambda>p. f p = a \<and> g p = b) xs = find (\<lambda>p. (f p, g p) = (a, b)) xs"
  by simp

text \<open>Trust pins are a map from users and devices to pins. After a pin is saved, the
  pin of its user and device is that pin, and the pin of every other user or device is what it
  was.\<close>

theorem trustPin_after_save:
  "trustPin u d (snd (saveTrustPin E pin s)) =
   (if u = tp_userId pin \<and> d = tp_deviceId pin then Inr (Some pin) else trustPin u d s)"
  using pins.last_write_wins [where v = pin and E = E and s = s]
    pins.lookup_other [where v = pin and k = "(u, d)" and E = E and s = s]
  by (auto simp: trustPin_def)

text \<open>Messages are a map from ids to messages, and saving merges. After a message is
  saved its id finds the message itself if the id was new, and otherwise the message with the
  marks it lacks taken from the earlier one; every other id finds what it found.\<close>

theorem findMessage_after_save:
  "findMessage i (snd (saveMessage E m s)) =
   (if i \<noteq> lm_id m then findMessage i s
    else Inr (Some (case findMessage i s of Inr (Some old) \<Rightarrow> mergeMessage m old | _ \<Rightarrow> m)))"
  using messages.lookup_same [where v = m and E = E and s = s]
    messages.lookup_other [where v = m and k = i and E = E and s = s]
  by (auto simp: findMessage_def split: option.split)

lemma map_key_updateFirst:
  assumes "\<And>m. key (f m) = key m"
  shows "map key (updateFirst p f xs) = map key xs"
proof (cases "dropWhile (\<lambda>x. \<not> p x) xs")
  case Nil
  show ?thesis unfolding updateFirst_def Nil by simp
next
  case (Cons y ys)
  then have "map key (updateFirst p f xs) = map key (takeWhile (\<lambda>x. \<not> p x) xs @ y # ys)"
    using assms by (simp add: updateFirst_def)
  also have "takeWhile (\<lambda>x. \<not> p x) xs @ y # ys = xs"
    using Cons by (metis takeWhile_dropWhile_id)
  finally show ?thesis .
qed

lemma lm_id_updates [simp]:
  "lm_id (deletedFor u n m) = lm_id m" "lm_id (reconcileMessage n u d ids m) = lm_id m"
  "lm_id (markRead n u p m) = lm_id m" "lm_id (mergeMessage m old) = lm_id m"
  by (simp_all add: deletedFor_def reconcileMessage_def markRead_def mergeMessage_def Let_def)

section \<open>Messages\<close>

text \<open>Message ids stay unique. Saving a message, marking it deleted, reconciling
  with the server and marking a conversation read keep the ids of the stored messages distinct.\<close>

theorem message_ids_stay_distinct:
  assumes "distinct (map lm_id (ls_messages s))"
  shows "distinct (map lm_id (ls_messages (snd (saveMessage E m s))))
    \<and> distinct (map lm_id (ls_messages (snd (markMessageDeletedFor E u i s))))
    \<and> distinct (map lm_id (ls_messages (snd (reconcileVisibleMessages E u d ids s))))
    \<and> distinct (map lm_id (ls_messages (snd (markConversationRead E u p s))))"
  using assms messages.distinct_write [where v = m and E = E and s = s]
  by (simp add: markMessageDeletedFor_def reconcileVisibleMessages_def markConversationRead_def Let_def
      map_key_updateFirst comp_def)

definition sampleStore :: "LocalMessage list \<Rightarrow> local_store" where
  "sampleStore ms =
    \<lparr>ls_indexPath = Q ''/state/index'', ls_path = Q ''/state/alice'', ls_secretProtectionRequired = False,
     ls_secretPassphrase = [], ls_secretSalt = [], ls_session = emptySession, ls_hasSession = False,
     ls_deviceKeys = [], ls_oneTimePreKeys = [], ls_knownUsers = [], ls_trustPins = [],
     ls_messages = ms, ls_files = (\<lambda>_. None), ls_draws = 0\<rparr>"

lemma sampleStore_fields [simp]:
  "ls_messages (sampleStore ms) = ms" "ls_trustPins (sampleStore ms) = []"
  "ls_knownUsers (sampleStore ms) = []" "ls_files (sampleStore ms) = (\<lambda>_. None)"
  by (simp_all add: sampleStore_def)

abbreviation helloFromBob :: LocalMessage where
  "helloFromBob \<equiv> sampleMessage ''m1'' ''bob'' ''alice'' 10"

abbreviation replyToBob :: LocalMessage where
  "replyToBob \<equiv> sampleMessage ''m2'' ''alice'' ''bob'' 5"

theorem message_ids_stay_distinct_witness:
  "distinct (map lm_id (ls_messages (snd (saveMessage sampleEnv helloFromBob (sampleStore [helloFromBob, replyToBob])))))"
  using message_ids_stay_distinct [of "sampleStore [helloFromBob, replyToBob]" sampleEnv helloFromBob "[]" "[]" ReceivedDir "{}" "[]"]
  by (simp add: sampleMessage_def)

lemma visible_iff:
  "isMessageVisibleToUser m u \<longleftrightarrow> lm_deletedAt m = [] \<and> lm_accessRevokedAt m = []
     \<and> (lm_senderUserId m = u \<longrightarrow> lm_senderDeletedAt m = [])
     \<and> (lm_recipientUserId m = u \<longrightarrow> lm_recipientDeletedAt m = [])"
  by (auto simp: isMessageVisibleToUser_def Let_def)

lemma firstNonEmpty_Nil [simp]: "firstNonEmpty a b = [] \<longleftrightarrow> a = [] \<and> b = []"
  by (simp add: firstNonEmpty_def)

text \<open>Property C21: a message that was hidden stays hidden. When a message that is deleted,
  revoked or deleted by one side is saved again by a later synchronisation, from the same
  sender to the same recipient, the stored message is still invisible to that user, whatever
  marks the new copy lacks; its read mark is not lost either.\<close>

theorem tombstones_survive_saving:
  assumes "findMessage (lm_id m) s = Inr (Some old)" and "\<not> isMessageVisibleToUser old u"
    and "lm_senderUserId m = lm_senderUserId old" and "lm_recipientUserId m = lm_recipientUserId old"
  shows "\<exists>new. findMessage (lm_id m) (snd (saveMessage E m s)) = Inr (Some new)
     \<and> \<not> isMessageVisibleToUser new u \<and> (lm_readAt old \<noteq> [] \<longrightarrow> lm_readAt new \<noteq> [])"
  using assms messages.lookup_same [where v = m and E = E and s = s]
  by (auto simp: findMessage_def mergeMessage_def visible_iff)

theorem tombstones_survive_saving_witness:
  "\<exists>new. findMessage (Q ''m1'') (snd (saveMessage sampleEnv helloFromBob
       (sampleStore [helloFromBob\<lparr>lm_accessRevokedAt := Q ''1''\<rparr>]))) = Inr (Some new)
     \<and> \<not> isMessageVisibleToUser new (Q ''alice'')"
  using tombstones_survive_saving [of helloFromBob "sampleStore [helloFromBob\<lparr>lm_accessRevokedAt := Q ''1''\<rparr>]"
      "helloFromBob\<lparr>lm_accessRevokedAt := Q ''1''\<rparr>" "Q ''alice''" sampleEnv]
  by (auto simp: sampleMessage_def findMessage_def visible_iff)

text \<open>The messages a listing in this direction speaks for.\<close>

definition listedFor :: "qstring \<Rightarrow> MessageDirection \<Rightarrow> LocalMessage \<Rightarrow> bool" where
  "listedFor u d m \<longleftrightarrow> (if d = ReceivedDir then lm_recipientUserId m = u else lm_senderUserId m = u)"

lemma reconcileMessage_visible:
  assumes "now \<noteq> []"
  shows "listedFor u d (reconcileMessage now u d ids m)
       \<and> isMessageVisibleToUser (reconcileMessage now u d ids m) u
    \<longleftrightarrow> listedFor u d m \<and> isMessageVisibleToUser m u \<and> lm_id m \<in> ids"
    and "lm_id m \<in> ids \<or> \<not> isMessageVisibleToUser m u \<or> \<not> listedFor u d m \<Longrightarrow> reconcileMessage now u d ids m = m"
  using assms by (cases d; auto simp: reconcileMessage_def listedFor_def visible_iff Let_def)+

text \<open>Property C22: the cache follows the server. After reconciling with the ids the server lists
  for a direction, the visible messages of the user in that direction are exactly those that
  were visible and are listed, in the same order and unchanged; a message outside the
  direction is not touched.\<close>

theorem reconcile_follows_server:
  assumes "pf_dateToString E (env_now E) \<noteq> []"
  shows "filter (\<lambda>m. listedFor u d m \<and> isMessageVisibleToUser m u)
           (ls_messages (snd (reconcileVisibleMessages E u d ids s)))
       = filter (\<lambda>m. listedFor u d m \<and> isMessageVisibleToUser m u \<and> lm_id m \<in> ids) (ls_messages s)
    \<and> filter (\<lambda>m. \<not> listedFor u d m) (ls_messages (snd (reconcileVisibleMessages E u d ids s)))
       = filter (\<lambda>m. \<not> listedFor u d m) (ls_messages s)"
proof -
  let ?f = "reconcileMessage (pf_dateToString E (env_now E)) u d ids"
  have other: "listedFor u d (?f m) = listedFor u d m" for m
    by (cases d; simp add: reconcileMessage_def listedFor_def Let_def)
  have 1: "filter (\<lambda>m. listedFor u d m \<and> isMessageVisibleToUser m u) (map ?f ms)
      = filter (\<lambda>m. listedFor u d m \<and> isMessageVisibleToUser m u \<and> lm_id m \<in> ids) ms" for ms
    using reconcileMessage_visible [OF assms] by (induction ms) auto
  have 2: "filter (\<lambda>m. \<not> listedFor u d m) (map ?f ms) = filter (\<lambda>m. \<not> listedFor u d m) ms" for ms
    using reconcileMessage_visible(2) [OF assms] by (induction ms) (auto simp: other)
  from 1 2 show ?thesis by (simp add: reconcileVisibleMessages_def Let_def)
qed

theorem reconcile_follows_server_witness:
  "filter (\<lambda>m. listedFor (Q ''alice'') ReceivedDir m \<and> isMessageVisibleToUser m (Q ''alice''))
     (ls_messages (snd (reconcileVisibleMessages sampleEnv (Q ''alice'') ReceivedDir {}
        (sampleStore [helloFromBob])))) = []"
  using reconcile_follows_server [of sampleEnv "Q ''alice''" ReceivedDir "{}" "sampleStore [helloFromBob]"]
  by simp

text \<open>Reading a conversation. After a conversation is marked read, no message of the
  peer to the user is unread, and every other message is as it was; in particular an unread
  message between two other users, which the conversation list counts as unread for this
  user too, is not cleared by reading any conversation.\<close>

theorem markConversationRead_exact:
  assumes "pf_dateToString E (env_now E) \<noteq> []"
  shows "(\<forall>m \<in> set (ls_messages (snd (markConversationRead E u p s))).
            lm_senderUserId m = p \<and> lm_recipientUserId m = u \<longrightarrow> lm_readAt m \<noteq> [])
    \<and> filter (\<lambda>m. \<not> (lm_senderUserId m = p \<and> lm_recipientUserId m = u)) (ls_messages (snd (markConversationRead E u p s)))
       = filter (\<lambda>m. \<not> (lm_senderUserId m = p \<and> lm_recipientUserId m = u)) (ls_messages s)"
proof -
  let ?f = "markRead (pf_dateToString E (env_now E)) u p"
  have "filter (\<lambda>m. \<not> (lm_senderUserId m = p \<and> lm_recipientUserId m = u)) (map ?f ms)
      = filter (\<lambda>m. \<not> (lm_senderUserId m = p \<and> lm_recipientUserId m = u)) ms" for ms
    by (induction ms) (auto simp: markRead_def Let_def)
  moreover have "lm_senderUserId (?f m) = p \<and> lm_recipientUserId (?f m) = u \<longrightarrow> lm_readAt (?f m) \<noteq> []" for m
    using assms by (simp add: markRead_def Let_def)
  ultimately show ?thesis by (simp add: markConversationRead_def Let_def)
qed

theorem markConversationRead_exact_witness:
  "filter (\<lambda>m. lm_senderUserId m = Q ''bob'' \<and> lm_recipientUserId m = Q ''alice'' \<and> lm_readAt m = [])
     (ls_messages (snd (markConversationRead sampleEnv (Q ''alice'') (Q ''bob'') (sampleStore [helloFromBob, replyToBob])))) = []"
  using markConversationRead_exact [of sampleEnv "Q ''alice''" "Q ''bob''" "sampleStore [helloFromBob, replyToBob]"]
  by (auto simp: filter_empty_conv)

section \<open>Conversation counts\<close>

lemma keys_insert_or_assign: "set (map fst (insert_or_assign k v m)) = insert k (set (map fst m))"
proof (induction m)
  case (Cons x m)
  then show ?case
    by (cases x) (simp add: insert_commute del: set_map add: set_map [symmetric])
qed simp

lemma sorted_insert_or_assign:
  "sorted_wrt (<) (map fst m) \<Longrightarrow> sorted_wrt (<) (map fst (insert_or_assign k v m))"
proof (induction m)
  case (Cons x m)
  obtain a b where x: "x = (a, b)" by (cases x)
  from Cons.prems have m: "sorted_wrt (<) (map fst m)" and a: "\<forall>y \<in> set (map fst m). a < y"
    by (simp_all add: x)
  have "\<not> k < a \<Longrightarrow> k \<noteq> a \<Longrightarrow> \<forall>y \<in> set (map fst (insert_or_assign k v m)). a < y"
    using a unfolding keys_insert_or_assign by auto
  with Cons.IH [OF m] m a show ?case by (auto simp: x)
qed simp

lemma lookup_insert_or_assign: "map_of (insert_or_assign k v m) = (map_of m)(k \<mapsto> v)"
  by (induction m) (auto simp: fun_eq_iff)

lemma listing_sorted:
  fixes m :: "('k::linorder \<times> 'v) list"
  assumes "sorted_wrt (<) (map fst m)"
  shows "map snd m = map (\<lambda>k. the (map_of m k)) (sorted_list_of_set (dom (map_of m)))"
proof -
  have keys: "sorted (map fst m)" "distinct (map fst m)" using assms by (simp_all add: strict_sorted_iff)
  have "map fst m = sorted_list_of_set (set (map fst m))"
    using sorted_list_of_set.idem_if_sorted_distinct [OF keys] by (rule sym)
  then have "sorted_list_of_set (dom (map_of m)) = map fst m" by (simp add: dom_map_of_conv_image_fst)
  moreover have "map (\<lambda>k. the (map_of m k)) (map fst m) = map snd m"
    using keys(2) by (auto simp: comp_def)
  ultimately show ?thesis by simp
qed

text \<open>
  The ordered map of the standard library, as the conversation list uses it: looking up after a
  write, and listing the values in the order of their keys.
\<close>

locale ordered_map =
  fixes ok :: "'m \<Rightarrow> bool" and look :: "'m \<Rightarrow> 'k::linorder \<Rightarrow> 'v option"
    and assign :: "'k \<Rightarrow> 'v \<Rightarrow> 'm \<Rightarrow> 'm" and listing :: "'m \<Rightarrow> 'v list"
  assumes ok_assign: "ok m \<Longrightarrow> ok (assign k v m)"
    and look_assign: "look (assign k v m) = (look m)(k \<mapsto> v)"
    and listing_ok: "ok m \<Longrightarrow> listing m = map (\<lambda>k. the (look m k)) (sorted_list_of_set (dom (look m)))"
begin

text \<open>Grouping by key: the row of a key is what the elements with that key make of it.\<close>

lemma look_after_steps:
  assumes "\<And>m x. step m x = (if p x then assign (key x) (row x (look m (key x))) m else m)"
  shows "look (foldl step m xs) k
    = foldl (\<lambda>r x. Some (row x r)) (look m k) (filter (\<lambda>x. key x = k) (filter p xs))"
  by (induction xs arbitrary: m) (simp_all add: assms look_assign)

lemma ok_after_steps:
  assumes "\<And>m x. step m x = (if p x then assign (key x) (row x (look m (key x))) m else m)"
  shows "ok m \<Longrightarrow> ok (foldl step m xs)"
  by (induction xs arbitrary: m) (simp_all add: assms ok_assign)

lemma keys_after_steps:
  assumes "\<And>m x. step m x = (if p x then assign (key x) (row x (look m (key x))) m else m)"
  shows "dom (look (foldl step m xs)) = dom (look m) \<union> key ` set (filter p xs)"
  by (induction xs arbitrary: m) (auto simp: assms look_assign)

lemma listing_after_steps:
  assumes "ok m" "look m = Map.empty"
    and "\<And>m x. step m x = (if p x then assign (key x) (row x (look m (key x))) m else m)"
  shows "listing (foldl step m xs)
    = map (\<lambda>k. the (foldl (\<lambda>r x. Some (row x r)) None (filter (\<lambda>x. key x = k) (filter p xs))))
        (sorted_list_of_set (key ` set (filter p xs)))"
proof -
  have "ok (foldl step m xs)" by (rule ok_after_steps [OF assms(3,1)])
  from listing_ok [OF this] assms(2) show ?thesis
    by (simp only: look_after_steps [OF assms(3)] keys_after_steps [OF assms(3)] dom_empty Un_empty_left)
qed

end

interpretation std_map: ordered_map "\<lambda>m. sorted_wrt (<) (map fst m)" map_of
    "insert_or_assign :: 'k::linorder \<Rightarrow> 'v \<Rightarrow> ('k \<times> 'v) list \<Rightarrow> ('k \<times> 'v) list" "map snd"
  by unfold_locales (simp_all add: sorted_insert_or_assign lookup_insert_or_assign listing_sorted)

section \<open>The conversation list\<close>

text \<open>The conversation of a key, read off the visible messages that have the key.\<close>

definition visibleMessages :: "qstring \<Rightarrow> local_store \<Rightarrow> LocalMessage list" where
  "visibleMessages u s = filter (\<lambda>x. isMessageVisibleToUser x u) (ls_messages s)"

definition knownPeerName :: "local_store \<Rightarrow> qstring \<Rightarrow> LocalMessage \<Rightarrow> qstring" where
  "knownPeerName s u x =
     (case knownUser (peerUserIdOf u x) (peerDeviceIdOf u x) s of Inr (Some k) \<Rightarrow> ku_username k | _ \<Rightarrow> [])"

definition unreadBy :: "qstring \<Rightarrow> LocalMessage \<Rightarrow> bool" where
  "unreadBy u x \<longleftrightarrow> lm_senderUserId x \<noteq> u \<and> lm_readAt x = []"

definition latestDate :: "'x platform_scheme \<Rightarrow> LocalMessage list \<Rightarrow> QDateTime" where
  "latestDate P = foldl (\<lambda>d x. if \<not> isValidDate d \<or> pf_dateBefore P d (lm_createdAt x) then lm_createdAt x else d) InvalidDate"

fun firstName :: "qstring list \<Rightarrow> qstring" where
  "firstName [] = []"
| "firstName (n # ns) = (if n = [] then firstName ns else n)"

definition conversationOf :: "'x platform_scheme \<Rightarrow> local_store \<Rightarrow> qstring \<Rightarrow> LocalMessage list \<Rightarrow> ConversationSummary" where
  "conversationOf P s u ms =
     \<lparr>cs_peerUserId = peerUserIdOf u (hd ms), cs_peerUsername = firstName (map (knownPeerName s u) ms),
      cs_peerDeviceId = peerDeviceIdOf u (hd ms), cs_messageCount = int (length ms),
      cs_unreadCount = int (length (filter (unreadBy u) ms)), cs_latestMessageAt = latestDate P ms\<rparr>"

text \<open>One more message of a key turns the conversation of the messages before it into that of all.\<close>

definition grown :: "'x platform_scheme \<Rightarrow> local_store \<Rightarrow> qstring \<Rightarrow> LocalMessage \<Rightarrow> ConversationSummary option \<Rightarrow> ConversationSummary" where
  "grown P s u x r = updatedSummary P s u (case r of None \<Rightarrow> [] | Some c \<Rightarrow> [(keyOfMessage u x, c)]) x"

lemma updatedSummary_grown:
  "updatedSummary P s u m x = grown P s u x (map_of m (keyOfMessage u x))"
  by (simp add: grown_def updatedSummary_def split: option.split)

lemma firstName_snoc: "firstName (ns @ [n]) = (if firstName ns = [] then n else firstName ns)"
  by (induction ns) auto

lemma latestDate_snoc:
  "latestDate P (ms @ [x]) = (if \<not> isValidDate (latestDate P ms) \<or> pf_dateBefore P (latestDate P ms) (lm_createdAt x)
    then lm_createdAt x else latestDate P ms)"
  by (simp add: latestDate_def)

lemma grown_conversation:
  "ms \<noteq> [] \<Longrightarrow> grown P s u x (Some (conversationOf P s u ms)) = conversationOf P s u (ms @ [x])"
  by (auto simp: grown_def updatedSummary_def conversationOf_def firstName_snoc latestDate_snoc unreadBy_def Let_def
      knownPeerName_def [symmetric])

lemma grown_first: "grown P s u x None = conversationOf P s u [x]"
  by (simp add: grown_def updatedSummary_def conversationOf_def latestDate_def unreadBy_def Let_def
      knownPeerName_def [symmetric])

lemma grown_all:
  "foldl (\<lambda>r x. Some (grown P s u x r)) None ms = (if ms = [] then None else Some (conversationOf P s u ms))"
proof (induction ms rule: rev_induct)
  case (snoc x ms)
  then show ?case by (simp add: grown_conversation grown_first)
qed simp

text \<open>Property C37: the conversation list is the visible messages grouped by their conversation key.
  It has one entry for each key of a visible message, in the order of the keys, and the entry is
  that of the messages with that key: their number, the number of those the user did not send
  and has not read, the peer and device of the first, the first name known for the peer, and
  the latest date.\<close>

theorem conversations_by_key:
  "conversationsFor P u s = Inr (map
     (\<lambda>k. conversationOf P s u (filter (\<lambda>x. keyOfMessage u x = k) (visibleMessages u s)))
     (sorted_list_of_set (keyOfMessage u ` set (visibleMessages u s))))"
proof -
  let ?of = "\<lambda>k. filter (\<lambda>x. keyOfMessage u x = k) (visibleMessages u s)"
  have step: "addToConversations P s u m x = (if isMessageVisibleToUser x u
      then insert_or_assign (keyOfMessage u x) (grown P s u x (map_of m (keyOfMessage u x))) m else m)" for m x
    by (simp add: addToConversations_def updatedSummary_grown)
  have "map snd (foldl (addToConversations P s u) [] (ls_messages s))
      = map (\<lambda>k. the (foldl (\<lambda>r x. Some (grown P s u x r)) None (?of k)))
          (sorted_list_of_set (keyOfMessage u ` set (visibleMessages u s)))"
    unfolding visibleMessages_def by (rule std_map.listing_after_steps [OF _ _ step]) simp_all
  also have "\<dots> = map (\<lambda>k. conversationOf P s u (?of k)) (sorted_list_of_set (keyOfMessage u ` set (visibleMessages u s)))"
    by (rule map_cong) (auto simp: grown_all filter_empty_conv)
  finally show ?thesis by (simp add: conversationsFor_def)
qed

section \<open>Sorting\<close>

text \<open>\<open>std::sort\<close> asks for a strict weak order and promises a sorted permutation.\<close>

definition strict_weak :: "('a \<Rightarrow> 'a \<Rightarrow> bool) \<Rightarrow> bool" where
  "strict_weak lt \<longleftrightarrow> (\<forall>a. \<not> lt a a) \<and> (\<forall>a b c. lt a b \<longrightarrow> lt a c \<or> lt c b) \<and> (\<forall>a b c. lt a b \<and> lt b c \<longrightarrow> lt a c)"

definition sort_law :: "'x platform_scheme \<Rightarrow> bool" where
  "sort_law P \<longleftrightarrow> (\<forall>lt ms. strict_weak lt \<longrightarrow>
     mset (pf_sortMessages P lt ms) = mset ms \<and> sorted_wrt (\<lambda>a b. \<not> lt b a) (pf_sortMessages P lt ms))"

text \<open>The messages of a conversation are complete and in order. The list shown is a
  permutation of the visible messages between the two users, and no message in it was created
  before an earlier one.\<close>

theorem messagesWithPeer_sorted:
  assumes "sort_law P" and "strict_weak (createdBefore P)"
  shows "\<exists>ms. messagesWithPeer P u p s = Inr ms \<and> mset ms = mset (filter (betweenPeers u p) (ls_messages s))
     \<and> sorted_wrt (\<lambda>a b. \<not> createdBefore P b a) ms"
  using assms by (simp add: sort_law_def messagesWithPeer_def)

lemma created_weak: "strict_weak (createdBefore sampleEnv)"
  by (auto simp: strict_weak_def createdBefore_def sampleEnv_def)

lemma insertMessage_set: "mset (insertMessage lt m xs) = add_mset m (mset xs)"
  by (induction xs) auto

lemma insertMessage_sorted:
  assumes lt: "strict_weak lt" and "sorted_wrt (\<lambda>a b. \<not> lt b a) xs"
  shows "sorted_wrt (\<lambda>a b. \<not> lt b a) (insertMessage lt m xs)"
  using assms(2)
proof (induction xs)
  case (Cons x xs)
  have "set (insertMessage lt m xs) = insert m (set xs)"
    by (metis insertMessage_set set_mset_add_mset_insert set_mset_mset)
  moreover have "lt m x \<Longrightarrow> \<not> lt y x \<Longrightarrow> \<not> lt y m" for y
    using lt unfolding strict_weak_def by blast
  moreover have "lt m x \<Longrightarrow> \<not> lt x m"
    using lt unfolding strict_weak_def by blast
  ultimately show ?case using Cons by auto
qed simp

lemma sample_sort_law: "sort_law sampleEnv"
proof -
  have "mset (sampleSort lt ms) = mset ms \<and> (strict_weak lt \<longrightarrow> sorted_wrt (\<lambda>a b. \<not> lt b a) (sampleSort lt ms))"
    for lt ms
    by (induction ms) (auto simp: sampleSort_def insertMessage_set insertMessage_sorted)
  then show ?thesis by (simp add: sort_law_def)
qed

theorem messagesWithPeer_sorted_witness:
  "\<exists>ms. messagesWithPeer sampleEnv (Q ''alice'') (Q ''bob'') (sampleStore [helloFromBob, replyToBob]) = Inr ms
     \<and> mset ms = {#helloFromBob, replyToBob#} \<and> sorted_wrt (\<lambda>a b. \<not> createdBefore sampleEnv b a) ms"
  using messagesWithPeer_sorted [OF sample_sort_law created_weak, of "Q ''alice''" "Q ''bob''"
      "sampleStore [helloFromBob, replyToBob]"]
  by (simp add: betweenPeers_def visible_iff sampleMessage_def)

end
