(* ===== verification/StoreMaps.thy ===== *)
theory StoreMaps
  imports StoreLaws
begin

text \<open>
  The local store as a client of it may think of it: a session and five maps, from keys to rows.
  The operations on the vectors refine operations on the maps, in any sequence, whether the
  saves to disk succeed or not, and the lookups read the maps.
\<close>

record abstract_store =
  ab_session :: "AuthSession option"
  ab_devices :: "int \<Rightarrow> DeviceKeyMaterial option"
  ab_preKeys :: "int \<times> int \<Rightarrow> OneTimePreKey option"
  ab_users :: "qstring \<times> int \<Rightarrow> KnownUser option"
  ab_pins :: "qstring \<times> int \<Rightarrow> TrustPin option"
  ab_messages :: "qstring \<Rightarrow> LocalMessage option"

abbreviation rowsAt :: "('v \<Rightarrow> 'k) \<Rightarrow> 'v list \<Rightarrow> 'k \<Rightarrow> 'v option" where
  "rowsAt key rows \<equiv> (\<lambda>k. find (\<lambda>e. key e = k) rows)"

definition abstraction :: "local_store \<Rightarrow> abstract_store" where
  "abstraction s =
     \<lparr>ab_session = (if ls_hasSession s then Some (ls_session s) else None),
      ab_devices = rowsAt dk_deviceId (ls_deviceKeys s), ab_preKeys = rowsAt preKeyKey (ls_oneTimePreKeys s),
      ab_users = rowsAt userKey (ls_knownUsers s), ab_pins = rowsAt pinKey (ls_trustPins s),
      ab_messages = rowsAt lm_id (ls_messages s)\<rparr>"

text \<open>The operations of the store that write, and what each does to the maps.\<close>

datatype store_op =
    PutSession AuthSession
  | DropSession
  | PutDevice DeviceKeyMaterial
  | PutPreKeys "OneTimePreKey list"
  | PutUser UserAddress
  | PutPin TrustPin
  | PutMessage LocalMessage
  | DropMessage qstring qstring
  | Reconcile qstring MessageDirection "qstring set"
  | MarkRead qstring qstring

fun runOp :: "'x env_scheme \<Rightarrow> store_op \<Rightarrow> local_store \<Rightarrow> bool result \<times> local_store" where
  "runOp E (PutSession session) = saveSession E session"
| "runOp E DropSession = clearSession E"
| "runOp E (PutDevice device) = saveDeviceKeys E device"
| "runOp E (PutPreKeys keys) = saveOneTimePreKeys E keys"
| "runOp E (PutUser address) = saveKnownUser E address"
| "runOp E (PutPin pin) = saveTrustPin E pin"
| "runOp E (PutMessage message) = saveMessage E message"
| "runOp E (DropMessage userId messageId) = markMessageDeletedFor E userId messageId"
| "runOp E (Reconcile userId direction ids) = reconcileVisibleMessages E userId direction ids"
| "runOp E (MarkRead userId peerId) = markConversationRead E userId peerId"

definition userAt :: "UserAddress \<Rightarrow> KnownUser" where
  "userAt address = \<lparr>ku_userId = ua_userId address, ku_username = ua_username address, ku_deviceId = ua_deviceId address\<rparr>"

fun abstractOp :: "qstring \<Rightarrow> store_op \<Rightarrow> abstract_store \<Rightarrow> abstract_store" where
  "abstractOp now (PutSession session) a = a\<lparr>ab_session := Some session\<rparr>"
| "abstractOp now DropSession a = a\<lparr>ab_session := None\<rparr>"
| "abstractOp now (PutDevice device) a = a\<lparr>ab_devices := (ab_devices a)(dk_deviceId device \<mapsto> device)\<rparr>"
| "abstractOp now (PutPreKeys keys) a = a\<lparr>ab_preKeys := fold (\<lambda>k m. m(preKeyKey k \<mapsto> k)) keys (ab_preKeys a)\<rparr>"
| "abstractOp now (PutUser address) a =
     (if ua_userId address = [] \<or> ua_username address = [] then a
      else a\<lparr>ab_users := (ab_users a)(userKey (userAt address) \<mapsto> userAt address)\<rparr>)"
| "abstractOp now (PutPin pin) a = a\<lparr>ab_pins := (ab_pins a)(pinKey pin \<mapsto> pin)\<rparr>"
| "abstractOp now (PutMessage message) a =
     a\<lparr>ab_messages := (ab_messages a)(lm_id message \<mapsto>
        (case ab_messages a (lm_id message) of None \<Rightarrow> message | Some old \<Rightarrow> mergeMessage message old))\<rparr>"
| "abstractOp now (DropMessage userId messageId) a =
     a\<lparr>ab_messages := (ab_messages a)(messageId := map_option (deletedFor userId now) (ab_messages a messageId))\<rparr>"
| "abstractOp now (Reconcile userId direction ids) a =
     a\<lparr>ab_messages := map_option (reconcileMessage now userId direction ids) \<circ> ab_messages a\<rparr>"
| "abstractOp now (MarkRead userId peerId) a =
     a\<lparr>ab_messages := map_option (markRead now userId peerId) \<circ> ab_messages a\<rparr>"

section \<open>Each operation refines its abstract one\<close>

lemma rowsAt_map:
  "(\<And>e. key (f e) = key e) \<Longrightarrow> rowsAt key (map f xs) = map_option f \<circ> rowsAt key xs"
  by (induction xs) (auto simp: fun_eq_iff)

lemma updateFirst_Cons:
  "updateFirst p f [] = []" "updateFirst p f (x # xs) = (if p x then f x # xs else x # updateFirst p f xs)"
proof -
  show "updateFirst p f (x # xs) = (if p x then f x # xs else x # updateFirst p f xs)"
  proof (cases "dropWhile (\<lambda>x. \<not> p x) xs")
    case Nil
    show ?thesis unfolding updateFirst_def by (simp add: Nil)
  next
    case (Cons y ys)
    show ?thesis unfolding updateFirst_def by (simp add: Cons)
  qed
qed (simp add: updateFirst_def)

lemma rowsAt_updateFirst:
  assumes "\<And>e. key (f e) = key e"
  shows "rowsAt key (updateFirst (\<lambda>e. key e = i) f xs) = (rowsAt key xs)(i := map_option f (rowsAt key xs i))"
  by (induction xs) (auto simp: updateFirst_Cons assms fun_eq_iff)

lemma rowsAt_preKeys:
  "rowsAt preKeyKey (fold storePreKey keys rows) = fold (\<lambda>k m. m(preKeyKey k \<mapsto> k)) keys (rowsAt preKeyKey rows)"
proof (induction keys arbitrary: rows)
  case (Cons k keys)
  have "rowsAt preKeyKey (storePreKey k rows) = (rowsAt preKeyKey rows)(preKeyKey k \<mapsto> k)"
    using preKeys.write_is_put [where v = k and E = sampleEnv and s = "(sampleStore [])\<lparr>ls_oneTimePreKeys := rows\<rparr>"]
    by (simp add: saveOneTimePreKeys_def)
  then show ?case using Cons [of "storePreKey k rows"] by (simp only: fold_simps)
qed simp

lemma users_write:
  assumes "ua_userId address \<noteq> []" "ua_username address \<noteq> []"
  shows "rowsAt userKey (ls_knownUsers (snd (saveKnownUser E address s)))
    = (rowsAt userKey (ls_knownUsers s))(userKey (userAt address) \<mapsto> userAt address)"
proof -
  have "userAddress (userAt address) = address" by (simp add: userAt_def)
  moreover have "ku_userId (userAt address) \<noteq> [] \<and> ku_username (userAt address) \<noteq> []"
    using assms by (simp add: userAt_def)
  ultimately show ?thesis
    using users.write_is_put [where v = "userAt address" and E = E and s = s]
    by (simp only: not_False_eq_True simp_thms)
qed

lemma op_refines: "abstraction (snd (runOp E op s)) = abstractOp (pf_dateToString E (env_now E)) op (abstraction s)"
proof (cases op)
  case (PutDevice d)
  then show ?thesis using devices.write_is_put [where v = d and E = E and s = s]
    by (simp add: abstraction_def) (simp add: saveDeviceKeys_def)
next
  case (PutPin pin)
  then show ?thesis using pins.write_is_put [where v = pin and E = E and s = s]
    by (simp add: abstraction_def) (simp add: saveTrustPin_def)
next
  case (PutMessage m)
  then show ?thesis using messages.write_is_update [where v = m and E = E and s = s]
    by (simp add: abstraction_def) (simp add: saveMessage_def)
next
  case (PutUser a)
  then show ?thesis using users_write [of a E s]
    by (simp add: abstraction_def) (simp add: saveKnownUser_def Let_def)
next
  case (DropMessage u i)
  then show ?thesis
    by (auto simp: abstraction_def markMessageDeletedFor_def rowsAt_updateFirst fun_upd_idem_iff Let_def)
qed (simp_all add: abstraction_def saveSession_def clearSession_def saveOneTimePreKeys_def rowsAt_preKeys
      reconcileVisibleMessages_def markConversationRead_def rowsAt_map Let_def)

section \<open>Sequences of operations\<close>

text \<open>Each operation has its own surroundings: its time, and whether its save succeeds.\<close>

fun runOps :: "('x env_scheme \<times> store_op) list \<Rightarrow> local_store \<Rightarrow> local_store" where
  "runOps [] s = s"
| "runOps ((E, op) # ops) s = runOps ops (snd (runOp E op s))"

lemma ops_refine:
  "abstraction (runOps ops s) = fold (\<lambda>(E, op). abstractOp (pf_dateToString E (env_now E)) op) ops (abstraction s)"
  by (induction ops s rule: runOps.induct) (simp_all add: op_refines)

lemma lookups_read_maps:
  "loadSession s = Inr (ab_session (abstraction s))"
  "loadDeviceKeys d s = Inr (ab_devices (abstraction s) d)"
  "knownUser u d s = Inr (ab_users (abstraction s) (u, d))"
  "trustPin u d s = Inr (ab_pins (abstraction s) (u, d))"
  "findMessage i s = Inr (ab_messages (abstraction s) i)"
  by (simp_all add: loadSession_def loadDeviceKeys_def knownUser_def trustPin_def findMessage_def abstraction_def)

text \<open>
  Property C20: the local store refines five maps and an optional session. Whatever sequence of its
  ten writing operations is run, each at its own time and with its save succeeding or failing,
  what the store holds is what the same sequence of operations on maps gives: writes replace
  the row of their key, saved messages are merged with the row they find, and marking,
  reconciling and deleting act on each row; and every lookup by key reads its map.
\<close>

theorem store_refines_maps:
  "abstraction (runOps ops s) = fold (\<lambda>(E, op). abstractOp (pf_dateToString E (env_now E)) op) ops (abstraction s)
    \<and> loadSession s = Inr (ab_session (abstraction s))
    \<and> loadDeviceKeys d s = Inr (ab_devices (abstraction s) d)
    \<and> knownUser u d s = Inr (ab_users (abstraction s) (u, d))
    \<and> trustPin u d s = Inr (ab_pins (abstraction s) (u, d))
    \<and> findMessage i s = Inr (ab_messages (abstraction s) i)
    \<and> map_sum id (find (\<lambda>k. otk_preKeyId k = n)) (loadOneTimePreKeys d s) = Inr (ab_preKeys (abstraction s) (d, n))"
proof -
  have "find (\<lambda>k. otk_preKeyId k = n) (filter (\<lambda>k. otk_deviceId k = d) ks) = rowsAt preKeyKey ks (d, n)" for ks
    by (induction ks) auto
  then have "map_sum id (find (\<lambda>k. otk_preKeyId k = n)) (loadOneTimePreKeys d s) = Inr (ab_preKeys (abstraction s) (d, n))"
    by (simp add: loadOneTimePreKeys_def abstraction_def)
  then show ?thesis using ops_refine [of ops s] lookups_read_maps [where s = s] by (intro conjI)
qed

end
