(* ===== verification/Systems.thy ===== *)
theory Systems
  imports Main
begin

text \<open>
  Systems that take steps, as the client, its two modes and the network are: what is shown once
  for all of them. A \<open>stepping_system\<close> has its reachable states by induction, which gives
  invariants; in a \<open>settling_system\<close> some steps (the events) use up work, which bounds how many
  there can be, and a \<open>draining_system\<close> can always take one until it is quiet; a \<open>simulation\<close>
  maps each step to none or one of another system, which carries invariants over, and
  settling as well when events map to events.
\<close>

locale closed_system =
  fixes reach :: "'s \<Rightarrow> bool" and step :: "'s \<Rightarrow> 's \<Rightarrow> bool"
  assumes reach_step: "reach s \<Longrightarrow> step s t \<Longrightarrow> reach t"

locale stepping_system = closed_system +
  fixes start :: "'s \<Rightarrow> bool"
  assumes reach_start: "start s \<Longrightarrow> reach s"
    and reach_only: "reach s \<Longrightarrow> (\<And>s. start s \<Longrightarrow> P s) \<Longrightarrow> (\<And>s t. reach s \<Longrightarrow> P s \<Longrightarrow> step s t \<Longrightarrow> P t) \<Longrightarrow> P s"
begin

lemma invariant:
  assumes "\<And>s. start s \<Longrightarrow> I s" and "\<And>s t. reach s \<Longrightarrow> step s t \<Longrightarrow> I s \<Longrightarrow> I t" and "reach s"
  shows "I s"
  using assms(3) by (rule reach_only) (use assms in blast)+

end

locale settling_system = closed_system +
  fixes event :: "'s \<Rightarrow> 's \<Rightarrow> bool" and work :: "'s \<Rightarrow> nat"
  assumes event_step: "event s t \<Longrightarrow> step s t"
    and event_work: "reach s \<Longrightarrow> event s t \<Longrightarrow> work t < work s"
begin

lemma events_reach: "event\<^sup>*\<^sup>* s t \<Longrightarrow> reach s \<Longrightarrow> reach t"
  by (induction rule: rtranclp_induct) (auto intro: reach_step event_step)

lemma events_bounded: "(event ^^ n) s t \<Longrightarrow> reach s \<Longrightarrow> reach t \<and> n + work t \<le> work s"
proof (induction n arbitrary: t)
  case (Suc n)
  then obtain u where u: "(event ^^ n) s u" "event u t" by auto
  with Suc have "reach u" "n + work u \<le> work s" by blast+
  with event_work [of u t] u(2) show ?case by (auto intro: reach_step event_step)
qed simp

end

locale draining_system = settling_system +
  fixes quiet :: "'s \<Rightarrow> bool"
  assumes event_enabled: "reach s \<Longrightarrow> \<not> quiet s \<Longrightarrow> \<exists>t. event s t"
begin

lemma drains: "reach s \<Longrightarrow> \<exists>n t. (event ^^ n) s t \<and> quiet t \<and> reach t"
proof (induction "work s" arbitrary: s rule: less_induct)
  case less
  show ?case
  proof (cases "quiet s")
    case True
    with less.prems show ?thesis by (intro exI [of _ 0] exI [of _ s]) simp
  next
    case False
    then obtain t where t: "event s t" using event_enabled less.prems by blast
    then have "reach t" "work t < work s" using less.prems reach_step event_step event_work by blast+
    then obtain n u where "(event ^^ n) t u" "quiet u" "reach u" using less.hyps by blast
    with t show ?thesis by (intro exI [of _ "Suc n"] exI [of _ u]) (auto simp: relpowp_Suc_I2 simp del: relpowp.simps)
  qed
qed

end

locale simulation = concrete: stepping_system creach cstep cstart + abstract: closed_system areach astep
  for creach :: "'c \<Rightarrow> bool" and cstep cstart and areach :: "'a \<Rightarrow> bool" and astep +
  fixes project :: "'c \<Rightarrow> 'a"
  assumes project_start: "cstart s \<Longrightarrow> areach (project s)"
    and project_step: "creach s \<Longrightarrow> areach (project s) \<Longrightarrow> cstep s t \<Longrightarrow> project t = project s \<or> astep (project s) (project t)"
begin

lemma simulates: "creach s \<Longrightarrow> areach (project s)"
proof (erule concrete.invariant [rotated 2])
  fix s t
  assume "creach s" "cstep s t" "areach (project s)"
  then show "areach (project t)" using project_step abstract.reach_step by metis
qed (rule project_start)

end

locale settling_simulation = simulation + abstract: settling_system areach astep aevent awork for aevent awork +
  fixes cevent
  assumes cevent_step: "cevent s t \<Longrightarrow> cstep s t"
    and cevent_project: "creach s \<Longrightarrow> cevent s t \<Longrightarrow> aevent (project s) (project t)"

sublocale settling_simulation \<subseteq> settled: settling_system creach cstep cevent "\<lambda>s. awork (project s)"
  by unfold_locales (auto intro: cevent_step cevent_project abstract.event_work simulates concrete.reach_step)

end
