(* ===== verification/Events.thy ===== *)
theory Events
  imports Models Sample
begin

text \<open>
  The signals of client/src/app/EventBus.h and the two classes that only listen: the slots
  of CommandRouter (client/src/app/CommandRouter.cpp, the constructor) that keep its busy
  flag and its conversation, and class ConsolePresenter (client/src/console). All slots are
  direct connections, so an emission is a call: the router's slot, then the presenter's.
\<close>

datatype event =
    SlashCommandReceived SlashCommand
  | ConversationTargetChanged qstring
  | OperationStarted qstring
  | StatusMessage qstring
  | CommandFailed ClientError
  | SessionStarted UserProfile
  | SessionEnded
  | DeviceKeysReady int
  | TrustPinCreated TrustPin
  | TrustPinMatched qstring int
  | TrustPinMismatch qstring int
  | ConversationListUpdated "ConversationSummary list"
  | UnreadInboxUpdated "ConversationSummary list"
  | ConversationLogOpened qstring qstring "ConversationLogEntry list" int int
  | MessageListUpdated "LocalMessage list"
  | MessageReceived LocalMessage
  | MessagePrepared qstring int qstring
  | MessageCompositionCancelled
  | MessageSent LocalMessage
  | MessageOpened LocalMessage qstring
  | MessageForwarded LocalMessage
  | MessageRevoked qstring
  | MessageDeleted qstring
  | MessageDownloaded qstring qstring
  | FidelityStatusUpdated qstring qstring
  | BackendUnavailable ClientError
  | CryptoOperationFailed ClientError
  | ExitRequested

section \<open>The router's slots\<close>

datatype InputMode = CommandMode | RegisterPassword | LoginPassword | MessageComposition

record router =
  rt_inputMode :: InputMode
  rt_operationInProgress :: bool
  rt_pendingUsername :: qstring
  rt_pendingEmail :: qstring
  rt_pendingLoginIdentifier :: qstring
  rt_activeConversationUsername :: qstring
  rt_compositionRecipientUsername :: qstring
  rt_compositionLines :: "qstring list"

definition newRouter :: router where
  "newRouter = \<lparr>rt_inputMode = CommandMode, rt_operationInProgress = False,
     rt_pendingUsername = [], rt_pendingEmail = [], rt_pendingLoginIdentifier = [],
     rt_activeConversationUsername = [], rt_compositionRecipientUsername = [],
     rt_compositionLines = []\<rparr>"

fun routerSlot :: "event \<Rightarrow> router \<Rightarrow> router" where
  "routerSlot (OperationStarted _) r = r\<lparr>rt_operationInProgress := True\<rparr>"
| "routerSlot (StatusMessage _) r = r\<lparr>rt_operationInProgress := False\<rparr>"
| "routerSlot (CommandFailed _) r = r\<lparr>rt_operationInProgress := False\<rparr>"
| "routerSlot (SessionStarted _) r = r\<lparr>rt_operationInProgress := False\<rparr>"
| "routerSlot SessionEnded r = r\<lparr>rt_activeConversationUsername := [], rt_operationInProgress := False\<rparr>"
| "routerSlot (ConversationTargetChanged username) r = r\<lparr>rt_activeConversationUsername := username\<rparr>"
| "routerSlot (TrustPinCreated _) r = r\<lparr>rt_operationInProgress := False\<rparr>"
| "routerSlot (TrustPinMatched _ _) r = r\<lparr>rt_operationInProgress := False\<rparr>"
| "routerSlot (TrustPinMismatch _ _) r = r\<lparr>rt_operationInProgress := False\<rparr>"
| "routerSlot (ConversationListUpdated _) r = r\<lparr>rt_operationInProgress := False\<rparr>"
| "routerSlot (UnreadInboxUpdated _) r = r\<lparr>rt_operationInProgress := False\<rparr>"
| "routerSlot (ConversationLogOpened _ _ _ _ _) r = r\<lparr>rt_operationInProgress := False\<rparr>"
| "routerSlot (MessageListUpdated _) r = r\<lparr>rt_operationInProgress := False\<rparr>"
| "routerSlot (MessageSent _) r = r\<lparr>rt_operationInProgress := False\<rparr>"
| "routerSlot (MessageForwarded _) r = r\<lparr>rt_operationInProgress := False\<rparr>"
| "routerSlot (MessageRevoked _) r = r\<lparr>rt_operationInProgress := False\<rparr>"
| "routerSlot (MessageDeleted _) r = r\<lparr>rt_operationInProgress := False\<rparr>"
| "routerSlot (MessageDownloaded _ _) r = r\<lparr>rt_operationInProgress := False\<rparr>"
| "routerSlot (FidelityStatusUpdated _ _) r = r\<lparr>rt_operationInProgress := False\<rparr>"
| "routerSlot (BackendUnavailable _) r = r\<lparr>rt_operationInProgress := False\<rparr>"
| "routerSlot (CryptoOperationFailed _) r = r\<lparr>rt_operationInProgress := False\<rparr>"
| "routerSlot _ r = r"

section \<open>ConsolePresenter\<close>

text \<open>\<open>pr_output\<close> is everything written to standard output so far.\<close>

record presenter =
  pr_showRawErrors :: bool
  pr_activeConversationUsername :: qstring
  pr_output :: qstring

definition newline :: qstring where "newline = [10]"

definition put :: "qstring \<Rightarrow> presenter \<Rightarrow> presenter" where
  "put s p = p\<lparr>pr_output := pr_output p @ s\<rparr>"

definition printPrompt :: "presenter \<Rightarrow> presenter" where
  "printPrompt p =
     (if pr_activeConversationUsername p \<noteq> []
      then put (arg1 AppText_ConversationPrompt (pr_activeConversationUsername p)) p
      else put AppText_Prompt p)"

definition printOperation :: "qstring \<Rightarrow> presenter \<Rightarrow> presenter" where
  "printOperation message p = put (message @ newline) p"

definition printMessage :: "qstring \<Rightarrow> presenter \<Rightarrow> presenter" where
  "printMessage message p = printPrompt (put (message @ newline) p)"

definition safeErrorMessage :: "ClientError \<Rightarrow> qstring" where
  "safeErrorMessage err =
     (case ce_code err of
        InvalidCommand \<Rightarrow> ce_message err
      | InvalidConfiguration \<Rightarrow> AppText_InvalidConfigurationError @ AppText_DebugErrorHint
      | AuthRequired \<Rightarrow> AppText_AuthRequiredError @ AppText_DebugErrorHint
      | NetworkError \<Rightarrow> (if ce_message err = AppText_HttpRequestTimedOut then AppText_HttpRequestTimedOut
                        else AppText_NetworkError @ AppText_DebugErrorHint)
      | TlsError \<Rightarrow> AppText_TlsError @ AppText_DebugErrorHint
      | HttpError \<Rightarrow> AppText_HttpError @ AppText_DebugErrorHint
      | CryptoError \<Rightarrow> AppText_CryptoError @ AppText_DebugErrorHint
      | TrustError \<Rightarrow> AppText_TrustError @ AppText_DebugErrorHint
      | StorageError \<Rightarrow> AppText_StorageError @ AppText_DebugErrorHint
      | NotFound \<Rightarrow> AppText_NotFoundError @ AppText_DebugErrorHint
      | OperationFailed \<Rightarrow> AppText_OperationFailedError @ AppText_DebugErrorHint)"

definition shownError :: "presenter \<Rightarrow> ClientError \<Rightarrow> qstring" where
  "shownError p err = (if pr_showRawErrors p then ce_message err else safeErrorMessage err)"

definition printError :: "ClientError \<Rightarrow> presenter \<Rightarrow> presenter" where
  "printError err p =
     printPrompt (put (AppText_ErrorPrefix @ errorCodeToString (ce_code err) @ AppText_ErrorSeparator
                       @ shownError p err @ newline) p)"

definition peerName :: "ConversationSummary \<Rightarrow> qstring" where
  "peerName c = (if cs_peerUsername c = [] then cs_peerUserId c else cs_peerUsername c)"

definition conversationLine :: "ConversationSummary \<Rightarrow> qstring" where
  "conversationLine c = Q ''  '' @ peerName c @ Q '' | messages='' @ qNumber (cs_messageCount c)
     @ Q '' | unread='' @ qNumber (cs_unreadCount c) @ newline"

definition unreadLine :: "ConversationSummary \<Rightarrow> qstring" where
  "unreadLine c = Q ''  '' @ peerName c @ Q '' | unread='' @ qNumber (cs_unreadCount c) @ newline"

definition messageLine :: "'x platform_scheme \<Rightarrow> LocalMessage \<Rightarrow> qstring" where
  "messageLine P m = Q ''  '' @ lm_id m @ Q '' | from='' @ lm_senderUserId m @ Q '' | to=''
     @ lm_recipientUserId m @ Q '' | '' @ pf_dateToIso P (lm_createdAt m) @ newline"

definition logLine :: "'x platform_scheme \<Rightarrow> presenter \<Rightarrow> ConversationLogEntry \<Rightarrow> qstring" where
  "logLine P p entry =
     (let m = cle_message entry;
          direction = (if lm_direction m = SentDir then Q ''->'' else Q ''<-'');
          timestamp = pf_dateToIso P (lm_createdAt m)
      in (case cle_decryptError entry of
            Some err \<Rightarrow> argN AppText_ConversationLogDecryptFailed [timestamp, direction, lm_id m, shownError p err]
          | None \<Rightarrow> argN AppText_ConversationLogLine [timestamp, direction, lm_id m, cle_plaintext entry])
         @ newline)"

fun presenterSlot :: "'x platform_scheme \<Rightarrow> event \<Rightarrow> presenter \<Rightarrow> presenter" where
  "presenterSlot P (OperationStarted message) p = printOperation message p"
| "presenterSlot P (ConversationTargetChanged username) p = p\<lparr>pr_activeConversationUsername := username\<rparr>"
| "presenterSlot P (StatusMessage message) p = printMessage message p"
| "presenterSlot P (CommandFailed err) p = printError err p"
| "presenterSlot P (BackendUnavailable err) p = printError err p"
| "presenterSlot P (CryptoOperationFailed err) p = printError err p"
| "presenterSlot P (SessionStarted user) p = printMessage (argN AppText_LoggedInAs [up_username user, up_id user]) p"
| "presenterSlot P SessionEnded p = printMessage AppText_SessionEnded p"
| "presenterSlot P (DeviceKeysReady deviceId) p = printMessage (argInt AppText_KeysUploaded deviceId) p"
| "presenterSlot P (TrustPinCreated pin) p = printMessage AppText_TrustFirstUse p"
| "presenterSlot P (TrustPinMatched userId deviceId) p = printMessage AppText_TrustAlreadyMatches p"
| "presenterSlot P (TrustPinMismatch userId deviceId) p = printError (mkError TrustError AppText_TrustMismatch) p"
| "presenterSlot P (ConversationListUpdated conversations) p =
     (if conversations = [] then printMessage AppText_EmptyConversationList p
      else printPrompt (put (concat (map conversationLine conversations))
             (put (AppText_ConversationHeader @ newline) p)))"
| "presenterSlot P (UnreadInboxUpdated conversations) p =
     (if conversations = [] then printMessage AppText_EmptyUnreadInbox p
      else printPrompt (put (concat (map unreadLine conversations))
             (put (AppText_UnreadInboxHeader @ newline) p)))"
| "presenterSlot P (ConversationLogOpened username peerUserId entries page pageCount) p =
     printPrompt (put (concat (map (logLine P p) entries))
       (put (argInt (argInt (argN AppText_ConversationLogHeader [username, peerUserId]) page) pageCount @ newline) p))"
| "presenterSlot P (MessageListUpdated messages) p =
     (if messages = [] then printMessage AppText_EmptyMessageList p
      else printPrompt (put (concat (map (messageLine P) messages))
             (put (AppText_MessageHeader @ newline) p)))"
| "presenterSlot P (MessagePrepared recipientUserId deviceId body) p =
     (if body = [] then printMessage (arg1 AppText_CompositionStarted recipientUserId) p
      else printMessage (argInt AppText_DraftLength (int (length body))) p)"
| "presenterSlot P MessageCompositionCancelled p = printMessage AppText_CompositionCancelled p"
| "presenterSlot P (MessageSent m) p = printMessage (arg1 AppText_MessageSent (lm_id m)) p"
| "presenterSlot P (MessageOpened m plaintext) p =
     printPrompt (put (arg1 AppText_MessageOpened (lm_id m) @ newline @ plaintext @ newline) p)"
| "presenterSlot P (MessageForwarded m) p = printMessage (arg1 AppText_MessageForwarded (lm_id m)) p"
| "presenterSlot P (MessageRevoked messageId) p = printMessage (arg1 AppText_MessageRevoked messageId) p"
| "presenterSlot P (MessageDeleted messageId) p = printMessage (arg1 AppText_MessageDeleted messageId) p"
| "presenterSlot P (MessageDownloaded messageId path) p = printMessage (argN AppText_MessageDownloaded [messageId, path]) p"
| "presenterSlot P (FidelityStatusUpdated messageId status) p = printMessage status p"
| "presenterSlot P _ p = p"

definition newPresenter :: "bool \<Rightarrow> presenter" where
  "newPresenter raw = printMessage AppText_Greeting
     \<lparr>pr_showRawErrors = raw, pr_activeConversationUsername = [], pr_output = []\<rparr>"

section \<open>Lemmas\<close>

text \<open>The slots agree on the conversation they show and the one they send to.\<close>

definition sameTarget :: "router \<Rightarrow> presenter \<Rightarrow> bool" where
  "sameTarget r p \<longleftrightarrow> rt_activeConversationUsername r = pr_activeConversationUsername p"

lemma put_fields [simp]:
  "pr_showRawErrors (put s p) = pr_showRawErrors p"
  "pr_activeConversationUsername (put s p) = pr_activeConversationUsername p"
  "pr_output (put s p) = pr_output p @ s"
  by (simp_all add: put_def)

lemma print_fields [simp]:
  "pr_showRawErrors (printPrompt p) = pr_showRawErrors p"
  "pr_showRawErrors (printMessage s p) = pr_showRawErrors p"
  "pr_showRawErrors (printOperation s p) = pr_showRawErrors p"
  "pr_showRawErrors (printError e p) = pr_showRawErrors p"
  by (simp_all add: printPrompt_def printMessage_def printOperation_def printError_def)

lemma presenterSlot_raw [simp]: "pr_showRawErrors (presenterSlot P e p) = pr_showRawErrors p"
  by (cases "(P, e, p)" rule: presenterSlot.cases) auto

text \<open>The error an event reports, if it reports one.\<close>

fun reportedError :: "event \<Rightarrow> ClientError option" where
  "reportedError (CommandFailed e) = Some e"
| "reportedError (BackendUnavailable e) = Some e"
| "reportedError (CryptoOperationFailed e) = Some e"
| "reportedError _ = None"

text \<open>Events that answer a command: the router is idle after any of them.\<close>

definition finishes :: "event \<Rightarrow> bool" where
  "finishes e \<longleftrightarrow> (\<forall>r. \<not> rt_operationInProgress (routerSlot e r))"

lemma slot_inputMode [simp]: "rt_inputMode (routerSlot e r) = rt_inputMode r"
  by (cases "(e, r)" rule: routerSlot.cases) auto

lemma safeErrorMessage_same:
  assumes "ce_code e = ce_code f"
    and "ce_code e = InvalidCommand \<Longrightarrow> ce_message e = ce_message f"
    and "ce_code e = NetworkError \<Longrightarrow>
      (ce_message e = AppText_HttpRequestTimedOut) = (ce_message f = AppText_HttpRequestTimedOut)"
  shows "safeErrorMessage e = safeErrorMessage f"
  using assms by (cases "ce_code f") (simp_all add: safeErrorMessage_def)

section \<open>Properties\<close>

text \<open>Property C40: raw error texts do not reach the console. Unless raw errors are switched on, what
  the presenter prints for a failure, as an event or as an undecryptable line of a
  conversation, depends on these three things only: the error's code, the message if the code is
  InvalidCommand (it is printed as it is), and for a NetworkError whether the message is that of
  a timeout. The message of any other error, and that of a network error beyond the test for a
  timeout, has no influence on the console.\<close>

theorem presenter_hides_error_text:
  assumes "\<not> pr_showRawErrors p" and "ce_code e = ce_code f"
    and "ce_code e = InvalidCommand \<Longrightarrow> ce_message e = ce_message f"
    and "ce_code e = NetworkError \<Longrightarrow>
      (ce_message e = AppText_HttpRequestTimedOut) = (ce_message f = AppText_HttpRequestTimedOut)"
  shows "presenterSlot P (CommandFailed e) p = presenterSlot P (CommandFailed f) p
    \<and> presenterSlot P (CryptoOperationFailed e) p = presenterSlot P (CryptoOperationFailed f) p
    \<and> presenterSlot P (BackendUnavailable e) p = presenterSlot P (BackendUnavailable f) p
    \<and> logLine P p \<lparr>cle_message = m, cle_plaintext = t, cle_decryptError = Some e\<rparr>
      = logLine P p \<lparr>cle_message = m, cle_plaintext = t, cle_decryptError = Some f\<rparr>"
  using assms(1,2) safeErrorMessage_same [OF assms(2-4)]
  by (simp add: printError_def shownError_def logLine_def Let_def)

text \<open>A path in a storage error and a host name in a network error are not shown.\<close>

theorem presenter_hides_error_text_witness:
  "presenterSlot sampleEnv (CommandFailed (mkError StorageError (Q ''/home/alice''))) (newPresenter False)
     = presenterSlot sampleEnv (CommandFailed (mkError StorageError [])) (newPresenter False)
   \<and> presenterSlot sampleEnv (BackendUnavailable (mkError NetworkError (Q ''h''))) (newPresenter False)
     = presenterSlot sampleEnv (BackendUnavailable (mkError NetworkError [])) (newPresenter False)"
proof -
  have raw: "\<not> pr_showRawErrors (newPresenter False)" by (simp add: newPresenter_def)
  have "Q ''h'' \<noteq> AppText_HttpRequestTimedOut" "[] \<noteq> AppText_HttpRequestTimedOut"
    by (simp_all add: AppText_HttpRequestTimedOut_def Q_def)
  with presenter_hides_error_text [OF raw, of "mkError NetworkError (Q ''h'')" "mkError NetworkError []"
      sampleEnv "sampleMessage ''m'' ''a'' ''b'' 0" "[]"]
    presenter_hides_error_text [OF raw, of "mkError StorageError (Q ''/home/alice'')" "mkError StorageError []"
      sampleEnv "sampleMessage ''m'' ''a'' ''b'' 0" "[]"]
  show ?thesis by simp
qed

text \<open>The prompt and the target agree. The conversation the router sends text to and
  the one the prompt names stay the same under every event except the end of the session,
  where the router forgets it and the presenter keeps showing it.\<close>

theorem slots_agree_on_target:
  assumes "sameTarget r p"
  shows "sameTarget (routerSlot ev r) (presenterSlot P ev p) \<or> ev = SessionEnded"
  using assms
  by (cases ev) (auto simp: sameTarget_def printMessage_def printOperation_def printError_def printPrompt_def Let_def)

theorem slots_agree_on_target_witness:
  "sameTarget (routerSlot (ConversationTargetChanged (Q ''bob'')) newRouter)
     (presenterSlot sampleEnv (ConversationTargetChanged (Q ''bob'')) (newPresenter False))"
proof -
  have "sameTarget newRouter (newPresenter False)"
    by (simp add: sameTarget_def newRouter_def newPresenter_def printMessage_def printPrompt_def)
  then show ?thesis
    using slots_agree_on_target [of newRouter "newPresenter False" "ConversationTargetChanged (Q ''bob'')" sampleEnv] by simp
qed

end
