(* ===== verification/Services.thy ===== *)
theory Services
  imports Events Store EthereumHash
begin

text \<open>
  SessionService, KeyService and MessageService (client/src/services). The gateways are
  asynchronous: a call to one records the request with the continuation that waits for its
  answer (\<open>cl_pending\<close>), and \<open>deliver\<close> runs a continuation on an answer. The constructors of
  \<open>continuation\<close> are the callbacks of Services.cpp with the variables they capture. The
  crypto provider is a record of its interface's functions; they thread what they change:
  the position of the random generator (shared with the store) and the provider's counters. \<open>cl_trace\<close> records the emitted events and is read by no
  operation; \<open>cl_textFiles\<close> are the exported plaintexts.
\<close>

record provider_state =
  ps_draws :: nat
  ps_sendCounters :: "bytes \<Rightarrow> int option"

record crypto_provider =
  cp_loadOrCreateDevice :: "DeviceKeyMaterial \<Rightarrow> int \<Rightarrow> provider_state \<Rightarrow> DeviceKeyMaterial result \<times> provider_state"
  cp_createOneTimePreKeys :: "int \<Rightarrow> int \<Rightarrow> provider_state \<Rightarrow> OneTimePreKey list result \<times> provider_state"
  cp_verifySignedPreKey :: "PreKeyBundle \<Rightarrow> bool result"
  cp_encrypt :: "qstring \<Rightarrow> DeviceKeyMaterial \<Rightarrow> PreKeyBundle \<Rightarrow> qstring \<Rightarrow> provider_state \<Rightarrow> EncryptedPayload result \<times> provider_state"
  cp_decrypt :: "qstring \<Rightarrow> DeviceKeyMaterial \<Rightarrow> LocalMessage \<Rightarrow> OneTimePreKey option \<Rightarrow> qstring result"

datatype request =
    RegisterUser qstring qstring qstring
  | LoginUser qstring qstring
  | LogoutUser qstring
  | UpsertDeviceKeys qstring DeviceKeyMaterial
  | UploadOneTimePreKeys qstring int "OneTimePreKey list"
  | FetchPreKeyBundle qstring qstring int
  | ResolveUsername qstring qstring int
  | SendMessage qstring LocalMessage "int option"
  | ListReceived qstring
  | ListSent qstring
  | ForwardMessage qstring qstring LocalMessage "int option"
  | RevokeMessage qstring qstring
  | DeleteMessageOn qstring qstring
  | FetchMessageAnchor qstring qstring
  | VerifyAnchor qstring BlockchainAnchor

text \<open>The callbacks passed to \<open>trustedBundle\<close>, and the callbacks passed to gateways.\<close>

datatype bundle_use =
    SendWith UserAddress qstring DeviceKeyMaterial
  | ForwardWith qstring UserAddress qstring DeviceKeyMaterial

datatype continuation =
    OnRegister
  | OnLogin qstring
  | OnLogout
  | OnUpsert
  | OnUpload
  | OnTrustAddress
  | OnTrustBundle UserAddress
  | OnPinnedBundle TrustPin bundle_use
  | OnReceived
  | OnSent
  | OnConversationsReceived
  | OnConversationsSent
  | OnUnread
  | OnSendAddress qstring
  | OnMessageSent qstring
  | OnReadAddress qstring int
  | OnReadReceived UserAddress qstring int
  | OnReadSent UserAddress qstring int
  | OnForwardAddress qstring
  | OnForwarded qstring
  | OnRevoked qstring
  | OnDeleted qstring
  | OnAnchor qstring
  | OnVerification qstring

datatype call = Call request continuation

datatype reply =
    UserReply "UserProfile result"
  | SessionReply "AuthSession result"
  | BoolReply "bool result"
  | BundleReply "PreKeyBundle result"
  | AddressReply "UserAddress result"
  | MessagesReply "LocalMessage list result"
  | MessageReply "LocalMessage result"
  | AnchorReply "BlockchainAnchor result"
  | VerificationReply "BlockchainVerification result"

record client =
  cl_config :: StartupConfig
  cl_store :: local_store
  cl_session :: "AuthSession option"
  cl_accountScopedState :: bool
  cl_sendCounters :: "bytes \<Rightarrow> int option"
  cl_lastTrustedBundle :: "PreKeyBundle option"
  cl_router :: router
  cl_presenter :: presenter
  cl_pending :: "call list"
  cl_textFiles :: "qstring \<Rightarrow> qstring option"
  cl_trace :: "event list"
  cl_exited :: bool

section \<open>Emitting, calling, failing\<close>

definition emit :: "'x env_scheme \<Rightarrow> event \<Rightarrow> client \<Rightarrow> client" where
  "emit E ev c =
     c\<lparr>cl_router := routerSlot ev (cl_router c),
       cl_presenter := presenterSlot E ev (cl_presenter c),
       cl_trace := cl_trace c @ [ev],
       cl_exited := (cl_exited c \<or> (case ev of ExitRequested \<Rightarrow> True | _ \<Rightarrow> False))\<rparr>"

definition issue :: "request \<Rightarrow> continuation \<Rightarrow> client \<Rightarrow> client" where
  "issue req k c = c\<lparr>cl_pending := cl_pending c @ [Call req k]\<rparr>"

text \<open>\<open>if (result.failed()) { emit commandFailed(result.error()); return; }\<close>\<close>

definition orFail :: "'x env_scheme \<Rightarrow> 'a result \<Rightarrow> ('a \<Rightarrow> client \<Rightarrow> client) \<Rightarrow> client \<Rightarrow> client" where
  "orFail E r k c = (case r of Inl err \<Rightarrow> emit E (CommandFailed err) c | Inr x \<Rightarrow> k x c)"

definition storeOrFail ::
  "'x env_scheme \<Rightarrow> (local_store \<Rightarrow> 'a result \<times> local_store) \<Rightarrow> ('a \<Rightarrow> client \<Rightarrow> client) \<Rightarrow> client \<Rightarrow> client" where
  "storeOrFail E f k c =
     (let r = f (cl_store c) in orFail E (fst r) k (c\<lparr>cl_store := snd r\<rparr>))"

definition providerState :: "client \<Rightarrow> provider_state" where
  "providerState c = \<lparr>ps_draws = ls_draws (cl_store c), ps_sendCounters = cl_sendCounters c\<rparr>"

definition withProviderState :: "provider_state \<Rightarrow> client \<Rightarrow> client" where
  "withProviderState st c =
     c\<lparr>cl_store := (cl_store c)\<lparr>ls_draws := ps_draws st\<rparr>, cl_sendCounters := ps_sendCounters st\<rparr>"

definition cryptoOrFail ::
  "'x env_scheme \<Rightarrow> (provider_state \<Rightarrow> 'a result \<times> provider_state) \<Rightarrow> ('a \<Rightarrow> client \<Rightarrow> client) \<Rightarrow> client \<Rightarrow> client" where
  "cryptoOrFail E f k c =
     (let r = f (providerState c);
          c1 = withProviderState (snd r) c
      in case fst r of Inl err \<Rightarrow> emit E (CryptoOperationFailed err) c1 | Inr x \<Rightarrow> k x c1)"

definition authRequired :: ClientError where
  "authRequired = mkError AuthRequired AppText_AuthRequired"

section \<open>SessionService, the accessors\<close>

definition isLoggedIn :: "client \<Rightarrow> bool" where
  "isLoggedIn c \<longleftrightarrow> cl_session c \<noteq> None"

definition accessToken :: "client \<Rightarrow> qstring" where
  "accessToken c = (case cl_session c of None \<Rightarrow> [] | Some s \<Rightarrow> ts_accessToken (as_tokens s))"

definition currentUserId :: "client \<Rightarrow> qstring" where
  "currentUserId c = (case cl_session c of None \<Rightarrow> [] | Some s \<Rightarrow> up_id (as_user s))"

definition deviceIdOf :: "client \<Rightarrow> int" where
  "deviceIdOf c = sc_deviceId (cl_config c)"

section \<open>KeyService\<close>

definition ConflictStatusCode :: int where "ConflictStatusCode = 409"

definition containsFolded :: "'x platform_scheme \<Rightarrow> qstring \<Rightarrow> qstring \<Rightarrow> bool" where
  "containsFolded P s t = containsStr (pf_foldCase P s) (pf_foldCase P t)"

definition isAlreadyUploadedPreKeyError :: "'x platform_scheme \<Rightarrow> ClientError \<Rightarrow> bool" where
  "isAlreadyUploadedPreKeyError P err =
     (let isHttpError = (ce_code err = HttpError);
          isConflict = containsStr (ce_message err) (qNumber ConflictStatusCode);
          mentionsPreKey = (containsFolded P (ce_message err) (Q ''prekey'')
             \<or> containsFolded P (ce_message err) (Q ''pre-key''));
          mentionsExisting = (containsFolded P (ce_message err) (Q ''already'')
             \<or> containsFolded P (ce_message err) (Q ''exists''))
      in isHttpError \<and> isConflict \<and> mentionsPreKey \<and> mentionsExisting)"

definition noDevice :: DeviceKeyMaterial where
  "noDevice = \<lparr>dk_deviceId = DefaultDeviceId, dk_registrationId = 0, dk_identityKey = [],
     dk_identityPrivateKey = [], dk_identitySigningKey = [], dk_identitySigningPrivateKey = [],
     dk_signedPreKeyId = 1, dk_signedPreKey = [], dk_signedPreKeyPrivate = [],
     dk_signedPreKeySignature = []\<rparr>"

definition uploadOneTimePreKeys :: "'x env_scheme \<Rightarrow> crypto_provider \<Rightarrow> client \<Rightarrow> client" where
  "uploadOneTimePreKeys E C c =
     (let upload = (\<lambda>preKeys c. issue (UploadOneTimePreKeys (accessToken c) (deviceIdOf c) preKeys) OnUpload c);
          create = cryptoOrFail E (cp_createOneTimePreKeys C (deviceIdOf c) CryptoText_DefaultPreKeyCount)
             (\<lambda>created. storeOrFail E (saveOneTimePreKeys E created) (\<lambda>_. upload created))
      in case loadOneTimePreKeys (deviceIdOf c) (cl_store c) of
           Inl _ \<Rightarrow> create c
         | Inr existing \<Rightarrow> (if existing = [] then create c else upload existing c))"

definition ensureDeviceKeysUploaded :: "'x env_scheme \<Rightarrow> crypto_provider \<Rightarrow> client \<Rightarrow> client" where
  "ensureDeviceKeysUploaded E C c =
     (if \<not> isLoggedIn c then emit E (CommandFailed authRequired) c
      else orFail E (loadDeviceKeys (deviceIdOf c) (cl_store c))
        (\<lambda>loaded. let existing = (case loaded of None \<Rightarrow> noDevice | Some m \<Rightarrow> m)
           in cryptoOrFail E (cp_loadOrCreateDevice C existing (deviceIdOf c))
             (\<lambda>material. storeOrFail E (saveDeviceKeys E material)
               (\<lambda>_ c. issue (UpsertDeviceKeys (accessToken c) material) OnUpsert c))) c)"

definition upsertReply :: "'x env_scheme \<Rightarrow> crypto_provider \<Rightarrow> bool result \<Rightarrow> client \<Rightarrow> client" where
  "upsertReply E C result =
     orFail E result (\<lambda>_ c. emit E (DeviceKeysReady (deviceIdOf c)) (uploadOneTimePreKeys E C c))"

definition uploadReply :: "'x env_scheme \<Rightarrow> bool result \<Rightarrow> client \<Rightarrow> client" where
  "uploadReply E result c =
     (case result of
        Inr _ \<Rightarrow> c
      | Inl err \<Rightarrow> (if isAlreadyUploadedPreKeyError E err then c else emit E (CommandFailed err) c))"

definition trustUsername :: "'x env_scheme \<Rightarrow> qstring \<Rightarrow> client \<Rightarrow> client" where
  "trustUsername E username c =
     (if \<not> isLoggedIn c then emit E (CommandFailed authRequired) c
      else issue (ResolveUsername (accessToken c) username (deviceIdOf c)) OnTrustAddress c)"

definition trustAddressReply :: "'x env_scheme \<Rightarrow> UserAddress result \<Rightarrow> client \<Rightarrow> client" where
  "trustAddressReply E result =
     orFail E result (\<lambda>address. storeOrFail E (saveKnownUser E address)
       (\<lambda>_ c. issue (FetchPreKeyBundle (accessToken c) (ua_userId address) (ua_deviceId address))
                (OnTrustBundle address) c))"

definition trustBundleReply ::
  "'x env_scheme \<Rightarrow> crypto_provider \<Rightarrow> UserAddress \<Rightarrow> PreKeyBundle result \<Rightarrow> client \<Rightarrow> client" where
  "trustBundleReply E C address result =
     orFail E result (\<lambda>bundle c.
       case cp_verifySignedPreKey C bundle of
         Inl err \<Rightarrow> emit E (CryptoOperationFailed err) c
       | Inr _ \<Rightarrow> orFail E (trustPin (ua_userId address) (ua_deviceId address) (cl_store c))
           (\<lambda>existing c.
              case existing of
                None \<Rightarrow>
                  (let pin = \<lparr>tp_userId = ua_userId address, tp_deviceId = ua_deviceId address,
                              tp_identityKey = pkb_identityKey bundle, tp_firstSeenAt = env_now E\<rparr>
                   in storeOrFail E (saveTrustPin E pin)
                        (\<lambda>_ c. emit E (TrustPinCreated pin) (c\<lparr>cl_lastTrustedBundle := Some bundle\<rparr>)) c)
              | Some pin \<Rightarrow>
                  (if tp_identityKey pin \<noteq> pkb_identityKey bundle
                   then emit E (TrustPinMismatch (ua_userId address) (ua_deviceId address)) c
                   else emit E (TrustPinMatched (ua_userId address) (ua_deviceId address))
                          (c\<lparr>cl_lastTrustedBundle := Some bundle\<rparr>))) c)"

definition currentDevice :: "client \<Rightarrow> DeviceKeyMaterial result" where
  "currentDevice c =
     (case loadDeviceKeys (deviceIdOf c) (cl_store c) of
        Inl err \<Rightarrow> Inl err
      | Inr None \<Rightarrow> failure CryptoError (Q ''Device keys are not available. Login first.'')
      | Inr (Some device) \<Rightarrow> Inr device)"

definition cachedBundle :: "qstring \<Rightarrow> int \<Rightarrow> client \<Rightarrow> PreKeyBundle result" where
  "cachedBundle userId deviceId c =
     (case cl_lastTrustedBundle c of
        Some b \<Rightarrow> (if pkb_userId b = userId \<and> pkb_deviceId b = deviceId then Inr b
                  else failure TrustError (Q ''Run /trust for this username before sending.''))
      | None \<Rightarrow> failure TrustError (Q ''Run /trust for this username before sending.''))"

section \<open>MessageService, sending\<close>

definition emptyAnchor :: BlockchainAnchor where
  "emptyAnchor = \<lparr>ba_id = [], ba_messageId = [], ba_recordId = [], ba_digest = [],
     ba_merkleRoot = [], ba_transactionHash = [], ba_contractAddress = [], ba_chain = [],
     ba_status = [], ba_anchoredAt = []\<rparr>"

definition draftFor :: "client \<Rightarrow> qstring \<Rightarrow> int \<Rightarrow> qstring \<Rightarrow> LocalMessage" where
  "draftFor c recipientUserId recipientDeviceId wirePayloadJson =
    \<lparr>lm_id = [], lm_senderUserId = currentUserId c, lm_senderDeviceId = deviceIdOf c,
     lm_recipientUserId = recipientUserId, lm_recipientDeviceId = recipientDeviceId,
     lm_wirePayloadJson = wirePayloadJson, lm_consumedOneTimePreKeyId = None,
     lm_createdAt = InvalidDate, lm_accessRevokedAt = [], lm_senderDeletedAt = [],
     lm_recipientDeletedAt = [], lm_deletedAt = [], lm_readAt = [],
     lm_localSenderCopyWirePayloadJson = [], lm_direction = SentDir, lm_createdAtRaw = [],
     lm_cachedAnchor = emptyAnchor\<rparr>"

definition selfPreKeyBundleFor :: "client \<Rightarrow> DeviceKeyMaterial \<Rightarrow> PreKeyBundle" where
  "selfPreKeyBundleFor c device =
    \<lparr>pkb_userId = currentUserId c, pkb_registrationId = dk_registrationId device,
     pkb_deviceId = dk_deviceId device, pkb_identityKey = dk_identityKey device,
     pkb_identitySigningKey = dk_identitySigningKey device,
     pkb_signedPreKeyId = dk_signedPreKeyId device, pkb_signedPreKey = dk_signedPreKey device,
     pkb_signedPreKeySignature = dk_signedPreKeySignature device,
     pkb_oneTimePreKeyId = None, pkb_oneTimePreKey = []\<rparr>"

definition createLocalSenderCopy ::
  "crypto_provider \<Rightarrow> client \<Rightarrow> DeviceKeyMaterial \<Rightarrow> qstring \<Rightarrow> provider_state \<Rightarrow> qstring result \<times> provider_state" where
  "createLocalSenderCopy C c device plaintext d =
     (let (r, d') = cp_encrypt C (currentUserId c) device (selfPreKeyBundleFor c device) plaintext d
      in (case r of Inl err \<Rightarrow> Inl err | Inr payload \<Rightarrow> Inr (ep_wirePayloadJson payload), d'))"

definition encryptAndIssue ::
  "'x env_scheme \<Rightarrow> crypto_provider \<Rightarrow> UserAddress \<Rightarrow> qstring \<Rightarrow> DeviceKeyMaterial
     \<Rightarrow> (LocalMessage \<Rightarrow> int option \<Rightarrow> qstring \<Rightarrow> client \<Rightarrow> client) \<Rightarrow> PreKeyBundle \<Rightarrow> client \<Rightarrow> client" where
  "encryptAndIssue E C recipientAddress plaintext device transmit bundle c =
     cryptoOrFail E (cp_encrypt C (currentUserId c) device bundle plaintext)
       (\<lambda>encrypted c. cryptoOrFail E (createLocalSenderCopy C c device plaintext)
         (\<lambda>copy c. transmit
            (draftFor c (ua_userId recipientAddress) (ua_deviceId recipientAddress) (ep_wirePayloadJson encrypted))
            (ep_consumedOneTimePreKeyId encrypted) copy c) c) c"

text \<open>The callback of \<open>trustedBundle\<close> in \<open>sendToAddress\<close> and in \<open>forwardToAddress\<close>.\<close>

fun useBundle ::
  "'x env_scheme \<Rightarrow> crypto_provider \<Rightarrow> bundle_use \<Rightarrow> PreKeyBundle result \<Rightarrow> client \<Rightarrow> client" where
  "useBundle E C (SendWith recipientAddress plaintext device) bundle c =
     orFail E bundle (encryptAndIssue E C recipientAddress plaintext device
       (\<lambda>draft preKeyId copy c. issue (SendMessage (accessToken c) draft preKeyId) (OnMessageSent copy) c)) c"
| "useBundle E C (ForwardWith messageId recipientAddress plaintext device) bundle c =
     orFail E bundle (encryptAndIssue E C recipientAddress plaintext device
       (\<lambda>draft preKeyId copy c. issue (ForwardMessage (accessToken c) messageId draft preKeyId) (OnForwarded copy) c)) c"

definition trustedBundle ::
  "'x env_scheme \<Rightarrow> crypto_provider \<Rightarrow> qstring \<Rightarrow> int \<Rightarrow> bundle_use \<Rightarrow> client \<Rightarrow> client" where
  "trustedBundle E C userId deviceId callback c =
     (case cachedBundle userId deviceId c of
        Inr cached \<Rightarrow> useBundle E C callback (Inr cached) c
      | Inl _ \<Rightarrow>
          (case trustPin userId deviceId (cl_store c) of
             Inl err \<Rightarrow> useBundle E C callback (Inl err) c
           | Inr None \<Rightarrow> useBundle E C callback
               (failure TrustError (Q ''Run /trust for this username before sending.'')) c
           | Inr (Some pin) \<Rightarrow>
               issue (FetchPreKeyBundle (accessToken c) userId deviceId) (OnPinnedBundle pin callback) c))"

definition pinnedBundleReply ::
  "'x env_scheme \<Rightarrow> crypto_provider \<Rightarrow> TrustPin \<Rightarrow> bundle_use \<Rightarrow> PreKeyBundle result \<Rightarrow> client \<Rightarrow> client" where
  "pinnedBundleReply E C pin callback result c =
     (case result of
        Inl err \<Rightarrow> useBundle E C callback (Inl err) c
      | Inr bundle \<Rightarrow>
          (case cp_verifySignedPreKey C bundle of
             Inl err \<Rightarrow> useBundle E C callback (Inl err) c
           | Inr _ \<Rightarrow>
               (if tp_identityKey pin \<noteq> pkb_identityKey bundle
                then useBundle E C callback (failure TrustError AppText_TrustMismatch) c
                else useBundle E C callback (Inr bundle) (c\<lparr>cl_lastTrustedBundle := Some bundle\<rparr>))))"

definition requireSession :: "'x env_scheme \<Rightarrow> (client \<Rightarrow> client) \<Rightarrow> client \<Rightarrow> client" where
  "requireSession E k c = (if isLoggedIn c then k c else emit E (CommandFailed authRequired) c)"

definition sendToAddress ::
  "'x env_scheme \<Rightarrow> crypto_provider \<Rightarrow> UserAddress \<Rightarrow> qstring \<Rightarrow> client \<Rightarrow> client" where
  "sendToAddress E C recipientAddress plaintext c =
     orFail E (currentDevice c) (\<lambda>device.
       trustedBundle E C (ua_userId recipientAddress) (ua_deviceId recipientAddress)
         (SendWith recipientAddress plaintext device)) c"

definition send :: "'x env_scheme \<Rightarrow> qstring \<Rightarrow> qstring \<Rightarrow> client \<Rightarrow> client" where
  "send E recipientUsername plaintext =
     requireSession E (\<lambda>c. issue (ResolveUsername (accessToken c) recipientUsername (deviceIdOf c))
                              (OnSendAddress plaintext) c)"

definition sendAddressReply ::
  "'x env_scheme \<Rightarrow> crypto_provider \<Rightarrow> qstring \<Rightarrow> UserAddress result \<Rightarrow> client \<Rightarrow> client" where
  "sendAddressReply E C plaintext result =
     orFail E result (\<lambda>address. storeOrFail E (saveKnownUser E address)
       (\<lambda>_. sendToAddress E C address plaintext))"

definition messageSentReply ::
  "'x env_scheme \<Rightarrow> qstring \<Rightarrow> LocalMessage result \<Rightarrow> client \<Rightarrow> client" where
  "messageSentReply E localSenderCopy result =
     orFail E result (\<lambda>message.
       let savedMessage = message\<lparr>lm_localSenderCopyWirePayloadJson := localSenderCopy\<rparr>
       in storeOrFail E (saveMessage E savedMessage) (\<lambda>_. emit E (MessageSent savedMessage)))"

end
