(* ===== verification/Handlers.thy ===== *)
theory Handlers
  imports Services
begin

text \<open>
  The rest of client/src/services/Services.cpp: the session handlers, listing and reading
  conversations, forwarding, revoking, deleting, exporting and verifying messages, and
  \<open>deliver\<close>, the dispatch of a gateway's answer to the continuation that waits for it.
\<close>

section \<open>SessionService\<close>

text \<open>\<open>emit sessionStarted\<close>: the controller's slot (connected first) runs before the others.\<close>

definition emitSessionStarted :: "'x env_scheme \<Rightarrow> crypto_provider \<Rightarrow> UserProfile \<Rightarrow> client \<Rightarrow> client" where
  "emitSessionStarted E C user c = emit E (SessionStarted user) (ensureDeviceKeysUploaded E C c)"

definition registerUser :: "qstring \<Rightarrow> qstring \<Rightarrow> qstring \<Rightarrow> client \<Rightarrow> client" where
  "registerUser username email password = issue (RegisterUser username email password) OnRegister"

definition registerReply :: "'x env_scheme \<Rightarrow> UserProfile result \<Rightarrow> client \<Rightarrow> client" where
  "registerReply E result =
     orFail E result (\<lambda>user. emit E (StatusMessage (arg1 AppText_RegisteredUser (up_username user))))"

definition login :: "qstring \<Rightarrow> qstring \<Rightarrow> client \<Rightarrow> client" where
  "login usernameOrEmail password = issue (LoginUser usernameOrEmail password) (OnLogin password)"

definition loginReply ::
  "'x env_scheme \<Rightarrow> crypto_provider \<Rightarrow> qstring \<Rightarrow> AuthSession result \<Rightarrow> client \<Rightarrow> client" where
  "loginReply E C password result =
     orFail E result (\<lambda>session c.
       let c1 = c\<lparr>cl_store := setSecretPassphrase password (cl_store c)\<rparr>;
           start = (\<lambda>_::bool. storeOrFail E (reload E)
             (\<lambda>_ c. storeOrFail E (saveSession E session)
               (\<lambda>_. emitSessionStarted E C (as_user session)) (c\<lparr>cl_session := Some session\<rparr>)))
       in if cl_accountScopedState c1
          then storeOrFail E (useAccountScopedPath E (up_id (as_user session)) True) start c1
          else start True c1)"

definition logout :: "client \<Rightarrow> client" where
  "logout c =
     (let refreshToken = (case cl_session c of None \<Rightarrow> [] | Some s \<Rightarrow> ts_refreshToken (as_tokens s))
      in issue (LogoutUser refreshToken) OnLogout c)"

definition logoutReply :: "'x env_scheme \<Rightarrow> bool result \<Rightarrow> client \<Rightarrow> client" where
  "logoutReply E result =
     orFail E result (\<lambda>_ c. storeOrFail E (clearSession E)
       (\<lambda>_ c. emit E SessionEnded (c\<lparr>cl_store := clearSecretPassphrase (cl_store c)\<rparr>))
       (c\<lparr>cl_session := None\<rparr>))"

text \<open>The handler the HTTP client calls when it has refreshed the tokens.\<close>

definition updateTokens :: "'x env_scheme \<Rightarrow> TokenSet \<Rightarrow> client \<Rightarrow> client" where
  "updateTokens E tokens c =
     (case cl_session c of
        None \<Rightarrow> c
      | Some s \<Rightarrow>
          (let s' = s\<lparr>as_tokens := tokens\<rparr>
           in storeOrFail E (saveSession E s') (\<lambda>_ c. c) (c\<lparr>cl_session := Some s'\<rparr>)))"

section \<open>Caching what the server lists\<close>

fun saveMessages :: "'x env_scheme \<Rightarrow> LocalMessage list \<Rightarrow> client \<Rightarrow> client" where
  "saveMessages E [] c = c"
| "saveMessages E (m # ms) c = storeOrFail E (saveMessage E m) (\<lambda>_. saveMessages E ms) c"

definition saveAndReconcileMessages ::
  "'x env_scheme \<Rightarrow> LocalMessage list \<Rightarrow> MessageDirection \<Rightarrow> client \<Rightarrow> client" where
  "saveAndReconcileMessages E messages direction c =
     (let c1 = saveMessages E messages c;
          visibleMessageIds = lm_id ` set messages
      in storeOrFail E (reconcileVisibleMessages E (currentUserId c1) direction visibleMessageIds)
           (\<lambda>_ c. c) c1)"

section \<open>Decrypting\<close>

definition oneTimePreKeyFor :: "client \<Rightarrow> LocalMessage \<Rightarrow> OneTimePreKey option" where
  "oneTimePreKeyFor c message =
     (case lm_consumedOneTimePreKeyId message of
        None \<Rightarrow> None
      | Some preKeyId \<Rightarrow>
          (case loadOneTimePreKeys (deviceIdOf c) (cl_store c) of
             Inl _ \<Rightarrow> None
           | Inr loaded \<Rightarrow> find (\<lambda>k. otk_preKeyId k = preKeyId) loaded))"

definition senderCopyOf :: "LocalMessage \<Rightarrow> LocalMessage" where
  "senderCopyOf message =
     message\<lparr>lm_wirePayloadJson := lm_localSenderCopyWirePayloadJson message,
             lm_consumedOneTimePreKeyId := None\<rparr>"

definition decryptForCurrentUser ::
  "crypto_provider \<Rightarrow> client \<Rightarrow> DeviceKeyMaterial \<Rightarrow> LocalMessage \<Rightarrow> qstring result" where
  "decryptForCurrentUser C c device message =
     (if lm_senderUserId message \<noteq> currentUserId c
      then cp_decrypt C (currentUserId c) device message (oneTimePreKeyFor c message)
      else if lm_localSenderCopyWirePayloadJson message = []
      then failure CryptoError AppText_SentMessageLocalCopyUnavailable
      else cp_decrypt C (currentUserId c) device (senderCopyOf message) None)"

definition logEntry :: "crypto_provider \<Rightarrow> client \<Rightarrow> DeviceKeyMaterial \<Rightarrow> LocalMessage \<Rightarrow> ConversationLogEntry" where
  "logEntry C c device message =
     (let decrypted = (\<lambda>r. case r of
            Inr plaintext \<Rightarrow> \<lparr>cle_message = message, cle_plaintext = plaintext, cle_decryptError = None\<rparr>
          | Inl err \<Rightarrow> \<lparr>cle_message = message, cle_plaintext = [], cle_decryptError = Some err\<rparr>)
      in if lm_senderUserId message = currentUserId c
         then (if lm_localSenderCopyWirePayloadJson message = []
               then \<lparr>cle_message = message, cle_plaintext = AppText_SentMessageCiphertextOnly,
                     cle_decryptError = None\<rparr>
               else decrypted (cp_decrypt C (currentUserId c) device (senderCopyOf message) None))
         else decrypted (cp_decrypt C (currentUserId c) device message (oneTimePreKeyFor c message)))"

definition clamp :: "int \<Rightarrow> int \<Rightarrow> int \<Rightarrow> int" where
  "clamp v lo hi = (if v < lo then lo else if hi < v then hi else v)"

definition pageCountFor :: "LocalMessage list \<Rightarrow> int" where
  "pageCountFor messages = (int (length messages) + Paging_ConversationPageSize - 1) div Paging_ConversationPageSize"

definition pageOf :: "int \<Rightarrow> LocalMessage list \<Rightarrow> LocalMessage list" where
  "pageOf safePage messages =
     (let start = (safePage - 1) * Paging_ConversationPageSize;
          endIndex = min (start + Paging_ConversationPageSize) (int (length messages))
      in map (\<lambda>i. messages ! nat i) [start..endIndex - 1])"

definition openConversationFromCache ::
  "'x env_scheme \<Rightarrow> crypto_provider \<Rightarrow> UserAddress \<Rightarrow> qstring \<Rightarrow> int \<Rightarrow> client \<Rightarrow> client" where
  "openConversationFromCache E C address username page c =
     orFail E (messagesWithPeer E (currentUserId c) (ua_userId address) (cl_store c))
       (\<lambda>messages c.
          if messages = []
          then emit E (CommandFailed (mkError NotFound (arg1 (Q ''No cached conversation with %1.'') username))) c
          else let pageCount = pageCountFor messages;
                   safePage = clamp page 1 pageCount
            in orFail E (currentDevice c) (\<lambda>device c.
                 let entries = map (logEntry C c device) (pageOf safePage messages)
                 in storeOrFail E (markConversationRead E (currentUserId c) (ua_userId address))
                      (\<lambda>_. emit E (ConversationLogOpened username (ua_userId address) entries safePage pageCount)) c) c) c"

section \<open>Listing and reading\<close>

definition listReceived :: "'x env_scheme \<Rightarrow> client \<Rightarrow> client" where
  "listReceived E = requireSession E (\<lambda>c. issue (ListReceived (accessToken c)) OnReceived c)"

definition listSent :: "'x env_scheme \<Rightarrow> client \<Rightarrow> client" where
  "listSent E = requireSession E (\<lambda>c. issue (ListSent (accessToken c)) OnSent c)"

definition listReply :: "'x env_scheme \<Rightarrow> MessageDirection \<Rightarrow> LocalMessage list result \<Rightarrow> client \<Rightarrow> client" where
  "listReply E direction result =
     orFail E result (\<lambda>messages c.
       emit E (MessageListUpdated messages) (saveAndReconcileMessages E messages direction c))"

definition listConversations :: "'x env_scheme \<Rightarrow> client \<Rightarrow> client" where
  "listConversations E =
     requireSession E (\<lambda>c. issue (ListReceived (accessToken c)) OnConversationsReceived c)"

definition conversationsReceivedReply :: "'x env_scheme \<Rightarrow> LocalMessage list result \<Rightarrow> client \<Rightarrow> client" where
  "conversationsReceivedReply E result =
     orFail E result (\<lambda>messages c.
       let c1 = saveAndReconcileMessages E messages ReceivedDir c
       in issue (ListSent (accessToken c1)) OnConversationsSent c1)"

definition conversationsSentReply :: "'x env_scheme \<Rightarrow> LocalMessage list result \<Rightarrow> client \<Rightarrow> client" where
  "conversationsSentReply E result =
     orFail E result (\<lambda>messages c.
       let c1 = saveAndReconcileMessages E messages SentDir c
       in orFail E (conversationsFor E (currentUserId c1) (cl_store c1))
            (\<lambda>conversations. emit E (ConversationListUpdated conversations)) c1)"

definition listUnreadSenders :: "'x env_scheme \<Rightarrow> client \<Rightarrow> client" where
  "listUnreadSenders E = requireSession E (\<lambda>c. issue (ListReceived (accessToken c)) OnUnread c)"

definition unreadReply :: "'x env_scheme \<Rightarrow> LocalMessage list result \<Rightarrow> client \<Rightarrow> client" where
  "unreadReply E result =
     orFail E result (\<lambda>messages c.
       let c1 = saveAndReconcileMessages E messages ReceivedDir c
       in orFail E (unreadConversationsFor E (currentUserId c1) (cl_store c1))
            (\<lambda>unread. emit E (UnreadInboxUpdated unread)) c1)"

definition readConversation :: "'x env_scheme \<Rightarrow> qstring \<Rightarrow> int \<Rightarrow> client \<Rightarrow> client" where
  "readConversation E username page =
     requireSession E (\<lambda>c. issue (ResolveUsername (accessToken c) username (deviceIdOf c))
                              (OnReadAddress username page) c)"

definition readAddressReply ::
  "'x env_scheme \<Rightarrow> qstring \<Rightarrow> int \<Rightarrow> UserAddress result \<Rightarrow> client \<Rightarrow> client" where
  "readAddressReply E username page result =
     orFail E result (\<lambda>address. storeOrFail E (saveKnownUser E address)
       (\<lambda>_ c. issue (ListReceived (accessToken c)) (OnReadReceived address username page) c))"

definition readReceivedReply ::
  "'x env_scheme \<Rightarrow> UserAddress \<Rightarrow> qstring \<Rightarrow> int \<Rightarrow> LocalMessage list result \<Rightarrow> client \<Rightarrow> client" where
  "readReceivedReply E address username page result =
     orFail E result (\<lambda>messages c.
       let c1 = saveAndReconcileMessages E messages ReceivedDir c
       in issue (ListSent (accessToken c1)) (OnReadSent address username page) c1)"

definition readSentReply ::
  "'x env_scheme \<Rightarrow> crypto_provider \<Rightarrow> UserAddress \<Rightarrow> qstring \<Rightarrow> int \<Rightarrow> LocalMessage list result \<Rightarrow> client \<Rightarrow> client" where
  "readSentReply E C address username page result =
     orFail E result (\<lambda>messages c.
       openConversationFromCache E C address username page (saveAndReconcileMessages E messages SentDir c))"

section \<open>Forwarding, revoking, deleting\<close>

definition forward :: "'x env_scheme \<Rightarrow> qstring \<Rightarrow> qstring \<Rightarrow> client \<Rightarrow> client" where
  "forward E messageId recipientUsername =
     requireSession E (\<lambda>c. issue (ResolveUsername (accessToken c) recipientUsername (deviceIdOf c))
                              (OnForwardAddress messageId) c)"

definition forwardToAddress ::
  "'x env_scheme \<Rightarrow> crypto_provider \<Rightarrow> qstring \<Rightarrow> UserAddress \<Rightarrow> client \<Rightarrow> client" where
  "forwardToAddress E C messageId recipientAddress c =
     (case findMessage messageId (cl_store c) of
        Inr (Some message) \<Rightarrow>
          orFail E (currentDevice c) (\<lambda>device c.
            case decryptForCurrentUser C c device message of
              Inl err \<Rightarrow> emit E (CryptoOperationFailed err) c
            | Inr plaintext \<Rightarrow>
                trustedBundle E C (ua_userId recipientAddress) (ua_deviceId recipientAddress)
                  (ForwardWith messageId recipientAddress plaintext device) c) c
      | _ \<Rightarrow> emit E (CommandFailed (mkError NotFound
               (Q ''Message must be cached before forwarding. Use /read first.''))) c)"

definition forwardAddressReply ::
  "'x env_scheme \<Rightarrow> crypto_provider \<Rightarrow> qstring \<Rightarrow> UserAddress result \<Rightarrow> client \<Rightarrow> client" where
  "forwardAddressReply E C messageId result =
     orFail E result (\<lambda>address. storeOrFail E (saveKnownUser E address)
       (\<lambda>_. forwardToAddress E C messageId address))"

definition forwardedReply :: "'x env_scheme \<Rightarrow> qstring \<Rightarrow> LocalMessage result \<Rightarrow> client \<Rightarrow> client" where
  "forwardedReply E localSenderCopy result =
     orFail E result (\<lambda>message.
       let savedMessage = message\<lparr>lm_localSenderCopyWirePayloadJson := localSenderCopy\<rparr>
       in storeOrFail E (saveMessage E savedMessage) (\<lambda>_. emit E (MessageForwarded savedMessage)))"

definition revoke :: "qstring \<Rightarrow> client \<Rightarrow> client" where
  "revoke messageId c = issue (RevokeMessage (accessToken c) messageId) (OnRevoked messageId) c"

definition revokedReply :: "'x env_scheme \<Rightarrow> qstring \<Rightarrow> LocalMessage result \<Rightarrow> client \<Rightarrow> client" where
  "revokedReply E messageId result =
     orFail E result (\<lambda>message. storeOrFail E (saveMessage E message)
       (\<lambda>_. emit E (MessageRevoked messageId)))"

definition deleteMessage :: "qstring \<Rightarrow> client \<Rightarrow> client" where
  "deleteMessage messageId c = issue (DeleteMessageOn (accessToken c) messageId) (OnDeleted messageId) c"

definition deletedReply :: "'x env_scheme \<Rightarrow> qstring \<Rightarrow> bool result \<Rightarrow> client \<Rightarrow> client" where
  "deletedReply E messageId result =
     orFail E result (\<lambda>_ c. storeOrFail E (markMessageDeletedFor E (currentUserId c) messageId)
       (\<lambda>_. emit E (MessageDeleted messageId)) c)"

section \<open>Exporting\<close>

text \<open>
  \<open>[^A-Za-z0-9_-]\<close> matches a whole code point, so a surrogate pair becomes one underscore.
\<close>

definition idCharacter :: "qchar \<Rightarrow> bool" where
  "idCharacter c \<longleftrightarrow> (65 \<le> c \<and> c \<le> 90) \<or> (97 \<le> c \<and> c \<le> 122) \<or> (48 \<le> c \<and> c \<le> 57) \<or> c = 95 \<or> c = 45"

definition surrogatePair :: "qchar \<Rightarrow> qchar \<Rightarrow> bool" where
  "surrogatePair h l \<longleftrightarrow> 55296 \<le> h \<and> h \<le> 56319 \<and> 56320 \<le> l \<and> l \<le> 57343"

fun safeMessageId :: "qstring \<Rightarrow> qstring" where
  "safeMessageId [] = []"
| "safeMessageId [c] = [if idCharacter c then c else 95]"
| "safeMessageId (c # d # s) =
     (if idCharacter c then c # safeMessageId (d # s)
      else if surrogatePair c d then 95 # safeMessageId s
      else 95 # safeMessageId (d # s))"

definition downloadPathForMessage :: "'x platform_scheme \<Rightarrow> qstring \<Rightarrow> qstring" where
  "downloadPathForMessage P messageId =
     pf_currentDirPath P (arg1 (Q ''message-%1.txt'') (safeMessageId messageId))"

definition download :: "'x env_scheme \<Rightarrow> crypto_provider \<Rightarrow> qstring \<Rightarrow> client \<Rightarrow> client" where
  "download E C messageId c =
     (case findMessage messageId (cl_store c) of
        Inr (Some message) \<Rightarrow>
          orFail E (currentDevice c) (\<lambda>device c.
            case decryptForCurrentUser C c device message of
              Inl err \<Rightarrow> emit E (CryptoOperationFailed err) c
            | Inr plaintext \<Rightarrow>
                (let path = downloadPathForMessage E messageId
                 in if \<not> env_canWrite E path
                    then emit E (CommandFailed (mkError StorageError (arg1 (Q ''Could not write %1.'') path))) c
                    else emit E (MessageDownloaded messageId path)
                      (c\<lparr>cl_textFiles := (cl_textFiles c)(path \<mapsto> plaintext @ newline)\<rparr>))) c
      | _ \<Rightarrow> emit E (CommandFailed (mkError NotFound
               (Q ''Message must be cached before download. Use /read first.''))) c)"

section \<open>Verifying\<close>

text \<open>
  The pattern \<open>^0x[0-9a-fA-F]{64}$\<close>; without the option to anchor at the very end, the
  dollar also matches before a final line feed.
\<close>

definition isValidEthereumTransactionHash :: "qstring \<Rightarrow> bool" where
  "isValidEthereumTransactionHash v \<longleftrightarrow>
     isDigestText v \<or> (v \<noteq> [] \<and> last v = 10 \<and> isDigestText (butlast v))"

definition verify :: "qstring \<Rightarrow> client \<Rightarrow> client" where
  "verify messageId c = issue (FetchMessageAnchor (accessToken c) messageId) (OnAnchor messageId) c"

definition verifyPublicAnchor :: "qstring \<Rightarrow> BlockchainAnchor \<Rightarrow> client \<Rightarrow> client" where
  "verifyPublicAnchor messageId anchor = issue (VerifyAnchor [] anchor) (OnVerification messageId)"

definition status :: "'x env_scheme \<Rightarrow> qstring \<Rightarrow> qstring \<Rightarrow> qstring list \<Rightarrow> client \<Rightarrow> client" where
  "status E messageId text values = emit E (FidelityStatusUpdated messageId (argN text values))"

definition anchorReply :: "'x env_scheme \<Rightarrow> qstring \<Rightarrow> BlockchainAnchor result \<Rightarrow> client \<Rightarrow> client" where
  "anchorReply E messageId result c =
     (case result of
        Inl err \<Rightarrow>
          (if ce_code err = NotFound then status E messageId AppText_AnchorUnavailable [messageId] c
           else case findMessage messageId (cl_store c) of
                  Inr (Some message) \<Rightarrow>
                    (if ba_digest (lm_cachedAnchor message) \<noteq> []
                     then verifyPublicAnchor messageId (lm_cachedAnchor message) c
                     else emit E (CommandFailed err) c)
                | _ \<Rightarrow> emit E (CommandFailed err) c)
      | Inr anchor \<Rightarrow>
          (let c1 = (case findMessage messageId (cl_store c) of
                       Inr (Some message) \<Rightarrow>
                         c\<lparr>cl_store := snd (saveMessage E (message\<lparr>lm_cachedAnchor := anchor\<rparr>) (cl_store c))\<rparr>
                     | _ \<Rightarrow> c);
               st = pf_toLower E (ba_status anchor)
           in if st = Q ''failed''
              then status E messageId AppText_AnchorFailed [messageId, ba_chain anchor] c1
              else if st \<noteq> Q ''confirmed''
              then status E messageId AppText_AnchorPending [messageId, ba_status anchor, ba_chain anchor] c1
              else if \<not> isValidEthereumTransactionHash (ba_transactionHash anchor)
              then status E messageId AppText_AnchorPending [messageId, Q ''pending'', ba_chain anchor] c1
              else verifyPublicAnchor messageId anchor c1))"

definition verificationReply ::
  "'x env_scheme \<Rightarrow> qstring \<Rightarrow> BlockchainVerification result \<Rightarrow> client \<Rightarrow> client" where
  "verificationReply E messageId result =
     orFail E result (\<lambda>v.
       if \<not> bv_valid v then status E messageId AppText_AnchorMismatch [messageId]
       else if pf_foldCase E (bv_status v) \<noteq> pf_foldCase E (Q ''confirmed'')
       then status E messageId AppText_AnchorPending [messageId, bv_status v, bv_chain v]
       else if bv_transactionHash v \<noteq> []
       then status E messageId AppText_AnchorVerifiedWithTransaction
              [messageId, bv_chain v, bv_status v, bv_transactionHash v]
       else status E messageId AppText_AnchorVerified [messageId, bv_chain v, bv_status v])"

section \<open>Delivering an answer\<close>

definition deliver ::
  "'x env_scheme \<Rightarrow> crypto_provider \<Rightarrow> continuation \<Rightarrow> reply \<Rightarrow> client \<Rightarrow> client" where
  "deliver E C k answer c =
     (case answer of
        UserReply r \<Rightarrow>
           (case k of
              OnRegister \<Rightarrow> registerReply E r c
            | _ \<Rightarrow> c)
      | SessionReply r \<Rightarrow>
           (case k of
              OnLogin password \<Rightarrow> loginReply E C password r c
            | _ \<Rightarrow> c)
      | BoolReply r \<Rightarrow>
           (case k of
              OnLogout \<Rightarrow> logoutReply E r c
            | OnUpsert \<Rightarrow> upsertReply E C r c
            | OnUpload \<Rightarrow> uploadReply E r c
            | OnDeleted messageId \<Rightarrow> deletedReply E messageId r c
            | _ \<Rightarrow> c)
      | BundleReply r \<Rightarrow>
           (case k of
              OnTrustBundle address \<Rightarrow> trustBundleReply E C address r c
            | OnPinnedBundle pin callback \<Rightarrow> pinnedBundleReply E C pin callback r c
            | _ \<Rightarrow> c)
      | AddressReply r \<Rightarrow>
           (case k of
              OnTrustAddress \<Rightarrow> trustAddressReply E r c
            | OnSendAddress plaintext \<Rightarrow> sendAddressReply E C plaintext r c
            | OnReadAddress username page \<Rightarrow> readAddressReply E username page r c
            | OnForwardAddress messageId \<Rightarrow> forwardAddressReply E C messageId r c
            | _ \<Rightarrow> c)
      | MessagesReply r \<Rightarrow>
           (case k of
              OnReceived \<Rightarrow> listReply E ReceivedDir r c
            | OnSent \<Rightarrow> listReply E SentDir r c
            | OnConversationsReceived \<Rightarrow> conversationsReceivedReply E r c
            | OnConversationsSent \<Rightarrow> conversationsSentReply E r c
            | OnUnread \<Rightarrow> unreadReply E r c
            | OnReadReceived address username page \<Rightarrow> readReceivedReply E address username page r c
            | OnReadSent address username page \<Rightarrow> readSentReply E C address username page r c
            | _ \<Rightarrow> c)
      | MessageReply r \<Rightarrow>
           (case k of
              OnMessageSent copy \<Rightarrow> messageSentReply E copy r c
            | OnForwarded copy \<Rightarrow> forwardedReply E copy r c
            | OnRevoked messageId \<Rightarrow> revokedReply E messageId r c
            | _ \<Rightarrow> c)
      | AnchorReply r \<Rightarrow>
           (case k of
              OnAnchor messageId \<Rightarrow> anchorReply E messageId r c
            | _ \<Rightarrow> c)
      | VerificationReply r \<Rightarrow>
           (case k of
              OnVerification messageId \<Rightarrow> verificationReply E messageId r c
            | _ \<Rightarrow> c))"

text \<open>The answers a gateway gives to a callback: those of the type it takes.\<close>

datatype reply_kind = UserKind | SessionKind | BoolKind | BundleKind | AddressKind | MessagesKind | MessageKind | AnchorKind | VerificationKind

fun kindOf :: "reply \<Rightarrow> reply_kind" where
  "kindOf (UserReply r) = UserKind"
| "kindOf (SessionReply r) = SessionKind"
| "kindOf (BoolReply r) = BoolKind"
| "kindOf (BundleReply r) = BundleKind"
| "kindOf (AddressReply r) = AddressKind"
| "kindOf (MessagesReply r) = MessagesKind"
| "kindOf (MessageReply r) = MessageKind"
| "kindOf (AnchorReply r) = AnchorKind"
| "kindOf (VerificationReply r) = VerificationKind"

fun expects :: "continuation \<Rightarrow> reply_kind" where
  "expects OnRegister = UserKind"
| "expects (OnLogin _) = SessionKind"
| "expects OnLogout = BoolKind"
| "expects OnUpsert = BoolKind"
| "expects OnUpload = BoolKind"
| "expects OnTrustAddress = AddressKind"
| "expects (OnTrustBundle _) = BundleKind"
| "expects (OnPinnedBundle _ _) = BundleKind"
| "expects OnReceived = MessagesKind"
| "expects OnSent = MessagesKind"
| "expects OnConversationsReceived = MessagesKind"
| "expects OnConversationsSent = MessagesKind"
| "expects OnUnread = MessagesKind"
| "expects (OnSendAddress _) = AddressKind"
| "expects (OnMessageSent _) = MessageKind"
| "expects (OnReadAddress _ _) = AddressKind"
| "expects (OnReadReceived _ _ _) = MessagesKind"
| "expects (OnReadSent _ _ _) = MessagesKind"
| "expects (OnForwardAddress _) = AddressKind"
| "expects (OnForwarded _) = MessageKind"
| "expects (OnRevoked _) = MessageKind"
| "expects (OnDeleted _) = BoolKind"
| "expects (OnAnchor _) = AnchorKind"
| "expects (OnVerification _) = VerificationKind"

definition fits :: "continuation \<Rightarrow> reply \<Rightarrow> bool" where
  "fits k r \<longleftrightarrow> expects k = kindOf r"

end
