(* ===== verification/Parser.thy ===== *)
theory Parser
  imports Models Sample
begin

text \<open>
  client/src/app/SlashCommandParser.cpp: the command line parser and its tokenizer, with the
  grammar it inverts (quoted arguments), the invariant of the tokenizer's loop and the round
  trip from a command to its line and back.
\<close>

section \<open>The tokenizer\<close>

text \<open>The variables of the loop of \<open>tokenizeArguments\<close>.\<close>

record tokenizer =
  tk_arguments :: "qstring list"
  tk_current :: qstring
  tk_inQuote :: bool
  tk_escaping :: bool

definition tokenStart :: tokenizer where
  "tokenStart = \<lparr>tk_arguments = [], tk_current = [], tk_inQuote = False, tk_escaping = False\<rparr>"

definition tokenStep :: "qchar \<Rightarrow> tokenizer \<Rightarrow> tokenizer" where
  "tokenStep c t =
     (if tk_escaping t then t\<lparr>tk_current := tk_current t @ [c], tk_escaping := False\<rparr>
      else if tk_inQuote t \<and> c = CommandText_Escape then t\<lparr>tk_escaping := True\<rparr>
      else if c = CommandText_Quote then t\<lparr>tk_inQuote := \<not> tk_inQuote t\<rparr>
      else if isSpace c \<and> \<not> tk_inQuote t
      then (if tk_current t \<noteq> []
            then t\<lparr>tk_arguments := tk_arguments t @ [tk_current t], tk_current := []\<rparr>
            else t)
      else t\<lparr>tk_current := tk_current t @ [c]\<rparr>)"

definition tokenFinish :: "tokenizer \<Rightarrow> qstring list result" where
  "tokenFinish t =
     (let t1 = (if tk_escaping t then t\<lparr>tk_current := tk_current t @ [CommandText_Escape]\<rparr> else t)
      in if tk_inQuote t1 then failure InvalidCommand CommandText_UnclosedQuote
         else if tk_current t1 \<noteq> [] then Inr (tk_arguments t1 @ [tk_current t1])
         else Inr (tk_arguments t1))"

definition tokenizeArguments :: "qstring \<Rightarrow> qstring list result" where
  "tokenizeArguments text = tokenFinish (fold tokenStep text tokenStart)"

section \<open>The parser\<close>

definition parseCommand :: "'x platform_scheme \<Rightarrow> qstring \<Rightarrow> SlashCommand result" where
  "parseCommand P input =
     (let t = trimmed input in
      if t = [] then failure InvalidCommand (arg1 CommandText_EmptyIgnored CommandText_HelpPrompt)
      else if \<not> startsWith t [CommandText_SlashPrefix]
      then failure InvalidCommand (arg1 CommandText_MissingSlash CommandText_HelpPrompt)
      else
        let firstSpace = indexOf CommandText_Space t;
            name = pf_toLower P (case firstSpace of None \<Rightarrow> drop 1 t | Some i \<Rightarrow> take (i - 1) (drop 1 t))
        in if name = [] then failure InvalidCommand (arg1 CommandText_MissingName CommandText_HelpPrompt)
           else case commandTypeFromName P name of
                  None \<Rightarrow> failure InvalidCommand (argN CommandText_UnknownCommand [name, CommandText_HelpPrompt])
                | Some ct \<Rightarrow>
                    (case (case firstSpace of None \<Rightarrow> Inr [] | Some i \<Rightarrow> tokenizeArguments (drop (i + 1) t)) of
                       Inl e \<Rightarrow> Inl e
                     | Inr args \<Rightarrow> Inr \<lparr>cmd_type = ct, cmd_name = name, cmd_arguments = args, cmd_originalLine = input\<rparr>))"

section \<open>The invariant of the loop\<close>

text \<open>
  A pending escape only exists inside quotes, and no argument collected so far is empty.
\<close>

definition token_inv :: "tokenizer \<Rightarrow> bool" where
  "token_inv t \<longleftrightarrow> (tk_escaping t \<longrightarrow> tk_inQuote t) \<and> [] \<notin> set (tk_arguments t)"

lemma token_inv_start: "token_inv tokenStart"
  by (simp add: token_inv_def tokenStart_def)

lemma token_inv_step: "token_inv t \<Longrightarrow> token_inv (tokenStep c t)"
  by (auto simp: token_inv_def tokenStep_def)

lemma token_inv_fold: "token_inv t \<Longrightarrow> token_inv (fold tokenStep s t)"
  by (induction s arbitrary: t) (auto simp: token_inv_step)

lemma tokenFinish_inv:
  assumes "token_inv t"
  shows "tokenFinish t =
    (if tk_inQuote t then failure InvalidCommand CommandText_UnclosedQuote
     else Inr (tk_arguments t @ (if tk_current t = [] then [] else [tk_current t])))"
  using assms by (auto simp: tokenFinish_def token_inv_def Let_def)

lemma tokenize_eq:
  "tokenizeArguments s =
    (let t = fold tokenStep s tokenStart in
     if tk_inQuote t then failure InvalidCommand CommandText_UnclosedQuote
     else Inr (tk_arguments t @ (if tk_current t = [] then [] else [tk_current t])))"
  by (simp add: tokenizeArguments_def Let_def tokenFinish_inv token_inv_fold token_inv_start)

lemma tokenize_nonempty_args:
  assumes "tokenizeArguments s = Inr args"
  shows "[] \<notin> set args"
proof -
  have "token_inv (fold tokenStep s tokenStart)"
    by (simp add: token_inv_fold token_inv_start)
  with assms show ?thesis
    by (auto simp: tokenize_eq token_inv_def Let_def split: if_splits)
qed

section \<open>Quoting\<close>

text \<open>The inverse of the tokenizer: an argument in quotes, its quotes and backslashes escaped.\<close>

fun escapeChars :: "qstring \<Rightarrow> qstring" where
  "escapeChars [] = []"
| "escapeChars (c # s) =
     (if c = CommandText_Quote \<or> c = CommandText_Escape then CommandText_Escape # c # escapeChars s
      else c # escapeChars s)"

definition quoteArgument :: "qstring \<Rightarrow> qstring" where
  "quoteArgument a = CommandText_Quote # escapeChars a @ [CommandText_Quote]"

definition quotedArguments :: "qstring list \<Rightarrow> qstring" where
  "quotedArguments args = concat (map (\<lambda>a. CommandText_Space # quoteArgument a) args)"

lemma quote_ne_escape [simp]: "CommandText_Quote \<noteq> CommandText_Escape" "CommandText_Escape \<noteq> CommandText_Quote"
  by (simp_all add: const_defs)

lemma isSpace_consts [simp]:
  "isSpace CommandText_Space" "\<not> isSpace CommandText_Quote" "\<not> isSpace CommandText_SlashPrefix"
  by (simp_all add: const_defs isSpace_def)

lemma space_ne [simp]: "CommandText_Space \<noteq> CommandText_Quote" "CommandText_Space \<noteq> CommandText_Escape"
  "CommandText_SlashPrefix \<noteq> CommandText_Space" "CommandText_Space \<noteq> CommandText_SlashPrefix"
  by (simp_all add: const_defs)

lemma fold_tokenStep_escape:
  "\<lbrakk>tk_inQuote t; \<not> tk_escaping t\<rbrakk>
   \<Longrightarrow> fold tokenStep (escapeChars a) t = t\<lparr>tk_current := tk_current t @ a\<rparr>"
  by (induction a arbitrary: t) (auto simp: tokenStep_def)

lemma fold_tokenStep_quote:
  "\<lbrakk>\<not> tk_inQuote t; \<not> tk_escaping t\<rbrakk>
   \<Longrightarrow> fold tokenStep (quoteArgument a) t = t\<lparr>tk_current := tk_current t @ a\<rparr>"
  by (simp add: quoteArgument_def tokenStep_def fold_tokenStep_escape)

text \<open>The arguments a state stands for, the one being read included.\<close>

definition tk_all :: "tokenizer \<Rightarrow> qstring list" where
  "tk_all t = tk_arguments t @ (if tk_current t = [] then [] else [tk_current t])"

lemma fold_tokenStep_quoted:
  assumes "\<not> tk_inQuote t" "\<not> tk_escaping t"
  shows "\<not> tk_inQuote (fold tokenStep (quotedArguments args) t)
    \<and> tk_all (fold tokenStep (quotedArguments args) t) = tk_all t @ filter (\<lambda>a. a \<noteq> []) args"
  using assms
proof (induction args arbitrary: t)
  case Nil
  then show ?case by (simp add: quotedArguments_def)
next
  case (Cons a args)
  let ?u = "(tokenStep CommandText_Space t)\<lparr>tk_current := a\<rparr>"
  have sp: "tk_current (tokenStep CommandText_Space t) = []" "\<not> tk_inQuote (tokenStep CommandText_Space t)"
    "\<not> tk_escaping (tokenStep CommandText_Space t)"
    "tk_arguments (tokenStep CommandText_Space t) = tk_all t"
    using Cons.prems by (auto simp: tokenStep_def tk_all_def)
  then have "fold tokenStep (quotedArguments (a # args)) t = fold tokenStep (quotedArguments args) ?u"
    by (simp add: quotedArguments_def fold_tokenStep_quote)
  moreover have "tk_all ?u = tk_all t @ filter (\<lambda>a. a \<noteq> []) [a]"
    using sp by (simp add: tk_all_def)
  ultimately show ?case
    using Cons.IH [of ?u] sp by simp
qed

lemma tokenize_quoted: "tokenizeArguments (quotedArguments args) = Inr (filter (\<lambda>a. a \<noteq> []) args)"
  using fold_tokenStep_quoted [of tokenStart args]
  by (simp add: tokenize_eq Let_def tk_all_def tokenStart_def)

lemma tokenStep_space_start [simp]: "tokenStep CommandText_Space tokenStart = tokenStart"
  by (simp add: tokenStep_def tokenStart_def)

lemma tokenize_leading_space: "tokenizeArguments (CommandText_Space # s) = tokenizeArguments s"
  by (simp add: tokenizeArguments_def)

section \<open>Command lines\<close>

definition commandLine :: "CommandType \<Rightarrow> qstring list \<Rightarrow> qstring" where
  "commandLine t args = CommandText_SlashPrefix # commandTypeName t @ quotedArguments args"

lemma commandTypeName_ascii:
  "list_all (\<lambda>c. c < 128 \<and> \<not> isSpace c) (commandTypeName t) \<and> commandTypeName t \<noteq> []
    \<and> map asciiLowerChar (commandTypeName t) = commandTypeName t"
  by (cases t)
     (simp_all add: commandTypeName_def commandLookup_def const_defs Q_def isSpace_def asciiLowerChar_def)

lemma commandTypeName_lower:
  "lower_ascii P \<Longrightarrow> pf_toLower P (commandTypeName t) = commandTypeName t"
  using commandTypeName_ascii [of t] by (simp add: lower_ascii_def list_all_iff)

lemma trimmed_name [simp]: "trimmed (commandTypeName t) = commandTypeName t"
  using commandTypeName_ascii [of t]
  by (intro trimmed_no_space) (auto simp: list_all_iff)

lemma last_commandLine: "\<not> isSpace (last (commandLine t args))"
proof (cases args rule: rev_cases)
  case Nil
  then show ?thesis
    using commandTypeName_ascii [of t] by (auto simp: commandLine_def quotedArguments_def list_all_iff)
next
  case (snoc as a)
  then show ?thesis by (simp add: commandLine_def quotedArguments_def quoteArgument_def)
qed

lemma trimmed_commandLine: "trimmed (commandLine t args) = commandLine t args"
  using last_commandLine [of t args]
  by (intro trimmed_no_space) (simp_all add: commandLine_def)

lemma indexOf_append_notin: "c \<notin> set s \<Longrightarrow> indexOf c (s @ c # r) = Some (length s)"
  by (induction s) auto

lemma space_notin_name: "CommandText_Space \<notin> set (commandTypeName t)"
  using commandTypeName_ascii [of t] isSpace_consts(1) by (auto simp: list_all_iff)

lemma commandTypeFromName_name:
  "lower_ascii P \<Longrightarrow> commandTypeFromName P (commandTypeName t) = Some t"
  by (simp add: commandTypeFromName_def commandKey_def commandTypeName_lower commandTypeName_lookup)

lemma parse_commandLine_aux:
  assumes "lower_ascii P" "[] \<notin> set args"
  shows "parseCommand P (commandLine t args) =
    Inr \<lparr>cmd_type = t, cmd_name = commandTypeName t, cmd_arguments = args, cmd_originalLine = commandLine t args\<rparr>"
proof (cases args)
  case Nil
  then show ?thesis
    using assms commandTypeName_ascii [of t]
    by (simp add: parseCommand_def Let_def trimmed_commandLine)
       (simp add: commandLine_def quotedArguments_def startsWith_def indexOf_None [THEN iffD2, OF space_notin_name]
         commandTypeName_lower commandTypeFromName_name)
next
  case (Cons a as)
  let ?rest = "quoteArgument a @ quotedArguments as"
  have line: "commandLine t args = CommandText_SlashPrefix # commandTypeName t @ CommandText_Space # ?rest"
    using Cons by (simp add: commandLine_def quotedArguments_def)
  have ix: "indexOf CommandText_Space (commandLine t args) = Some (Suc (length (commandTypeName t)))"
    by (simp add: line indexOf_append_notin space_notin_name)
  have filt: "filter (\<lambda>a. a \<noteq> []) args = args"
    using assms(2) by (auto simp: filter_id_conv)
  have "quotedArguments args = CommandText_Space # ?rest"
    using Cons by (simp add: quotedArguments_def)
  then have tok: "tokenizeArguments ?rest = Inr args"
    using tokenize_quoted [of args] by (simp only: tokenize_leading_space filt)
  from ix tok assms commandTypeName_ascii [of t] show ?thesis
    by (simp add: parseCommand_def Let_def trimmed_commandLine)
       (simp add: line startsWith_def commandTypeName_lower commandTypeFromName_name)
qed

section \<open>Properties\<close>

text \<open>Property C26: a command survives being written and parsed. For every command type and every
  list of non-empty arguments, whatever characters they contain (spaces, quotes, backslashes,
  line feeds), the line with each argument quoted and its quotes and backslashes escaped parses
  to that command with those arguments. Assumed: lower-casing ASCII text lowers its letters.\<close>

theorem parse_commandLine:
  assumes "lower_ascii P" and "[] \<notin> set args"
  shows "parseCommand P (commandLine t args) =
    Inr \<lparr>cmd_type = t, cmd_name = commandTypeName t, cmd_arguments = args, cmd_originalLine = commandLine t args\<rparr>"
  using assms by (rule parse_commandLine_aux)

theorem parse_commandLine_witness:
  "\<exists>c. parseCommand sampleEnv (commandLine Msg [Q ''bob'', Q ''a b'']) = Inr c \<and> cmd_arguments c = [Q ''bob'', Q ''a b'']"
proof -
  have "lower_ascii sampleEnv" by (simp add: lower_ascii_def sampleEnv_def)
  then show ?thesis using parse_commandLine [of sampleEnv "[Q ''bob'', Q ''a b'']" Msg] by simp
qed

text \<open>The tokenizer is total and exact. It fails exactly when the text ends inside
  quotes, with an invalid-command error, and otherwise returns arguments none of which is
  empty; on the quoted form of any list it returns the non-empty members of the list, so an
  empty argument cannot be passed, even quoted.\<close>

theorem tokenizer_exact:
  "(case tokenizeArguments s of
      Inl e \<Rightarrow> tk_inQuote (fold tokenStep s tokenStart) \<and> ce_code e = InvalidCommand
    | Inr args \<Rightarrow> \<not> tk_inQuote (fold tokenStep s tokenStart) \<and> [] \<notin> set args)
   \<and> tokenizeArguments (quotedArguments as) = Inr (filter (\<lambda>a. a \<noteq> []) as)"
  using tokenize_nonempty_args [of s] tokenize_quoted [of as]
  by (auto simp: tokenize_eq Let_def split: sum.split if_splits)

end
