(* ===== verification/Router.thy ===== *)
theory Router
  imports Handlers Parser
begin

text \<open>
  ClientController and the input side of CommandRouter (client/src/app): what a line typed
  at the console does in each input mode. The listening side of the router is in Events.
\<close>

section \<open>ClientController\<close>

definition sendMessage :: "'x env_scheme \<Rightarrow> qstring \<Rightarrow> qstring \<Rightarrow> client \<Rightarrow> client" where
  "sendMessage E recipientUsername body c =
     (if trimmed body = [] then emit E (CommandFailed (mkError InvalidCommand AppText_EmptyMessage)) c
      else send E recipientUsername body
             (emit E (OperationStarted AppText_SendingMessage)
               (emit E (ConversationTargetChanged recipientUsername) c)))"

definition submitComposedMessage :: "'x env_scheme \<Rightarrow> qstring \<Rightarrow> qstring \<Rightarrow> client \<Rightarrow> client" where
  "submitComposedMessage E recipientUsername body = sendMessage E recipientUsername body"

definition openConversation :: "'x env_scheme \<Rightarrow> qstring \<Rightarrow> int \<Rightarrow> client \<Rightarrow> client" where
  "openConversation E username page c =
     readConversation E username page
       (emit E (OperationStarted AppText_LoadingConversation)
         (emit E (ConversationTargetChanged username) c))"

definition beginMessageComposition :: "'x env_scheme \<Rightarrow> qstring \<Rightarrow> client \<Rightarrow> client" where
  "beginMessageComposition E recipientUsername c =
     emit E (MessagePrepared recipientUsername (sc_deviceId (cl_config c)) [])
       (emit E (ConversationTargetChanged recipientUsername) c)"

definition cancelComposition :: "'x env_scheme \<Rightarrow> client \<Rightarrow> client" where
  "cancelComposition E = emit E MessageCompositionCancelled"

definition controllerRegister :: "'x env_scheme \<Rightarrow> qstring \<Rightarrow> qstring \<Rightarrow> qstring \<Rightarrow> client \<Rightarrow> client" where
  "controllerRegister E username email password c =
     registerUser username email password (emit E (OperationStarted AppText_RegisteringUser) c)"

definition controllerLogin :: "'x env_scheme \<Rightarrow> qstring \<Rightarrow> qstring \<Rightarrow> client \<Rightarrow> client" where
  "controllerLogin E usernameOrEmail password c =
     login usernameOrEmail password (emit E (OperationStarted AppText_LoggingIn) c)"

definition whoami :: "client \<Rightarrow> qstring" where
  "whoami c = (case cl_session c of
     Some s \<Rightarrow> argN AppText_LoggedInAs [up_username (as_user s), up_id (as_user s)]
   | None \<Rightarrow> AppText_NotLoggedIn)"

definition statusText :: "StartupConfig \<Rightarrow> qstring" where
  "statusText config =
     (if sc_mode config = Real
      then argInt (arg1 AppText_RealStatus (sc_apiUrl config)) (sc_deviceId config)
      else argInt AppText_MockStatus (sc_deviceId config))"

definition withOne :: "SlashCommand \<Rightarrow> (qstring \<Rightarrow> client \<Rightarrow> client) \<Rightarrow> client \<Rightarrow> client" where
  "withOne command k c = (case cmd_arguments command of [a] \<Rightarrow> k a c | _ \<Rightarrow> c)"

definition readCommand :: "'x env_scheme \<Rightarrow> SlashCommand \<Rightarrow> client \<Rightarrow> client" where
  "readCommand E command c =
     (let args = cmd_arguments command
      in if length args = 1 \<or> length args = 2
         then case (if length args = 2 then toIntOk (args ! 1) else Some 1) of
                Some page \<Rightarrow>
                  (if page \<le> 0
                   then emit E (CommandFailed (mkError InvalidCommand (arg1 CommandText_PositivePage (cmd_name command)))) c
                   else openConversation E (args ! 0) page c)
              | None \<Rightarrow>
                  emit E (CommandFailed (mkError InvalidCommand (arg1 CommandText_PositivePage (cmd_name command)))) c
         else c)"

definition handleCommand ::
  "'x env_scheme \<Rightarrow> crypto_provider \<Rightarrow> SlashCommand \<Rightarrow> client \<Rightarrow> client" where
  "handleCommand E C command c =
     (case cmd_type command of
        Help \<Rightarrow> emit E (StatusMessage AppText_Help) c
      | Logout \<Rightarrow> logout (emit E (OperationStarted AppText_LoggingOut) (emit E (ConversationTargetChanged []) c))
      | Whoami \<Rightarrow> emit E (StatusMessage (whoami c)) c
      | Status \<Rightarrow> emit E (StatusMessage (statusText (cl_config c))) c
      | Conversations \<Rightarrow> listConversations E (emit E (OperationStarted AppText_LoadingConversations) c)
      | Inbox \<Rightarrow> listUnreadSenders E (emit E (OperationStarted AppText_LoadingUnreadInbox) c)
      | Sync \<Rightarrow> listReceived E (emit E (OperationStarted AppText_SyncingMessages) c)
      | Sent \<Rightarrow> listSent E (emit E (OperationStarted AppText_LoadingSentMessages) c)
      | ReadCmd \<Rightarrow> readCommand E command c
      | Forward \<Rightarrow>
          (case cmd_arguments command of
             [a, b] \<Rightarrow> forward E a b (emit E (OperationStarted AppText_ForwardingMessage) c)
           | _ \<Rightarrow> c)
      | Revoke \<Rightarrow> withOne command (\<lambda>a c. revoke a (emit E (OperationStarted AppText_RevokingMessage) c)) c
      | DeleteMessage \<Rightarrow>
          withOne command (\<lambda>a c. deleteMessage a (emit E (OperationStarted AppText_DeletingMessage) c)) c
      | Download \<Rightarrow> withOne command (\<lambda>a c. download E C a (emit E (OperationStarted AppText_ExportingMessage) c)) c
      | Trust \<Rightarrow> withOne command (\<lambda>a c. trustUsername E a (emit E (OperationStarted AppText_CheckingTrust) c)) c
      | Verify \<Rightarrow> withOne command (\<lambda>a c. verify a (emit E (OperationStarted AppText_VerifyingMessage) c)) c
      | Cancel \<Rightarrow> emit E (StatusMessage AppText_NoComposition) c
      | BackCmd \<Rightarrow>
          emit E (StatusMessage AppText_ReturnedToMainMenu) (emit E (ConversationTargetChanged []) c)
      | Exit \<Rightarrow> emit E ExitRequested c
      | _ \<Rightarrow> c)"

section \<open>CommandRouter\<close>

definition appendLine :: "qchar \<Rightarrow> qstring \<Rightarrow> qstring \<Rightarrow> qstring" where
  "appendLine separator result line = (if result \<noteq> [] then result @ [separator] else result) @ line"

definition joinedLines :: "qstring list \<Rightarrow> qstring" where
  "joinedLines lines = foldl (appendLine 10) [] lines"

definition joinedArguments :: "qstring list \<Rightarrow> nat \<Rightarrow> qstring" where
  "joinedArguments arguments firstIndex = foldl (appendLine 32) [] (drop firstIndex arguments)"

definition RightArrowCodePoint :: qchar where "RightArrowCodePoint = 8594"

definition withoutConversationPromptEcho :: "qstring \<Rightarrow> qstring \<Rightarrow> qstring" where
  "withoutConversationPromptEcho line username =
     (if username = [] then line
      else let prompt = arg1 AppText_ConversationPrompt username
        in if startsWith line prompt then trimmed (drop (length prompt) line)
           else let compactPrompt = arg1 (Q ''[%1] >'') username
             in if \<not> startsWith line compactPrompt then line
                else let stripped = trimmed (drop (length compactPrompt) line)
                  in trimmed (if startsWith stripped [RightArrowCodePoint] then drop 1 stripped else stripped))"

definition isClientOutputEcho :: "qstring \<Rightarrow> bool" where
  "isClientOutputEcho line \<longleftrightarrow> trimmed line = AppText_SendingMessage"

definition zeroArgumentCommands :: "CommandType list" where
  "zeroArgumentCommands = [Help, Logout, Whoami, Status, Conversations, Inbox, Sent, Sync, Cancel, BackCmd, Exit]"

definition oneArgumentCommands :: "CommandType list" where
  "oneArgumentCommands = [Revoke, DeleteMessage, Verify, Trust]"

text \<open>\<open>maximum\<close> is \<open>None\<close> for the default argument -1.\<close>

definition commandHasArgumentCount ::
  "'x env_scheme \<Rightarrow> SlashCommand \<Rightarrow> int \<Rightarrow> int option \<Rightarrow> (client \<Rightarrow> client) \<Rightarrow> client \<Rightarrow> client" where
  "commandHasArgumentCount E command minimum maximum k c =
     (let count = int (length (cmd_arguments command));
          tooFew = (count < minimum);
          tooMany = (case maximum of None \<Rightarrow> False | Some m \<Rightarrow> count > m)
      in if \<not> tooFew \<and> \<not> tooMany then k c
         else let expected = (if maximum = Some minimum then argInt CommandText_Exactly minimum
                              else argInt CommandText_AtLeast minimum)
           in emit E (CommandFailed (mkError InvalidCommand
                (argN CommandText_ArgumentCount [cmd_name command, expected]))) c)"

definition onRouter :: "(router \<Rightarrow> router) \<Rightarrow> client \<Rightarrow> client" where
  "onRouter f c = c\<lparr>cl_router := f (cl_router c)\<rparr>"

definition startComposition :: "'x env_scheme \<Rightarrow> qstring \<Rightarrow> client \<Rightarrow> client" where
  "startComposition E recipient c =
     beginMessageComposition E recipient
       (onRouter (\<lambda>r. r\<lparr>rt_compositionRecipientUsername := recipient, rt_compositionLines := [],
                        rt_inputMode := MessageComposition\<rparr>) c)"

definition handleMsgCommand :: "'x env_scheme \<Rightarrow> SlashCommand \<Rightarrow> client \<Rightarrow> client" where
  "handleMsgCommand E command =
     commandHasArgumentCount E command 1 None (\<lambda>c.
       let username = cmd_arguments command ! 0;
           body = joinedArguments (cmd_arguments command) 1
       in if body = [] then openConversation E username 1 c else sendMessage E username body c)"

definition handleSendCommand :: "'x env_scheme \<Rightarrow> SlashCommand \<Rightarrow> client \<Rightarrow> client" where
  "handleSendCommand E command c =
     (let active = rt_activeConversationUsername (cl_router c);
          args = cmd_arguments command
      in if active \<noteq> []
         then (if args = [] then startComposition E active c
               else sendMessage E active (joinedArguments args 0) c)
         else commandHasArgumentCount E command 1 None (\<lambda>c.
           if length args > 1 then sendMessage E (args ! 0) (joinedArguments args 1) c
           else startComposition E (args ! 0) c) c)"

definition routeCommand :: "'x env_scheme \<Rightarrow> crypto_provider \<Rightarrow> SlashCommand \<Rightarrow> client \<Rightarrow> client" where
  "routeCommand E C command =
     (let t = cmd_type command; args = cmd_arguments command
      in if t = Register then
           commandHasArgumentCount E command 2 (Some 2) (\<lambda>c.
             emit E (StatusMessage (Q ''Enter registration password.''))
               (onRouter (\<lambda>r. r\<lparr>rt_pendingUsername := args ! 0, rt_pendingEmail := args ! 1,
                                rt_inputMode := RegisterPassword\<rparr>) c))
         else if t = Login then
           commandHasArgumentCount E command 1 (Some 1) (\<lambda>c.
             emit E (StatusMessage (Q ''Enter login password.''))
               (onRouter (\<lambda>r. r\<lparr>rt_pendingLoginIdentifier := args ! 0, rt_inputMode := LoginPassword\<rparr>) c))
         else if t = Msg then handleMsgCommand E command
         else if t = Send then handleSendCommand E command
         else if t \<in> set zeroArgumentCommands then
           commandHasArgumentCount E command 0 (Some 0) (handleCommand E C command)
         else if t \<in> set oneArgumentCommands then
           commandHasArgumentCount E command 1 (Some 1) (handleCommand E C command)
         else if t = ReadCmd then commandHasArgumentCount E command 1 (Some 2) (handleCommand E C command)
         else if t = Forward then commandHasArgumentCount E command 2 (Some 2) (handleCommand E C command)
         else if t = Download then commandHasArgumentCount E command 1 (Some 1) (handleCommand E C command)
         else handleCommand E C command)"

definition handleCommandMode :: "'x env_scheme \<Rightarrow> crypto_provider \<Rightarrow> qstring \<Rightarrow> client \<Rightarrow> client" where
  "handleCommandMode E C line c =
     (let active = rt_activeConversationUsername (cl_router c)
      in if trimmed line = [] then c
         else if active \<noteq> [] \<and> \<not> startsWith (trimmed line) [CommandText_SlashPrefix]
         then (let body = withoutConversationPromptEcho line active
               in if trimmed body \<noteq> [] \<and> \<not> isClientOutputEcho body then sendMessage E active body c else c)
         else case parseCommand E line of
                Inl err \<Rightarrow> emit E (CommandFailed err) c
              | Inr command \<Rightarrow> routeCommand E C command (emit E (SlashCommandReceived command) c))"

definition handleRegisterPassword :: "'x env_scheme \<Rightarrow> qstring \<Rightarrow> client \<Rightarrow> client" where
  "handleRegisterPassword E line c =
     (let r = cl_router c
      in onRouter (\<lambda>r. r\<lparr>rt_pendingUsername := [], rt_pendingEmail := []\<rparr>)
           (controllerRegister E (rt_pendingUsername r) (rt_pendingEmail r) line
             (onRouter (\<lambda>r. r\<lparr>rt_inputMode := CommandMode\<rparr>) c)))"

definition handleLoginPassword :: "'x env_scheme \<Rightarrow> qstring \<Rightarrow> client \<Rightarrow> client" where
  "handleLoginPassword E line c =
     onRouter (\<lambda>r. r\<lparr>rt_pendingLoginIdentifier := []\<rparr>)
       (controllerLogin E (rt_pendingLoginIdentifier (cl_router c)) line
         (onRouter (\<lambda>r. r\<lparr>rt_inputMode := CommandMode\<rparr>) c))"

definition sameFolded :: "'x platform_scheme \<Rightarrow> qstring \<Rightarrow> qstring \<Rightarrow> bool" where
  "sameFolded P s t \<longleftrightarrow> pf_foldCase P s = pf_foldCase P t"

definition leaveComposition :: "router \<Rightarrow> router" where
  "leaveComposition r = r\<lparr>rt_inputMode := CommandMode, rt_compositionLines := []\<rparr>"

definition handleMessageComposition :: "'x env_scheme \<Rightarrow> crypto_provider \<Rightarrow> qstring \<Rightarrow> client \<Rightarrow> client" where
  "handleMessageComposition E C line c =
     (let r = cl_router c; recipient = rt_compositionRecipientUsername r
      in if sameFolded E (trimmed line) CommandText_SubmitCommand
         then onRouter (\<lambda>r. r\<lparr>rt_compositionLines := []\<rparr>)
                (submitComposedMessage E recipient (joinedLines (rt_compositionLines r))
                  (onRouter (\<lambda>r. r\<lparr>rt_inputMode := CommandMode\<rparr>) c))
         else if sameFolded E (trimmed line) CommandText_CancelCommand
         then cancelComposition E (onRouter leaveComposition c)
         else if sameFolded E (trimmed line) CommandText_BackCommand
         then handleCommand E C \<lparr>cmd_type = BackCmd, cmd_name = CommandNames_Back, cmd_arguments = [],
                cmd_originalLine = line\<rparr> (onRouter leaveComposition c)
         else let bodyLine = withoutConversationPromptEcho line recipient
           in if trimmed bodyLine = [] \<or> isClientOutputEcho bodyLine then c
              else let lines = rt_compositionLines r @ [bodyLine]
                in emit E (MessagePrepared recipient DefaultDeviceId (joinedLines lines))
                     (onRouter (\<lambda>r. r\<lparr>rt_compositionLines := lines\<rparr>) c))"

definition handleLine :: "'x env_scheme \<Rightarrow> crypto_provider \<Rightarrow> qstring \<Rightarrow> client \<Rightarrow> client" where
  "handleLine E C line c =
     (let mode = rt_inputMode (cl_router c);
          commandInputWhileBusy = (mode = CommandMode \<and> rt_operationInProgress (cl_router c))
      in if commandInputWhileBusy
         then (if trimmed line \<noteq> [] then emit E (OperationStarted AppText_OperationInProgress) c else c)
         else case mode of
                CommandMode \<Rightarrow> handleCommandMode E C line c
              | RegisterPassword \<Rightarrow> handleRegisterPassword E line c
              | LoginPassword \<Rightarrow> handleLoginPassword E line c
              | MessageComposition \<Rightarrow> handleMessageComposition E C line c)"

end
