(* ===== verification/Startup.thy ===== *)
theory Startup
  imports Models Sample
begin

text \<open>
  client/src/app/StartupConfig.cpp: the command-line flags of the client. The loop over the
  argument vector is a recursion over what is left of it; a flag that takes a value skips
  that value, as the extra increment of the index does.
\<close>

text \<open>\<open>nextValue\<close>: the argument after the flag, the empty string past the end.\<close>

definition nextValue :: "qstring list \<Rightarrow> qstring" where
  "nextValue rest = (case rest of [] \<Rightarrow> [] | v # _ \<Rightarrow> v)"

text \<open>The local variables of \<open>StartupConfigParser::parse\<close>.\<close>

record startup_state =
  ss_config :: StartupConfig
  ss_debugMode :: bool
  ss_realModeProvided :: bool
  ss_apiUrlProvided :: bool

definition startupInit :: "qstring \<Rightarrow> startup_state" where
  "startupInit dfltPath =
    \<lparr>ss_config = \<lparr>sc_mode = Real, sc_apiUrl = AppText_DefaultApiUrl, sc_deviceId = DefaultDeviceId,
                  sc_statePath = dfltPath, sc_statePathExplicit = False, sc_showRawErrors = False\<rparr>,
     ss_debugMode = False, ss_realModeProvided = False, ss_apiUrlProvided = False\<rparr>"

abbreviation configError :: "qstring \<Rightarrow> 'a result" where
  "configError m \<equiv> failure InvalidConfiguration m"

text \<open>What one flag does: \<open>(state, skip)\<close>, where \<open>skip\<close> tells whether a value was consumed.\<close>

definition startupFlag ::
  "'x platform_scheme \<Rightarrow> qstring \<Rightarrow> qstring list \<Rightarrow> startup_state \<Rightarrow> (startup_state \<times> bool) result" where
  "startupFlag P a rest st =
     (let cfg = ss_config st in
      if a = AppText_HelpFlag then configError AppText_StartupUsage
      else if a = AppText_DebugFlag then
        (if ss_realModeProvided st then configError AppText_DebugRealModeConflict
         else Inr (st\<lparr>ss_debugMode := True,
                      ss_config := cfg\<lparr>sc_mode := Mock, sc_showRawErrors := True, sc_apiUrl := []\<rparr>\<rparr>, False))
      else if a = AppText_DebugErrorsFlag then
        Inr (st\<lparr>ss_config := cfg\<lparr>sc_showRawErrors := True\<rparr>\<rparr>, False)
      else if a = AppText_ModeFlag then
        (let m = pf_toLower P (nextValue rest) in
         if m = AppText_MockMode then
           Inr (st\<lparr>ss_config := cfg\<lparr>sc_mode := Mock, sc_apiUrl := []\<rparr>\<rparr>, True)
         else if m = AppText_RealMode then
           (if ss_debugMode st then configError AppText_DebugRealModeConflict
            else Inr (st\<lparr>ss_realModeProvided := True,
                         ss_config := (if ss_apiUrlProvided st then cfg\<lparr>sc_mode := Real\<rparr>
                           else cfg\<lparr>sc_mode := Real, sc_apiUrl := AppText_DefaultApiUrl\<rparr>)\<rparr>, True))
         else configError AppText_InvalidMode)
      else if a = AppText_ApiUrlFlag then
        (if ss_debugMode st then configError AppText_DebugApiUrlConflict
         else Inr (st\<lparr>ss_config := cfg\<lparr>sc_apiUrl := nextValue rest\<rparr>, ss_apiUrlProvided := True\<rparr>, True))
      else if a = AppText_DeviceIdFlag then
        (case toIntOk (nextValue rest) of
           None \<Rightarrow> configError AppText_InvalidDeviceId
         | Some n \<Rightarrow> (if n \<le> 0 then configError AppText_InvalidDeviceId
                      else Inr (st\<lparr>ss_config := cfg\<lparr>sc_deviceId := n\<rparr>\<rparr>, True)))
      else if a = AppText_StatePathFlag then
        Inr (st\<lparr>ss_config := cfg\<lparr>sc_statePath := nextValue rest, sc_statePathExplicit := True\<rparr>\<rparr>, True)
      else configError (argN CommandText_UnknownCommand [a, AppText_StartupUsage]))"

function startupLoop :: "'x platform_scheme \<Rightarrow> qstring list \<Rightarrow> startup_state \<Rightarrow> startup_state result" where
  "startupLoop P [] st = Inr st"
| "startupLoop P (a # rest) st =
     (case startupFlag P a rest st of
        Inl e \<Rightarrow> Inl e
      | Inr (st', skip) \<Rightarrow> startupLoop P (if skip then drop 1 rest else rest) st')"
  by pat_completeness auto
termination
  by (relation "measure (\<lambda>(P, as, st). length as)") auto

definition startupFinish :: "'x platform_scheme \<Rightarrow> startup_state \<Rightarrow> StartupConfig result" where
  "startupFinish P st =
     (let cfg = ss_config st in
      if ss_debugMode st \<and> ss_apiUrlProvided st then configError AppText_DebugApiUrlConflict
      else if sc_mode cfg = Real \<and> sc_apiUrl cfg = [] then configError AppText_MissingRealApiUrl
      else if sc_mode cfg = Real \<and> pf_urlScheme P (sc_apiUrl cfg) \<noteq> AppText_HttpsScheme
      then configError AppText_TlsRequired
      else Inr cfg)"

text \<open>The program name (index 0) is not looked at.\<close>

definition parseStartup :: "'x platform_scheme \<Rightarrow> qstring \<Rightarrow> qstring list \<Rightarrow> StartupConfig result" where
  "parseStartup P dfltPath args =
     (case startupLoop P (drop 1 args) (startupInit dfltPath) of
        Inl e \<Rightarrow> Inl e
      | Inr st \<Rightarrow> startupFinish P st)"

section \<open>The flags of an argument vector\<close>

text \<open>The arguments that are read as flags: those not consumed as the value of the one before.\<close>

definition takesValue :: "qstring \<Rightarrow> bool" where
  "takesValue a \<longleftrightarrow> a \<in> {AppText_ModeFlag, AppText_ApiUrlFlag, AppText_DeviceIdFlag, AppText_StatePathFlag}"

function flagsOf :: "qstring list \<Rightarrow> qstring list" where
  "flagsOf [] = []"
| "flagsOf (a # rest) = a # flagsOf (if takesValue a then drop 1 rest else rest)"
  by pat_completeness auto
termination
  by (relation "measure length") auto

lemmas flag_defs = AppText_HelpFlag_def AppText_DebugFlag_def AppText_DebugErrorsFlag_def
  AppText_ModeFlag_def AppText_ApiUrlFlag_def AppText_DeviceIdFlag_def AppText_StatePathFlag_def

lemma startupFlag_skip: "startupFlag P a rest st = Inr (st', k) \<Longrightarrow> k = takesValue a"
  by (auto simp: startupFlag_def takesValue_def Let_def flag_defs split: if_splits option.splits)

section \<open>The invariant of the loop\<close>

definition startup_inv :: "startup_state \<Rightarrow> bool" where
  "startup_inv st \<longleftrightarrow>
     0 < sc_deviceId (ss_config st) \<and>
     (ss_debugMode st \<longrightarrow> sc_mode (ss_config st) = Mock \<and> sc_apiUrl (ss_config st) = []
        \<and> sc_showRawErrors (ss_config st))"

lemma startup_inv_init: "startup_inv (startupInit p)"
  by (simp add: startup_inv_def startupInit_def DefaultDeviceId_def)

lemma startup_inv_flag:
  "\<lbrakk>startup_inv st; startupFlag P a rest st = Inr (st', k)\<rbrakk> \<Longrightarrow> startup_inv st'"
  by (auto simp: startup_inv_def startupFlag_def Let_def split: if_splits option.splits)

text \<open>The two flags the conflict checks look at are remembered.\<close>

definition startup_mem :: "qstring list \<Rightarrow> startup_state \<Rightarrow> startup_state \<Rightarrow> bool" where
  "startup_mem fl st st' \<longleftrightarrow>
     (ss_debugMode st' \<longleftrightarrow> ss_debugMode st \<or> AppText_DebugFlag \<in> set fl) \<and>
     (ss_apiUrlProvided st' \<longleftrightarrow> ss_apiUrlProvided st \<or> AppText_ApiUrlFlag \<in> set fl)"

lemma startup_mem_flag:
  "startupFlag P a rest st = Inr (st', k) \<Longrightarrow> startup_mem [a] st st'"
  by (auto simp: startup_mem_def startupFlag_def Let_def flag_defs split: if_splits option.splits)

lemma startupLoop_inv:
  "\<lbrakk>startupLoop P as st = Inr st'; startup_inv st\<rbrakk>
   \<Longrightarrow> startup_inv st' \<and> startup_mem (flagsOf as) st st'"
proof (induction P as st rule: startupLoop.induct)
  case (1 P st)
  then show ?case by (simp add: startup_mem_def)
next
  case (2 P a rest st)
  then obtain st1 k where s1: "startupFlag P a rest st = Inr (st1, k)"
    and l: "startupLoop P (if k then drop 1 rest else rest) st1 = Inr st'"
    by (auto split: sum.splits)
  have "startup_inv st1" using "2.prems"(2) s1 by (rule startup_inv_flag)
  with "2.IH" [OF s1 refl] l
  have "startup_inv st' \<and> startup_mem (flagsOf (if k then drop 1 rest else rest)) st1 st'" by simp
  moreover have "startup_mem [a] st st1" using s1 by (rule startup_mem_flag)
  ultimately show ?case
    using startupFlag_skip [OF s1] by (auto simp: startup_mem_def)
qed

lemma parseStartup_inv:
  assumes "parseStartup P d args = Inr cfg"
  obtains st where "startup_inv st" "startup_mem (flagsOf (drop 1 args)) (startupInit d) st"
    "startupFinish P st = Inr cfg"
  using assms startupLoop_inv [OF _ startup_inv_init]
  by (fastforce simp: parseStartup_def split: sum.splits)

lemma startupFinish_config: "startupFinish P st = Inr cfg \<Longrightarrow> cfg = ss_config st"
  by (auto simp: startupFinish_def Let_def split: if_splits)

lemma startup_accepts_aux:
  assumes "lower_ascii P" and "pf_urlScheme P u = AppText_HttpsScheme" and "u \<noteq> []"
    and "toIntOk n = Some k" and "0 < k"
  shows "parseStartup P d [prog, AppText_ModeFlag, AppText_RealMode, AppText_ApiUrlFlag, u, AppText_DeviceIdFlag, n]
    = Inr \<lparr>sc_mode = Real, sc_apiUrl = u, sc_deviceId = k, sc_statePath = d,
           sc_statePathExplicit = False, sc_showRawErrors = False\<rparr>"
proof -
  have low: "pf_toLower P AppText_RealMode = AppText_RealMode"
    using assms(1) by (simp add: lower_ascii_def AppText_RealMode_def Q_def asciiLowerChar_def)
  have ne: "AppText_RealMode \<noteq> AppText_MockMode" by (simp add: const_defs)
  show ?thesis
    using assms(2-) low ne
    by (simp add: parseStartup_def startupFlag_def startupFinish_def startupInit_def Let_def
        nextValue_def flag_defs)
qed

text \<open>A command line on which the properties are exercised.\<close>

definition sampleArgs :: "qstring \<Rightarrow> qstring list" where
  "sampleArgs n = [Q ''client'', AppText_ModeFlag, AppText_RealMode, AppText_ApiUrlFlag, Q ''https://h'', AppText_DeviceIdFlag, n]"

definition sampleAccepted :: "int \<Rightarrow> StartupConfig" where
  "sampleAccepted k = \<lparr>sc_mode = Real, sc_apiUrl = Q ''https://h'', sc_deviceId = k, sc_statePath = [],
     sc_statePathExplicit = False, sc_showRawErrors = False\<rparr>"

lemma sample_lower: "lower_ascii sampleEnv"
  by (simp add: lower_ascii_def sampleEnv_def)

lemma sample_scheme: "pf_urlScheme sampleEnv (Q ''https://h'') = AppText_HttpsScheme" "Q ''https://h'' \<noteq> []"
  by (simp_all add: sampleEnv_def Q_def const_defs)

lemma sample_number: "toIntOk (Q ''9'') = Some 9" "(0 :: int) < 9"
  by (simp_all add: toIntOk_def Q_def isSpace_def isDigit_def digitValue_def decimal_def trimmed_def inIntRange_def intMin_def intMax_def
      Let_def startsWith_def)

section \<open>Properties\<close>

text \<open>The client never starts in real mode against a URL without TLS. Whatever the
  arguments, an accepted configuration in real mode has a non-empty URL whose scheme is
  https, and every accepted configuration has a positive device id.\<close>

theorem startup_real_mode_is_tls:
  assumes "parseStartup P d args = Inr cfg"
  shows "0 < sc_deviceId cfg
    \<and> (sc_mode cfg = Real \<longrightarrow> sc_apiUrl cfg \<noteq> [] \<and> pf_urlScheme P (sc_apiUrl cfg) = AppText_HttpsScheme)"
proof -
  from assms obtain st where st: "startup_inv st" "startupFinish P st = Inr cfg"
    by (rule parseStartup_inv)
  moreover have "cfg = ss_config st" using st(2) by (rule startupFinish_config)
  ultimately show ?thesis
    by (auto simp: startup_inv_def startupFinish_def Let_def split: if_splits)
qed

theorem startup_real_mode_is_tls_witness:
  "pf_urlScheme sampleEnv (sc_apiUrl (sampleAccepted 9)) = AppText_HttpsScheme \<and> 0 < sc_deviceId (sampleAccepted 9)"
proof -
  have "parseStartup sampleEnv [] (sampleArgs (Q ''9'')) = Inr (sampleAccepted 9)"
    unfolding sampleArgs_def sampleAccepted_def
    by (rule startup_accepts_aux) (simp_all add: sample_lower sample_scheme sample_number)
  from startup_real_mode_is_tls [OF this] show ?thesis by (simp add: sampleAccepted_def)
qed

text \<open>The debug flag decides the mode in every order of the arguments. When
  \<open>--debug\<close> is among the flags of an accepted command line, the configuration is mock mode with
  raw errors and no API URL, and \<open>--api-url\<close> is not among the flags.\<close>

theorem startup_debug_is_mock:
  assumes "parseStartup P d args = Inr cfg" and "AppText_DebugFlag \<in> set (flagsOf (drop 1 args))"
  shows "sc_mode cfg = Mock \<and> sc_apiUrl cfg = [] \<and> sc_showRawErrors cfg
    \<and> AppText_ApiUrlFlag \<notin> set (flagsOf (drop 1 args))"
proof -
  from assms(1) obtain st where st: "startup_inv st" "startup_mem (flagsOf (drop 1 args)) (startupInit d) st"
    "startupFinish P st = Inr cfg"
    by (rule parseStartup_inv)
  moreover have "cfg = ss_config st" using st(3) by (rule startupFinish_config)
  ultimately show ?thesis
    using assms(2)
    by (auto simp: startup_inv_def startup_mem_def startupFinish_def Let_def split: if_splits)
qed

theorem startup_debug_is_mock_witness:
  "\<exists>cfg. parseStartup sampleEnv [] [Q ''client'', AppText_DebugFlag] = Inr cfg \<and> sc_mode cfg = Mock"
proof -
  have "\<exists>cfg. parseStartup sampleEnv [] [Q ''client'', AppText_DebugFlag] = Inr cfg"
    by (simp add: parseStartup_def startupFlag_def startupFinish_def startupInit_def Let_def flag_defs)
  moreover have "AppText_DebugFlag \<in> set (flagsOf (drop 1 [Q ''client'', AppText_DebugFlag]))"
    by (simp add: takesValue_def)
  ultimately show ?thesis using startup_debug_is_mock by blast
qed

text \<open>An explicit real-mode command line is accepted as it is written: with
  \<open>--mode real --api-url u --device-id n\<close>, an https URL and a positive device number give
  exactly that configuration.\<close>

theorem startup_accepts_https:
  assumes "lower_ascii P" and "pf_urlScheme P u = AppText_HttpsScheme" and "u \<noteq> []"
    and "toIntOk n = Some k" and "0 < k"
  shows "parseStartup P d [prog, AppText_ModeFlag, AppText_RealMode, AppText_ApiUrlFlag, u, AppText_DeviceIdFlag, n]
    = Inr \<lparr>sc_mode = Real, sc_apiUrl = u, sc_deviceId = k, sc_statePath = d,
           sc_statePathExplicit = False, sc_showRawErrors = False\<rparr>"
  using assms by (rule startup_accepts_aux)

theorem startup_accepts_https_witness:
  "parseStartup sampleEnv [] (sampleArgs (Q ''9'')) = Inr (sampleAccepted 9)"
  unfolding sampleArgs_def sampleAccepted_def
  by (rule startup_accepts_https) (simp_all add: sample_lower sample_scheme sample_number)

text \<open>A URL given before \<open>--mode mock\<close> is dropped for good. The flag that switches to
  mock mode clears the URL, and switching back with \<open>--mode real\<close> does not restore it (nor the
  default), so the client refuses the command line as having no URL although one was given.\<close>

theorem startup_url_lost_by_mock:
  assumes "lower_ascii P"
  shows "parseStartup P d [prog, AppText_ApiUrlFlag, u, AppText_ModeFlag, AppText_MockMode,
      AppText_ModeFlag, AppText_RealMode]
    = configError AppText_MissingRealApiUrl"
proof -
  have low: "pf_toLower P AppText_RealMode = AppText_RealMode"
    "pf_toLower P AppText_MockMode = AppText_MockMode"
    using assms by (simp_all add: lower_ascii_def const_defs Q_def asciiLowerChar_def)
  have ne: "AppText_RealMode \<noteq> AppText_MockMode" by (simp add: const_defs)
  show ?thesis
    using low ne
    by (simp add: parseStartup_def startupFlag_def startupFinish_def startupInit_def Let_def
        nextValue_def flag_defs)
qed

theorem startup_url_lost_by_mock_witness:
  "parseStartup sampleEnv [] [Q ''client'', AppText_ApiUrlFlag, Q ''https://h'', AppText_ModeFlag, AppText_MockMode,
      AppText_ModeFlag, AppText_RealMode]
    = configError AppText_MissingRealApiUrl"
  by (rule startup_url_lost_by_mock [OF sample_lower])

end
