(* ===== verification/Persistence.thy ===== *)
theory Persistence
  imports StoreLaws
begin

text \<open>
  What JsonLocalStore writes to disk: a saved state is read back unchanged (in the clear or
  protected), a real-mode client never writes without a passphrase, the protected file
  shows the secrets only as ciphertext, and what a failed load leaves behind.
\<close>

section \<open>Saving and loading\<close>

text \<open>States the JSON form can hold: C++ ints, times that survive formatting, secrets that are text.\<close>

definition storable :: "'x platform_scheme \<Rightarrow> local_store \<Rightarrow> bool" where
  "storable P s \<longleftrightarrow>
     list_all deviceInts (ls_deviceKeys s) \<and> list_all preKeyInts (ls_oneTimePreKeys s)
   \<and> list_all (\<lambda>u. inIntRange (ku_deviceId u)) (ls_knownUsers s)
   \<and> list_all (\<lambda>p. inIntRange (tp_deviceId p) \<and> date_roundtrip P (tp_firstSeenAt p)) (ls_trustPins s)
   \<and> list_all (\<lambda>m. messageInts m \<and> date_roundtrip P (lm_createdAt m)) (ls_messages s)
   \<and> (ls_hasSession s \<longrightarrow> ts_accessToken (as_tokens (ls_session s)) \<noteq> [])"

definition textSafe :: "'x platform_scheme \<Rightarrow> local_store \<Rightarrow> bool" where
  "textSafe P s \<longleftrightarrow>
     (ls_hasSession s \<longrightarrow> utf8_roundtrip P (ts_accessToken (as_tokens (ls_session s)))
        \<and> utf8_roundtrip P (ts_refreshToken (as_tokens (ls_session s))))
   \<and> list_all (\<lambda>d. utf8_roundtrip P (dk_identityPrivateKey d)
        \<and> utf8_roundtrip P (dk_identitySigningPrivateKey d) \<and> utf8_roundtrip P (dk_signedPreKeyPrivate d))
        (ls_deviceKeys s)
   \<and> list_all (\<lambda>k. utf8_roundtrip P (otk_privateKey k)) (ls_oneTimePreKeys s)
   \<and> list_all (\<lambda>p. utf8_roundtrip P (tp_identityKey p)) (ls_trustPins s)"

text \<open>The account data of \<open>t\<close> is that of \<open>s\<close> as the file format keeps it.\<close>

definition sameAccount :: "local_store \<Rightarrow> local_store \<Rightarrow> bool" where
  "sameAccount s t \<longleftrightarrow>
     ls_hasSession t = ls_hasSession s
   \<and> ls_session t = (if ls_hasSession s then storedSession (ls_session s) else emptySession)
   \<and> ls_deviceKeys t = ls_deviceKeys s \<and> ls_oneTimePreKeys t = ls_oneTimePreKeys s
   \<and> ls_knownUsers t = ls_knownUsers s \<and> ls_trustPins t = ls_trustPins s
   \<and> ls_messages t = ls_messages s"

lemma fromJson_cong:
  "jget a = jget b \<Longrightarrow> sessionFromJson a = sessionFromJson b"
  "jget a = jget b \<Longrightarrow> deviceFromJson a = deviceFromJson b"
  "jget a = jget b \<Longrightarrow> preKeyFromJson a = preKeyFromJson b"
  "jget a = jget b \<Longrightarrow> trustPinFromJson P a = trustPinFromJson P b"
  by (simp_all add: sessionFromJson_def deviceFromJson_def preKeyFromJson_def trustPinFromJson_def)

lemma map_sameObjects:
  assumes "sameObjects xs zs" and "\<And>a b. jget a = jget b \<Longrightarrow> f a = f b"
  shows "map (\<lambda>v. f (toObj (Some v))) zs = map (\<lambda>v. f (toObj (Some v))) xs"
  using assms(1) unfolding sameObjects_def
  by (induction rule: list_all2_induct) (auto dest: assms(2))

lemma stateToJson_get [simp]:
  "jget (stateToJson P s) StorageKeys_RootVersion = Some (JInt 1)"
  "jget (stateToJson P s) SecretSaltKey = None"
  "jget (stateToJson P s) SessionKey = (if ls_hasSession s then Some (JObj (sessionToJson (ls_session s))) else None)"
  "jget (stateToJson P s) StorageKeys_DeviceKeys = Some (JArr (map (JObj \<circ> deviceToJson) (ls_deviceKeys s)))"
  "jget (stateToJson P s) StorageKeys_OneTimePreKeys = Some (JArr (map (JObj \<circ> preKeyToJson) (ls_oneTimePreKeys s)))"
  "jget (stateToJson P s) StorageKeys_KnownUsers = Some (JArr (map (JObj \<circ> knownUserToJson) (ls_knownUsers s)))"
  "jget (stateToJson P s) StorageKeys_TrustPins = Some (JArr (map (JObj \<circ> trustPinToJson P) (ls_trustPins s)))"
  "jget (stateToJson P s) StorageKeys_Messages = Some (JArr (map (JObj \<circ> messageToJson P) (ls_messages s)))"
  by (simp_all add: stateToJson_def)

lemma restores_refl: "restores root root"
  by (simp add: restores_def sameObjects_def list.rel_refl)

definition forgotten :: "local_store \<Rightarrow> bool" where
  "forgotten t \<longleftrightarrow> ls_session t = emptySession \<and> \<not> ls_hasSession t \<and> ls_deviceKeys t = []
     \<and> ls_oneTimePreKeys t = [] \<and> ls_knownUsers t = [] \<and> ls_trustPins t = [] \<and> ls_messages t = []"

lemma forgotten_clear [simp]:
  "forgotten (clearMemory t)" "forgotten (t\<lparr>ls_secretSalt := x\<rparr>) = forgotten t"
  by (simp_all add: forgotten_def clearMemory_def)

lemma readState_restores:
  assumes "restores (stateToJson P s) root" and "storable P s" and "forgotten t"
  shows "sameAccount s (readState P root t)"
proof -
  have arr: "sameObjects (toArr (jget (stateToJson P s) k)) (toArr (jget root k))" if "k \<in> set protectedArrays" for k
    using assms(1) that by (simp add: restores_def)
  have plain: "jget root k = jget (stateToJson P s) k" if "k \<notin> set (SecretSaltKey # SessionKey # protectedArrays)" for k
    using assms(1) that by (simp add: restores_def)
  have sess: "jcontains root SessionKey = ls_hasSession s"
    using assms(1) by (simp add: restores_def jcontains_def)
  have sess': "ls_hasSession s \<Longrightarrow> jget (toObj (jget root SessionKey)) = jget (sessionToJson (ls_session s))"
    using assms(1) by (simp add: restores_def)
  have "map (\<lambda>v. deviceFromJson (toObj (Some v))) (toArr (jget root StorageKeys_DeviceKeys)) = ls_deviceKeys s"
    using map_sameObjects [where f = "deviceFromJson", OF arr [of StorageKeys_DeviceKeys] fromJson_cong(2)] assms(2)
    by (simp add: protectedArrays_def storable_def list_all_iff map_idI)
  moreover have "map (\<lambda>v. preKeyFromJson (toObj (Some v))) (toArr (jget root StorageKeys_OneTimePreKeys)) = ls_oneTimePreKeys s"
    using map_sameObjects [where f = "preKeyFromJson", OF arr [of StorageKeys_OneTimePreKeys] fromJson_cong(3)] assms(2)
    by (simp add: protectedArrays_def storable_def list_all_iff map_idI)
  moreover have "map (\<lambda>v. trustPinFromJson P (toObj (Some v))) (toArr (jget root StorageKeys_TrustPins)) = ls_trustPins s"
    using map_sameObjects [where f = "trustPinFromJson P", OF arr [of StorageKeys_TrustPins] fromJson_cong(4)] assms(2)
    by (simp add: protectedArrays_def storable_def list_all_iff map_idI)
  moreover have "map (\<lambda>v. knownUserFromJson (toObj (Some v))) (toArr (jget root StorageKeys_KnownUsers)) = ls_knownUsers s"
    using assms(2) by (simp add: plain protectedArrays_def storable_def list_all_iff map_idI)
  moreover have "map (\<lambda>v. messageFromJson P (toObj (Some v))) (toArr (jget root StorageKeys_Messages)) = ls_messages s"
    using assms(2) by (simp add: plain protectedArrays_def storable_def list_all_iff map_idI)
  moreover have "ls_hasSession s \<Longrightarrow> sessionFromJson (toObj (jget root SessionKey)) = storedSession (ls_session s)"
    using fromJson_cong(1) [OF sess'] by simp
  ultimately show ?thesis
    using assms(2,3) sess
    by (simp add: sameAccount_def readState_def forgotten_def Let_def comp_def storable_def storedSession_def)
qed

lemma object_texts:
  "textSecrets P sessionSecrets (sessionToJson x) \<longleftrightarrow>
     utf8_roundtrip P (ts_accessToken (as_tokens x)) \<and> utf8_roundtrip P (ts_refreshToken (as_tokens x))"
  "textSecrets P deviceSecrets (deviceToJson d) \<longleftrightarrow> utf8_roundtrip P (dk_identityPrivateKey d)
     \<and> utf8_roundtrip P (dk_identitySigningPrivateKey d) \<and> utf8_roundtrip P (dk_signedPreKeyPrivate d)"
  "textSecrets P [StorageKeys_PreKeyPrivate] (preKeyToJson k) \<longleftrightarrow> utf8_roundtrip P (otk_privateKey k)"
  "textSecrets P [StorageKeys_IdentityKey] (trustPinToJson P p) \<longleftrightarrow> utf8_roundtrip P (tp_identityKey p)"
  by (simp_all add: textSecrets_def sessionSecrets_def deviceSecrets_def sessionToJson_def
      deviceToJson_def preKeyToJson_def trustPinToJson_def const_defs)

lemma stateToJson_texts: "textSafe P s \<Longrightarrow> secretTexts P (stateToJson P s)"
  by (auto simp: secretTexts_def textSafe_def list_all_iff jcontains_def object_texts)

lemma save_writes:
  assumes "fst (save E s) = Inr x"
  obtains root c where "ls_files (snd (save E s)) = (ls_files s)(ls_path s \<mapsto> root)"
    "if ls_secretProtectionRequired s
     then protectSecrets E (ls_secretPassphrase s) (ls_secretSalt s) (stateToJson E s) (ls_draws s) = (Inr root, c)
     else root = stateToJson E s"
  using assms
  by (auto simp: save_def Let_def writeFile_def split: if_splits prod.splits sum.splits)

text \<open>Any store that looks at the file with the same passphrase restores what was saved.\<close>

lemma saved_file_loads:
  assumes saved: "fst (save E s) = Inr True" and "storable E s" and "textSafe E s" and "secret_laws E"
    and "env_canRead E (ls_path t)" and "ls_files t (ls_path t) = ls_files (snd (save E s)) (ls_path s)"
    and "ls_secretPassphrase t = ls_secretPassphrase s"
  shows "fst (load E t) = Inr True \<and> sameAccount s (snd (load E t))"
proof -
  obtain root c where disk: "ls_files (snd (save E s)) = (ls_files s)(ls_path s \<mapsto> root)"
    and root: "if ls_secretProtectionRequired s
     then protectSecrets E (ls_secretPassphrase s) (ls_secretSalt s) (stateToJson E s) (ls_draws s) = (Inr root, c)
     else root = stateToJson E s"
    by (rule save_writes [OF saved])
  have there: "ls_files (clearMemory t) (ls_path (clearMemory t)) = Some root" "env_canRead E (ls_path (clearMemory t))"
    using assms(5,6) by (simp_all add: clearMemory_def disk)
  show ?thesis
  proof (cases "ls_secretProtectionRequired s")
    case True
    with root have p: "protectSecrets E (ls_secretPassphrase s) (ls_secretSalt s) (stateToJson E s) (ls_draws s) = (Inr root, c)"
      by simp
    then have pw: "ls_secretPassphrase (clearMemory t) = ls_secretPassphrase s" "ls_secretPassphrase s \<noteq> []"
      using assms(7) by (auto simp: protectSecrets_def clearMemory_def)
    from protectSecrets_unprotect [OF assms(4) stateToJson_texts [OF assms(3)] _ p]
    obtain salt z where "jget root SecretSaltKey = Some (JStr (bytesToBase64 E salt))"
      and "unprotectSecrets E (ls_secretPassphrase s) salt root = Inr z" and "restores (stateToJson E s) z"
      by auto
    moreover have "base64ToBytes E (bytesToBase64 E salt) = salt"
      using assms(4) by (simp add: secret_laws_def base64_roundtrip_def base64ToBytes_def bytesToBase64_def)
    ultimately show ?thesis
      using readState_restores [of E s z "clearMemory t\<lparr>ls_secretSalt := salt\<rparr>"] assms(2) there pw
      by (simp add: load_def Let_def jcontains_def)
  next
    case False
    with root have "root = stateToJson E s" by simp
    with there show ?thesis
      using readState_restores [OF restores_refl assms(2), of "clearMemory t"]
      by (simp add: load_def Let_def jcontains_def)
  qed
qed

text \<open>Property C18: a saved state comes back. When a save succeeds and the file can be read, loading
  it again succeeds and restores the session, device keys, one-time pre-keys, known users,
  trust pins and messages, in a client that encrypts its secrets (under the same passphrase) as
  in one that does not. Assumed of the libraries: AES-GCM decrypts what it encrypted, base64,
  UTF-8 and the time format decode what they encoded.\<close>

theorem save_then_load:
  assumes saved: "fst (save E s) = Inr True" and "storable E s" and "textSafe E s" and "secret_laws E"
    and "env_canRead E (ls_path s)"
  shows "fst (load E (snd (save E s))) = Inr True \<and> sameAccount s (snd (load E (snd (save E s))))"
  by (rule saved_file_loads) (use assms in simp_all)

section \<open>Failing saves\<close>

lemma thenD_Inl: "fst (thenD r f) = Inl e \<Longrightarrow> fst r = Inl e \<or> (\<exists>x c. r = (Inr x, c) \<and> fst (f x c) = Inl e)"
  by (cases r; cases "fst r") auto

lemma mapD_Inl: "fst (mapD f xs c) = Inl e \<Longrightarrow> \<exists>x c. fst (f x c) = Inl e"
proof (induction xs arbitrary: c)
  case (Cons x xs)
  then show ?case by (auto dest!: thenD_Inl)
qed simp

lemma protectStrings_Inl: "fst (protectStrings E keys p s ob c) = Inl e \<Longrightarrow> ce_code e = StorageError"
proof (induction keys arbitrary: ob c)
  case (Cons k ks)
  from Cons.prems have "fst (protectString E k p s ob c) = Inl e \<or>
      (\<exists>x d. protectString E k p s ob c = (Inr x, d) \<and> fst (protectStrings E ks p s x d) = Inl e)"
    by (auto dest!: thenD_Inl)
  then show ?case
    using Cons.IH by (auto simp: protectString_def split: if_splits prod.splits option.splits)
qed simp

lemma protectElements_Inl: "fst (protectElements E keys p s ak r c) = Inl e \<Longrightarrow> ce_code e = StorageError"
  by (auto simp: protectElements_def dest!: thenD_Inl mapD_Inl protectStrings_Inl)

lemma protectSecrets_Inl: "fst (protectSecrets E p s r c) = Inl e \<Longrightarrow> ce_code e = StorageError"
  by (auto simp: protectSecrets_def protectSession_def Let_def split: if_splits prod.splits
      dest!: thenD_Inl protectElements_Inl protectStrings_Inl)

text \<open>Property C38: saving is all or nothing, and never without a passphrase. A save that fails
  reports a storage error and leaves every file as it was; one that succeeds changes only the
  state file; and a client that must protect its secrets but has no passphrase always fails.\<close>

theorem save_all_or_nothing:
  "(case fst (save E s) of
      Inl e \<Rightarrow> ce_code e = StorageError \<and> ls_files (snd (save E s)) = ls_files s
    | Inr _ \<Rightarrow> (\<exists>root. ls_files (snd (save E s)) = (ls_files s)(ls_path s \<mapsto> root))
               \<and> \<not> (ls_secretProtectionRequired s \<and> ls_secretPassphrase s = []))"
proof (cases "fst (save E s)")
  case (Inl e)
  then have "ce_code e = StorageError \<and> ls_files (snd (save E s)) = ls_files s"
    using protectSecrets_Inl [of E "ls_secretPassphrase s" "ls_secretSalt s" "stateToJson E s" "ls_draws s"]
    by (auto simp: save_def Let_def writeFile_def split: if_splits prod.splits sum.splits)
  with Inl show ?thesis by simp
next
  case (Inr x)
  then obtain root c where "ls_files (snd (save E s)) = (ls_files s)(ls_path s \<mapsto> root)"
    "if ls_secretProtectionRequired s
     then protectSecrets E (ls_secretPassphrase s) (ls_secretSalt s) (stateToJson E s) (ls_draws s) = (Inr root, c)
     else root = stateToJson E s"
    by (rule save_writes)
  with Inr show ?thesis by (auto simp: protectSecrets_def)
qed

lemma protectElements_get:
  "protectElements E keys p s ak r c = (Inr r', c') \<Longrightarrow> k \<noteq> ak \<Longrightarrow> jget r' k = jget r k"
  by (auto simp: protectElements_def thenD_Inr jget_jinsert)

lemma protectSecrets_get:
  "protectSecrets E p s r c = (Inr r', c') \<Longrightarrow> k \<notin> set (SecretSaltKey # SessionKey # protectedArrays)
     \<Longrightarrow> jget r' k = jget r k"
  by (auto simp: protectSecrets_def protectSession_def Let_def thenD_Inr jget_jinsert protectedArrays_def
      protectElements_get split: if_splits prod.splits)

lemma saved_messages:
  assumes "fst (save E s) = Inr x"
  shows "\<exists>root. ls_files (snd (save E s)) (ls_path s) = Some root
    \<and> jget root StorageKeys_Messages = Some (JArr (map (JObj \<circ> messageToJson E) (ls_messages s)))"
proof -
  obtain root c where "ls_files (snd (save E s)) = (ls_files s)(ls_path s \<mapsto> root)"
    and "if ls_secretProtectionRequired s
     then protectSecrets E (ls_secretPassphrase s) (ls_secretSalt s) (stateToJson E s) (ls_draws s) = (Inr root, c)
     else root = stateToJson E s"
    by (rule save_writes [OF assms])
  moreover have "StorageKeys_Messages \<notin> set (SecretSaltKey # SessionKey # protectedArrays)"
    by (simp add: protectedArrays_def)
  ultimately show ?thesis
    using protectSecrets_get by (cases "ls_secretProtectionRequired s") fastforce+
qed

text \<open>Property C39: a load that fails forgets the account. When the state file cannot be decrypted
  (a wrong local passphrase), the store keeps the path and the passphrase that failed but holds
  no session, keys, pins or messages; the next save that succeeds replaces the file by an
  empty state, so the account's keys, pins and messages on disk are lost.\<close>

theorem failed_load_forgets:
  assumes "fst (load E s) = Inl e"
  shows "ls_messages (snd (load E s)) = [] \<and> ls_deviceKeys (snd (load E s)) = []
    \<and> ls_trustPins (snd (load E s)) = [] \<and> \<not> ls_hasSession (snd (load E s))
    \<and> ls_path (snd (load E s)) = ls_path s \<and> ls_files (snd (load E s)) = ls_files s
    \<and> (fst (save E (snd (load E s))) = Inr True \<longrightarrow>
         (\<exists>root. ls_files (snd (save E (snd (load E s)))) (ls_path s) = Some root
            \<and> jget root StorageKeys_Messages = Some (JArr [])))"
proof -
  have "ls_messages (snd (load E s)) = [] \<and> ls_deviceKeys (snd (load E s)) = []
    \<and> ls_trustPins (snd (load E s)) = [] \<and> \<not> ls_hasSession (snd (load E s))
    \<and> ls_path (snd (load E s)) = ls_path s \<and> ls_files (snd (load E s)) = ls_files s"
    using assms by (auto simp: load_def Let_def clearMemory_def split: option.splits if_splits sum.splits)
  with saved_messages [of E "snd (load E s)"] show ?thesis by auto
qed

text \<open>A protected file whose access token is no blob of the current version.\<close>

definition damagedFile :: json_obj where
  "damagedFile = [(SecretSaltKey, JStr (replicate 16 1)), (SessionKey, JObj [(StorageKeys_AccessToken, JObj [])])]"

definition damagedStore :: local_store where
  "damagedStore = (sampleStore [])\<lparr>ls_secretPassphrase := Q ''pw'', ls_files := [Q ''/state/alice'' \<mapsto> damagedFile]\<rparr>"

theorem failed_load_forgets_witness:
  "ls_messages (snd (load sampleEnv damagedStore)) = [] \<and> \<not> ls_hasSession (snd (load sampleEnv damagedStore))"
proof -
  have "\<exists>e. fst (load sampleEnv damagedStore) = Inl e"
    by (simp add: load_def damagedStore_def damagedFile_def sampleStore_def clearMemory_def Let_def
        sampleEnv_def unprotectSecrets_def unprotectSession_def unprotectString_def sessionSecrets_def
        decryptSecretString_def jcontains_def SecretBlobVersion_def SecretSaltBytes_def base64ToBytes_def
        toIntD.simps const_defs)
  then show ?thesis using failed_load_forgets [of sampleEnv damagedStore] by blast
qed

text \<open>A state with a message and a session, saved under a passphrase and read back.\<close>

definition sampleSession :: AuthSession where
  "sampleSession = \<lparr>as_user = \<lparr>up_id = Q ''alice'', up_username = Q ''alice'', up_email = Q ''a@x''\<rparr>,
     as_tokens = \<lparr>ts_accessToken = Q ''t'', ts_refreshToken = Q ''r'', ts_tokenType = Q ''bearer'', ts_expiresIn = 60\<rparr>\<rparr>"

definition protectedStore :: local_store where
  "protectedStore = (sampleStore [])\<lparr>ls_session := sampleSession, ls_hasSession := True,
     ls_secretProtectionRequired := True, ls_secretPassphrase := Q ''pw''\<rparr>"

lemma sample_laws: "secret_laws sampleEnv"
  using sample_base64 by (simp add: secret_laws_def gcm_roundtrip_def) (simp add: sampleEnv_def)

text \<open>When the libraries do their work and the disk is writable, a save with a passphrase succeeds.\<close>

definition librariesWork :: "'x env_scheme \<Rightarrow> bool" where
  "librariesWork E \<longleftrightarrow> pf_hasOpenSsl E \<and> (\<forall>n c. \<exists>b. env_random E c n = Some b \<and> length b = n)
     \<and> (\<forall>pw salt. deriveStorageKey E pw salt \<noteq> None) \<and> (\<forall>key iv aad pt. ssl_gcmEncrypt E key iv aad pt \<noteq> None)"

lemma random_works: "librariesWork E \<Longrightarrow> \<exists>b. randomBytes E n c = (b, Suc c) \<and> length b = n"
proof -
  assume E: "librariesWork E"
  then obtain b where "env_random E c n = Some b" "length b = n" unfolding librariesWork_def by blast
  with E show ?thesis by (simp add: librariesWork_def randomBytes_def)
qed

lemma protectStrings_works:
  assumes "librariesWork E"
  shows "\<exists>ob' c'. protectStrings E ks p s ob c = (Inr ob', c')"
proof -
  have "\<exists>blob c'. encryptSecretString E v f p s c = (Some blob, c')" for v f c
  proof -
    obtain iv where "randomBytes E SecretIvBytes c = (iv, Suc c)" "length iv = SecretIvBytes"
      using random_works [OF assms] by blast
    moreover obtain key where "deriveStorageKey E p s = Some key" using assms unfolding librariesWork_def by blast
    moreover obtain sealed where "ssl_gcmEncrypt E key iv (pf_toUtf8 E f) (pf_toUtf8 E v) = Some sealed"
      using assms unfolding librariesWork_def by blast
    ultimately show ?thesis by (cases sealed) (simp add: encryptSecretString_def)
  qed
  then have one: "\<exists>ob' c'. protectString E k p s ob c = (Inr ob', c')" for k ob c
  proof -
    assume enc: "\<And>v f c. \<exists>blob c'. encryptSecretString E v f p s c = (Some blob, c')"
    obtain blob c' where "encryptSecretString E (toStr (jget ob k)) k p s c = (Some blob, c')" using enc by blast
    moreover have "pf_hasOpenSsl E" using assms by (simp add: librariesWork_def)
    ultimately show ?thesis by (auto simp: protectString_def)
  qed
  show ?thesis
  proof (induction ks arbitrary: ob c)
    case (Cons k ks)
    with one [of k ob c] show ?case by force
  qed simp
qed

lemma protectElements_works:
  assumes "librariesWork E"
  shows "\<exists>r' c'. protectElements E ks p s ak r c = (Inr r', c')"
proof -
  have "\<exists>vs c'. mapD (\<lambda>v c. thenD (protectStrings E ks p s (toObj (Some v)) c) (\<lambda>ob c. (Inr (JObj ob), c))) xs c
      = (Inr vs :: json list result, c')" for xs c
  proof (induction xs arbitrary: c)
    case (Cons x xs)
    obtain ob c1 where "protectStrings E ks p s (toObj (Some x)) c = (Inr ob, c1)"
      using protectStrings_works [OF assms] by blast
    with Cons [of c1] show ?case by auto
  qed simp
  then show ?thesis unfolding protectElements_def by (metis thenD_simps(2))
qed

lemma protectSecrets_works:
  assumes "librariesWork E" "p \<noteq> []" "s = [] \<or> length s = SecretSaltBytes"
  shows "\<exists>r' c'. protectSecrets E p s r c = (Inr r', c')"
proof -
  have sess: "\<exists>r' c'. protectSession E p s r c = (Inr r', c')" for p s r c
    using protectStrings_works [OF assms(1), of sessionSecrets p s "toObj (jget r SessionKey)" c]
    by (auto simp: protectSession_def)
  obtain salt c0 where salt: "(if s = [] then randomBytes E SecretSaltBytes c else (s, c)) = (salt, c0)"
    "length salt = SecretSaltBytes"
    using assms(3) random_works [OF assms(1), of SecretSaltBytes c] by (cases "s = []") auto
  note elements = protectElements_works [OF assms(1)]
  obtain r1 c1 where 1: "protectSession E p salt (jinsert SecretSaltKey (JStr (bytesToBase64 E salt)) r) c0 = (Inr r1, c1)"
    using sess by blast
  obtain r2 c2 where 2: "protectElements E deviceSecrets p salt StorageKeys_DeviceKeys r1 c1 = (Inr r2, c2)"
    using elements by blast
  obtain r3 c3 where 3: "protectElements E [StorageKeys_PreKeyPrivate] p salt StorageKeys_OneTimePreKeys r2 c2 = (Inr r3, c3)"
    using elements by blast
  obtain r4 c4 where 4: "protectElements E [StorageKeys_IdentityKey] p salt StorageKeys_TrustPins r3 c3 = (Inr r4, c4)"
    using elements by blast
  show ?thesis using assms(2) salt 1 2 3 4 by (simp add: protectSecrets_def)
qed

lemma save_works:
  assumes "librariesWork E" "env_dirReady E (ls_path s)" "env_canWrite E (ls_path s)"
    and "ls_secretPassphrase s \<noteq> []" "ls_secretSalt s = [] \<or> length (ls_secretSalt s) = SecretSaltBytes"
  shows "fst (save E s) = Inr True"
proof -
  obtain r c where "protectSecrets E (ls_secretPassphrase s) (ls_secretSalt s) (stateToJson E s) (ls_draws s) = (Inr r, c)"
    using protectSecrets_works [OF assms(1,4,5)] by blast
  with assms(2,3) show ?thesis by (simp add: save_def writeFile_def Let_def)
qed

lemma sample_libraries: "librariesWork sampleEnv"
  by (simp add: librariesWork_def sampleEnv_def deriveStorageKey_def)

lemma protectedStore_saves: "fst (save sampleEnv protectedStore) = Inr True"
proof -
  have "env_dirReady sampleEnv f" "env_canWrite sampleEnv f" for f by (simp_all add: sampleEnv_def)
  then show ?thesis
    by (intro save_works [OF sample_libraries]) (simp_all add: protectedStore_def sampleStore_def)
qed

theorem save_then_load_witness:
  "sameAccount protectedStore (snd (load sampleEnv (snd (save sampleEnv protectedStore))))"
proof -
  have "storable sampleEnv protectedStore"
    by (simp add: storable_def protectedStore_def sampleStore_def sampleSession_def)
  moreover have "textSafe sampleEnv protectedStore"
    by (simp add: textSafe_def protectedStore_def sampleStore_def sampleSession_def sample_utf8 Q_def)
  moreover have "env_canRead sampleEnv (ls_path protectedStore)" by (simp add: sampleEnv_def)
  ultimately show ?thesis
    using save_then_load [OF protectedStore_saves _ _ sample_laws] by simp
qed

section \<open>Secrets on disk\<close>

text \<open>
  Two objects that differ at most in the values of some keys: what writing the same value to
  a key, and protecting the keys, does to them.
\<close>

definition alike :: "(json \<Rightarrow> json \<Rightarrow> bool) \<Rightarrow> qstring set \<Rightarrow> json_obj \<Rightarrow> json_obj \<Rightarrow> bool" where
  "alike R K ob ob' \<longleftrightarrow>
     list_all2 (\<lambda>x y. fst x = fst y \<and> (snd x = snd y \<or> fst x \<in> K \<and> R (snd x) (snd y))) ob ob'
     \<and> distinct (map fst ob)"

lemma alike_none: "alike R {} ob ob' \<Longrightarrow> ob = ob'"
proof -
  assume "alike R {} ob ob'"
  then have "list_all2 (=) ob ob'"
    unfolding alike_def by (elim conjE list_all2_mono) (auto simp: prod_eq_iff)
  then show ?thesis by (simp add: list.rel_eq)
qed

lemma alike_get:
  assumes "alike R K ob ob'"
  shows "(jget ob k = None \<and> jget ob' k = None)
    \<or> (\<exists>v v'. jget ob k = Some v \<and> jget ob' k = Some v' \<and> (v = v' \<or> k \<in> K \<and> R v v'))"
proof -
  have "list_all2 (\<lambda>x y. fst x = fst y \<and> (snd x = snd y \<or> fst x \<in> K \<and> R (snd x) (snd y))) ob ob'"
    using assms by (simp add: alike_def)
  then show ?thesis by (induction rule: list_all2_induct) (auto split: if_splits)
qed

lemma list_all2_weaken_notin:
  assumes "list_all2 (\<lambda>x y. fst x = fst y \<and> (snd x = snd y \<or> fst x \<in> K \<and> R (snd x) (snd y))) ob ob'"
    and "k \<notin> fst ` set ob"
  shows "list_all2 (\<lambda>x y. fst x = fst y \<and> (snd x = snd y \<or> fst x \<in> K - {k} \<and> R (snd x) (snd y))) ob ob'"
  using assms by (induction rule: list_all2_induct) auto

lemma alike_weaken:
  assumes "alike R K ob ob'" and "jget ob k = jget ob' k"
  shows "alike R (K - {k}) ob ob'"
proof -
  have l: "list_all2 (\<lambda>x y. fst x = fst y \<and> (snd x = snd y \<or> fst x \<in> K \<and> R (snd x) (snd y))) ob ob'"
    and d: "distinct (map fst ob)" using assms(1) by (simp_all add: alike_def)
  from l d assms(2)
  have "list_all2 (\<lambda>x y. fst x = fst y \<and> (snd x = snd y \<or> fst x \<in> K - {k} \<and> R (snd x) (snd y))) ob ob'"
  proof (induction rule: list_all2_induct)
    case (Cons x xs y ys)
    show ?case
    proof (cases "fst x = k")
      case True
      then have "snd x = snd y" using Cons by (cases x; cases y) simp
      with True Cons show ?thesis using list_all2_weaken_notin [OF Cons.hyps(2), of k] by simp
    next
      case False
      then have "jget xs k = jget ys k" using Cons by (cases x; cases y) simp
      with False Cons show ?thesis by auto
    qed
  qed simp
  with d show ?thesis by (simp add: alike_def)
qed

lemma alike_insert:
  assumes "alike R K ob ob'"
  shows "alike R (K - {k}) (jinsert k v ob) (jinsert k v ob')"
proof -
  have "list_all2 (\<lambda>x y. fst x = fst y \<and> (snd x = snd y \<or> fst x \<in> K \<and> R (snd x) (snd y))) ob ob'"
    and d: "distinct (map fst ob)" using assms by (simp_all add: alike_def)
  then have "list_all2 (\<lambda>x y. fst x = fst y \<and> (snd x = snd y \<or> fst x \<in> K - {k} \<and> R (snd x) (snd y)))
      (AList.update k v ob) (AList.update k v ob')"
    by (induction rule: list_all2_induct) (auto dest: list_all2_weaken_notin)
  with d show ?thesis by (simp add: alike_def jinsert_def distinct_update)
qed

text \<open>
  A sealed field with the values of its ciphertext and tag taken out (they become the encoding of
  no bytes), and a document with all its sealed fields treated that way.
\<close>

definition redactBlob :: "'x platform_scheme \<Rightarrow> json \<Rightarrow> json" where
  "redactBlob P v =
     (case v of
        JObj blob \<Rightarrow> JObj (map (\<lambda>(k, w). (k, if k = SecretAuthTagKey \<or> k = SecretCiphertextKey
                                             then JStr (bytesToBase64 P []) else w)) blob)
      | _ \<Rightarrow> v)"

definition redactFields :: "'x platform_scheme \<Rightarrow> qstring list \<Rightarrow> json_obj \<Rightarrow> json_obj" where
  "redactFields P keys = map (\<lambda>(k, v). (k, if k \<in> set keys then redactBlob P v else v))"

abbreviation protectedFields :: "(qstring \<times> qstring list) list" where
  "protectedFields \<equiv> [(StorageKeys_DeviceKeys, deviceSecrets), (StorageKeys_OneTimePreKeys, [StorageKeys_PreKeyPrivate]),
     (StorageKeys_TrustPins, [StorageKeys_IdentityKey])]"

definition redactEntry :: "'x platform_scheme \<Rightarrow> qstring \<Rightarrow> json \<Rightarrow> json" where
  "redactEntry P k v =
     (if k = SessionKey then JObj (redactFields P sessionSecrets (toObj (Some v)))
      else case map_of protectedFields k of
             None \<Rightarrow> v
           | Some keys \<Rightarrow> JArr (map (\<lambda>x. JObj (redactFields P keys (toObj (Some x)))) (toArr (Some v))))"

definition redactRoot :: "'x platform_scheme \<Rightarrow> json_obj \<Rightarrow> json_obj" where
  "redactRoot P = map (\<lambda>(k, v). (k, redactEntry P k v))"

text \<open>The same environment with a cipher that returns nothing: what it saves is the redacted file.\<close>

definition muted :: "'x env_scheme \<Rightarrow> 'x env_scheme" where
  "muted E = E\<lparr>ssl_gcmEncrypt := (\<lambda>key iv aad pt. Some ([], []))\<rparr>"

lemma jget_map: "jget (map (\<lambda>(k, v). (k, f k v)) ob) k = map_option (f k) (jget ob k)"
  by (induction ob) (auto simp: jget_def)

lemma jinsert_map: "map (\<lambda>(k, v). (k, f k v)) (jinsert k v ob) = jinsert k (f k v) (map (\<lambda>(k, v). (k, f k v)) ob)"
  by (induction ob) (auto simp: jinsert_def)

lemma isObject_redacted [simp]:
  "isObjectJ (map_option (redactBlob P) v) = isObjectJ v"
  "isNullOrUndefined (map_option (redactBlob P) v) = isNullOrUndefined v"
  "\<not> isObjectJ v \<Longrightarrow> map_option (redactBlob P) v = v"
proof -
  have object: "isObjectJ (Some (redactBlob P x)) = isObjectJ (Some x)"
      "isNullOrUndefined (Some (redactBlob P x)) = isNullOrUndefined (Some x)"
      "\<not> isObjectJ (Some x) \<Longrightarrow> redactBlob P x = x" for x
    by (cases x; simp add: redactBlob_def)+
  then show "isObjectJ (map_option (redactBlob P) v) = isObjectJ v"
    "isNullOrUndefined (map_option (redactBlob P) v) = isNullOrUndefined v"
    "\<not> isObjectJ v \<Longrightarrow> map_option (redactBlob P) v = v"
    by (cases v; simp)+
qed

lemma muted_fields [simp]:
  "pf_hasOpenSsl (muted E) = pf_hasOpenSsl E" "randomBytes (muted E) = randomBytes E"
  "deriveStorageKey (muted E) = deriveStorageKey E" "bytesToBase64 (muted E) = bytesToBase64 E"
  by (simp_all add: fun_eq_iff muted_def randomBytes_def deriveStorageKey_def bytesToBase64_def)

lemma muted_cipher: "ssl_gcmEncrypt (muted E) key iv aad pt = Some ([], [])"
  by (simp add: muted_def)

lemma muted_blob: "secretBlob (muted E) iv tag ct = secretBlob E iv tag ct"
  by (simp add: secretBlob_def)

lemma redact_blob: "redactBlob P (JObj (secretBlob P iv tag ct)) = JObj (secretBlob P iv [] [])"
  by (simp add: redactBlob_def secretBlob_def const_defs)

lemma encrypt_muted_eq:
  "encryptSecretString (muted E) v k p s c =
     (case deriveStorageKey E p s of
        None \<Rightarrow> (None, c)
      | Some key \<Rightarrow> (if length (fst (randomBytes E SecretIvBytes c)) \<noteq> SecretIvBytes then None
                      else Some (secretBlob E (fst (randomBytes E SecretIvBytes c)) [] []),
                     snd (randomBytes E SecretIvBytes c)))"
  by (simp add: encryptSecretString_def muted_cipher muted_blob Let_def split: option.split prod.split)

lemma encrypt_any: "encryptSecretString (muted E) v k p s c = encryptSecretString (muted E) w k p s c"
  by (simp only: encrypt_muted_eq)

lemma encrypt_muted:
  assumes "encryptSecretString E v k p s c = (Some blob, c')"
  shows "\<exists>blob'. encryptSecretString (muted E) w k p s c = (Some blob', c') \<and> JObj blob' = redactBlob E (JObj blob)"
proof -
  from assms obtain key iv ct tag where "deriveStorageKey E p s = Some key" "randomBytes E SecretIvBytes c = (iv, c')"
      "length iv = SecretIvBytes" "blob = secretBlob E iv tag ct"
    unfolding encryptSecretString_def Let_def by (auto split: option.splits prod.splits if_splits)
  then show ?thesis by (simp add: encrypt_muted_eq redact_blob)
qed

lemma protectString_muted:
  assumes "protectString E k p s ob c = (Inr ob', c')" and "k \<in> set K"
  shows "protectString (muted E) k p s (redactFields E K ob) c = (Inr (redactFields E K ob'), c')"
proof -
  have get: "jget (redactFields E K ob) k = map_option (redactBlob E) (jget ob k)"
    using assms(2) unfolding redactFields_def by (subst jget_map) (simp cong: option.map_cong)
  have put: "redactFields E K (jinsert k v ob) = jinsert k (redactBlob E v) (redactFields E K ob)" for v
    using assms(2) unfolding redactFields_def by (subst jinsert_map) simp
  show ?thesis
  proof (cases "isNullOrUndefined (jget ob k) \<or> isObjectJ (jget ob k)")
    case True
    then show ?thesis using assms(1) by (simp add: protectString_def get split: if_splits)
  next
    case False
    with assms(1) obtain blob where blob: "encryptSecretString E (toStr (jget ob k)) k p s c = (Some blob, c')"
      and ob': "ob' = jinsert k (JObj blob) ob"
      by (auto simp: protectString_def split: if_splits prod.splits option.splits)
    from encrypt_muted [OF blob] obtain blob' where
      "encryptSecretString (muted E) (toStr (jget ob k)) k p s c = (Some blob', c')" "JObj blob' = redactBlob E (JObj blob)" by blast
    then show ?thesis
      using False assms(1) by (simp add: protectString_def get ob' put split: if_splits)
  qed
qed

lemma protectStrings_muted:
  assumes "protectStrings E ks p s ob c = (Inr ob', c')" and "set ks \<subseteq> set K"
  shows "protectStrings (muted E) ks p s (redactFields E K ob) c = (Inr (redactFields E K ob'), c')"
  using assms
proof (induction ks arbitrary: ob c)
  case (Cons k ks)
  then obtain ob1 c1 where "protectString E k p s ob c = (Inr ob1, c1)" "protectStrings E ks p s ob1 c1 = (Inr ob', c')"
    by (auto simp: thenD_Inr)
  with Cons.prems(2) Cons.IH show ?case by (simp add: protectString_muted [where ob' = ob1])
qed simp

lemma mapD_muted:
  assumes "mapD f xs c = (Inr ys, c')"
    and "\<And>x y d d'. f x d = (Inr y, d') \<Longrightarrow> g (h x) d = (Inr (h' y), d')"
  shows "mapD g (map h xs) c = (Inr (map h' ys), c')"
  using assms(1)
proof (induction xs arbitrary: c ys)
  case (Cons x xs)
  then obtain y c1 zs where "f x c = (Inr y, c1)" "mapD f xs c1 = (Inr zs, c')" "ys = y # zs" by (auto simp: thenD_Inr)
  with Cons.IH show ?case by (simp add: assms(2))
qed simp

lemma redactRoot_get: "jget (redactRoot P r) k = map_option (redactEntry P k) (jget r k)"
  unfolding redactRoot_def by (rule jget_map)

lemma redactRoot_put: "redactRoot P (jinsert k v r) = jinsert k (redactEntry P k v) (redactRoot P r)"
  unfolding redactRoot_def by (rule jinsert_map)

lemma protectElements_muted:
  assumes "protectElements E keys p s ak r c = (Inr r', c')" and "(ak, keys) \<in> set protectedFields"
  shows "protectElements (muted E) keys p s ak (redactRoot E r) c = (Inr (redactRoot E r'), c')"
proof -
  let ?f = "\<lambda>E v c. thenD (protectStrings E keys p s (toObj (Some v)) c) (\<lambda>ob c. (Inr (JObj ob), c))"
  let ?h = "\<lambda>x. JObj (redactFields E keys (toObj (Some x)))"
  have entry: "redactEntry E ak v = JArr (map ?h (toArr (Some v)))" for v
    using assms(2) by (auto simp: redactEntry_def)
  obtain vs where vs: "mapD (?f E) (toArr (jget r ak)) c = (Inr vs, c')" and r': "r' = jinsert ak (JArr vs) r"
    using assms(1) by (auto simp: protectElements_def thenD_Inr)
  have "mapD (?f (muted E)) (map ?h (toArr (jget r ak))) c = (Inr (map ?h vs), c')"
    by (rule mapD_muted [OF vs]) (auto simp: thenD_Inr protectStrings_muted)
  moreover have "toArr (jget (redactRoot E r) ak) = map ?h (toArr (jget r ak))"
    by (cases "jget r ak") (simp_all add: redactRoot_get entry)
  ultimately show ?thesis by (simp add: protectElements_def r' redactRoot_put entry)
qed

lemma protectSession_muted:
  assumes "protectSession E p s r c = (Inr r', c')"
  shows "protectSession (muted E) p s (redactRoot E r) c = (Inr (redactRoot E r'), c')"
proof (cases "jget r SessionKey")
  case None
  with assms show ?thesis by (simp add: protectSession_def jcontains_def redactRoot_get)
next
  case (Some v)
  have entry: "redactEntry E SessionKey w = JObj (redactFields E sessionSecrets (toObj (Some w)))" for w
    by (simp add: redactEntry_def)
  from assms Some obtain ob where ob: "protectStrings E sessionSecrets p s (toObj (Some v)) c = (Inr ob, c')"
    and r': "r' = jinsert SessionKey (JObj ob) r"
    by (auto simp: protectSession_def jcontains_def thenD_Inr)
  from protectStrings_muted [OF ob subset_refl] Some show ?thesis
    by (simp add: protectSession_def jcontains_def redactRoot_get redactRoot_put entry r')
qed

lemma protectSecrets_muted:
  assumes "protectSecrets E p s0 r c = (Inr r', c')"
  shows "protectSecrets (muted E) p s0 (redactRoot E r) c = (Inr (redactRoot E r'), c')"
proof -
  have "redactEntry E SecretSaltKey v = v" for v by (simp add: redactEntry_def)
  then have salt: "jinsert SecretSaltKey v (redactRoot E r) = redactRoot E (jinsert SecretSaltKey v r)" for v
    by (simp add: redactRoot_put)
  obtain s c0 where drawn: "(if s0 = [] then randomBytes E SecretSaltBytes c else (s0, c)) = (s, c0)"
    by (rule prod.exhaust)
  from assms have ok: "p \<noteq> []" "length s = SecretSaltBytes"
    by (auto simp: protectSecrets_def drawn split: if_splits)
  from assms ok obtain r1 c1 r2 c2 r3 c3 where
    runs: "protectSession E p s (jinsert SecretSaltKey (JStr (bytesToBase64 E s)) r) c0 = (Inr r1, c1)"
      "protectElements E deviceSecrets p s StorageKeys_DeviceKeys r1 c1 = (Inr r2, c2)"
      "protectElements E [StorageKeys_PreKeyPrivate] p s StorageKeys_OneTimePreKeys r2 c2 = (Inr r3, c3)"
      "protectElements E [StorageKeys_IdentityKey] p s StorageKeys_TrustPins r3 c3 = (Inr r', c')"
    by (simp add: protectSecrets_def drawn thenD_Inr) blast
  have "protectSession (muted E) p s (jinsert SecretSaltKey (JStr (bytesToBase64 E s)) (redactRoot E r)) c0
      = (Inr (redactRoot E r1), c1)"
    unfolding salt by (rule protectSession_muted [OF runs(1)])
  moreover note protectElements_muted [OF runs(2)] protectElements_muted [OF runs(3)] protectElements_muted [OF runs(4)]
  ultimately show ?thesis using ok unfolding protectSecrets_def muted_fields drawn by simp
qed

text \<open>What \<open>protectString\<close> does to an object is decided by the value at the key.\<close>

definition sealedValue ::
  "'x env_scheme \<Rightarrow> qstring \<Rightarrow> qstring \<Rightarrow> bytes \<Rightarrow> json option \<Rightarrow> nat \<Rightarrow> json option result \<times> nat" where
  "sealedValue E k p s v c =
     (if \<not> pf_hasOpenSsl E then (failure StorageError AppText_NativeCryptoUnavailable, c)
      else if isNullOrUndefined v \<or> isObjectJ v then (Inr None, c)
      else case encryptSecretString E (toStr v) k p s c of
             (None, c1) \<Rightarrow>
               (failure StorageError (arg1 (Q ''Could not encrypt local secret field %1.'') k), c1)
           | (Some blob, c1) \<Rightarrow> (Inr (Some (JObj blob)), c1))"

definition withSealed :: "qstring \<Rightarrow> json_obj \<Rightarrow> json option result \<times> nat \<Rightarrow> json_obj result \<times> nat" where
  "withSealed k ob r =
     (case fst r of Inl e \<Rightarrow> Inl e | Inr None \<Rightarrow> Inr ob | Inr (Some v) \<Rightarrow> Inr (jinsert k v ob), snd r)"

lemma protectString_sealed:
  "protectString E k p s ob c = withSealed k ob (sealedValue E k p s (jget ob k) c)"
  by (simp add: protectString_def sealedValue_def withSealed_def split: prod.split option.split)

lemma sealed_text: "sealedValue E k p s (Some (JStr a)) c \<noteq> (Inr None, d)"
  by (simp add: sealedValue_def split: prod.split option.split)

definition bothTexts :: "json \<Rightarrow> json \<Rightarrow> bool" where
  "bothTexts v w \<longleftrightarrow> (\<exists>a b. v = JStr a \<and> w = JStr b)"

lemma protectString_alike:
  assumes "alike bothTexts K ob ob'"
  shows "rel_prod (rel_sum (=) (alike bothTexts (K - {k}))) (=)
     (protectString (muted E) k p s ob c) (protectString (muted E) k p s ob' c)"
proof -
  let ?v = "sealedValue (muted E) k p s (jget ob k) c"
  from alike_get [OF assms, of k] consider
      (same) "jget ob k = jget ob' k"
    | (texts) a b where "jget ob k = Some (JStr a)" "jget ob' k = Some (JStr b)"
    by (auto simp: bothTexts_def)
  then have "sealedValue (muted E) k p s (jget ob' k) c = ?v
      \<and> (fst ?v = Inr None \<longrightarrow> alike bothTexts (K - {k}) ob ob')"
  proof cases
    case same
    then show ?thesis using alike_weaken [OF assms same] by simp
  next
    case texts
    have "sealedValue (muted E) k p s (Some (JStr b)) c = sealedValue (muted E) k p s (Some (JStr a)) c"
      by (simp add: sealedValue_def encrypt_any [of E b k p s c a])
    moreover have "fst ?v \<noteq> Inr None"
      using sealed_text [of "muted E" k p s a c "snd ?v"] texts(1) by (metis prod.collapse)
    ultimately show ?thesis using texts by simp
  qed
  moreover have "alike bothTexts (K - {k}) (jinsert k v ob) (jinsert k v ob')" for v
    by (rule alike_insert [OF assms])
  ultimately show ?thesis
    unfolding protectString_sealed withSealed_def by (simp split: sum.split option.split)
qed

lemma protectStrings_alike:
  assumes "alike bothTexts (set keys) ob ob'"
  shows "protectStrings (muted E) keys p s ob c = protectStrings (muted E) keys p s ob' c"
  using assms
proof (induction keys arbitrary: ob ob' c)
  case Nil
  then show ?case by (auto dest: alike_none)
next
  case (Cons k ks)
  have sub: "alike R (K - {k}) a b \<Longrightarrow> alike R K a b" for R K a b
    unfolding alike_def by (auto elim!: list_all2_mono)
  from protectString_alike [OF Cons.prems, where E = E and k = k and p = p and s = s and c = c]
  show ?case
    using Cons.IH by (cases "protectString (muted E) k p s ob c"; cases "protectString (muted E) k p s ob' c")
      (auto simp: thenD_def rel_sum.simps dest!: sub)
qed

text \<open>Two runs that fail alike or succeed with related results, and draw alike.\<close>

abbreviation sameRun :: "('a \<Rightarrow> 'b \<Rightarrow> bool) \<Rightarrow> 'a result \<times> nat \<Rightarrow> 'b result \<times> nat \<Rightarrow> bool" where
  "sameRun A \<equiv> rel_prod (rel_sum (=) A) (=)"

lemma sameRun_thenD:
  assumes "sameRun A m m'" and "\<And>x y c. A x y \<Longrightarrow> sameRun B (f x c) (f' y c)"
  shows "sameRun B (thenD m f) (thenD m' f')"
  using assms by (cases m; cases m'; cases "fst m"; cases "fst m'") auto

lemma sameRun_eq: "sameRun (=) m m' \<longleftrightarrow> m = m'"
  by (simp add: sum.rel_eq prod.rel_eq)

lemma mapD_same:
  assumes "list_all2 P xs ys" and "\<And>x y c. P x y \<Longrightarrow> f x c = f y c"
  shows "mapD f xs c = mapD f ys c"
  using assms(1)
proof (induction arbitrary: c rule: list_all2_induct)
  case (Cons x xs y ys)
  then have "f x c = f y c" using assms(2) by blast
  moreover have "mapD f xs = mapD f ys" using Cons.IH by (rule ext)
  ultimately show ?case by (simp only: mapD.simps)
qed simp

definition alikeElements :: "qstring list \<Rightarrow> json list \<Rightarrow> json list \<Rightarrow> bool" where
  "alikeElements keys = list_all2 (\<lambda>v w. alike bothTexts (set keys) (toObj (Some v)) (toObj (Some w)))"

text \<open>Documents that still differ in the arrays listed, whose elements are alike.\<close>

definition alikeRoots :: "(qstring \<times> qstring list) list \<Rightarrow> json_obj \<Rightarrow> json_obj \<Rightarrow> bool" where
  "alikeRoots ks r r' \<longleftrightarrow> alike (\<lambda>_ _. True) (set (map fst ks)) r r'
     \<and> (\<forall>(ak, keys) \<in> set ks. alikeElements keys (toArr (jget r ak)) (toArr (jget r' ak)))"

lemma alikeRoots_insert:
  assumes "alikeRoots ks r r'" and "distinct (map fst ks)"
  shows "alikeRoots (filter (\<lambda>x. fst x \<noteq> k) ks) (jinsert k v r) (jinsert k v r')"
proof -
  have "set (map fst (filter (\<lambda>x. fst x \<noteq> k) ks)) = set (map fst ks) - {k}" by auto
  then show ?thesis
    using assms(1) alike_insert [of "\<lambda>_ _. True" "set (map fst ks)" r r' k v]
    by (auto simp: alikeRoots_def jget_jinsert)
qed

lemma protectElements_alike:
  assumes "alikeRoots ((ak, keys) # ks) r r'" "distinct (map fst ((ak, keys) # ks))"
  shows "sameRun (alikeRoots ks) (protectElements (muted E) keys p s ak r c) (protectElements (muted E) keys p s ak r' c)"
proof -
  let ?f = "\<lambda>v c. thenD (protectStrings (muted E) keys p s (toObj (Some v)) c) (\<lambda>ob c. (Inr (JObj ob), c))"
  have "mapD ?f (toArr (jget r ak)) c = mapD ?f (toArr (jget r' ak)) c"
    using assms(1) by (intro mapD_same [where P = "\<lambda>v w. alike bothTexts (set keys) (toObj (Some v)) (toObj (Some w))"]
        arg_cong [where f = "\<lambda>m. thenD m _"] protectStrings_alike)
      (simp_all add: alikeRoots_def alikeElements_def)
  moreover have "filter (\<lambda>x. fst x \<noteq> ak) ((ak, keys) # ks) = ks"
    using assms(2) by (auto simp: rev_image_eqI intro!: filter_True)
  then have "alikeRoots ks (jinsert ak v r) (jinsert ak v r')" for v
    using alikeRoots_insert [OF assms, of ak v] by simp
  ultimately show ?thesis
    unfolding protectElements_def
    by (cases "mapD ?f (toArr (jget r' ak)) c"; cases "fst (mapD ?f (toArr (jget r' ak)) c)") auto
qed

lemma protectSecrets_alike:
  assumes roots: "alike (\<lambda>_ _. True) (set (SessionKey # map fst protectedFields)) r r'"
    and elems: "\<forall>(ak, keys) \<in> set protectedFields. alikeElements keys (toArr (jget r ak)) (toArr (jget r' ak))"
    and sess: "jcontains r SessionKey = jcontains r' SessionKey"
      "jcontains r SessionKey \<longrightarrow> alike bothTexts (set sessionSecrets) (toObj (jget r SessionKey)) (toObj (jget r' SessionKey))"
  shows "protectSecrets (muted E) p s0 r c = protectSecrets (muted E) p s0 r' c"
proof -
  have step0: "sameRun (alikeRoots protectedFields)
      (protectSession (muted E) p s (jinsert SecretSaltKey v r) c) (protectSession (muted E) p s (jinsert SecretSaltKey v r') c)" for s v c
  proof -
    let ?a = "jinsert SecretSaltKey v r" and ?b = "jinsert SecretSaltKey v r'"
    have "SecretSaltKey \<notin> set (SessionKey # map fst protectedFields)" by simp
    then have al: "alike (\<lambda>_ _. True) (set (SessionKey # map fst protectedFields)) ?a ?b"
      using alike_insert [OF roots, of SecretSaltKey v] by simp
    have el: "\<forall>(ak, keys) \<in> set protectedFields. alikeElements keys (toArr (jget ?a ak)) (toArr (jget ?b ak))"
      using elems by (simp add: jget_jinsert)
    have minus: "set (SessionKey # map fst protectedFields) - {SessionKey} = set (map fst protectedFields)" by auto
    show ?thesis
    proof (cases "jcontains r SessionKey")
      case True
      then have ps: "protectStrings (muted E) sessionSecrets p s (toObj (jget r SessionKey)) c
          = protectStrings (muted E) sessionSecrets p s (toObj (jget r' SessionKey)) c"
        using protectStrings_alike sess(2) by blast
      have "alikeRoots protectedFields (jinsert SessionKey w ?a) (jinsert SessionKey w ?b)" for w
        using alike_insert [OF al, of SessionKey w] el unfolding minus alikeRoots_def
        by (simp add: jget_jinsert)
      then show ?thesis
        using True sess(1) ps
        by (cases "protectStrings (muted E) sessionSecrets p s (toObj (jget r' SessionKey)) c";
            cases "fst (protectStrings (muted E) sessionSecrets p s (toObj (jget r' SessionKey)) c)")
          (auto simp: protectSession_def jcontains_def jget_jinsert)
    next
      case False
      then have "jget ?a SessionKey = jget ?b SessionKey"
        using sess(1) by (simp add: jcontains_def jget_jinsert)
      from alike_weaken [OF al this] el have "alikeRoots protectedFields ?a ?b"
        unfolding minus alikeRoots_def by simp
      then show ?thesis using False sess(1) by (simp add: protectSession_def jcontains_def jget_jinsert)
    qed
  qed
  have last: "sameRun (alikeRoots []) m m' \<Longrightarrow> m = m'" for m m' :: "json_obj result \<times> nat"
    by (cases m; cases m'; cases "fst m"; cases "fst m'") (auto simp: alikeRoots_def dest: alike_none)
  have "thenD (protectSession (muted E) p s (jinsert SecretSaltKey v r) c)
      (\<lambda>r1 c1. thenD (protectElements (muted E) deviceSecrets p s StorageKeys_DeviceKeys r1 c1)
      (\<lambda>r2 c2. thenD (protectElements (muted E) [StorageKeys_PreKeyPrivate] p s StorageKeys_OneTimePreKeys r2 c2)
      (\<lambda>r3 c3. protectElements (muted E) [StorageKeys_IdentityKey] p s StorageKeys_TrustPins r3 c3)))
    = thenD (protectSession (muted E) p s (jinsert SecretSaltKey v r') c)
      (\<lambda>r1 c1. thenD (protectElements (muted E) deviceSecrets p s StorageKeys_DeviceKeys r1 c1)
      (\<lambda>r2 c2. thenD (protectElements (muted E) [StorageKeys_PreKeyPrivate] p s StorageKeys_OneTimePreKeys r2 c2)
      (\<lambda>r3 c3. protectElements (muted E) [StorageKeys_IdentityKey] p s StorageKeys_TrustPins r3 c3)))" for s v c
    by (intro last sameRun_thenD [OF step0] sameRun_thenD [OF protectElements_alike]
        protectElements_alike) simp_all
  then show ?thesis by (simp add: protectSecrets_def Let_def split: prod.split)
qed

text \<open>Values and stores that differ in secrets only.\<close>

definition sameSession :: "AuthSession \<Rightarrow> AuthSession \<Rightarrow> bool" where
  "sameSession x y \<longleftrightarrow> as_user y = as_user x"

definition sameDevice :: "DeviceKeyMaterial \<Rightarrow> DeviceKeyMaterial \<Rightarrow> bool" where
  "sameDevice d e \<longleftrightarrow>
     e\<lparr>dk_identityPrivateKey := [], dk_identitySigningPrivateKey := [], dk_signedPreKeyPrivate := []\<rparr>
       = d\<lparr>dk_identityPrivateKey := [], dk_identitySigningPrivateKey := [], dk_signedPreKeyPrivate := []\<rparr>"

definition samePreKey :: "OneTimePreKey \<Rightarrow> OneTimePreKey \<Rightarrow> bool" where
  "samePreKey k l \<longleftrightarrow> l\<lparr>otk_privateKey := []\<rparr> = k\<lparr>otk_privateKey := []\<rparr>"

definition samePin :: "TrustPin \<Rightarrow> TrustPin \<Rightarrow> bool" where
  "samePin p q \<longleftrightarrow> q\<lparr>tp_identityKey := []\<rparr> = p\<lparr>tp_identityKey := []\<rparr>"

definition sameButSecrets :: "local_store \<Rightarrow> local_store \<Rightarrow> bool" where
  "sameButSecrets s t \<longleftrightarrow>
     ls_path t = ls_path s \<and> ls_secretProtectionRequired t = ls_secretProtectionRequired s
   \<and> ls_secretPassphrase t = ls_secretPassphrase s \<and> ls_secretSalt t = ls_secretSalt s
   \<and> ls_hasSession t = ls_hasSession s \<and> sameSession (ls_session s) (ls_session t)
   \<and> list_all2 sameDevice (ls_deviceKeys s) (ls_deviceKeys t)
   \<and> list_all2 samePreKey (ls_oneTimePreKeys s) (ls_oneTimePreKeys t)
   \<and> list_all2 samePin (ls_trustPins s) (ls_trustPins t)
   \<and> ls_knownUsers t = ls_knownUsers s \<and> ls_messages t = ls_messages s
   \<and> ls_files t = ls_files s \<and> ls_draws t = ls_draws s"

lemma alike_session:
  "sameSession x y \<Longrightarrow> alike bothTexts (set sessionSecrets) (sessionToJson x) (sessionToJson y)"
  by (simp add: sameSession_def alike_def sessionToJson_def sessionSecrets_def bothTexts_def const_defs)

lemma alike_device:
  "sameDevice d e \<Longrightarrow> alike bothTexts (set deviceSecrets) (deviceToJson d) (deviceToJson e)"
  by (cases d; cases e)
    (simp add: sameDevice_def alike_def deviceToJson_def deviceSecrets_def bothTexts_def const_defs)

lemma alike_preKey:
  "samePreKey k l \<Longrightarrow> alike bothTexts (set [StorageKeys_PreKeyPrivate]) (preKeyToJson k) (preKeyToJson l)"
  by (cases k; cases l) (simp add: samePreKey_def alike_def preKeyToJson_def bothTexts_def const_defs)

lemma alike_pin:
  "samePin p q \<Longrightarrow> alike bothTexts (set [StorageKeys_IdentityKey]) (trustPinToJson P p) (trustPinToJson P q)"
  by (cases p; cases q) (simp add: samePin_def alike_def trustPinToJson_def bothTexts_def const_defs)

lemma alikeElements_map:
  assumes "list_all2 A xs ys" and "\<And>x y. A x y \<Longrightarrow> alike bothTexts (set keys) (f x) (f y)"
  shows "alikeElements keys (map (JObj \<circ> f) xs) (map (JObj \<circ> f) ys)"
  using assms by (auto simp: alikeElements_def list.rel_map elim!: list_all2_mono)

text \<open>Nothing is sealed before the first save: redacting a document of texts changes nothing.\<close>

lemma redacted_texts:
  "redactFields P sessionSecrets (sessionToJson x) = sessionToJson x"
  "redactFields P deviceSecrets (deviceToJson d) = deviceToJson d"
  "redactFields P [StorageKeys_PreKeyPrivate] (preKeyToJson k) = preKeyToJson k"
  "redactFields P [StorageKeys_IdentityKey] (trustPinToJson P' p) = trustPinToJson P' p"
  by (simp_all add: redactFields_def redactBlob_def sessionToJson_def deviceToJson_def preKeyToJson_def trustPinToJson_def
      sessionSecrets_def deviceSecrets_def const_defs)

lemma redacted_state: "redactRoot P (stateToJson P' s) = stateToJson P' s"
  by (simp add: redactRoot_def redactEntry_def stateToJson_def redacted_texts comp_def)

lemma muted_same:
  assumes "sameButSecrets s t"
  shows "protectSecrets (muted E) p s0 (stateToJson E s) c = protectSecrets (muted E) p s0 (stateToJson E t) c"
proof (rule protectSecrets_alike)
  let ?a = "stateToJson E s" and ?b = "stateToJson E t"
  note st = assms [unfolded sameButSecrets_def]
  show "alike (\<lambda>_ _. True) (set (SessionKey # map fst protectedFields)) ?a ?b"
    using st by (simp add: alike_def stateToJson_def)
  show "\<forall>(ak, keys) \<in> set protectedFields. alikeElements keys (toArr (jget ?a ak)) (toArr (jget ?b ak))"
    using st alikeElements_map [where A = sameDevice and f = deviceToJson, OF _ alike_device]
      alikeElements_map [where A = samePreKey and f = preKeyToJson, OF _ alike_preKey]
      alikeElements_map [where A = samePin and f = "trustPinToJson E", OF _ alike_pin] by simp
  show "jcontains ?a SessionKey = jcontains ?b SessionKey" using st by (simp add: jcontains_def)
  show "jcontains ?a SessionKey \<longrightarrow> alike bothTexts (set sessionSecrets) (toObj (jget ?a SessionKey)) (toObj (jget ?b SessionKey))"
    using st by (simp add: jcontains_def alike_session)
qed

text \<open>Property C19: a protected file shows the secrets only as ciphertext. Take two stores that differ
  in secrets alone, in any of them: session tokens, private keys, pinned keys. When both are
  saved, the two files written differ at most in the ciphertext and authentication tag of the
  sealed fields; whatever else is in them, the salt and the initialisation vectors included, is
  the same. No property of the cipher is assumed.\<close>

theorem save_hides_secrets:
  assumes "ls_secretProtectionRequired s" and "sameButSecrets s t"
    and "fst (save E s) = Inr x" and "fst (save E t) = Inr y"
  shows "\<exists>r r'. ls_files (snd (save E s)) = (ls_files s)(ls_path s \<mapsto> r)
    \<and> ls_files (snd (save E t)) = (ls_files s)(ls_path s \<mapsto> r') \<and> redactRoot E r = redactRoot E r'"
proof -
  note st = assms(2) [unfolded sameButSecrets_def]
  obtain r c where r: "ls_files (snd (save E s)) = (ls_files s)(ls_path s \<mapsto> r)"
    "protectSecrets E (ls_secretPassphrase s) (ls_secretSalt s) (stateToJson E s) (ls_draws s) = (Inr r, c)"
    using save_writes [OF assms(3)] assms(1) by metis
  obtain r' c' where r': "ls_files (snd (save E t)) = (ls_files s)(ls_path s \<mapsto> r')"
    "protectSecrets E (ls_secretPassphrase s) (ls_secretSalt s) (stateToJson E t) (ls_draws s) = (Inr r', c')"
    using save_writes [OF assms(4)] assms(1) st by metis
  from protectSecrets_muted [OF r(2)] protectSecrets_muted [OF r'(2)] muted_same [OF assms(2), of E]
  have "redactRoot E r = redactRoot E r'" by (simp add: redacted_state)
  with r(1) r'(1) show ?thesis by blast
qed

text \<open>Two sessions that differ in the access token.\<close>

definition otherStore :: local_store where
  "otherStore = protectedStore\<lparr>ls_session := sampleSession\<lparr>as_tokens := (as_tokens sampleSession)\<lparr>ts_accessToken := Q ''other token''\<rparr>\<rparr>\<rparr>"

theorem save_hides_secrets_witness:
  "\<exists>r r'. ls_files (snd (save sampleEnv protectedStore)) (ls_path protectedStore) = Some r
     \<and> ls_files (snd (save sampleEnv otherStore)) (ls_path protectedStore) = Some r'
     \<and> redactRoot sampleEnv r = redactRoot sampleEnv r'"
proof -
  have "ls_secretProtectionRequired protectedStore" by (simp add: protectedStore_def)
  moreover have "sameButSecrets protectedStore otherStore"
    by (simp add: sameButSecrets_def sameSession_def otherStore_def protectedStore_def sampleSession_def sampleStore_def)
  moreover have "env_dirReady sampleEnv f" "env_canWrite sampleEnv f" for f by (simp_all add: sampleEnv_def)
  then have "fst (save sampleEnv otherStore) = Inr True"
    by (intro save_works [OF sample_libraries]) (simp_all add: otherStore_def protectedStore_def sampleStore_def)
  ultimately show ?thesis
    using save_hides_secrets [of protectedStore otherStore sampleEnv True True] protectedStore_saves by force
qed

end
