(* ===== verification/Client.thy ===== *)
theory Client
  imports Systems Router Startup Persistence
begin

text \<open>
  The running client: how main (client/src/main.cpp) puts it together, its steps (a line is
  typed, a gateway answers, the HTTP client hands over refreshed tokens) and what holds in
  every state it can reach. The lemmas come in three families, one per invariant, each
  a set of equations over the combinators of Services (\<open>emit\<close>, \<open>issue\<close>, \<open>orFail\<close> and so on):
  \<open>busyOk\<close> (a busy router has a request that will free it), \<open>work\<close> (the answers a client
  still waits for) and \<open>sealedCalls\<close> (only encrypted messages are handed to a gateway).
\<close>

section \<open>Starting\<close>

definition startingSession :: "local_store \<Rightarrow> AuthSession option" where
  "startingSession store = (case loadSession store of Inr (Some s) \<Rightarrow> Some s | _ \<Rightarrow> None)"

definition newClient :: "'x env_scheme \<Rightarrow> StartupConfig \<Rightarrow> local_store \<Rightarrow> client" where
  "newClient E config store =
    \<lparr>cl_config = config, cl_store = store,
     cl_session = startingSession store,
     cl_accountScopedState = (sc_mode config = Real \<and> \<not> sc_statePathExplicit config),
     cl_sendCounters = (\<lambda>_. None), cl_lastTrustedBundle = None, cl_router = newRouter,
     cl_presenter = newPresenter (sc_showRawErrors config), cl_pending = [],
     cl_textFiles = (\<lambda>_. None), cl_trace = [], cl_exited = False\<rparr>"

text \<open>
  The start of main; \<open>password\<close> is the line read at the prompt for the local state. \<open>Inl\<close> is
  an exit with status 1 and the text printed on standard error.
\<close>

definition startStore ::
  "'x env_scheme \<Rightarrow> StartupConfig \<Rightarrow> (qstring \<Rightarrow> json_obj option) \<Rightarrow> nat \<Rightarrow> qstring \<Rightarrow> qstring + local_store" where
  "startStore E config files draws password =
     (let store = newStore E (sc_statePath config) (sc_mode config = Real) files draws;
          accountScopedState = (sc_mode config = Real \<and> \<not> sc_statePathExplicit config)
      in if \<not> accountScopedState then Inr store
         else case lastAccountId E store of
                Inr (Some accountId) \<Rightarrow>
                  (case useAccountScopedPath E accountId False store of
                     (Inl err, _) \<Rightarrow> Inl (ce_message err)
                   | (Inr _, s1) \<Rightarrow>
                       (if password = [] then Inr s1
                        else case reload E (setSecretPassphrase password s1) of
                               (Inl err, _) \<Rightarrow> Inl (ce_message err)
                             | (Inr _, s2) \<Rightarrow> Inr s2))
              | _ \<Rightarrow> Inr store)"

definition startClient ::
  "'x env_scheme \<Rightarrow> StartupConfig \<Rightarrow> (qstring \<Rightarrow> json_obj option) \<Rightarrow> nat \<Rightarrow> qstring \<Rightarrow> qstring + client" where
  "startClient E config files draws password =
     (case startStore E config files draws password of
        Inl message \<Rightarrow> Inl message
      | Inr store \<Rightarrow>
          (if sc_mode config = Real \<and> \<not> pf_hasOpenSsl E then Inl AppText_NativeCryptoUnavailable
           else Inr (newClient E config store)))"

section \<open>Steps\<close>

text \<open>One gateway answer: any outstanding call may be the next to be answered.\<close>

inductive answers :: "crypto_provider \<Rightarrow> client \<Rightarrow> client \<Rightarrow> bool" for C where
  Answer: "cl_pending c = xs @ Call req k # ys \<Longrightarrow> fits k r
    \<Longrightarrow> answers C c (deliver (E :: env) C k r (c\<lparr>cl_pending := xs @ ys\<rparr>))"

inductive client_step :: "crypto_provider \<Rightarrow> client \<Rightarrow> client \<Rightarrow> bool" for C where
  Typed: "client_step C c (handleLine (E :: env) C line c)"
| Answered: "answers C c c' \<Longrightarrow> client_step C c c'"
| Refreshed: "client_step C c (updateTokens (E :: env) tokens c)"

inductive reachable :: "crypto_provider \<Rightarrow> client \<Rightarrow> bool" for C where
  Start: "reachable C (newClient (E :: env) config store)"
| Step: "reachable C c \<Longrightarrow> client_step C c c' \<Longrightarrow> reachable C c'"

inductive_cases answersE: "answers C c c'"
inductive_cases client_stepE: "client_step C c c'"

definition startingClient :: "client \<Rightarrow> bool" where
  "startingClient c \<longleftrightarrow> (\<exists>(E :: env) config store. c = newClient E config store)"

interpretation clients: stepping_system "reachable C" "client_step C" startingClient for C
proof
  fix c c'
  assume "reachable C c" "client_step C c c'"
  then show "reachable C c'" by (rule reachable.Step)
next
  fix c
  assume "startingClient c"
  then show "reachable C c" unfolding startingClient_def by (elim exE, hypsubst) (rule reachable.Start)
next
  fix c and P :: "client \<Rightarrow> bool"
  assume r: "reachable C c" and base: "\<And>s. startingClient s \<Longrightarrow> P s"
    and step: "\<And>s t. reachable C s \<Longrightarrow> P s \<Longrightarrow> client_step C s t \<Longrightarrow> P t"
  from r show "P c"
  proof (induction rule: reachable.induct)
    case (Start E config store)
    show ?case by (rule base) (unfold startingClient_def, blast)
  next
    case (Step c c')
    show ?case by (rule step [OF Step.hyps(1) Step.IH Step.hyps(2)])
  qed
qed

section \<open>A busy router waits for an answer\<close>

fun foreground :: "continuation \<Rightarrow> bool" where
  "foreground OnUpsert = False"
| "foreground OnUpload = False"
| "foreground _ = True"

definition busy :: "client \<Rightarrow> bool" where
  "busy c \<longleftrightarrow> rt_operationInProgress (cl_router c)"

definition working :: "client \<Rightarrow> bool" where
  "working c \<longleftrightarrow> (\<exists>req k. Call req k \<in> set (cl_pending c) \<and> foreground k)"

definition busyOk :: "client \<Rightarrow> bool" where
  "busyOk c \<longleftrightarrow> (busy c \<longrightarrow> working c)"

lemma emit_fields [simp]:
  "cl_config (emit E ev c) = cl_config c" "cl_store (emit E ev c) = cl_store c"
  "cl_session (emit E ev c) = cl_session c" "cl_pending (emit E ev c) = cl_pending c"
  "cl_accountScopedState (emit E ev c) = cl_accountScopedState c"
  "cl_lastTrustedBundle (emit E ev c) = cl_lastTrustedBundle c"
  "cl_router (emit E ev c) = routerSlot ev (cl_router c)"
  "cl_textFiles (emit E ev c) = cl_textFiles c" "cl_trace (emit E ev c) = cl_trace c @ [ev]"
  by (simp_all add: emit_def)

lemma issue_fields [simp]:
  "cl_config (issue req k c) = cl_config c" "cl_store (issue req k c) = cl_store c"
  "cl_session (issue req k c) = cl_session c" "cl_pending (issue req k c) = cl_pending c @ [Call req k]"
  "cl_accountScopedState (issue req k c) = cl_accountScopedState c"
  "cl_lastTrustedBundle (issue req k c) = cl_lastTrustedBundle c"
  "cl_router (issue req k c) = cl_router c" "cl_presenter (issue req k c) = cl_presenter c"
  "cl_textFiles (issue req k c) = cl_textFiles c" "cl_trace (issue req k c) = cl_trace c"
  by (simp_all add: issue_def)

lemma withProviderState_fields [simp]:
  "cl_config (withProviderState st c) = cl_config c" "cl_session (withProviderState st c) = cl_session c"
  "cl_pending (withProviderState st c) = cl_pending c" "cl_router (withProviderState st c) = cl_router c"
  "cl_lastTrustedBundle (withProviderState st c) = cl_lastTrustedBundle c"
  "ls_trustPins (cl_store (withProviderState st c)) = ls_trustPins (cl_store c)"
  by (simp_all add: withProviderState_def)

lemma finishes_events [simp]:
  "finishes (StatusMessage x)" "finishes (CommandFailed e)" "finishes (SessionStarted u)"
  "finishes SessionEnded" "finishes (TrustPinCreated p)" "finishes (TrustPinMatched a d)"
  "finishes (TrustPinMismatch a d)" "finishes (ConversationListUpdated cs)"
  "finishes (UnreadInboxUpdated cs)" "finishes (ConversationLogOpened x y es i n)"
  "finishes (MessageListUpdated ms)" "finishes (MessageSent m)" "finishes (MessageForwarded m)"
  "finishes (MessageRevoked x)" "finishes (MessageDeleted x)" "finishes (MessageDownloaded x y)"
  "finishes (FidelityStatusUpdated x y)" "finishes (BackendUnavailable e)"
  "finishes (CryptoOperationFailed e)"
  by (simp_all add: finishes_def)

lemma slot_not_started:
  "\<not> (\<exists>m. ev = OperationStarted m) \<Longrightarrow> rt_operationInProgress (routerSlot ev r) \<Longrightarrow> rt_operationInProgress r"
  by (cases "(ev, r)" rule: routerSlot.cases) auto

lemma busyOk_emit [step_simps]: "finishes ev \<Longrightarrow> busyOk (emit E ev c)"
  by (simp add: busyOk_def busy_def finishes_def)

lemma busyOk_emit_other [step_simps]: "busyOk c \<Longrightarrow> \<not> (\<exists>m. ev = OperationStarted m) \<Longrightarrow> busyOk (emit E ev c)"
  using slot_not_started [of ev "cl_router c"] by (auto simp: busyOk_def busy_def working_def)

lemma busyOk_issue [step_simps]: "foreground k \<Longrightarrow> busyOk (issue req k c)"
  by (auto simp: busyOk_def working_def)

lemma busyOk_issue_other [step_simps]: "busyOk c \<Longrightarrow> busyOk (issue req k c)"
  by (auto simp: busyOk_def working_def busy_def)

lemma busyOk_orFail [step_simps]: "busyOk (orFail E r k c) \<longleftrightarrow> (\<forall>x. r = Inr x \<longrightarrow> busyOk (k x c))"
  by (auto simp: orFail_def busyOk_emit split: sum.splits)

lemma busyOk_storeOrFail [step_simps]:
  "busyOk (storeOrFail E f k c) \<longleftrightarrow>
   (\<forall>x. fst (f (cl_store c)) = Inr x \<longrightarrow> busyOk (k x (c\<lparr>cl_store := snd (f (cl_store c))\<rparr>)))"
  by (simp add: storeOrFail_def Let_def busyOk_orFail)

lemma busyOk_cryptoOrFail [step_simps]:
  "busyOk (cryptoOrFail E f k c) \<longleftrightarrow>
   (\<forall>x. fst (f (providerState c)) = Inr x \<longrightarrow>
      busyOk (k x (withProviderState (snd (f (providerState c))) c)))"
  by (auto simp: cryptoOrFail_def Let_def busyOk_emit split: sum.splits)

lemma busyOk_requireSession [step_simps]:
  "busyOk (requireSession E k c) \<longleftrightarrow> (isLoggedIn c \<longrightarrow> busyOk (k c))"
  by (simp add: requireSession_def busyOk_emit)

lemma busyOk_update [step_simps]:
  "busyOk (c\<lparr>cl_store := s\<rparr>) = busyOk c" "busyOk (c\<lparr>cl_session := m\<rparr>) = busyOk c"
  "busyOk (c\<lparr>cl_lastTrustedBundle := b\<rparr>) = busyOk c" "busyOk (c\<lparr>cl_textFiles := t\<rparr>) = busyOk c"
  "busyOk (withProviderState st c) = busyOk c"
  by (simp_all add: busyOk_def busy_def working_def)

lemma busyOk_status [step_simps]: "busyOk (status E m t vs c)"
  by (simp add: status_def step_simps)

lemma busyOk_useBundle [step_simps]: "busyOk (useBundle E C u r c)"
  by (cases u) (simp_all add: encryptAndIssue_def step_simps)

lemma busyOk_trustedBundle [step_simps]: "busyOk (trustedBundle E C u d k c)"
  by (simp add: trustedBundle_def step_simps split: sum.split option.split)

lemma busyOk_saveMessages [step_simps]: "busyOk c \<Longrightarrow> busyOk (saveMessages E ms c)"
  by (induction ms arbitrary: c) (simp_all add: step_simps)

lemmas reply_defs = registerReply_def loginReply_def emitSessionStarted_def logoutReply_def
  trustAddressReply_def trustBundleReply_def pinnedBundleReply_def listReply_def
  conversationsReceivedReply_def conversationsSentReply_def unreadReply_def
  sendAddressReply_def sendToAddress_def messageSentReply_def readAddressReply_def
  readReceivedReply_def readSentReply_def openConversationFromCache_def
  forwardAddressReply_def forwardToAddress_def forwardedReply_def revokedReply_def
  deletedReply_def anchorReply_def verifyPublicAnchor_def verificationReply_def
  saveAndReconcileMessages_def

lemma busyOk_foreground:
  assumes "foreground k" "fits k r"
  shows "busyOk (deliver E C k r c)"
  using assms
  by (cases k; cases r)
    (simp_all add: fits_def deliver_def reply_defs step_simps Let_def split: sum.split option.split)

lemma busyOk_upload [step_simps]: "busyOk c \<Longrightarrow> busyOk (uploadOneTimePreKeys E C c)"
  by (simp add: uploadOneTimePreKeys_def step_simps Let_def split: sum.split)

lemma busyOk_background:
  assumes "\<not> foreground k" "fits k r" "busyOk c"
  shows "busyOk (deliver E C k r c)"
  using assms
  by (cases k; cases r)
    (simp_all add: fits_def deliver_def upsertReply_def uploadReply_def step_simps split: sum.split)

lemma busyOk_handleCommand [step_simps]: "busyOk c \<Longrightarrow> busyOk (handleCommand E C command c)"
  by (cases "cmd_type command")
    (simp_all add: handleCommand_def listConversations_def listUnreadSenders_def listReceived_def
      listSent_def readCommand_def openConversation_def readConversation_def forward_def logout_def
      withOne_def revoke_def deleteMessage_def download_def trustUsername_def verify_def Let_def
      step_simps split: list.split option.split sum.split)

lemma busyOk_sendMessage [step_simps]: "busyOk (sendMessage E u b c)"
  by (simp add: sendMessage_def send_def step_simps)

lemma busyOk_onRouter [step_simps]:
  "busyOk c \<Longrightarrow> (\<And>r. rt_operationInProgress (f r) = rt_operationInProgress r) \<Longrightarrow> busyOk (onRouter f c)"
  by (auto simp: busyOk_def busy_def working_def onRouter_def)

lemma busyOk_startComposition [step_simps]: "busyOk c \<Longrightarrow> busyOk (startComposition E u c)"
  by (simp add: startComposition_def beginMessageComposition_def step_simps)

lemma busyOk_argumentCount [step_simps]:
  "busyOk (k c) \<Longrightarrow> busyOk (commandHasArgumentCount E command lo hi k c)"
  by (simp add: commandHasArgumentCount_def Let_def step_simps)

lemma busyOk_routeCommand [step_simps]: "busyOk c \<Longrightarrow> busyOk (routeCommand E C command c)"
  by (auto simp: routeCommand_def handleMsgCommand_def handleSendCommand_def openConversation_def
      readConversation_def Let_def step_simps)

lemma busyOk_handleLine:
  assumes "busyOk c"
  shows "busyOk (handleLine E C line c)"
proof (cases "rt_inputMode (cl_router c) = CommandMode \<and> rt_operationInProgress (cl_router c)")
  case True
  with assms have "working c" by (simp add: busyOk_def busy_def)
  then have "working (emit E ev c)" for ev by (simp add: working_def)
  with True assms show ?thesis by (simp add: handleLine_def Let_def busyOk_def)
next
  case False
  with assms show ?thesis
    by (cases "rt_inputMode (cl_router c)")
      (simp_all add: handleLine_def handleCommandMode_def handleRegisterPassword_def
        handleLoginPassword_def handleMessageComposition_def submitComposedMessage_def
        cancelComposition_def controllerRegister_def controllerLogin_def registerUser_def login_def
        leaveComposition_def Let_def step_simps split: sum.split)
qed

lemma busyOk_answers: "answers C c c' \<Longrightarrow> busyOk c \<Longrightarrow> busyOk c'"
proof (erule answersE)
  fix xs ys req k r and E :: env
  assume ok: "busyOk c" and p: "cl_pending c = xs @ Call req k # ys" and f: "fits k r"
    and c': "c' = deliver E C k r (c\<lparr>cl_pending := xs @ ys\<rparr>)"
  show "busyOk c'"
  proof (cases "foreground k")
    case True
    then show ?thesis using f by (simp add: c' busyOk_foreground)
  next
    case False
    then have "busyOk (c\<lparr>cl_pending := xs @ ys\<rparr>)"
      using ok p by (auto simp: busyOk_def busy_def working_def)
    then show ?thesis using f False by (simp add: c' busyOk_background)
  qed
qed

lemma busyOk_step: "client_step C c c' \<Longrightarrow> busyOk c \<Longrightarrow> busyOk c'"
  by (erule client_stepE)
    (auto simp: busyOk_handleLine busyOk_answers updateTokens_def Let_def step_simps split: option.split)

lemma busyOk_start: "startingClient c \<Longrightarrow> busyOk c"
  by (auto simp: startingClient_def busyOk_def busy_def newClient_def newRouter_def)

lemma busyOk_reachable: "reachable C c \<Longrightarrow> busyOk c"
  using busyOk_start busyOk_step by (rule clients.invariant)

section \<open>Work left to do\<close>

text \<open>How many answers may follow an answer to this continuation, itself included.\<close>

fun rank :: "continuation \<Rightarrow> nat" where
  "rank (OnLogin _) = 3"
| "rank OnUpsert = 2"
| "rank OnTrustAddress = 2"
| "rank (OnPinnedBundle _ _) = 2"
| "rank OnConversationsReceived = 2"
| "rank (OnSendAddress _) = 3"
| "rank (OnReadAddress _ _) = 3"
| "rank (OnReadReceived _ _ _) = 2"
| "rank (OnForwardAddress _) = 3"
| "rank (OnAnchor _) = 2"
| "rank _ = 1"

fun callRank :: "call \<Rightarrow> nat" where
  "callRank (Call req k) = rank k"

definition work :: "client \<Rightarrow> nat" where
  "work c = sum_list (map callRank (cl_pending c))"

named_theorems work_simps \<open>the work the combinators leave\<close>

lemma work_simple [work_simps]:
  "work (emit E ev c) = work c" "work (issue req k c) = work c + rank k"
  "work (c\<lparr>cl_store := s\<rparr>) = work c" "work (c\<lparr>cl_session := m\<rparr>) = work c"
  "work (c\<lparr>cl_lastTrustedBundle := b\<rparr>) = work c" "work (c\<lparr>cl_textFiles := t\<rparr>) = work c"
  "work (status E mid tx vs c) = work c" "work (withProviderState st c) = work c"
  by (simp_all add: work_def status_def)

lemma work_orFail [work_simps]:
  "work (orFail E r k c) = (case r of Inl e \<Rightarrow> work c | Inr x \<Rightarrow> work (k x c))"
  by (simp add: orFail_def work_simps split: sum.split)

lemma work_storeOrFail [work_simps]:
  "work (storeOrFail E f k c) =
   (case fst (f (cl_store c)) of Inl e \<Rightarrow> work c | Inr x \<Rightarrow> work (k x (c\<lparr>cl_store := snd (f (cl_store c))\<rparr>)))"
  by (simp add: storeOrFail_def Let_def work_simps split: sum.split)

lemma work_cryptoOrFail [work_simps]:
  "work (cryptoOrFail E f k c) =
   (case fst (f (providerState c)) of
      Inl e \<Rightarrow> work c
    | Inr x \<Rightarrow> work (k x (withProviderState (snd (f (providerState c))) c)))"
  by (simp add: cryptoOrFail_def Let_def work_simps split: sum.split)

lemma work_useBundle: "work (useBundle E C u r c) \<le> work c + 1"
  by (cases u) (simp_all add: encryptAndIssue_def work_simps split: sum.split)

lemma work_trustedBundle: "work (trustedBundle E C u d k c) \<le> work c + 2"
  using work_useBundle [of E C k _ c]
  by (auto simp: trustedBundle_def work_simps split: sum.split option.split intro: le_SucI)

lemma work_saveMessages [work_simps]: "work (saveMessages E ms c) = work c"
  by (induction ms arbitrary: c) (simp_all add: work_simps split: sum.split)

lemma work_saveAndReconcile [work_simps]: "work (saveAndReconcileMessages E ms d c) = work c"
  by (simp add: saveAndReconcileMessages_def Let_def work_simps split: sum.split)

lemma work_upload: "work (uploadOneTimePreKeys E C c) \<le> work c + 1"
  by (simp add: uploadOneTimePreKeys_def Let_def work_simps split: sum.split)

lemma work_ensure: "work (ensureDeviceKeysUploaded E C c) \<le> work c + 2"
  by (simp add: ensureDeviceKeysUploaded_def Let_def work_simps split: sum.split)

lemma work_login: "work (loginReply E C p r c) \<le> work c + 2"
  by (auto simp: loginReply_def emitSessionStarted_def Let_def work_simps
      intro: order_trans [OF work_ensure] split: sum.split)

lemma work_sendAddress: "work (sendAddressReply E C t r c) \<le> work c + 2"
  by (auto simp: sendAddressReply_def sendToAddress_def work_simps
      intro: order_trans [OF work_trustedBundle] split: sum.split)

lemma work_forwardAddress: "work (forwardAddressReply E C m r c) \<le> work c + 2"
  by (auto simp: forwardAddressReply_def forwardToAddress_def work_simps
      intro: order_trans [OF work_trustedBundle] split: sum.split option.split)

lemma work_pinned: "work (pinnedBundleReply E C p u r c) \<le> work c + 1"
  by (auto simp: pinnedBundleReply_def work_simps
      intro: order_trans [OF work_useBundle] split: sum.split)

lemma work_upsert: "work (upsertReply E C r c) \<le> work c + 1"
  using work_upload [of E C c] by (simp add: upsertReply_def work_simps split: sum.split)

lemma work_deliver:
  assumes "fits k r"
  shows "work (deliver E C k r c) < work c + rank k"
  using assms
proof (cases k)
  case (OnLogin p)
  with assms show ?thesis
    by (cases r) (auto simp: fits_def deliver_def intro: le_less_trans [OF work_login])
next
  case (OnSendAddress t)
  with assms show ?thesis
    by (cases r) (auto simp: fits_def deliver_def intro: le_less_trans [OF work_sendAddress])
next
  case (OnForwardAddress m)
  with assms show ?thesis
    by (cases r) (auto simp: fits_def deliver_def intro: le_less_trans [OF work_forwardAddress])
next
  case (OnPinnedBundle p u)
  with assms show ?thesis
    by (cases r) (auto simp: fits_def deliver_def intro: le_less_trans [OF work_pinned])
next
  case OnUpsert
  with assms show ?thesis
    by (cases r) (auto simp: fits_def deliver_def intro: le_less_trans [OF work_upsert])
qed (cases r; simp add: fits_def deliver_def reply_defs uploadReply_def Let_def work_simps
      split: sum.split option.split)+

lemma work_answers: "answers C c c' \<Longrightarrow> work c' < work c"
proof (erule answersE)
  fix xs ys req k r and E :: env
  assume p: "cl_pending c = xs @ Call req k # ys" and f: "fits k r"
    and c': "c' = deliver E C k r (c\<lparr>cl_pending := xs @ ys\<rparr>)"
  have "work (c\<lparr>cl_pending := xs @ ys\<rparr>) + rank k = work c"
    using p by (simp add: work_def)
  with work_deliver [OF f, of E C "c\<lparr>cl_pending := xs @ ys\<rparr>"] show "work c' < work c"
    by (simp add: c')
qed

text \<open>Every continuation has an answer it takes.\<close>

lemma fits_exists: "\<exists>r. fits k r"
proof -
  have "\<exists>r. kindOf r = x" for x
    by (cases x) (meson kindOf.simps)+
  then show ?thesis by (metis fits_def)
qed

lemma pending_can_answer: "cl_pending c \<noteq> [] \<Longrightarrow> \<exists>c'. answers C c c'"
proof -
  assume "cl_pending c \<noteq> []"
  then obtain req k ys where "cl_pending c = [] @ Call req k # ys"
    by (metis append_Nil call.exhaust list.exhaust)
  moreover obtain r where "fits k r" using fits_exists by blast
  ultimately show ?thesis by (blast intro: Answer)
qed

interpretation answering: draining_system "reachable C" "client_step C" "answers C" work "\<lambda>c. cl_pending c = []" for C
  by unfold_locales (auto intro: client_step.Answered work_answers pending_can_answer)

section \<open>What leaves the client\<close>

text \<open>
  A draft whose payload an encryption of the provider produced, to a bundle whose signature
  the provider accepted.
\<close>

definition verifiedBundle :: "crypto_provider \<Rightarrow> PreKeyBundle \<Rightarrow> bool" where
  "verifiedBundle C bundle \<longleftrightarrow> (\<exists>x. cp_verifySignedPreKey C bundle = Inr x)"

definition sealedDraft :: "crypto_provider \<Rightarrow> LocalMessage \<Rightarrow> bool" where
  "sealedDraft C draft \<longleftrightarrow>
     (\<exists>user device bundle plaintext st payload st'.
        verifiedBundle C bundle
        \<and> cp_encrypt C user device bundle plaintext st = (Inr payload, st')
        \<and> lm_wirePayloadJson draft = ep_wirePayloadJson payload)"

fun sealedRequest :: "crypto_provider \<Rightarrow> request \<Rightarrow> bool" where
  "sealedRequest C (SendMessage token draft preKeyId) = sealedDraft C draft"
| "sealedRequest C (ForwardMessage token messageId draft preKeyId) = sealedDraft C draft"
| "sealedRequest C _ = True"

text \<open>The type of the callback each method of the gateways takes.\<close>

fun asks :: "request \<Rightarrow> reply_kind" where
  "asks (RegisterUser _ _ _) = UserKind"
| "asks (LoginUser _ _) = SessionKind"
| "asks (LogoutUser _) = BoolKind"
| "asks (UpsertDeviceKeys _ _) = BoolKind"
| "asks (UploadOneTimePreKeys _ _ _) = BoolKind"
| "asks (FetchPreKeyBundle _ _ _) = BundleKind"
| "asks (ResolveUsername _ _ _) = AddressKind"
| "asks (SendMessage _ _ _) = MessageKind"
| "asks (ListReceived _) = MessagesKind"
| "asks (ListSent _) = MessagesKind"
| "asks (ForwardMessage _ _ _ _) = MessageKind"
| "asks (RevokeMessage _ _) = MessageKind"
| "asks (DeleteMessageOn _ _) = BoolKind"
| "asks (FetchMessageAnchor _ _) = AnchorKind"
| "asks (VerifyAnchor _ _) = VerificationKind"

text \<open>\<open>base\<close> are calls that were outstanding before: an operation only adds calls behind them.\<close>

definition sealedCalls :: "crypto_provider \<Rightarrow> call list \<Rightarrow> client \<Rightarrow> bool" where
  "sealedCalls C base c \<longleftrightarrow>
     take (length base) (cl_pending c) = base
     \<and> (\<forall>req k. Call req k \<in> set (cl_pending c) \<longrightarrow> sealedRequest C req \<and> asks req = expects k)
     \<and> (\<forall>b. cl_lastTrustedBundle c = Some b \<longrightarrow> verifiedBundle C b)"

named_theorems seal_simps \<open>which operations keep transmitted drafts encrypted\<close>

lemma sealed_simple [seal_simps]:
  "sealedCalls C base (emit E ev c) = sealedCalls C base c"
  "sealedCalls C base (status E i tx vs c) = sealedCalls C base c" "sealedCalls C base (c\<lparr>cl_session := m\<rparr>) = sealedCalls C base c"
  "sealedCalls C base (withProviderState st c) = sealedCalls C base c" "sealedCalls C base (c\<lparr>cl_store := s\<rparr>) = sealedCalls C base c"
  "sealedCalls C base (c\<lparr>cl_textFiles := t\<rparr>) = sealedCalls C base c" "sealedCalls C base (onRouter f c) = sealedCalls C base c"
  by (auto simp: sealedCalls_def status_def onRouter_def)

lemma sealed_issue [seal_simps]:
  "sealedCalls C base c \<Longrightarrow> sealedRequest C req \<Longrightarrow> asks req = expects k \<Longrightarrow> sealedCalls C base (issue req k c)"
proof -
  assume c: "sealedCalls C base c" "sealedRequest C req" "asks req = expects k"
  then have "take (length base) (cl_pending c) = base" by (simp add: sealedCalls_def)
  then have "length base \<le> length (cl_pending c)" by (metis length_take min.cobounded1 min.commute)
  with c show ?thesis by (auto simp: sealedCalls_def)
qed

lemma sealed_cache [seal_simps]:
  "verifiedBundle C b \<Longrightarrow> sealedCalls C base c \<Longrightarrow> sealedCalls C base (c\<lparr>cl_lastTrustedBundle := Some b\<rparr>)"
  by (simp add: sealedCalls_def)

lemma sealed_orFail [seal_simps]:
  "sealedCalls C base (orFail E r k c) \<longleftrightarrow> (case r of Inl e \<Rightarrow> sealedCalls C base c | Inr x \<Rightarrow> sealedCalls C base (k x c))"
  by (simp add: orFail_def seal_simps split: sum.split)

lemma sealed_storeOrFail [seal_simps]:
  "(\<And>x s. sealedCalls C base (k x (c\<lparr>cl_store := s\<rparr>))) \<Longrightarrow> sealedCalls C base c \<Longrightarrow> sealedCalls C base (storeOrFail E f k c)"
  by (simp add: storeOrFail_def Let_def seal_simps split: sum.split)

lemma sealed_cryptoOrFail [seal_simps]:
  "(\<And>x st. fst (f (providerState c)) = Inr x \<Longrightarrow> sealedCalls C base (k x (withProviderState st c)))
   \<Longrightarrow> sealedCalls C base c \<Longrightarrow> sealedCalls C base (cryptoOrFail E f k c)"
  by (simp add: cryptoOrFail_def Let_def seal_simps split: sum.split)

lemma sealed_requireSession [seal_simps]:
  "sealedCalls C base (k c) \<Longrightarrow> sealedCalls C base c \<Longrightarrow> sealedCalls C base (requireSession E k c)"
  by (simp add: requireSession_def seal_simps)

lemma sealedDraft_draftFor:
  "fst (cp_encrypt C u dev b t d) = Inr payload \<Longrightarrow> verifiedBundle C b
   \<Longrightarrow> sealedDraft C (draftFor c r i (ep_wirePayloadJson payload))"
  unfolding sealedDraft_def draftFor_def by (metis (no_types, lifting) LocalMessage.select_convs(6) prod.collapse)

lemma sealed_useBundle:
  "sealedCalls C base c \<Longrightarrow> (\<And>b. r = Inr b \<Longrightarrow> verifiedBundle C b) \<Longrightarrow> sealedCalls C base (useBundle E C u r c)"
  by (cases u) (auto simp: encryptAndIssue_def sealedDraft_draftFor seal_simps
      intro!: sealed_cryptoOrFail split: sum.split)

lemma sealed_useBundle_Inl [seal_simps]: "sealedCalls C base c \<Longrightarrow> sealedCalls C base (useBundle E C u (Inl e) c)"
  by (rule sealed_useBundle) simp_all

lemma sealed_useBundle_Inr [seal_simps]:
  "sealedCalls C base c \<Longrightarrow> verifiedBundle C b \<Longrightarrow> sealedCalls C base (useBundle E C u (Inr b) c)"
  by (rule sealed_useBundle) simp_all

lemma sealed_trustedBundle [seal_simps]:
  assumes "sealedCalls C base c"
  shows "sealedCalls C base (trustedBundle E C u d k c)"
proof -
  have "cachedBundle u d c = Inr b \<Longrightarrow> verifiedBundle C b" for b
    using assms by (auto simp: cachedBundle_def sealedCalls_def split: option.splits if_splits)
  with assms show ?thesis
    by (auto simp: trustedBundle_def seal_simps split: sum.split option.split)
qed

lemma verifiedBundle_I: "cp_verifySignedPreKey C b = Inr x \<Longrightarrow> verifiedBundle C b"
  by (auto simp: verifiedBundle_def)

lemma sealed_saveMessages [seal_simps]: "sealedCalls C base c \<Longrightarrow> sealedCalls C base (saveMessages E ms c)"
  by (induction ms arbitrary: c) (simp_all add: seal_simps)

lemma sealed_upload [seal_simps]: "sealedCalls C base c \<Longrightarrow> sealedCalls C base (uploadOneTimePreKeys E C c)"
  by (simp add: uploadOneTimePreKeys_def Let_def seal_simps split: sum.split)

lemma sealed_ensure [seal_simps]: "sealedCalls C base c \<Longrightarrow> sealedCalls C base (ensureDeviceKeysUploaded E C c)"
  by (simp add: ensureDeviceKeysUploaded_def Let_def seal_simps split: sum.split)

lemma sealed_trustBundle: "sealedCalls C base c \<Longrightarrow> sealedCalls C base (trustBundleReply E C a r c)"
  by (auto simp: trustBundleReply_def seal_simps Let_def verifiedBundle_I split: sum.split option.split
      intro!: sealed_orFail [THEN iffD2] sealed_storeOrFail)

lemma sealed_pinnedBundle: "sealedCalls C base c \<Longrightarrow> sealedCalls C base (pinnedBundleReply E C p k r c)"
  by (auto simp: pinnedBundleReply_def seal_simps verifiedBundle_I split: sum.split)

lemma sealed_deliver: "sealedCalls C base c \<Longrightarrow> sealedCalls C base (deliver E C k r c)"
  by (cases k; cases r)
    (simp_all add: deliver_def sealed_trustBundle sealed_pinnedBundle,
     simp_all add: reply_defs upsertReply_def uploadReply_def seal_simps Let_def split: sum.split option.split)

lemma sealed_sendMessage [seal_simps]: "sealedCalls C base c \<Longrightarrow> sealedCalls C base (sendMessage E u b c)"
  by (simp add: sendMessage_def send_def seal_simps)

lemma sealed_handleCommand [seal_simps]: "sealedCalls C base c \<Longrightarrow> sealedCalls C base (handleCommand E C' command c)"
  by (cases "cmd_type command")
    (simp_all add: handleCommand_def listConversations_def listUnreadSenders_def listReceived_def
      listSent_def readCommand_def openConversation_def readConversation_def forward_def logout_def
      withOne_def revoke_def deleteMessage_def download_def trustUsername_def verify_def Let_def
      seal_simps split: list.split option.split sum.split)

lemma sealed_argumentCount [seal_simps]:
  "sealedCalls C base (k c) \<Longrightarrow> sealedCalls C base c \<Longrightarrow> sealedCalls C base (commandHasArgumentCount E command lo hi k c)"
  by (simp add: commandHasArgumentCount_def Let_def seal_simps)

lemma sealed_handleLine: "sealedCalls C base c \<Longrightarrow> sealedCalls C base (handleLine E C' line c)"
  by (cases "rt_inputMode (cl_router c)")
    (simp_all add: handleLine_def handleCommandMode_def handleRegisterPassword_def
      handleLoginPassword_def handleMessageComposition_def submitComposedMessage_def
      cancelComposition_def controllerRegister_def controllerLogin_def registerUser_def login_def
      routeCommand_def handleMsgCommand_def handleSendCommand_def openConversation_def
      readConversation_def startComposition_def beginMessageComposition_def
      Let_def seal_simps split: sum.split)

lemma sealed_step: "client_step C c c' \<Longrightarrow> sealedCalls C [] c \<Longrightarrow> sealedCalls C [] c'"
proof (erule client_stepE)
  assume "answers C c c'" "sealedCalls C [] c"
  then show "sealedCalls C [] c'"
  proof (elim answersE)
    fix xs ys req k r and E :: env
    assume "sealedCalls C [] c" "cl_pending c = xs @ Call req k # ys" and c': "c' = deliver E C k r (c\<lparr>cl_pending := xs @ ys\<rparr>)"
    then have "sealedCalls C [] (c\<lparr>cl_pending := xs @ ys\<rparr>)" by (auto simp: sealedCalls_def)
    then show ?thesis by (simp add: c' sealed_deliver)
  qed
qed (simp_all add: sealed_handleLine updateTokens_def Let_def seal_simps split: option.split)

lemma sealed_start: "startingClient c \<Longrightarrow> sealedCalls C [] c"
  by (auto simp: startingClient_def sealedCalls_def newClient_def)

lemma sealed_reachable: "reachable C c \<Longrightarrow> sealedCalls C [] c"
  using sealed_start sealed_step by (rule clients.invariant)

section \<open>Pages\<close>

lemma pageOf_take:
  assumes "1 \<le> i"
  shows "pageOf (int i) ms = take 10 (drop (10 * (i - 1)) ms)"
proof -
  obtain j where i: "i = Suc j" using assms by (cases i) auto
  let ?e = "min (int (10 * j) + 10) (int (length ms))"
  have "pageOf (int i) ms = map (\<lambda>i. ms ! nat i) [int (10 * j)..?e - 1]"
    by (simp add: pageOf_def Paging_ConversationPageSize_def Let_def i algebra_simps)
  also have "[int (10 * j)..?e - 1] = map int [10 * j..<min (10 * j + 10) (length ms)]"
  proof (rule nth_equalityI)
    show "length [int (10 * j)..?e - 1] = length (map int [10 * j..<min (10 * j + 10) (length ms)])" by simp
  next
    fix k assume k: "k < length [int (10 * j)..?e - 1]"
    then have "[int (10 * j)..?e - 1] ! k = int (10 * j) + int k" by (intro nth_upto) auto
    moreover from k have "[10 * j..<min (10 * j + 10) (length ms)] ! k = 10 * j + k" by (intro nth_upt) auto
    ultimately show "[int (10 * j)..?e - 1] ! k = map int [10 * j..<min (10 * j + 10) (length ms)] ! k"
      using k by (simp add: nth_map)
  qed
  also have "map (\<lambda>i. ms ! nat i) (map int [10 * j..<min (10 * j + 10) (length ms)])
      = map (nth ms) [10 * j..<min (10 * j + 10) (length ms)]" by (simp add: comp_def)
  also have "\<dots> = take 10 (drop (10 * j) ms)"
  proof (rule nth_equalityI)
    fix k assume "k < length (map (nth ms) [10 * j..<min (10 * j + 10) (length ms)])"
    then have "10 * j + k < length ms" "k < 10" "10 * j + k < min (10 * j + 10) (length ms)" by auto
    then show "map (nth ms) [10 * j..<min (10 * j + 10) (length ms)] ! k = take 10 (drop (10 * j) ms) ! k"
      by simp
  qed auto
  finally show ?thesis by (simp add: i)
qed

lemma chunks: "concat (map (\<lambda>i. take k (drop (k * i) xs)) [0..<n]) = take (k * n) xs"
proof (induction n)
  case (Suc n)
  have "take (k * Suc n) xs = take (k * n) xs @ take k (drop (k * n) xs)"
    by (metis add.commute mult_Suc_right take_add)
  with Suc show ?case by simp
qed simp

lemma pages_cover_aux:
  "concat (map (\<lambda>i. pageOf (int i) ms) [1..<Suc (nat (pageCountFor ms))]) = ms"
proof -
  let ?n = "nat (pageCountFor ms)"
  have "map (\<lambda>i. pageOf (int i) ms) [1..<Suc ?n] = map (\<lambda>i. take 10 (drop (10 * i) ms)) [0..<?n]"
    by (rule nth_equalityI) (simp_all add: pageOf_take [of "Suc _", simplified] del: upt_Suc)
  moreover have "length ms \<le> 10 * ?n"
    by (simp add: pageCountFor_def Paging_ConversationPageSize_def)
  ultimately show ?thesis by (simp add: chunks)
qed

section \<open>File names\<close>

lemma safeMessageId_chars: "list_all idCharacter (safeMessageId s)"
  by (induction s rule: safeMessageId.induct) (auto simp: idCharacter_def)

end
