(* ===== verification/StoreViews.thy ===== *)
theory StoreViews
  imports Client
begin

text \<open>
  What a client leaves alone. A view of the store is any part of it that the store's operations
  other than pinning and switching accounts keep; the locale \<open>store_view\<close> states that, and
  shows that whatever is typed and whatever a gateway answers keeps the view, except the
  answers to a login and to /trust. A view that pinning keeps too (\<open>closed_view\<close>) only changes
  in a login. Interpreted on the trust pins, on all files but the current one, and on the
  settings of the store.
\<close>

named_theorems view_simps \<open>what an operation of the client does to a view of the store\<close>

section \<open>Views of the store\<close>

locale store_view =
  fixes view :: "local_store \<Rightarrow> 'v"
  assumes view_session: "view (snd (saveSession (E :: 'x env_scheme) x s)) = view s"
    and view_clearSession: "view (snd (clearSession (E :: 'x env_scheme) s)) = view s"
    and view_device: "view (snd (saveDeviceKeys (E :: 'x env_scheme) m s)) = view s"
    and view_preKeys: "view (snd (saveOneTimePreKeys (E :: 'x env_scheme) ks s)) = view s"
    and view_user: "view (snd (saveKnownUser (E :: 'x env_scheme) a s)) = view s"
    and view_message: "view (snd (saveMessage (E :: 'x env_scheme) msg s)) = view s"
    and view_deleted: "view (snd (markMessageDeletedFor (E :: 'x env_scheme) u i s)) = view s"
    and view_reconcile: "view (snd (reconcileVisibleMessages (E :: 'x env_scheme) u d ids s)) = view s"
    and view_read: "view (snd (markConversationRead (E :: 'x env_scheme) u p s)) = view s"
    and view_passphrase: "view (clearSecretPassphrase s) = view s"
    and view_draws: "view (s\<lparr>ls_draws := n\<rparr>) = view s"
begin

lemmas view_store [view_simps] = view_session view_clearSession view_device view_preKeys view_user view_message
  view_deleted view_reconcile view_read view_passphrase

lemma view_provider [view_simps]: "view (cl_store (withProviderState st c)) = view (cl_store c)"
  by (simp add: withProviderState_def view_draws)

lemma view_simple [view_simps]:
  "view (cl_store (status E i tx vs c)) = view (cl_store c)" "view (cl_store (onRouter f c)) = view (cl_store c)"
  by (simp_all add: status_def onRouter_def)

lemma view_orFail [view_simps]:
  "(\<And>x. view (cl_store (k x c)) = view (cl_store c)) \<Longrightarrow> view (cl_store (orFail (E :: 'x env_scheme) r k c)) = view (cl_store c)"
  by (simp add: orFail_def split: sum.split)

lemma view_storeOrFail [view_simps]:
  assumes "view (snd (f (cl_store c))) = view (cl_store c)"
    and "\<And>x c1. view (cl_store c1) = view (cl_store c) \<Longrightarrow> view (cl_store (k x c1)) = view (cl_store c)"
  shows "view (cl_store (storeOrFail (E :: 'x env_scheme) f k c)) = view (cl_store c)"
  using assms by (simp add: storeOrFail_def orFail_def Let_def split: sum.split)

lemma view_cryptoOrFail [view_simps]:
  assumes "\<And>x c1. view (cl_store c1) = view (cl_store c) \<Longrightarrow> view (cl_store (k x c1)) = view (cl_store c)"
  shows "view (cl_store (cryptoOrFail (E :: 'x env_scheme) f k c)) = view (cl_store c)"
  using assms by (simp add: cryptoOrFail_def view_simps Let_def split: sum.split)

lemma view_requireSession [view_simps]:
  "(\<And>c. view (cl_store (k c)) = view (cl_store c)) \<Longrightarrow> view (cl_store (requireSession (E :: 'x env_scheme) k c)) = view (cl_store c)"
  by (simp add: requireSession_def)

lemma view_useBundle [view_simps]: "view (cl_store (useBundle (E :: 'x env_scheme) C u r c)) = view (cl_store c)"
  by (cases u) (simp_all add: encryptAndIssue_def view_simps)

lemma view_trustedBundle [view_simps]: "view (cl_store (trustedBundle (E :: 'x env_scheme) C u d k c)) = view (cl_store c)"
  by (simp add: trustedBundle_def view_simps split: sum.split option.split)

lemma view_saveMessages [view_simps]: "view (cl_store (saveMessages (E :: 'x env_scheme) ms c)) = view (cl_store c)"
  by (induction ms arbitrary: c) (simp_all add: view_simps)

lemma view_saveAndReconcile [view_simps]: "view (cl_store (saveAndReconcileMessages (E :: 'x env_scheme) ms d c)) = view (cl_store c)"
  by (simp add: saveAndReconcileMessages_def Let_def view_simps)

lemma view_upload [view_simps]: "view (cl_store (uploadOneTimePreKeys (E :: 'x env_scheme) C c)) = view (cl_store c)"
  by (simp add: uploadOneTimePreKeys_def Let_def view_simps split: sum.split)

lemma view_ensure [view_simps]: "view (cl_store (ensureDeviceKeysUploaded (E :: 'x env_scheme) C c)) = view (cl_store c)"
  by (simp add: ensureDeviceKeysUploaded_def Let_def view_simps split: sum.split)

lemma view_deliver:
  assumes "\<And>p. k \<noteq> OnLogin p" "\<And>a. k \<noteq> OnTrustBundle a"
  shows "view (cl_store (deliver (E :: 'x env_scheme) C k r c)) = view (cl_store c)"
  using assms
  by (cases k; cases r)
    (simp_all add: deliver_def reply_defs upsertReply_def uploadReply_def view_simps Let_def
      split: sum.split option.split)

lemma view_updateTokens: "view (cl_store (updateTokens (E :: 'x env_scheme) tokens c)) = view (cl_store c)"
  by (simp add: updateTokens_def Let_def view_simps split: option.split)

lemma view_sendMessage [view_simps]: "view (cl_store (sendMessage (E :: 'x env_scheme) u b c)) = view (cl_store c)"
  by (simp add: sendMessage_def send_def view_simps)

lemma view_handleCommand [view_simps]: "view (cl_store (handleCommand (E :: 'x env_scheme) C command c)) = view (cl_store c)"
  by (cases "cmd_type command")
    (simp_all add: handleCommand_def listConversations_def listUnreadSenders_def listReceived_def
      listSent_def readCommand_def openConversation_def readConversation_def forward_def logout_def
      withOne_def revoke_def deleteMessage_def download_def trustUsername_def verify_def Let_def
      view_simps split: list.split option.split sum.split)

lemma view_argumentCount [view_simps]:
  "view (cl_store (k c)) = view (cl_store c)
   \<Longrightarrow> view (cl_store (commandHasArgumentCount (E :: 'x env_scheme) command lo hi k c)) = view (cl_store c)"
  by (simp add: commandHasArgumentCount_def Let_def)

lemma view_handleLine: "view (cl_store (handleLine (E :: 'x env_scheme) C line c)) = view (cl_store c)"
  by (cases "rt_inputMode (cl_router c)")
    (simp_all add: handleLine_def handleCommandMode_def handleRegisterPassword_def
      handleLoginPassword_def handleMessageComposition_def submitComposedMessage_def
      cancelComposition_def controllerRegister_def controllerLogin_def registerUser_def login_def
      routeCommand_def handleMsgCommand_def handleSendCommand_def openConversation_def
      readConversation_def startComposition_def beginMessageComposition_def
      Let_def view_simps split: sum.split)

end

locale closed_view = store_view +
  assumes view_pin: "view (snd (saveTrustPin (E :: 'x env_scheme) pin s)) = view s"
begin

lemma view_trustBundle: "view (cl_store (trustBundleReply (E :: 'x env_scheme) C a r c)) = view (cl_store c)"
  by (simp add: trustBundleReply_def Let_def view_simps view_pin split: sum.split option.split)

lemma view_answer:
  assumes "\<And>p. k \<noteq> OnLogin p"
  shows "view (cl_store (deliver (E :: 'x env_scheme) C k r c)) = view (cl_store c)"
proof (cases "\<exists>a. k = OnTrustBundle a")
  case True
  then show ?thesis by (cases r) (auto simp: deliver_def view_trustBundle)
qed (use assms view_deliver in blast)

end

text \<open>What also survives the switch to an account's file, up to the switch itself.\<close>

locale switched_view = closed_view +
  assumes view_reload: "view (snd (reload (E :: 'x env_scheme) s)) = view s"
    and view_setPassphrase: "view (setSecretPassphrase p s) = view s"
begin

lemma view_startSession:
  "view (cl_store (storeOrFail (E :: 'x env_scheme) (reload E)
     (\<lambda>_ c. storeOrFail E (saveSession E session) (\<lambda>_. emitSessionStarted E C user) (c\<lparr>cl_session := m\<rparr>)) c))
   = view (cl_store c)"
  by (simp add: emitSessionStarted_def view_simps view_reload)

lemma view_login:
  "view (cl_store (loginReply (E :: 'x env_scheme) C password r c)) =
     (case r of
        Inr session \<Rightarrow>
          if cl_accountScopedState c
          then view (snd (useAccountScopedPath E (up_id (as_user session)) True (setSecretPassphrase password (cl_store c))))
          else view (cl_store c)
      | Inl _ \<Rightarrow> view (cl_store c))"
proof (cases r)
  case (Inr session)
  show ?thesis
  proof (cases "cl_accountScopedState c")
    case True
    obtain res s where u: "useAccountScopedPath E (up_id (as_user session)) True (setSecretPassphrase password (cl_store c)) = (res, s)"
      by fastforce
    with True Inr show ?thesis
      by (cases res) (simp_all add: loginReply_def Let_def orFail_def storeOrFail_def [of E "useAccountScopedPath _ _ _"] view_startSession)
  next
    case False
    with Inr show ?thesis
      by (simp add: loginReply_def Let_def orFail_def view_startSession view_setPassphrase)
  qed
qed (simp add: loginReply_def orFail_def)

end

section \<open>The views of this store\<close>

lemma save_keeps [simp]:
  "ls_path (snd (save E s)) = ls_path s" "ls_indexPath (snd (save E s)) = ls_indexPath s"
  "ls_secretProtectionRequired (snd (save E s)) = ls_secretProtectionRequired s"
  by (simp_all add: save_def writeFile_def Let_def split: prod.split sum.split)

lemma save_elsewhere [simp]: "ls_path s = p \<Longrightarrow> (ls_files (snd (save E s)))(p := x) = (ls_files s)(p := x)"
  by (auto simp add: save_def writeFile_def Let_def split: prod.split sum.split)

lemmas operation_defs = saveSession_def clearSession_def saveDeviceKeys_def saveOneTimePreKeys_def
  saveKnownUser_def saveMessage_def markMessageDeletedFor_def reconcileVisibleMessages_def
  markConversationRead_def clearSecretPassphrase_def setSecretPassphrase_def saveTrustPin_def

interpretation pinned: store_view ls_trustPins
  by unfold_locales (simp_all add: operation_defs Let_def)

text \<open>All files but the current one, and the two paths of the store.\<close>

definition otherFiles :: "local_store \<Rightarrow> qstring \<times> qstring \<times> (qstring \<Rightarrow> json_obj option)" where
  "otherFiles s = (ls_path s, ls_indexPath s, (ls_files s)(ls_path s := None))"

lemma load_keeps:
  "ls_path (snd (load E s)) = ls_path s" "ls_indexPath (snd (load E s)) = ls_indexPath s"
  "ls_files (snd (load E s)) = ls_files s"
  "ls_secretProtectionRequired (snd (load E s)) = ls_secretProtectionRequired s"
  by (simp_all add: load_def clearMemory_def readState_def Let_def split: option.split sum.split)

interpretation elsewhere: switched_view otherFiles
  by unfold_locales (simp_all add: operation_defs otherFiles_def reload_def load_keeps Let_def)

interpretation settings: switched_view ls_secretProtectionRequired
  by unfold_locales (simp_all add: operation_defs reload_def load_keeps Let_def)

section \<open>Trust pins\<close>

lemma trustPin_of_pins:
  "trustPin u d (cl_store c) = Inr (find (\<lambda>p. tp_userId p = u \<and> tp_deviceId p = d) (ls_trustPins (cl_store c)))"
  by (simp add: trustPin_def)

lemma orFail_trustPin:
  "orFail E (trustPin u d s) k c = k (find (\<lambda>p. tp_userId p = u \<and> tp_deviceId p = d) (ls_trustPins s)) c"
  by (simp add: orFail_def trustPin_def)

text \<open>The only write of a pin: an address without one.\<close>

lemma pins_trustBundle:
  "ls_trustPins (cl_store (trustBundleReply E C a r c)) = ls_trustPins (cl_store c)
   \<or> (\<exists>b. r = Inr b \<and> trustPin (ua_userId a) (ua_deviceId a) (cl_store c) = Inr None
        \<and> ls_trustPins (cl_store (trustBundleReply E C a r c)) = ls_trustPins (snd (saveTrustPin E
             \<lparr>tp_userId = ua_userId a, tp_deviceId = ua_deviceId a, tp_identityKey = pkb_identityKey b,
              tp_firstSeenAt = env_now E\<rparr> (cl_store c))))"
  by (auto simp: trustBundleReply_def orFail_def storeOrFail_def trustPin_def view_simps Let_def
      split: sum.splits option.splits)

lemma pin_kept_by_deliver:
  assumes "trustPin u d (cl_store c) = Inr (Some pin)" and "\<And>p. k \<noteq> OnLogin p"
  shows "trustPin u d (cl_store (deliver E C k r c)) = Inr (Some pin)"
proof (cases "\<exists>a b. k = OnTrustBundle a \<and> r = BundleReply b")
  case False
  then have "ls_trustPins (cl_store (deliver E C k r c)) = ls_trustPins (cl_store c)"
  proof (cases "\<exists>a. k = OnTrustBundle a")
    case True
    with False show ?thesis by (cases r) (auto simp: deliver_def)
  qed (use assms(2) pinned.view_deliver in blast)
  with assms(1) show ?thesis by (simp only: trustPin_of_pins)
next
  case True
  then obtain a b where k: "k = OnTrustBundle a" and r: "r = BundleReply b" by blast
  then have d: "deliver E C k r c = trustBundleReply E C a b c" by (simp add: deliver_def)
  from pins_trustBundle [of E C a b c] show ?thesis
  proof (elim disjE exE conjE)
    assume "ls_trustPins (cl_store (trustBundleReply E C a b c)) = ls_trustPins (cl_store c)"
    with assms(1) show ?thesis by (simp only: trustPin_of_pins d)
  next
    fix newer
    let ?new = "\<lparr>tp_userId = ua_userId a, tp_deviceId = ua_deviceId a, tp_identityKey = pkb_identityKey newer,
              tp_firstSeenAt = env_now E\<rparr>"
    assume n: "trustPin (ua_userId a) (ua_deviceId a) (cl_store c) = Inr None"
      and p: "ls_trustPins (cl_store (trustBundleReply E C a b c)) = ls_trustPins (snd (saveTrustPin E ?new (cl_store c)))"
    have "(u, d) \<noteq> pinKey ?new" using n assms(1) by auto
    then have "find (\<lambda>e. pinKey e = (u, d)) (ls_trustPins (snd (saveTrustPin E ?new (cl_store c))))
        = find (\<lambda>e. pinKey e = (u, d)) (ls_trustPins (cl_store c))"
      by (intro pins.lookup_other) simp_all
    with assms(1) show ?thesis by (simp add: trustPin_def p d)
  qed
qed

end
