(* ===== verification/SampleClient.thy ===== *)
theory SampleClient
  imports StoreViews
begin

text \<open>
  A client to exercise the theorems on: logged in, with one trust pin and a crypto provider that
  encrypts by tagging the plaintext, and its state after the command /sync.
\<close>

text \<open>A provider that encrypts by tagging the plaintext and accepts every signature.\<close>

definition sampleCrypto :: crypto_provider where
  "sampleCrypto =
    \<lparr>cp_loadOrCreateDevice = (\<lambda>d i st. (Inr (d\<lparr>dk_deviceId := i\<rparr>), st)),
     cp_createOneTimePreKeys = (\<lambda>i k st. (Inr [], st)),
     cp_verifySignedPreKey = (\<lambda>b. Inr True),
     cp_encrypt = (\<lambda>u d b t st. (Inr \<lparr>ep_wirePayloadJson = Q ''sealed:'' @ t, ep_consumedOneTimePreKeyId = None\<rparr>, st)),
     cp_decrypt = (\<lambda>u d m k. Inr (drop 7 (lm_wirePayloadJson m)))\<rparr>"

definition sampleConfig :: StartupConfig where
  "sampleConfig = \<lparr>sc_mode = Mock, sc_apiUrl = [], sc_deviceId = 1, sc_statePath = Q ''/state/index'',
     sc_statePathExplicit = False, sc_showRawErrors = False\<rparr>"

definition samplePin :: TrustPin where
  "samplePin = \<lparr>tp_userId = Q ''bob'', tp_deviceId = 1, tp_identityKey = Q ''K'', tp_firstSeenAt = Instant 1\<rparr>"

definition sampleBundle :: "qstring \<Rightarrow> PreKeyBundle" where
  "sampleBundle key = \<lparr>pkb_userId = Q ''bob'', pkb_registrationId = 1, pkb_deviceId = 1, pkb_identityKey = key,
     pkb_identitySigningKey = [], pkb_signedPreKeyId = 1, pkb_signedPreKey = [], pkb_signedPreKeySignature = [],
     pkb_oneTimePreKeyId = None, pkb_oneTimePreKey = []\<rparr>"

definition bobsAddress :: UserAddress where
  "bobsAddress = \<lparr>ua_userId = Q ''bob'', ua_username = Q ''bob'', ua_deviceId = 1\<rparr>"

definition sampleClient :: client where
  "sampleClient = newClient sampleEnv sampleConfig
     ((sampleStore [])\<lparr>ls_session := sampleSession, ls_hasSession := True, ls_trustPins := [samplePin]\<rparr>)"

lemma sampleClient_reachable: "reachable C sampleClient"
  unfolding sampleClient_def by (rule reachable.Start)

lemma sampleClient_fields [simp]:
  "cl_session sampleClient = Some sampleSession" "cl_pending sampleClient = []"
  "cl_router sampleClient = newRouter"
  by (simp_all add: sampleClient_def newClient_def startingSession_def loadSession_def)

lemma sampleClient_pins: "ls_trustPins (cl_store sampleClient) = [samplePin]"
  by (simp add: sampleClient_def newClient_def startingSession_def loadSession_def)

lemma parse_sync:
  "parseCommand sampleEnv (Q ''/sync'') = Inr \<lparr>cmd_type = Sync, cmd_name = Q ''sync'', cmd_arguments = [], cmd_originalLine = Q ''/sync''\<rparr>"
proof -
  have "lower_ascii sampleEnv" by (simp add: lower_ascii_def sampleEnv_def)
  moreover have "commandLine Sync [] = Q ''/sync''"
    by (simp add: commandLine_def commandTypeName_def commandLookup_def const_defs quotedArguments_def Q_def)
  moreover have "commandTypeName Sync = Q ''sync''"
    by (simp add: commandTypeName_def commandLookup_def const_defs)
  ultimately show ?thesis using parse_commandLine_aux [of sampleEnv "[]" Sync] by simp
qed

lemma syncing_reachable:
  "\<exists>c. reachable C c \<and> rt_operationInProgress (cl_router c) \<and> c = handleLine sampleEnv C (Q ''/sync'') sampleClient"
proof (intro exI conjI)
  show "reachable C (handleLine sampleEnv C (Q ''/sync'') sampleClient)"
    by (rule reachable.Step [OF sampleClient_reachable client_step.Typed])
  have "trimmed (Q ''/sync'') \<noteq> []" by (simp add: trimmed_eq_Nil) (simp add: Q_def isSpace_def)
  then show "rt_operationInProgress (cl_router (handleLine sampleEnv C (Q ''/sync'') sampleClient))"
    by (simp add: handleLine_def handleCommandMode_def newRouter_def parse_sync routeCommand_def
        zeroArgumentCommands_def commandHasArgumentCount_def handleCommand_def listReceived_def
        requireSession_def isLoggedIn_def)
qed simp

lemma syncing_pending:
  "cl_pending (handleLine sampleEnv C (Q ''/sync'') sampleClient) = [Call (ListReceived (Q ''t'')) OnReceived]"
proof -
  have "trimmed (Q ''/sync'') \<noteq> []" by (simp add: trimmed_eq_Nil) (simp add: Q_def isSpace_def)
  then show ?thesis
    by (simp add: handleLine_def handleCommandMode_def newRouter_def parse_sync routeCommand_def
        zeroArgumentCommands_def commandHasArgumentCount_def handleCommand_def listReceived_def
        requireSession_def isLoggedIn_def accessToken_def sampleSession_def)
qed

end
