(* ===== verification/Accounts.thy ===== *)
theory Accounts
  imports SampleClient
begin

text \<open>
  Accounts on one machine. In the real mode every account has a state file of its own, next to
  the index file that remembers the last one. Which of them a step of a client writes (the
  property is in theory Disclosure, beside the files a download writes), and which part of the
  account before has no influence on the client after a login.
\<close>

section \<open>Which files a step writes\<close>

lemma otherFiles_apply: "otherFiles s = otherFiles t \<Longrightarrow> f \<noteq> ls_path t \<Longrightarrow> ls_files s f = ls_files t f"
  by (simp add: otherFiles_def fun_eq_iff) metis

lemma otherFiles_paths: "otherFiles s = otherFiles t \<Longrightarrow> ls_path s = ls_path t \<and> ls_indexPath s = ls_indexPath t"
  by (simp add: otherFiles_def)

lemma useAccountScopedPath_files:
  "f \<noteq> ls_indexPath s \<Longrightarrow> ls_files (snd (useAccountScopedPath E u remember s)) f = ls_files s f"
  "ls_indexPath (snd (useAccountScopedPath E u remember s)) = ls_indexPath s"
  "ls_secretProtectionRequired (snd (useAccountScopedPath E u remember s)) = ls_secretProtectionRequired s"
  by (auto simp: useAccountScopedPath_def rememberLastAccountId_def writeFile_def Let_def split: prod.split sum.split)

lemma otherFiles_passphrase: "otherFiles (setSecretPassphrase p s) = otherFiles s"
  by (rule elsewhere.view_setPassphrase)

lemma login_files:
  assumes "f \<noteq> ls_indexPath (cl_store c)" "f \<noteq> ls_path (cl_store (loginReply E C password r c))"
  shows "ls_files (cl_store (loginReply E C password r c)) f = ls_files (cl_store c) f"
    and "ls_indexPath (cl_store (loginReply E C password r c)) = ls_indexPath (cl_store c)"
proof -
  let ?c = "loginReply E C password r c"
  define t where "t = (case r of
      Inr session \<Rightarrow> if cl_accountScopedState c
        then snd (useAccountScopedPath E (up_id (as_user session)) True (setSecretPassphrase password (cl_store c)))
        else cl_store c
    | Inl _ \<Rightarrow> cl_store c)"
  have view: "otherFiles (cl_store ?c) = otherFiles t"
    by (simp add: elsewhere.view_login t_def split: sum.split)
  have t: "ls_files t f = ls_files (cl_store c) f" "ls_indexPath t = ls_indexPath (cl_store c)"
    using assms(1)
    by (auto simp: t_def useAccountScopedPath_files setSecretPassphrase_def split: sum.split)
  from otherFiles_paths [OF view] assms(2) t(2) show "ls_indexPath (cl_store ?c) = ls_indexPath (cl_store c)" by simp
  have "f \<noteq> ls_path t" using otherFiles_paths [OF view] assms(2) by simp
  then show "ls_files (cl_store ?c) f = ls_files (cl_store c) f"
    using otherFiles_apply [OF view] t(1) by simp
qed

text \<open>A step is the answer to a login, or one that keeps every view that pinning keeps.\<close>

lemma client_step_cases:
  assumes "client_step C c c'"
  obtains (login) E p r xs ys req where "cl_pending c = xs @ Call req (OnLogin p) # ys"
      "c' = loginReply (E :: env) C p r (c\<lparr>cl_pending := xs @ ys\<rparr>)"
    | (answer) E k r cs where "\<And>p. k \<noteq> OnLogin p" "c' = deliver (E :: env) C k r (c\<lparr>cl_pending := cs\<rparr>)"
    | (line) E l where "c' = handleLine (E :: env) C l c"
    | (tokens) E t where "c' = updateTokens (E :: env) t c"
  using assms
proof (cases rule: client_step.cases)
  case Answered
  then show thesis
  proof (rule answersE)
    fix xs ys req k r and E :: env
    assume p: "cl_pending c = xs @ Call req k # ys" "fits k r" "c' = deliver E C k r (c\<lparr>cl_pending := xs @ ys\<rparr>)"
    show thesis
    proof (cases "\<exists>pw. k = OnLogin pw")
      case True
      with p(2) obtain pw s where k: "k = OnLogin pw" "r = SessionReply s" by (cases r) (auto simp: fits_def)
      have "c' = loginReply E C pw s (c\<lparr>cl_pending := xs @ ys\<rparr>)" using p(3) k by (simp add: deliver_def)
      with p(1) k(1) show thesis by (intro login) simp_all
    qed (use p(3) answer in blast)
  qed
qed (use line tokens in blast)+

lemma step_settings:
  assumes "client_step C c c'"
  shows "ls_secretProtectionRequired (cl_store c') = ls_secretProtectionRequired (cl_store c)"
  using assms
  by (cases rule: client_step_cases)
    (simp_all add: settings.view_answer settings.view_handleLine settings.view_updateTokens settings.view_login
      useAccountScopedPath_files settings.view_setPassphrase split: sum.split)

lemma step_files:
  assumes "client_step C c c'" and "f \<noteq> ls_indexPath (cl_store c)" and "f \<noteq> ls_path (cl_store c')"
  shows "ls_files (cl_store c') f = ls_files (cl_store c) f \<and> ls_indexPath (cl_store c') = ls_indexPath (cl_store c)"
  using assms(1)
proof (cases rule: client_step_cases)
  case (login E p r xs ys req)
  with assms(2,3) login_files [of f "c\<lparr>cl_pending := xs @ ys\<rparr>" E C p r] show ?thesis by simp
next
  case (answer E k r cs)
  then have "otherFiles (cl_store c') = otherFiles (cl_store c)" by (simp add: elsewhere.view_answer)
  with assms(3) show ?thesis by (metis otherFiles_apply otherFiles_paths)
next
  case (line E l)
  then have "otherFiles (cl_store c') = otherFiles (cl_store c)" by (simp add: elsewhere.view_handleLine)
  with assms(3) show ?thesis by (metis otherFiles_apply otherFiles_paths)
next
  case (tokens E t)
  then have "otherFiles (cl_store c') = otherFiles (cl_store c)" by (simp add: elsewhere.view_updateTokens)
  with assms(3) show ?thesis by (metis otherFiles_apply otherFiles_paths)
qed

text \<open>The step that moves a client to the state file of an account: a login that succeeds.\<close>

definition switchesAccount :: "crypto_provider \<Rightarrow> client \<Rightarrow> client \<Rightarrow> bool" where
  "switchesAccount C c c' \<longleftrightarrow> cl_accountScopedState c
     \<and> (\<exists>E xs req password ys session.
          cl_pending c = xs @ Call req (OnLogin password) # ys
          \<and> c' = deliver (E :: env) C (OnLogin password) (SessionReply (Inr session)) (c\<lparr>cl_pending := xs @ ys\<rparr>)
          \<and> ls_path (cl_store c') = ls_path (snd (useAccountScopedPath E (up_id (as_user session)) True (cl_store c))))"

lemma useAccountScopedPath_path:
  "ls_path (snd (useAccountScopedPath E u remember (setSecretPassphrase p s)))
    = ls_path (snd (useAccountScopedPath E u remember s))"
  by (simp add: useAccountScopedPath_def rememberLastAccountId_def setSecretPassphrase_def writeFile_def Let_def
      split: prod.split sum.split)

lemma step_path:
  assumes "client_step C c c'"
  shows "ls_path (cl_store c') = ls_path (cl_store c) \<or> switchesAccount C c c'"
  using assms
proof (cases rule: client_step_cases)
  case (login E p r xs ys req)
  let ?c = "c\<lparr>cl_pending := xs @ ys\<rparr>"
  have c': "c' = deliver E C (OnLogin p) (SessionReply r) ?c" using login(2) by (simp add: deliver_def)
  show ?thesis
  proof (cases "cl_accountScopedState c \<and> (\<exists>session. r = Inr session)")
    case True
    then obtain session where r: "r = Inr session" by blast
    have "otherFiles (cl_store c') = otherFiles (snd (useAccountScopedPath E (up_id (as_user session)) True
        (setSecretPassphrase p (cl_store c))))"
      using True r elsewhere.view_login [of E C p r ?c] by (simp add: login(2))
    from otherFiles_paths [OF this]
    have "ls_path (cl_store c') = ls_path (snd (useAccountScopedPath E (up_id (as_user session)) True (cl_store c)))"
      by (simp add: useAccountScopedPath_path)
    with True login(1) c' r have "switchesAccount C c c'" unfolding switchesAccount_def by blast
    then show ?thesis ..
  next
    case False
    then have "otherFiles (cl_store c') = otherFiles (cl_store c)"
      using elsewhere.view_login [of E C p r ?c] by (auto simp: login(2) split: sum.splits)
    then show ?thesis using otherFiles_paths by blast
  qed
next
  case (answer E k r cs)
  then have "otherFiles (cl_store c') = otherFiles (cl_store c)" by (simp add: elsewhere.view_answer)
  then show ?thesis using otherFiles_paths by blast
next
  case (line E l)
  then have "otherFiles (cl_store c') = otherFiles (cl_store c)" by (simp add: elsewhere.view_handleLine)
  then show ?thesis using otherFiles_paths by blast
next
  case (tokens E t)
  then have "otherFiles (cl_store c') = otherFiles (cl_store c)" by (simp add: elsewhere.view_updateTokens)
  then show ?thesis using otherFiles_paths by blast
qed

text \<open>Alice is logged in and her state is on disk when Bob's login is answered.\<close>

definition bobsSession :: AuthSession where
  "bobsSession = sampleSession\<lparr>as_user := \<lparr>up_id = Q ''bob'', up_username = Q ''bob'', up_email = Q ''b@x''\<rparr>\<rparr>"

definition switchingClient :: client where
  "switchingClient = sampleClient\<lparr>cl_accountScopedState := True,
     cl_store := (sampleStore [])\<lparr>ls_files := [Q ''/state/alice'' \<mapsto> []]\<rparr>,
     cl_pending := [Call (LoginUser (Q ''bob'') (Q ''pw'')) (OnLogin (Q ''pw''))]\<rparr>"

lemma bobs_path: "ls_path (snd (useAccountScopedPath sampleEnv (Q ''bob'') True s)) = Q ''/state/bob-client-state.json''"
proof -
  have "safeStateName sampleEnv (Q ''bob'') = Q ''bob''"
    by (simp add: safeStateName_def sampleEnv_def Q_def)
  moreover have "argN (Q ''%1-%2'') [Q ''bob'', Q ''client-state.json''] = Q ''bob-client-state.json''"
  proof -
    have "pieces (Q ''%1-%2'') = [Marker 1 (Q ''%1''), Plain 45, Marker 2 (Q ''%2'')]"
      by (simp add: Q_def markerAt_def startsWith_def isDigit_def digitValue_def)
    then show ?thesis by (simp add: argN_def) (simp add: Q_def)
  qed
  ultimately show ?thesis
    by (simp add: useAccountScopedPath_def rememberLastAccountId_def writeFile_def AppText_DefaultStateFile_def Let_def)
      (simp add: sampleEnv_def Q_def)
qed

section \<open>What a login leaves of the account before\<close>

text \<open>What two stores share when they differ in an account: its memory, path and passphrase.\<close>

definition withoutAccount :: "local_store \<Rightarrow> local_store" where
  "withoutAccount s = clearMemory (s\<lparr>ls_path := [], ls_secretPassphrase := []\<rparr>)"

definition accountStore :: "'x env_scheme \<Rightarrow> AuthSession \<Rightarrow> qstring \<Rightarrow> local_store \<Rightarrow> bool result \<times> local_store" where
  "accountStore E session password s = useAccountScopedPath E (up_id (as_user session)) True (setSecretPassphrase password s)"

lemma withoutAccount_fields:
  "withoutAccount s = withoutAccount t \<longleftrightarrow>
     ls_indexPath s = ls_indexPath t \<and> ls_secretProtectionRequired s = ls_secretProtectionRequired t
     \<and> ls_secretSalt s = ls_secretSalt t \<and> ls_files s = ls_files t \<and> ls_draws s = ls_draws t"
  by (cases s; cases t) (auto simp: withoutAccount_def clearMemory_def)

lemma load_cong:
  "clearMemory s = clearMemory t \<Longrightarrow> load E s = load E t"
  by (simp add: load_def)

lemma accountStore_same:
  assumes "withoutAccount s = withoutAccount t" and "fst (accountStore E session password s) = Inr x"
  shows "fst (accountStore E session password t) = Inr x
    \<and> clearMemory (snd (accountStore E session password s)) = clearMemory (snd (accountStore E session password t))"
  using assms unfolding withoutAccount_fields
  by (cases s; cases t) (auto simp: accountStore_def useAccountScopedPath_def rememberLastAccountId_def
      setSecretPassphrase_def writeFile_def clearMemory_def Let_def split: if_splits)

lemma login_started:
  assumes "cl_accountScopedState c" and "accountStore E session password (cl_store c) = (Inr x, v)"
    and "reload E v = (Inr y, u)"
  shows "loginReply E C password (Inr session) c
    = storeOrFail E (saveSession E session) (\<lambda>_. emitSessionStarted E C (as_user session))
        (c\<lparr>cl_session := Some session, cl_store := u\<rparr>)"
proof -
  have swap: "c\<lparr>cl_store := u, cl_session := m\<rparr> = c\<lparr>cl_session := m, cl_store := u\<rparr>" for m
    by (cases c) simp
  from assms show ?thesis
    by (simp add: loginReply_def Let_def orFail_def storeOrFail_def [of E "useAccountScopedPath _ _ _"]
        storeOrFail_def [of E "reload E"] accountStore_def swap)
qed

text \<open>
  Property C13: a login replaces the account in the store's memory. Take two clients that differ only
  in the account before: in the session, and in what the store holds in memory (session, device
  keys, one-time prekeys, known users, pins, messages), its state file's path and its
  passphrase. In the mode with one state file per account, when the same login is answered and
  the switch to the new account's file and its loading succeed, the two clients are equal
  afterwards. Everything else is the same in the two from the start and may survive the login:
  the files on disk, the salt and the position in the random draws, the cached bundle (property
  C31), the router, the presenter and the trace.
\<close>

theorem login_replaces_account_memory:
  assumes "cl_accountScopedState c" and "withoutAccount s = withoutAccount t"
    and "fst (accountStore E session password s) = Inr x"
    and "fst (reload E (snd (accountStore E session password s))) = Inr y"
  shows "loginReply E C password (Inr session) (c\<lparr>cl_session := a, cl_store := s\<rparr>)
    = loginReply E C password (Inr session) (c\<lparr>cl_session := b, cl_store := t\<rparr>)"
proof -
  note same = accountStore_same [OF assms(2,3)]
  obtain v where v: "accountStore E session password s = (Inr x, v)" using assms(3) by (metis prod.collapse)
  obtain w where w: "accountStore E session password t = (Inr x, w)" using same by (metis prod.collapse)
  have "clearMemory v = clearMemory w" using same v w by simp
  then have loaded: "reload E v = reload E w" unfolding reload_def by (rule load_cong)
  obtain u where "reload E v = (Inr y, u)" using assms(4) v by (metis prod.collapse snd_conv)
  with loaded assms(1) v w show ?thesis
    using login_started [of "c\<lparr>cl_session := a, cl_store := s\<rparr>" E session password x v y u C]
      login_started [of "c\<lparr>cl_session := b, cl_store := t\<rparr>" E session password x w y u C] by simp
qed


theorem login_replaces_account_memory_witness:
  "\<exists>c. loginReply sampleEnv sampleCrypto (Q ''pw'') (Inr bobsSession)
       (c\<lparr>cl_session := Some sampleSession, cl_store := (sampleStore [helloFromBob])\<lparr>ls_trustPins := [samplePin]\<rparr>\<rparr>)
     = loginReply sampleEnv sampleCrypto (Q ''pw'') (Inr bobsSession) (c\<lparr>cl_session := None, cl_store := sampleStore []\<rparr>)"
proof (rule exI, rule login_replaces_account_memory [where x = True and y = True])
  let ?s = "(sampleStore [helloFromBob])\<lparr>ls_trustPins := [samplePin]\<rparr>"
  let ?t = "snd (accountStore sampleEnv bobsSession (Q ''pw'') ?s)"
  show "cl_accountScopedState switchingClient" by (simp add: switchingClient_def)
  show "withoutAccount ?s = withoutAccount (sampleStore [])"
    by (simp add: withoutAccount_fields sampleStore_def)
  show "fst (accountStore sampleEnv bobsSession (Q ''pw'') ?s) = Inr True"
    by (simp add: accountStore_def useAccountScopedPath_def rememberLastAccountId_def writeFile_def setSecretPassphrase_def
        sampleEnv_def Let_def)
  have "Q ''/state/bob-client-state.json'' \<noteq> ls_indexPath (setSecretPassphrase (Q ''pw'') ?s)"
    by (simp add: setSecretPassphrase_def sampleStore_def)
  from useAccountScopedPath_files(1) [OF this, of sampleEnv "Q ''bob''" True]
  have "ls_files ?t (Q ''/state/bob-client-state.json'') = None"
    by (simp add: accountStore_def bobsSession_def setSecretPassphrase_def)
  moreover have "ls_path ?t = Q ''/state/bob-client-state.json''"
    by (simp add: accountStore_def bobsSession_def bobs_path)
  ultimately show "fst (reload sampleEnv ?t) = Inr True"
    by (simp add: reload_def load_def clearMemory_def)
qed

end
