(* ===== verification/ClientViews.thy ===== *)
theory ClientViews
  imports Client
begin

text \<open>
  What the handlers leave alone in the client itself. A view of the client is any part of it
  that no event but the request to exit changes and that does not look at the store, the
  session, the caches, the router or the outstanding calls (\<open>client_view\<close>): answers keep it,
  and so does every line but the commands to exit and to download. An \<open>unexported_view\<close> is kept
  by a download, a \<open>fixed_view\<close> by both. Interpreted on the configuration, the kind of state
  file, the flag that ends the program and the exported files.
\<close>

named_theorems client_view_simps \<open>what an operation of the client does to a view of it\<close>

locale client_view =
  fixes view :: "client \<Rightarrow> 'v"
  assumes view_emit: "ev \<noteq> ExitRequested \<Longrightarrow> view (emit (E :: 'x env_scheme) ev c) = view c"
    and view_issue: "view (issue req k c) = view c"
    and view_store: "view (c\<lparr>cl_store := s\<rparr>) = view c"
    and view_session: "view (c\<lparr>cl_session := m\<rparr>) = view c"
    and view_cache: "view (c\<lparr>cl_lastTrustedBundle := b\<rparr>) = view c"
    and view_router: "view (c\<lparr>cl_router := r\<rparr>) = view c"
    and view_counters: "view (c\<lparr>cl_sendCounters := n\<rparr>) = view c"
    and view_pending: "view (c\<lparr>cl_pending := cs\<rparr>) = view c"
begin

lemmas view_fields [client_view_simps] = view_emit view_issue view_store view_session view_cache view_router view_counters view_pending

lemma view_simple [client_view_simps]:
  "view (status (E :: 'x env_scheme) i tx vs c) = view c" "view (onRouter f c) = view c" "view (withProviderState st c) = view c"
  by (simp_all add: status_def onRouter_def withProviderState_def client_view_simps)

lemma view_orFail [client_view_simps]:
  "(\<And>x. view (k x c) = view c) \<Longrightarrow> view (orFail (E :: 'x env_scheme) r k c) = view c"
  by (simp add: orFail_def client_view_simps split: sum.split)

lemma view_storeOrFail [client_view_simps]:
  "(\<And>x c1. view c1 = view c \<Longrightarrow> view (k x c1) = view c) \<Longrightarrow> view (storeOrFail (E :: 'x env_scheme) f k c) = view c"
  by (simp add: storeOrFail_def orFail_def client_view_simps Let_def split: sum.split)

lemma view_cryptoOrFail [client_view_simps]:
  "(\<And>x c1. view c1 = view c \<Longrightarrow> view (k x c1) = view c) \<Longrightarrow> view (cryptoOrFail (E :: 'x env_scheme) f k c) = view c"
  by (simp add: cryptoOrFail_def client_view_simps Let_def split: sum.split)

lemma view_requireSession [client_view_simps]:
  "(\<And>c. view (k c) = view c) \<Longrightarrow> view (requireSession (E :: 'x env_scheme) k c) = view c"
  by (simp add: requireSession_def client_view_simps)

lemma view_useBundle [client_view_simps]: "view (useBundle (E :: 'x env_scheme) C u r c) = view c"
  by (cases u) (simp_all add: encryptAndIssue_def client_view_simps)

lemma view_trustedBundle [client_view_simps]: "view (trustedBundle (E :: 'x env_scheme) C u d k c) = view c"
  by (simp add: trustedBundle_def client_view_simps split: sum.split option.split)

lemma view_saveMessages [client_view_simps]: "view (saveMessages (E :: 'x env_scheme) ms c) = view c"
  by (induction ms arbitrary: c) (simp_all add: client_view_simps)

lemma view_upload [client_view_simps]: "view (uploadOneTimePreKeys (E :: 'x env_scheme) C c) = view c"
  by (simp add: uploadOneTimePreKeys_def Let_def client_view_simps split: sum.split)

lemma view_ensure [client_view_simps]: "view (ensureDeviceKeysUploaded (E :: 'x env_scheme) C c) = view c"
  by (simp add: ensureDeviceKeysUploaded_def Let_def client_view_simps split: sum.split)

lemma view_deliver [client_view_simps]: "view (deliver (E :: 'x env_scheme) C k r c) = view c"
  by (cases k; cases r)
    (simp_all add: deliver_def reply_defs upsertReply_def uploadReply_def client_view_simps Let_def
      split: sum.split option.split)

lemma view_updateTokens [client_view_simps]: "view (updateTokens (E :: 'x env_scheme) tokens c) = view c"
  by (simp add: updateTokens_def Let_def client_view_simps split: option.split)

lemma view_sendMessage [client_view_simps]: "view (sendMessage (E :: 'x env_scheme) u b c) = view c"
  by (simp add: sendMessage_def send_def client_view_simps)

lemma view_handleCommand [client_view_simps]:
  "cmd_type command \<notin> {Exit, Download} \<Longrightarrow> view (handleCommand (E :: 'x env_scheme) C command c) = view c"
  by (cases "cmd_type command")
    (simp_all add: handleCommand_def listConversations_def listUnreadSenders_def listReceived_def
      listSent_def readCommand_def openConversation_def readConversation_def forward_def logout_def
      withOne_def revoke_def deleteMessage_def trustUsername_def verify_def Let_def
      client_view_simps split: list.split option.split sum.split)

lemma view_argumentCount [client_view_simps]:
  "view (k c) = view c \<Longrightarrow> view (commandHasArgumentCount (E :: 'x env_scheme) command lo hi k c) = view c"
  by (simp add: commandHasArgumentCount_def Let_def client_view_simps)

lemma view_routed:
  assumes "\<And>command c. cmd_type command \<in> T \<Longrightarrow> view (handleCommand E C command c) = view c"
    and "UNIV - {Exit, Download} \<subseteq> T"
    and "cmd_type command \<in> T"
  shows "view (routeCommand (E :: 'x env_scheme) C command c) = view c"
proof -
  have "view (handleCommand E C command c) = view c" for c using assms by blast
  then show ?thesis
    by (simp add: routeCommand_def handleMsgCommand_def handleSendCommand_def openConversation_def
        readConversation_def startComposition_def beginMessageComposition_def Let_def client_view_simps)
qed

lemma view_typed:
  assumes "\<And>command c. cmd_type command \<in> T \<Longrightarrow> view (handleCommand E C command c) = view c"
    and "UNIV - {Exit, Download} \<subseteq> T"
    and "\<And>command. rt_inputMode (cl_router c) = CommandMode \<Longrightarrow> parseCommand E line = Inr command \<Longrightarrow> cmd_type command \<in> T"
  shows "view (handleLine (E :: 'x env_scheme) C line c) = view c"
proof -
  have backIn: "BackCmd \<in> T" using assms(2) by auto
  note routed = view_routed [of T E C, OF assms(1,2)]
  show ?thesis
    using assms(1,3) backIn
    by (cases "rt_inputMode (cl_router c)")
      (simp_all add: handleLine_def handleCommandMode_def handleRegisterPassword_def
        handleLoginPassword_def handleMessageComposition_def submitComposedMessage_def
        cancelComposition_def controllerRegister_def controllerLogin_def registerUser_def login_def
        Let_def client_view_simps routed split: sum.split)
qed

end

locale unexported_view = client_view +
  assumes view_textFiles: "view (c\<lparr>cl_textFiles := t\<rparr>) = view c"
begin

lemma view_anyCommand:
  "cmd_type command \<noteq> Exit \<Longrightarrow> view (handleCommand (E :: 'x env_scheme) C command c) = view c"
  by (cases "cmd_type command = Download")
    (simp_all add: client_view_simps, simp add: handleCommand_def withOne_def download_def view_textFiles Let_def
      client_view_simps split: list.split option.split sum.split)

lemma view_typed_unless_exit:
  assumes "\<And>command. rt_inputMode (cl_router c) = CommandMode \<Longrightarrow> parseCommand E line = Inr command \<Longrightarrow> cmd_type command \<noteq> Exit"
  shows "view (handleLine (E :: 'x env_scheme) C line c) = view c"
  by (rule view_typed [of "UNIV - {Exit}"]) (use assms view_anyCommand in auto)

end

locale fixed_view = unexported_view +
  assumes view_exit: "view (emit (E :: 'x env_scheme) ExitRequested c) = view c"
begin

lemma view_handleLine: "view (handleLine (E :: 'x env_scheme) C line c) = view c"
proof (rule view_typed [of UNIV])
  fix command c
  show "view (handleCommand E C command c) = view c"
    by (cases "cmd_type command = Exit") (simp_all add: view_anyCommand, simp add: handleCommand_def view_exit)
qed simp_all

end

interpretation configuration: fixed_view cl_config
  by unfold_locales (simp_all add: emit_def issue_def)

interpretation scoping: fixed_view cl_accountScopedState
  by unfold_locales (simp_all add: emit_def issue_def)

interpretation exiting: unexported_view cl_exited
  by unfold_locales (simp_all add: emit_def issue_def split: event.split)

interpretation exported: client_view cl_textFiles
  by unfold_locales (simp_all add: emit_def issue_def)

section \<open>The line that ends the program\<close>

definition exitCommand :: "'x platform_scheme \<Rightarrow> client \<Rightarrow> qstring \<Rightarrow> bool" where
  "exitCommand P c line \<longleftrightarrow>
     (let r = cl_router c
      in rt_inputMode r = CommandMode \<and> \<not> rt_operationInProgress r \<and> trimmed line \<noteq> []
         \<and> (rt_activeConversationUsername r \<noteq> [] \<longrightarrow> startsWith (trimmed line) [CommandText_SlashPrefix])
         \<and> (case parseCommand P line of
              Inr command \<Rightarrow> cmd_type command = Exit \<and> cmd_arguments command = []
            | Inl err \<Rightarrow> False))"

lemma exit_routed:
  "cl_exited (routeCommand E C command c) \<longleftrightarrow> cl_exited c \<or> cmd_type command = Exit \<and> cmd_arguments command = []"
proof (cases "cmd_type command = Exit")
  case True
  then show ?thesis
    by (simp add: routeCommand_def zeroArgumentCommands_def commandHasArgumentCount_def handleCommand_def
        Let_def exiting.view_emit) (simp add: emit_def)
next
  case False
  then show ?thesis using exiting.view_routed [of "UNIV - {Exit}" E C command c] exiting.view_anyCommand by auto
qed

lemma exit_typed: "cl_exited (handleLine (E :: 'x env_scheme) C line c) \<longleftrightarrow> cl_exited c \<or> exitCommand E c line"
proof (cases "rt_inputMode (cl_router c) = CommandMode")
  case True
  then show ?thesis
    by (auto simp: handleLine_def handleCommandMode_def exit_routed exitCommand_def Let_def client_view_simps split: sum.split)
next
  case False
  then have "cl_exited (handleLine E C line c) = cl_exited c" by (intro exiting.view_typed_unless_exit) simp
  with False show ?thesis by (simp add: exitCommand_def)
qed

end
