(* ===== verification/NativeCrypto.thy ===== *)
theory NativeCrypto
  imports Services Sample
begin

text \<open>
  client/src/crypto/NativeSignalCryptoProvider.cpp: the X3DH-style key agreement, the wire
  envelope and every member of the provider. Randomness is read at the position
  \<open>ps_draws\<close> of the provider state; memory that the code leaves uninitialised after a failed
  OpenSSL call is \<open>env_stale\<close>, so what the code does with it is visible. With
  \<open>CLIENT_HAS_OPENSSL\<close> off (\<open>pf_hasOpenSsl\<close> false) the guarded bodies are compiled out.
\<close>

unbundle bit_operations_syntax

section \<open>Bytes and the wire envelope\<close>

text \<open>The int is a 32-bit word; the shifts of a negative value are masked to its bytes.\<close>

definition intToBigEndian :: "int \<Rightarrow> bytes" where
  "intToBigEndian v =
     (let w = of_int v :: 32 word
      in [ucast (drop_bit 24 w AND 255), ucast (drop_bit 16 w AND 255),
          ucast (drop_bit 8 w AND 255), ucast (w AND 255)])"

definition isValidBase64 :: "'x platform_scheme \<Rightarrow> qstring \<Rightarrow> bool" where
  "isValidBase64 P v \<longleftrightarrow> v \<noteq> [] \<and> pf_fromBase64 P v \<noteq> []"

definition nativeWrapWirePayload :: "'x platform_scheme \<Rightarrow> json_obj \<Rightarrow> int \<Rightarrow> int \<Rightarrow> qstring" where
  "nativeWrapWirePayload P payload counter registrationId =
     (let rawPayload = pf_jsonCompact P payload;
          envelope = [(CryptoText_WireFormat, JStr CryptoText_WireFormatValue),
                      (CryptoText_WireType, JInt CryptoText_WirePreKeyWhisperMessageType),
                      (CryptoText_WireBodyB64, JStr (pf_toBase64 P rawPayload))]
      in pf_fromUtf8 P (pf_jsonCompact P
           (jinsert CryptoText_WireRegistrationId (JInt registrationId) envelope)))"

definition nativeUnwrapWirePayload :: "'x platform_scheme \<Rightarrow> qstring \<Rightarrow> json_obj" where
  "nativeUnwrapWirePayload P wirePayloadJson =
     (let payload = pf_jsonParse P (pf_toUtf8 P wirePayloadJson)
      in if toStr (jget payload CryptoText_WireFormat) \<noteq> CryptoText_WireFormatValue then payload
         else pf_jsonParse P (pf_fromBase64 P (toStr (jget payload CryptoText_WireBodyB64))))"

section \<open>The OpenSSL wrappers\<close>

record RawKeyPair =
  rk_publicKey :: bytes
  rk_privateKey :: bytes

definition generateRawKeyPair :: "'x env_scheme \<Rightarrow> key_type \<Rightarrow> provider_state \<Rightarrow> RawKeyPair \<times> provider_state" where
  "generateRawKeyPair E keyType st =
     ((case env_keygen E keyType (ps_draws st) of
         None \<Rightarrow> \<lparr>rk_publicKey = [], rk_privateKey = []\<rparr>
       | Some key \<Rightarrow> \<lparr>rk_publicKey = ssl_publicKey E keyType key, rk_privateKey = key\<rparr>),
      st\<lparr>ps_draws := Suc (ps_draws st)\<rparr>)"

text \<open>
  On failure the result is cleared and then resized to the length of a signature (of a
  secret), which leaves that many uninitialised bytes.
\<close>

definition ed25519Sign :: "'x env_scheme \<Rightarrow> bytes \<Rightarrow> bytes \<Rightarrow> bytes" where
  "ed25519Sign E privateKey message =
     (case ssl_sign E privateKey message of None \<Rightarrow> env_stale E 64 | Some signature \<Rightarrow> signature)"

definition ed25519Verify :: "'x platform_scheme \<Rightarrow> bytes \<Rightarrow> bytes \<Rightarrow> bytes \<Rightarrow> bool" where
  "ed25519Verify P publicKey message signature = ssl_verify P publicKey message signature"

definition x25519Dh :: "'x env_scheme \<Rightarrow> bytes \<Rightarrow> bytes \<Rightarrow> bytes" where
  "x25519Dh E privateKey publicKey =
     (case ssl_x25519 E privateKey publicKey of
        None \<Rightarrow> env_stale E CryptoText_KeyBytes | Some secret \<Rightarrow> secret)"

definition hkdfSha256 :: "'x env_scheme \<Rightarrow> bytes \<Rightarrow> bytes \<Rightarrow> bytes \<Rightarrow> nat \<Rightarrow> bytes" where
  "hkdfSha256 E ikm salt info n =
     (case ssl_hkdf E ikm salt info n of
        SetupFailed \<Rightarrow> [] | DeriveFailed \<Rightarrow> env_stale E n | Derived output \<Rightarrow> output)"

definition aesGcmEncrypt :: "'x platform_scheme \<Rightarrow> bytes \<Rightarrow> bytes \<Rightarrow> bytes \<Rightarrow> bytes \<Rightarrow> (bytes \<times> bytes) option" where
  "aesGcmEncrypt P plaintext key iv aad = ssl_gcmEncrypt P key iv aad plaintext"

definition aesGcmDecrypt :: "'x platform_scheme \<Rightarrow> bytes \<Rightarrow> bytes \<Rightarrow> bytes \<Rightarrow> bytes \<Rightarrow> bytes \<Rightarrow> bytes option" where
  "aesGcmDecrypt P ciphertext key iv aad tag = ssl_gcmDecrypt P key iv aad ciphertext tag"

section \<open>The small members of the provider\<close>

definition nativeIsAvailable :: "'x platform_scheme \<Rightarrow> bool" where
  "nativeIsAvailable P = pf_hasOpenSsl P"

definition nativeRandomBytes :: "'x env_scheme \<Rightarrow> nat \<Rightarrow> provider_state \<Rightarrow> bytes \<times> provider_state" where
  "nativeRandomBytes E n st =
     (let st' = st\<lparr>ps_draws := Suc (ps_draws st)\<rparr>;
          fallback = (map (\<lambda>index. of_nat (env_bounded E (ps_draws st' + index) 256)) [0..<n],
                      st'\<lparr>ps_draws := ps_draws st' + n\<rparr>)
      in if \<not> pf_hasOpenSsl E then fallback
         else case env_random E (ps_draws st) n of Some bytes \<Rightarrow> (bytes, st') | None \<Rightarrow> fallback)"

definition nativeDigest :: "'x platform_scheme \<Rightarrow> bytes \<Rightarrow> bytes" where
  "nativeDigest P v = pf_sha256 P v"

definition nativeHmac :: "'x platform_scheme \<Rightarrow> bytes \<Rightarrow> bytes \<Rightarrow> bytes" where
  "nativeHmac P key data = (if pf_hasOpenSsl P then ssl_hmac P key data else pf_hmacSha256 P key data)"

definition deriveMessageKey :: "'x platform_scheme \<Rightarrow> bytes \<Rightarrow> bytes \<Rightarrow> bytes \<Rightarrow> bytes" where
  "deriveMessageKey P localPrivateKey remotePublicKey salt =
     (let (left, right) = (if remotePublicKey < localPrivateKey then (remotePublicKey, localPrivateKey)
                           else (localPrivateKey, remotePublicKey))
      in nativeHmac P salt (left @ right @ pf_toUtf8 P CryptoText_Protocol))"

definition kdfX3dh :: "'x env_scheme \<Rightarrow> bytes \<Rightarrow> bytes" where
  "kdfX3dh E dhOutputs =
     (if pf_hasOpenSsl E
      then hkdfSha256 E dhOutputs (replicate CryptoText_KeyBytes 0) (pf_toUtf8 E CryptoText_X3dhInfo) CryptoText_KeyBytes
      else [])"

definition firstRatchetMessageKey :: "'x env_scheme \<Rightarrow> bytes \<Rightarrow> bytes \<Rightarrow> bytes \<Rightarrow> bytes" where
  "firstRatchetMessageKey E rootKey localRatchetPrivateKey remoteRatchetPublicKey =
     (if pf_hasOpenSsl E
      then let dhOutput = x25519Dh E localRatchetPrivateKey remoteRatchetPublicKey;
               rootOut = hkdfSha256 E dhOutput rootKey [] (CryptoText_KeyBytes * 2);
               chainKey = take CryptoText_KeyBytes (drop CryptoText_KeyBytes rootOut)
           in take CryptoText_KeyBytes (nativeHmac E chainKey [1])
      else [])"

text \<open>The loop that fills the key stream ends only if a digest is not empty.\<close>

partial_function (option) keystream ::
  "'x platform_scheme \<Rightarrow> bytes \<Rightarrow> bytes \<Rightarrow> nat \<Rightarrow> int \<Rightarrow> bytes \<Rightarrow> bytes option" where
  "keystream P key iv n block stream =
     (if length stream < n
      then keystream P key iv n (block + 1) (stream @ nativeDigest P (key @ iv @ intToBigEndian block))
      else Some stream)"

definition cryptWithKeystream :: "'x platform_scheme \<Rightarrow> bytes \<Rightarrow> bytes \<Rightarrow> bytes \<Rightarrow> bytes option" where
  "cryptWithKeystream P input key iv =
     map_option (\<lambda>stream. map (\<lambda>index. (input ! index) XOR (stream ! index)) [0..<length input])
       (keystream P key iv (length input) 0 [])"

definition aadFor :: "int \<Rightarrow> int \<Rightarrow> bytes \<Rightarrow> bytes" where
  "aadFor counter previousCounter ratchetPublicKey =
     intToBigEndian counter @ intToBigEndian previousCounter @ ratchetPublicKey"

definition nativeSessionKey :: "'x platform_scheme \<Rightarrow> qstring \<Rightarrow> int \<Rightarrow> bytes" where
  "nativeSessionKey P userId deviceId = pf_toUtf8 P (argInt (arg1 (Q ''%1:%2'') userId) deviceId)"

definition nativeNextCounter :: "'x platform_scheme \<Rightarrow> qstring \<Rightarrow> int \<Rightarrow> provider_state \<Rightarrow> int \<times> provider_state" where
  "nativeNextCounter P userId deviceId st =
     (let key = nativeSessionKey P userId deviceId;
          counter = (case ps_sendCounters st key of None \<Rightarrow> 0 | Some n \<Rightarrow> n)
      in (counter, st\<lparr>ps_sendCounters := (ps_sendCounters st)(key \<mapsto> counter + 1)\<rparr>))"

section \<open>ICryptoProvider\<close>

definition nativeUnavailable :: "'a result" where
  "nativeUnavailable = failure CryptoError AppText_NativeCryptoUnavailable"

definition isKeySized :: "RawKeyPair \<Rightarrow> bool" where
  "isKeySized k \<longleftrightarrow> length (rk_publicKey k) = CryptoText_KeyBytes \<and> length (rk_privateKey k) = CryptoText_KeyBytes"

definition nativeLoadOrCreateDevice ::
  "'x env_scheme \<Rightarrow> DeviceKeyMaterial \<Rightarrow> int \<Rightarrow> provider_state \<Rightarrow> DeviceKeyMaterial result \<times> provider_state" where
  "nativeLoadOrCreateDevice E existing deviceId st =
     (if \<not> pf_hasOpenSsl E then (nativeUnavailable, st)
      else if dk_identityKey existing \<noteq> [] then (Inr existing, st)
      else let (identity, st1) = generateRawKeyPair E X25519 st;
               (signing, st2) = generateRawKeyPair E Ed25519 st1;
               (signedPreKey, st3) = generateRawKeyPair E X25519 st2;
               signature = ed25519Sign E (rk_privateKey signing) (rk_publicKey signedPreKey)
           in if \<not> isKeySized identity \<or> \<not> isKeySized signing \<or> \<not> isKeySized signedPreKey \<or> signature = []
              then (failure CryptoError (Q ''OpenSSL key generation failed.''), st3)
              else let registrationId = CryptoText_DefaultRegistrationIdMinimum
                         + int (env_bounded E (ps_draws st3) (nat CryptoText_DefaultRegistrationIdRange))
                   in (Inr \<lparr>dk_deviceId = deviceId, dk_registrationId = registrationId,
                            dk_identityKey = pf_toBase64 E (rk_publicKey identity),
                            dk_identityPrivateKey = pf_toBase64 E (rk_privateKey identity),
                            dk_identitySigningKey = pf_toBase64 E (rk_publicKey signing),
                            dk_identitySigningPrivateKey = pf_toBase64 E (rk_privateKey signing),
                            dk_signedPreKeyId = CryptoText_SignedPreKeyId,
                            dk_signedPreKey = pf_toBase64 E (rk_publicKey signedPreKey),
                            dk_signedPreKeyPrivate = pf_toBase64 E (rk_privateKey signedPreKey),
                            dk_signedPreKeySignature = pf_toBase64 E signature\<rparr>,
                       st3\<lparr>ps_draws := Suc (ps_draws st3)\<rparr>))"

text \<open>The loop over the indices, from \<open>index\<close> on, with \<open>left\<close> iterations to go.\<close>

fun createPreKeysFrom ::
  "'x env_scheme \<Rightarrow> int \<Rightarrow> int \<Rightarrow> nat \<Rightarrow> provider_state \<Rightarrow> OneTimePreKey list result \<times> provider_state" where
  "createPreKeysFrom E deviceId index 0 st = (Inr [], st)"
| "createPreKeysFrom E deviceId index (Suc left) st =
     (let (keyPair, st1) = generateRawKeyPair E X25519 st
      in if \<not> isKeySized keyPair
         then (failure CryptoError (Q ''OpenSSL one-time pre-key generation failed.''), st1)
         else let key = \<lparr>otk_deviceId = deviceId, otk_preKeyId = CryptoText_FirstPreKeyId + index,
                         otk_publicKey = pf_toBase64 E (rk_publicKey keyPair),
                         otk_privateKey = pf_toBase64 E (rk_privateKey keyPair), otk_uploaded = False\<rparr>;
                  (rest, st2) = createPreKeysFrom E deviceId (index + 1) left st1
              in (map_sum id ((#) key) rest, st2))"

definition nativeCreateOneTimePreKeys ::
  "'x env_scheme \<Rightarrow> int \<Rightarrow> int \<Rightarrow> provider_state \<Rightarrow> OneTimePreKey list result \<times> provider_state" where
  "nativeCreateOneTimePreKeys E deviceId n st =
     (if \<not> pf_hasOpenSsl E then (nativeUnavailable, st)
      else createPreKeysFrom E deviceId 0 (nat n) st)"

definition nativeVerifySignedPreKey :: "'x platform_scheme \<Rightarrow> PreKeyBundle \<Rightarrow> bool result" where
  "nativeVerifySignedPreKey P bundle =
     (if \<not> pf_hasOpenSsl P then nativeUnavailable
      else if \<not> (isValidBase64 P (pkb_identityKey bundle) \<and> isValidBase64 P (pkb_identitySigningKey bundle)
                  \<and> isValidBase64 P (pkb_signedPreKey bundle) \<and> isValidBase64 P (pkb_signedPreKeySignature bundle))
      then failure CryptoError (Q ''Pre-key bundle contains invalid base64 fields.'')
      else if \<not> ed25519Verify P (pf_fromBase64 P (pkb_identitySigningKey bundle))
                  (pf_fromBase64 P (pkb_signedPreKey bundle)) (pf_fromBase64 P (pkb_signedPreKeySignature bundle))
      then failure CryptoError (Q ''Pre-key bundle signature is invalid.'')
      else Inr True)"

text \<open>What \<open>encrypt\<close> derives from the sender's device, the bundle and the two generated pairs.\<close>

definition senderMessageKey ::
  "'x env_scheme \<Rightarrow> DeviceKeyMaterial \<Rightarrow> PreKeyBundle \<Rightarrow> RawKeyPair \<Rightarrow> RawKeyPair \<Rightarrow> bytes" where
  "senderMessageKey E senderDevice recipientBundle ratchetKey ephemeralKey =
     (let spk = pf_fromBase64 E (pkb_signedPreKey recipientBundle);
          dh1 = x25519Dh E (pf_fromBase64 E (dk_identityPrivateKey senderDevice)) spk;
          dh2 = x25519Dh E (rk_privateKey ephemeralKey) (pf_fromBase64 E (pkb_identityKey recipientBundle));
          dh3 = x25519Dh E (rk_privateKey ephemeralKey) spk
      in firstRatchetMessageKey E (kdfX3dh E (dh1 @ dh2 @ dh3)) (rk_privateKey ratchetKey) spk)"

definition nativeMessageObject ::
  "'x platform_scheme \<Rightarrow> int \<Rightarrow> int \<Rightarrow> bytes \<Rightarrow> bytes \<Rightarrow> bytes \<Rightarrow> bytes \<Rightarrow> qstring \<Rightarrow> bytes \<Rightarrow> json_obj" where
  "nativeMessageObject P counter previousCounter ciphertext iv tag ratchetPublicKey identityKey ephemeral =
     jinsert CryptoText_WireX3dh
       (JObj [(CryptoText_WireIdentityKey, JStr identityKey),
              (CryptoText_WireEphemeralKey, JStr (pf_toBase64 P ephemeral))])
       [(CryptoText_WireCounter, JInt counter), (CryptoText_WirePreviousCounter, JInt previousCounter),
        (CryptoText_WireCiphertext, JStr (pf_toBase64 P ciphertext)), (CryptoText_WireIv, JStr (pf_toBase64 P iv)),
        (CryptoText_WireAuthTag, JStr (pf_toBase64 P tag)),
        (CryptoText_WireRatchetPublicKey, JStr (pf_toBase64 P ratchetPublicKey))]"

definition nativeEncrypt ::
  "'x env_scheme \<Rightarrow> qstring \<Rightarrow> DeviceKeyMaterial \<Rightarrow> PreKeyBundle \<Rightarrow> qstring \<Rightarrow> provider_state
     \<Rightarrow> EncryptedPayload result \<times> provider_state" where
  "nativeEncrypt E senderUserId senderDevice recipientBundle plaintext st =
     (if \<not> pf_hasOpenSsl E then (nativeUnavailable, st)
      else if trimmed plaintext = [] then (failure CryptoError AppText_EmptyMessage, st)
      else let (ratchetKey, st1) = generateRawKeyPair E X25519 st;
               (ephemeralKey, st2) = generateRawKeyPair E X25519 st1
           in if length (rk_publicKey ratchetKey) \<noteq> CryptoText_KeyBytes
                 \<or> length (rk_publicKey ephemeralKey) \<noteq> CryptoText_KeyBytes
              then (failure CryptoError (Q ''OpenSSL ratchet key generation failed.''), st2)
              else let key = senderMessageKey E senderDevice recipientBundle ratchetKey ephemeralKey
                   in if length key \<noteq> CryptoText_KeyBytes
                      then (failure CryptoError (Q ''Could not derive message key.''), st2)
                      else let (iv, st3) = nativeRandomBytes E CryptoText_IvBytes st2;
                               aad = aadFor 0 0 (rk_publicKey ratchetKey)
                           in case aesGcmEncrypt E (pf_toUtf8 E plaintext) key iv aad of
                                None \<Rightarrow> (failure CryptoError (Q ''AES-256-GCM encryption failed.''), st3)
                              | Some (ciphertext, tag) \<Rightarrow>
                                  (Inr \<lparr>ep_wirePayloadJson = nativeWrapWirePayload E
                                          (nativeMessageObject E 0 0 ciphertext iv tag (rk_publicKey ratchetKey)
                                             (dk_identityKey senderDevice) (rk_publicKey ephemeralKey))
                                          0 (pkb_registrationId recipientBundle),
                                        ep_consumedOneTimePreKeyId = None\<rparr>, st3))"

text \<open>The key agreement of \<open>decrypt\<close>; the pre-key is used when the message consumed one.\<close>

definition recipientDhOutputs ::
  "'x env_scheme \<Rightarrow> DeviceKeyMaterial \<Rightarrow> json_obj \<Rightarrow> bytes" where
  "recipientDhOutputs E thisDevice x3dh =
     (let remoteIdentityKey = pf_fromBase64 E (toStr (jget x3dh CryptoText_WireIdentityKey));
          remoteEphemeralKey = pf_fromBase64 E (toStr (jget x3dh CryptoText_WireEphemeralKey));
          dh1 = x25519Dh E (pf_fromBase64 E (dk_signedPreKeyPrivate thisDevice)) remoteIdentityKey;
          dh2 = x25519Dh E (pf_fromBase64 E (dk_identityPrivateKey thisDevice)) remoteEphemeralKey;
          dh3 = x25519Dh E (pf_fromBase64 E (dk_signedPreKeyPrivate thisDevice)) remoteEphemeralKey
      in dh1 @ dh2 @ dh3)"

definition openWith ::
  "'x env_scheme \<Rightarrow> DeviceKeyMaterial \<Rightarrow> json_obj \<Rightarrow> bytes \<Rightarrow> qstring result" where
  "openWith E thisDevice root dhOutputs =
     (let counter = toInt0 (jget root CryptoText_WireCounter);
          previousCounter = toInt0 (jget root CryptoText_WirePreviousCounter);
          ratchetPublicKey = pf_fromBase64 E (toStr (jget root CryptoText_WireRatchetPublicKey));
          key = firstRatchetMessageKey E (kdfX3dh E dhOutputs)
                  (pf_fromBase64 E (dk_signedPreKeyPrivate thisDevice)) ratchetPublicKey
      in if length key \<noteq> CryptoText_KeyBytes then failure CryptoError (Q ''Could not derive message key.'')
         else let iv = pf_fromBase64 E (toStr (jget root CryptoText_WireIv));
                  ciphertext = pf_fromBase64 E (toStr (jget root CryptoText_WireCiphertext));
                  receivedTag = pf_fromBase64 E (toStr (jget root CryptoText_WireAuthTag));
                  aad = aadFor counter previousCounter ratchetPublicKey
              in case aesGcmDecrypt E ciphertext key iv aad receivedTag of
                   None \<Rightarrow> failure CryptoError (Q ''Message authentication failed.'')
                 | Some plaintext \<Rightarrow> Inr (pf_fromUtf8 E plaintext))"

definition nativeDecrypt ::
  "'x env_scheme \<Rightarrow> qstring \<Rightarrow> DeviceKeyMaterial \<Rightarrow> LocalMessage \<Rightarrow> OneTimePreKey option \<Rightarrow> qstring result" where
  "nativeDecrypt E userId thisDevice message oneTimePreKey =
     (if \<not> pf_hasOpenSsl E then nativeUnavailable
      else let root = nativeUnwrapWirePayload E (lm_wirePayloadJson message);
               x3dh = toObj (jget root CryptoText_WireX3dh);
               dhOutputs = recipientDhOutputs E thisDevice x3dh
           in if x3dh = []
              then failure CryptoError (Q ''Ratchet session state is not available for this message yet.'')
              else case lm_consumedOneTimePreKeyId message of
                     None \<Rightarrow> openWith E thisDevice root dhOutputs
                   | Some _ \<Rightarrow>
                       (case oneTimePreKey of
                          None \<Rightarrow> failure CryptoError (Q ''Required one-time pre-key private material is unavailable.'')
                        | Some preKey \<Rightarrow> openWith E thisDevice root
                            (dhOutputs @ x25519Dh E (pf_fromBase64 E (otk_privateKey preKey))
                               (pf_fromBase64 E (toStr (jget x3dh CryptoText_WireEphemeralKey))))))"

definition nativeProvider :: "'x env_scheme \<Rightarrow> crypto_provider" where
  "nativeProvider E =
    \<lparr>cp_loadOrCreateDevice = nativeLoadOrCreateDevice E,
     cp_createOneTimePreKeys = nativeCreateOneTimePreKeys E,
     cp_verifySignedPreKey = nativeVerifySignedPreKey E,
     cp_encrypt = nativeEncrypt E,
     cp_decrypt = nativeDecrypt E\<rparr>"

end
