(* ===== verification/NativeLaws.thy ===== *)
theory NativeLaws
  imports NativeCrypto
begin

text \<open>
  What the native provider guarantees, under the documented behaviour of OpenSSL and Qt:
  a created device is well formed and its published bundle verifies, pre-keys are numbered
  in order, and what is encrypted to a device's bundle is what that device decrypts.
\<close>

section \<open>Documented behaviour of the primitives\<close>

text \<open>HKDF with SHA-256 gives at most 255 blocks of 32 bytes (the provider asks for 32 or 64). The
  cipher's law is stated for an initialisation vector of any length; the provider uses 12 bytes.\<close>

definition dh_law :: "'x platform_scheme \<Rightarrow> bool" where
  "dh_law P \<longleftrightarrow> (\<forall>a b. length a = 32 \<longrightarrow> length b = 32 \<longrightarrow>
     (\<exists>s. ssl_x25519 P a (ssl_publicKey P X25519 b) = Some s \<and> ssl_x25519 P b (ssl_publicKey P X25519 a) = Some s))"

definition derive_law :: "'x platform_scheme \<Rightarrow> bool" where
  "derive_law P \<longleftrightarrow> (\<forall>ikm salt info n. n \<le> 255 * 32 \<longrightarrow> (\<exists>out. ssl_hkdf P ikm salt info n = Derived out \<and> length out = n))
     \<and> (\<forall>key data. length (ssl_hmac P key data) = 32)"

definition cipher_law :: "'x platform_scheme \<Rightarrow> bool" where
  "cipher_law P \<longleftrightarrow> gcm_roundtrip P
     \<and> (\<forall>key iv aad pt. length key = 32 \<longrightarrow> ssl_gcmEncrypt P key iv aad pt \<noteq> None)"

definition sign_law :: "'x platform_scheme \<Rightarrow> bool" where
  "sign_law P \<longleftrightarrow> (\<forall>k m. length k = 32 \<longrightarrow>
     (\<exists>s. ssl_sign P k m = Some s \<and> s \<noteq> [] \<and> ssl_verify P (ssl_publicKey P Ed25519 k) m s))"

definition keygen_law :: "'x env_scheme \<Rightarrow> bool" where
  "keygen_law E \<longleftrightarrow> (\<forall>t n. \<exists>k. env_keygen E t n = Some k \<and> length k = 32)
     \<and> (\<forall>t k. length k = 32 \<longrightarrow> length (ssl_publicKey E t k) = 32)"

definition native_laws :: "'x env_scheme \<Rightarrow> bool" where
  "native_laws E \<longleftrightarrow> pf_hasOpenSsl E \<and> dh_law E \<and> derive_law E \<and> cipher_law E \<and> sign_law E
     \<and> keygen_law E \<and> wire_laws E"

lemma native_lawsD:
  assumes "native_laws E"
  shows "pf_hasOpenSsl E" "dh_law E" "derive_law E" "cipher_law E" "sign_law E" "keygen_law E" "wire_laws E"
  using assms by (simp_all add: native_laws_def)

section \<open>The envelope\<close>

lemma unwrap_wrap:
  assumes laws: "wire_laws P" and good: "goodJson P (JObj payload)" and reg: "inIntRange registrationId"
  shows "nativeUnwrapWirePayload P (nativeWrapWirePayload P payload counter registrationId) = normalObject payload"
    and "nativeWrapWirePayload P payload counter registrationId \<noteq> []"
proof -
  let ?env = "jinsert CryptoText_WireRegistrationId (JInt registrationId)
    [(CryptoText_WireFormat, JStr CryptoText_WireFormatValue),
     (CryptoText_WireType, JInt CryptoText_WirePreKeyWhisperMessageType),
     (CryptoText_WireBodyB64, JStr (pf_toBase64 P (pf_jsonCompact P payload)))]"
  have env: "?env = [(CryptoText_WireFormat, JStr CryptoText_WireFormatValue),
     (CryptoText_WireType, JInt CryptoText_WirePreKeyWhisperMessageType),
     (CryptoText_WireBodyB64, JStr (pf_toBase64 P (pf_jsonCompact P payload))),
     (CryptoText_WireRegistrationId, JInt registrationId)]"
    by (simp add: jinsert_def const_defs)
  have ge: "goodJson P (JObj ?env)"
    using wire_keys [OF laws] wire_base64 [OF laws, of "pf_jsonCompact P payload"] reg
    by (simp add: env del: goodJson.simps(7) add: goodObject_Cons)
      (simp add: const_defs inIntRange_def intMin_def intMax_def)
  have js: "json_text P" and b64: "base64_roundtrip P" using laws by (simp_all add: wire_laws_def)
  have parsed: "pf_jsonParse P (pf_toUtf8 P (nativeWrapWirePayload P payload counter registrationId)) = normalObject ?env"
    using json_textD [OF js ge] by (simp add: nativeWrapWirePayload_def Let_def)
  have "distinct (map fst ?env)" using ge by (rule goodObject_distinct)
  then have "toStr (jget (normalObject ?env) CryptoText_WireFormat) = CryptoText_WireFormatValue"
    and "toStr (jget (normalObject ?env) CryptoText_WireBodyB64) = pf_toBase64 P (pf_jsonCompact P payload)"
    by (simp_all add: jget_normalObject, simp_all add: env, simp_all add: const_defs)
  then show "nativeUnwrapWirePayload P (nativeWrapWirePayload P payload counter registrationId) = normalObject payload"
    using json_textD [OF js good] b64
    by (simp add: nativeUnwrapWirePayload_def parsed base64_roundtrip_def)
  show "nativeWrapWirePayload P payload counter registrationId \<noteq> []"
    using printed_nonempty [OF laws ge] by (simp add: nativeWrapWirePayload_def Let_def env)
qed

section \<open>Devices\<close>

definition wellFormedDevice :: "'x platform_scheme \<Rightarrow> DeviceKeyMaterial \<Rightarrow> bool" where
  "wellFormedDevice P d \<longleftrightarrow>
     (\<exists>ik sk spk sig. length ik = 32 \<and> length sk = 32 \<and> length spk = 32
        \<and> dk_identityKey d = pf_toBase64 P (ssl_publicKey P X25519 ik)
        \<and> dk_identityPrivateKey d = pf_toBase64 P ik
        \<and> dk_identitySigningKey d = pf_toBase64 P (ssl_publicKey P Ed25519 sk)
        \<and> dk_identitySigningPrivateKey d = pf_toBase64 P sk
        \<and> dk_signedPreKey d = pf_toBase64 P (ssl_publicKey P X25519 spk)
        \<and> dk_signedPreKeyPrivate d = pf_toBase64 P spk
        \<and> dk_signedPreKeySignature d = pf_toBase64 P sig
        \<and> sig \<noteq> [] \<and> ssl_verify P (ssl_publicKey P Ed25519 sk) (ssl_publicKey P X25519 spk) sig)
     \<and> inIntRange (dk_registrationId d)"

definition publishedBy :: "DeviceKeyMaterial \<Rightarrow> PreKeyBundle \<Rightarrow> bool" where
  "publishedBy d b \<longleftrightarrow> pkb_identityKey b = dk_identityKey d
     \<and> pkb_identitySigningKey b = dk_identitySigningKey d \<and> pkb_signedPreKey b = dk_signedPreKey d
     \<and> pkb_signedPreKeySignature b = dk_signedPreKeySignature d
     \<and> pkb_registrationId b = dk_registrationId d"

lemma published_by_self: "publishedBy d (selfPreKeyBundleFor c d)"
  by (simp add: publishedBy_def selfPreKeyBundleFor_def)

definition bounded_law :: "'x env_scheme \<Rightarrow> bool" where
  "bounded_law E \<longleftrightarrow> (\<forall>k n. 0 < n \<longrightarrow> env_bounded E k n < n)"

lemma generated_pair:
  assumes "keygen_law E"
  obtains k where "generateRawKeyPair E t st = (\<lparr>rk_publicKey = ssl_publicKey E t k, rk_privateKey = k\<rparr>, st\<lparr>ps_draws := Suc (ps_draws st)\<rparr>)"
    and "length k = 32" and "length (ssl_publicKey E t k) = 32"
proof -
  obtain k where "env_keygen E t (ps_draws st) = Some k" "length k = 32"
    using assms unfolding keygen_law_def by blast
  then show thesis using assms by (intro that [of k]) (simp_all add: generateRawKeyPair_def keygen_law_def)
qed

lemma new_device_aux:
  assumes laws: "native_laws E" "bounded_law E" and new: "dk_identityKey existing = []"
  shows "\<exists>d st'. nativeLoadOrCreateDevice E existing deviceId st = (Inr d, st')
    \<and> wellFormedDevice E d \<and> dk_deviceId d = deviceId
    \<and> 10000 \<le> dk_registrationId d \<and> dk_registrationId d < 100000"
proof -
  note L = native_lawsD [OF laws(1)]
  obtain ik where ik: "generateRawKeyPair E X25519 st = (\<lparr>rk_publicKey = ssl_publicKey E X25519 ik, rk_privateKey = ik\<rparr>, st\<lparr>ps_draws := Suc (ps_draws st)\<rparr>)"
    "length ik = 32" "length (ssl_publicKey E X25519 ik) = 32" using generated_pair [OF L(6)] .
  define st1 where "st1 = st\<lparr>ps_draws := Suc (ps_draws st)\<rparr>"
  obtain sk where sk: "generateRawKeyPair E Ed25519 st1 = (\<lparr>rk_publicKey = ssl_publicKey E Ed25519 sk, rk_privateKey = sk\<rparr>, st1\<lparr>ps_draws := Suc (ps_draws st1)\<rparr>)"
    "length sk = 32" "length (ssl_publicKey E Ed25519 sk) = 32" using generated_pair [OF L(6)] .
  define st2 where "st2 = st1\<lparr>ps_draws := Suc (ps_draws st1)\<rparr>"
  obtain spk where spk: "generateRawKeyPair E X25519 st2 = (\<lparr>rk_publicKey = ssl_publicKey E X25519 spk, rk_privateKey = spk\<rparr>, st2\<lparr>ps_draws := Suc (ps_draws st2)\<rparr>)"
    "length spk = 32" "length (ssl_publicKey E X25519 spk) = 32" using generated_pair [OF L(6)] .
  obtain sig where sig: "ssl_sign E sk (ssl_publicKey E X25519 spk) = Some sig" "sig \<noteq> []"
    "ssl_verify E (ssl_publicKey E Ed25519 sk) (ssl_publicKey E X25519 spk) sig"
    using L(5) sk(2) unfolding sign_law_def by blast
  define st3 where "st3 = st2\<lparr>ps_draws := Suc (ps_draws st2)\<rparr>"
  have small: "env_bounded E (ps_draws st3) 90000 < 90000"
    using laws(2) by (simp add: bounded_law_def)
  have "nativeLoadOrCreateDevice E existing deviceId st =
     (Inr \<lparr>dk_deviceId = deviceId, dk_registrationId = 10000 + int (env_bounded E (ps_draws st3) 90000),
         dk_identityKey = pf_toBase64 E (ssl_publicKey E X25519 ik), dk_identityPrivateKey = pf_toBase64 E ik,
         dk_identitySigningKey = pf_toBase64 E (ssl_publicKey E Ed25519 sk), dk_identitySigningPrivateKey = pf_toBase64 E sk,
         dk_signedPreKeyId = 1, dk_signedPreKey = pf_toBase64 E (ssl_publicKey E X25519 spk),
         dk_signedPreKeyPrivate = pf_toBase64 E spk, dk_signedPreKeySignature = pf_toBase64 E sig\<rparr>,
      st3\<lparr>ps_draws := Suc (ps_draws st3)\<rparr>)"
    using L(1) new ik sk spk sig
    by (simp add: nativeLoadOrCreateDevice_def ed25519Sign_def isKeySized_def const_defs
        flip: st1_def st2_def st3_def)
  moreover have "wellFormedDevice E \<lparr>dk_deviceId = deviceId, dk_registrationId = 10000 + int (env_bounded E (ps_draws st3) 90000),
         dk_identityKey = pf_toBase64 E (ssl_publicKey E X25519 ik), dk_identityPrivateKey = pf_toBase64 E ik,
         dk_identitySigningKey = pf_toBase64 E (ssl_publicKey E Ed25519 sk), dk_identitySigningPrivateKey = pf_toBase64 E sk,
         dk_signedPreKeyId = 1, dk_signedPreKey = pf_toBase64 E (ssl_publicKey E X25519 spk),
         dk_signedPreKeyPrivate = pf_toBase64 E spk, dk_signedPreKeySignature = pf_toBase64 E sig\<rparr>"
    using ik(2) sk(2) spk(2) sig small
    by (auto simp: wellFormedDevice_def inIntRange_def intMin_def intMax_def)
  ultimately show ?thesis using small by fastforce
qed

definition base64_nonempty :: "'x platform_scheme \<Rightarrow> bool" where
  "base64_nonempty P \<longleftrightarrow> (\<forall>b. b \<noteq> [] \<longrightarrow> pf_toBase64 P b \<noteq> [])"

lemma published_bundle_verifies_aux:
  assumes "pf_hasOpenSsl E" "base64_roundtrip E" "base64_nonempty E" "keygen_law E"
    and "wellFormedDevice E d" "publishedBy d b"
  shows "nativeVerifySignedPreKey E b = Inr True"
proof -
  have nonempty: "ssl_publicKey E t k \<noteq> []" if "length k = 32" for t k
  proof -
    have "length (ssl_publicKey E t k) = 32" using assms(4) that by (simp add: keygen_law_def)
    then show ?thesis by auto
  qed
  have valid: "isValidBase64 E (pf_toBase64 E v)" if "v \<noteq> []" for v
    using that assms(2,3) by (simp add: isValidBase64_def base64_roundtrip_def base64_nonempty_def)
  obtain ik sk spk sig where d: "length ik = 32" "length sk = 32" "length spk = 32"
    "dk_identityKey d = pf_toBase64 E (ssl_publicKey E X25519 ik)"
    "dk_identitySigningKey d = pf_toBase64 E (ssl_publicKey E Ed25519 sk)"
    "dk_signedPreKey d = pf_toBase64 E (ssl_publicKey E X25519 spk)"
    "dk_signedPreKeySignature d = pf_toBase64 E sig" "sig \<noteq> []"
    "ssl_verify E (ssl_publicKey E Ed25519 sk) (ssl_publicKey E X25519 spk) sig"
    using assms(5) unfolding wellFormedDevice_def by blast
  have "isValidBase64 E (dk_identityKey d)" "isValidBase64 E (dk_identitySigningKey d)"
    "isValidBase64 E (dk_signedPreKey d)" "isValidBase64 E (dk_signedPreKeySignature d)"
    unfolding d using d(1-3,8) nonempty by (intro valid; simp)+
  then show ?thesis
    using assms(1,2,6) d by (simp add: nativeVerifySignedPreKey_def publishedBy_def base64_roundtrip_def ed25519Verify_def)
qed

section \<open>Key agreement\<close>

lemma x25519_agree:
  assumes "dh_law E" "length a = 32" "length b = 32"
  shows "x25519Dh E a (ssl_publicKey E X25519 b) = x25519Dh E b (ssl_publicKey E X25519 a)"
  using assms unfolding dh_law_def x25519Dh_def by fastforce

lemma firstRatchetMessageKey_length:
  assumes "pf_hasOpenSsl E" "derive_law E"
  shows "length (firstRatchetMessageKey E root a b) = CryptoText_KeyBytes"
  using assms by (simp add: firstRatchetMessageKey_def nativeHmac_def derive_law_def const_defs)

lemma firstRatchetMessageKey_agree:
  assumes "dh_law E" "length a = 32" "length b = 32"
  shows "firstRatchetMessageKey E root a (ssl_publicKey E X25519 b) = firstRatchetMessageKey E root b (ssl_publicKey E X25519 a)"
  by (simp add: firstRatchetMessageKey_def x25519_agree [OF assms])

section \<open>Encrypting and decrypting\<close>

lemma good_messageObject:
  assumes "wire_laws P" "utf8_roundtrip P identityKey"
  shows "goodJson P (JObj (nativeMessageObject P 0 0 ct iv tag rpk identityKey eph))"
proof -
  have ob: "nativeMessageObject P 0 0 ct iv tag rpk identityKey eph =
    [(CryptoText_WireCounter, JInt 0), (CryptoText_WirePreviousCounter, JInt 0),
     (CryptoText_WireCiphertext, JStr (pf_toBase64 P ct)), (CryptoText_WireIv, JStr (pf_toBase64 P iv)),
     (CryptoText_WireAuthTag, JStr (pf_toBase64 P tag)),
     (CryptoText_WireRatchetPublicKey, JStr (pf_toBase64 P rpk)),
     (CryptoText_WireX3dh, JObj [(CryptoText_WireIdentityKey, JStr identityKey),
       (CryptoText_WireEphemeralKey, JStr (pf_toBase64 P eph))])]"
    by (simp add: nativeMessageObject_def jinsert_def const_defs)
  show ?thesis
    using wire_keys [OF assms(1)] wire_base64 [OF assms(1)] assms(2)
    by (simp add: ob goodObject_Cons del: goodJson.simps(7))
      (simp add: const_defs inIntRange_def intMin_def intMax_def)
qed

lemma messageObject_fields:
  fixes P :: "'x platform_scheme" and ct iv tag rpk identityKey eph
  defines "ob \<equiv> nativeMessageObject P 0 0 ct iv tag rpk identityKey eph"
  shows "jget ob CryptoText_WireCounter = Some (JInt 0)" "jget ob CryptoText_WirePreviousCounter = Some (JInt 0)"
    "jget ob CryptoText_WireCiphertext = Some (JStr (pf_toBase64 P ct))"
    "jget ob CryptoText_WireIv = Some (JStr (pf_toBase64 P iv))"
    "jget ob CryptoText_WireAuthTag = Some (JStr (pf_toBase64 P tag))"
    "jget ob CryptoText_WireRatchetPublicKey = Some (JStr (pf_toBase64 P rpk))"
    "jget ob CryptoText_WireX3dh = Some (JObj [(CryptoText_WireIdentityKey, JStr identityKey),
       (CryptoText_WireEphemeralKey, JStr (pf_toBase64 P eph))])"
  unfolding ob_def nativeMessageObject_def by (simp_all add: jinsert_def const_defs)


lemma aes_works:
  assumes "cipher_law E" "length key = 32"
  obtains ct tag where "aesGcmEncrypt E pt key iv aad = Some (ct, tag)" "aesGcmDecrypt E ct key iv aad tag = Some pt"
proof -
  have "ssl_gcmEncrypt E key iv aad pt \<noteq> None" using assms by (simp add: cipher_law_def)
  then obtain ct tag where e: "ssl_gcmEncrypt E key iv aad pt = Some (ct, tag)" by auto
  then have "ssl_gcmDecrypt E key iv aad ct tag = Some pt"
    using assms(1) by (auto simp: cipher_law_def gcm_roundtrip_def)
  with e show thesis by (intro that [of ct tag]) (simp_all add: aesGcmEncrypt_def aesGcmDecrypt_def)
qed

text \<open>The sender's derivation and the recipient's, on the fields of the envelope, agree.\<close>

lemma keys_agree:
  assumes laws: "native_laws E" and sender: "wellFormedDevice E s" and recipient: "wellFormedDevice E r"
    and published: "publishedBy r b" and len: "length rk = 32" "length ek = 32"
    and x3dh: "toStr (jget x3dh CryptoText_WireIdentityKey) = dk_identityKey s"
      "toStr (jget x3dh CryptoText_WireEphemeralKey) = pf_toBase64 E (ssl_publicKey E X25519 ek)"
  shows "firstRatchetMessageKey E (kdfX3dh E (recipientDhOutputs E r x3dh))
      (pf_fromBase64 E (dk_signedPreKeyPrivate r)) (ssl_publicKey E X25519 rk)
    = senderMessageKey E s b \<lparr>rk_publicKey = ssl_publicKey E X25519 rk, rk_privateKey = rk\<rparr>
        \<lparr>rk_publicKey = ssl_publicKey E X25519 ek, rk_privateKey = ek\<rparr>"
proof -
  have b64: "pf_fromBase64 E (pf_toBase64 E v) = v" for v
    using native_lawsD(7) [OF laws] by (simp add: wire_laws_def base64_roundtrip_def)
  note dh = x25519_agree [OF native_lawsD(2) [OF laws]]
  note ratchet = firstRatchetMessageKey_agree [OF native_lawsD(2) [OF laws]]
  obtain sik where s: "length sik = 32" "dk_identityKey s = pf_toBase64 E (ssl_publicKey E X25519 sik)"
    "dk_identityPrivateKey s = pf_toBase64 E sik" using sender unfolding wellFormedDevice_def by blast
  obtain rik rspk where r: "length rik = 32" "length rspk = 32"
    "dk_identityKey r = pf_toBase64 E (ssl_publicKey E X25519 rik)" "dk_identityPrivateKey r = pf_toBase64 E rik"
    "dk_signedPreKey r = pf_toBase64 E (ssl_publicKey E X25519 rspk)"
    "dk_signedPreKeyPrivate r = pf_toBase64 E rspk" using recipient unfolding wellFormedDevice_def by blast
  have "x25519Dh E rspk (ssl_publicKey E X25519 sik) = x25519Dh E sik (ssl_publicKey E X25519 rspk)"
    "x25519Dh E rik (ssl_publicKey E X25519 ek) = x25519Dh E ek (ssl_publicKey E X25519 rik)"
    "x25519Dh E rspk (ssl_publicKey E X25519 ek) = x25519Dh E ek (ssl_publicKey E X25519 rspk)"
    "firstRatchetMessageKey E root rspk (ssl_publicKey E X25519 rk) = firstRatchetMessageKey E root rk (ssl_publicKey E X25519 rspk)"
    for root by (rule dh [OF r(2) s(1)], rule dh [OF r(1) len(2)], rule dh [OF r(2) len(2)], rule ratchet [OF r(2) len(1)])
  then show ?thesis
    using published by (simp add: recipientDhOutputs_def senderMessageKey_def Let_def x3dh s r b64 publishedBy_def)
qed

lemma native_opens:
  assumes laws: "native_laws E" and sender: "wellFormedDevice E s" and recipient: "wellFormedDevice E r"
    and published: "publishedBy r b" and shown: "trimmed plaintext \<noteq> []" "utf8_roundtrip E plaintext"
  obtains payload st' where "nativeEncrypt E senderId s b plaintext st = (Inr payload, st')"
    and "ep_consumedOneTimePreKeyId payload = None" and "ep_wirePayloadJson payload \<noteq> []"
    and "\<And>m k. lm_wirePayloadJson m = ep_wirePayloadJson payload \<Longrightarrow> lm_consumedOneTimePreKeyId m = None
          \<Longrightarrow> nativeDecrypt E userId r m k = Inr plaintext"
proof -
  note L = native_lawsD [OF laws]
  obtain rk where rk: "generateRawKeyPair E X25519 st = (\<lparr>rk_publicKey = ssl_publicKey E X25519 rk, rk_privateKey = rk\<rparr>, st\<lparr>ps_draws := Suc (ps_draws st)\<rparr>)"
    "length rk = 32" "length (ssl_publicKey E X25519 rk) = 32" using generated_pair [OF L(6)] .
  define st1 where "st1 = st\<lparr>ps_draws := Suc (ps_draws st)\<rparr>"
  obtain ek where ek: "generateRawKeyPair E X25519 st1 = (\<lparr>rk_publicKey = ssl_publicKey E X25519 ek, rk_privateKey = ek\<rparr>, st1\<lparr>ps_draws := Suc (ps_draws st1)\<rparr>)"
    "length ek = 32" "length (ssl_publicKey E X25519 ek) = 32" using generated_pair [OF L(6)] .
  define st2 where "st2 = st1\<lparr>ps_draws := Suc (ps_draws st1)\<rparr>"
  define key where "key = senderMessageKey E s b \<lparr>rk_publicKey = ssl_publicKey E X25519 rk, rk_privateKey = rk\<rparr>
        \<lparr>rk_publicKey = ssl_publicKey E X25519 ek, rk_privateKey = ek\<rparr>"
  have len: "length key = CryptoText_KeyBytes"
    by (simp add: key_def senderMessageKey_def Let_def firstRatchetMessageKey_length [OF L(1,3)])
  obtain iv st3 where iv: "nativeRandomBytes E CryptoText_IvBytes st2 = (iv, st3)" by fastforce
  define aad where "aad = aadFor 0 0 (ssl_publicKey E X25519 rk)"
  obtain ct tag where ct: "aesGcmEncrypt E (pf_toUtf8 E plaintext) key iv aad = Some (ct, tag)"
    "aesGcmDecrypt E ct key iv aad tag = Some (pf_toUtf8 E plaintext)"
    by (rule aes_works [OF L(4) len [unfolded CryptoText_KeyBytes_def]])
  define root where "root = nativeMessageObject E 0 0 ct iv tag (ssl_publicKey E X25519 rk) (dk_identityKey s) (ssl_publicKey E X25519 ek)"
  define payload where "payload = \<lparr>ep_wirePayloadJson = nativeWrapWirePayload E root 0 (pkb_registrationId b), ep_consumedOneTimePreKeyId = None\<rparr>"
  have enc: "nativeEncrypt E senderId s b plaintext st = (Inr payload, st3)"
    using L(1) shown(1) rk ek len iv ct(1)
    by (simp add: nativeEncrypt_def payload_def root_def CryptoText_KeyBytes_def
        flip: st1_def st2_def key_def aad_def)
  have "utf8_roundtrip E (dk_identityKey s)"
    using sender wire_base64 [OF L(7)] unfolding wellFormedDevice_def by auto
  then have good: "goodJson E (JObj root)"
    unfolding root_def by (rule good_messageObject [OF L(7)])
  have reg: "inIntRange (pkb_registrationId b)"
    using recipient published by (simp add: wellFormedDevice_def publishedBy_def)
  then have unwrap: "nativeUnwrapWirePayload E (ep_wirePayloadJson payload) = normalObject root"
    by (simp add: payload_def unwrap_wrap [OF L(7) good])
  note get = jget_normalObject [OF goodObject_distinct [OF good]]
  note fields = messageObject_fields [of E ct iv tag "ssl_publicKey E X25519 rk" "dk_identityKey s" "ssl_publicKey E X25519 ek", folded root_def]
  define x3dh where "x3dh = toObj (jget (normalObject root) CryptoText_WireX3dh)"
  have x: "x3dh = normalObject [(CryptoText_WireIdentityKey, JStr (dk_identityKey s)),
       (CryptoText_WireEphemeralKey, JStr (pf_toBase64 E (ssl_publicKey E X25519 ek)))]"
    by (simp add: x3dh_def get fields) (simp add: normalObject_def)
  have "toStr (jget x3dh CryptoText_WireIdentityKey) = dk_identityKey s"
    "toStr (jget x3dh CryptoText_WireEphemeralKey) = pf_toBase64 E (ssl_publicKey E X25519 ek)"
    unfolding x by (simp_all add: jget_normalObject const_defs)
  note agree = keys_agree [OF laws sender recipient published rk(2) ek(2) this, folded key_def]
  have b64: "pf_fromBase64 E (pf_toBase64 E v) = v" for v
    using L(7) by (simp add: wire_laws_def base64_roundtrip_def)
  have "openWith E r (normalObject root) (recipientDhOutputs E r x3dh) = Inr plaintext"
    using shown(2) ct(2) agree len
    by (simp add: openWith_def get fields b64 utf8_roundtrip_def inIntRange_def intMin_def intMax_def flip: aad_def)
  moreover have "x3dh \<noteq> []" by (simp add: x)
  ultimately have dec: "nativeDecrypt E userId r m k = Inr plaintext"
    if "lm_wirePayloadJson m = ep_wirePayloadJson payload" "lm_consumedOneTimePreKeyId m = None" for m k
    using that L(1) unwrap by (simp add: nativeDecrypt_def Let_def flip: x3dh_def)
  have "ep_consumedOneTimePreKeyId payload = None" "ep_wirePayloadJson payload \<noteq> []"
    by (simp_all add: payload_def unwrap_wrap(2) [OF L(7) good reg])
  then show thesis by (rule that [OF enc _ _ dec])
qed


section \<open>Pre-keys\<close>

lemma createPreKeysFrom_ids:
  assumes "keygen_law E"
  shows "\<exists>ks st'. createPreKeysFrom E deviceId index n st = (Inr ks, st')
    \<and> map otk_preKeyId ks = map (\<lambda>i. CryptoText_FirstPreKeyId + index + int i) [0..<n]
    \<and> list_all (\<lambda>k. otk_deviceId k = deviceId \<and> \<not> otk_uploaded k) ks"
proof (induction n arbitrary: index st)
  case (Suc n)
  obtain k where k: "generateRawKeyPair E X25519 st = (\<lparr>rk_publicKey = ssl_publicKey E X25519 k, rk_privateKey = k\<rparr>, st\<lparr>ps_draws := Suc (ps_draws st)\<rparr>)"
    "length k = 32" "length (ssl_publicKey E X25519 k) = 32" using generated_pair [OF assms] .
  obtain ks st' where rest: "createPreKeysFrom E deviceId (index + 1) n (st\<lparr>ps_draws := Suc (ps_draws st)\<rparr>) = (Inr ks, st')"
    "map otk_preKeyId ks = map (\<lambda>i. CryptoText_FirstPreKeyId + (index + 1) + int i) [0..<n]"
    "list_all (\<lambda>k. otk_deviceId k = deviceId \<and> \<not> otk_uploaded k) ks"
    using Suc.IH by blast
  have "map (\<lambda>i. CryptoText_FirstPreKeyId + index + int i) [0..<Suc n]
      = (CryptoText_FirstPreKeyId + index) # map (\<lambda>i. CryptoText_FirstPreKeyId + (index + 1) + int i) [0..<n]"
    by (simp add: upt_conv_Cons map_Suc_upt [symmetric] algebra_simps del: upt_Suc map_Suc_upt)
  with k rest show ?case by (simp add: isKeySized_def CryptoText_KeyBytes_def)
qed simp

section \<open>The key stream\<close>

definition digest_law :: "'x platform_scheme \<Rightarrow> bool" where
  "digest_law P \<longleftrightarrow> (\<forall>m. length (pf_sha256 P m) = 32)"

lemma keystream_returns:
  assumes "digest_law P"
  shows "\<exists>s. keystream P key iv n block stream = Some s \<and> n \<le> length s"
proof (induction "n - length stream" arbitrary: block stream rule: less_induct)
  case less
  show ?case
  proof (cases "length stream < n")
    case True
    let ?next = "stream @ nativeDigest P (key @ iv @ intToBigEndian block)"
    have "length ?next = length stream + 32"
      using assms by (simp add: nativeDigest_def digest_law_def)
    with True less [of ?next "block + 1"] show ?thesis
      by (subst keystream.simps) simp
  next
    case False
    then show ?thesis by (subst keystream.simps) simp
  qed
qed

lemma cryptWithKeystream_twice:
  assumes "digest_law P"
  obtains out where "cryptWithKeystream P input key iv = Some out" "cryptWithKeystream P out key iv = Some input"
    "length out = length input"
proof -
  obtain s where s: "keystream P key iv (length input) 0 [] = Some s" "length input \<le> length s"
    using keystream_returns [OF assms] by blast
  let ?out = "map (\<lambda>index. xor (input ! index) (s ! index)) [0..<length input]"
  have "map (\<lambda>index. xor (?out ! index) (s ! index)) [0..<length ?out] = input"
    by (rule nth_equalityI) (simp_all add: xor.assoc)
  with s show thesis
    by (intro that [of ?out]) (simp_all add: cryptWithKeystream_def)
qed

section \<open>Authenticated data\<close>

unbundle bit_operations_syntax

lemma intToBigEndian_bytes:
  fixes w :: "32 word"
  shows "ucast (ucast (w AND 255) :: byte) OR push_bit 8 (ucast (ucast (drop_bit 8 w AND 255) :: byte))
      OR push_bit 16 (ucast (ucast (drop_bit 16 w AND 255) :: byte))
      OR push_bit 24 (ucast (ucast (drop_bit 24 w AND 255) :: byte)) = w"
proof -
  have mask: "(255 :: 32 word) = mask 8" by (simp add: mask_eq_exp_minus_1)
  show ?thesis unfolding mask
  proof (rule bit_word_eqI)
    fix n assume "n < LENGTH(32)"
    then have "n < 32" by simp
    moreover have "n < 8 \<or> 8 \<le> n \<and> n < 16 \<or> 16 \<le> n \<and> n < 24 \<or> 24 \<le> n" by linarith
    ultimately show "bit (ucast (ucast (w AND mask 8) :: byte) OR push_bit 8 (ucast (ucast (drop_bit 8 w AND mask 8) :: byte))
        OR push_bit 16 (ucast (ucast (drop_bit 16 w AND mask 8) :: byte))
        OR push_bit 24 (ucast (ucast (drop_bit 24 w AND mask 8) :: byte)) :: 32 word) n = bit w n"
      by (elim disjE conjE) (simp_all add: bit_simps, linarith+)
  qed
qed

lemma intToBigEndian_inj:
  "intToBigEndian a = intToBigEndian b \<longleftrightarrow> (of_int a :: 32 word) = of_int b"
proof
  assume "intToBigEndian a = intToBigEndian b"
  then show "(of_int a :: 32 word) = of_int b"
    unfolding intToBigEndian_def Let_def list.inject
    by (metis intToBigEndian_bytes)
qed (simp add: intToBigEndian_def)

lemma aadFor_inj:
  "aadFor c p k = aadFor c' p' k' \<longleftrightarrow>
     (of_int c :: 32 word) = of_int c' \<and> (of_int p :: 32 word) = of_int p' \<and> k = k'"
proof -
  have "length (intToBigEndian v) = 4" for v by (simp add: intToBigEndian_def Let_def)
  then show ?thesis by (simp add: aadFor_def append_eq_append_conv intToBigEndian_inj)
qed

end
