(* ===== verification/MockCrypto.thy ===== *)
theory MockCrypto
  imports Services Sample
begin

text \<open>
  client/src/crypto/MockCryptoProvider.cpp: labels in place of keys, base64 in place of a
  cipher, and a counter per recipient device that decides whether a message carries the
  X3DH header.
\<close>

definition mockWrapWirePayload :: "'x platform_scheme \<Rightarrow> json_obj \<Rightarrow> int \<Rightarrow> int \<Rightarrow> qstring" where
  "mockWrapWirePayload P payload counter registrationId =
     (let rawPayload = pf_jsonCompact P payload;
          envelope = [(CryptoText_WireFormat, JStr CryptoText_WireFormatValue),
                      (CryptoText_WireType, JInt (if counter = 0 then CryptoText_WirePreKeyWhisperMessageType
                                                  else CryptoText_WireWhisperMessageType)),
                      (CryptoText_WireBodyB64, JStr (pf_toBase64 P rawPayload))]
      in pf_fromUtf8 P (pf_jsonCompact P
           (if counter = 0 then jinsert CryptoText_WireRegistrationId (JInt registrationId) envelope else envelope)))"

definition mockUnwrapWirePayload :: "'x platform_scheme \<Rightarrow> qstring \<Rightarrow> json_obj" where
  "mockUnwrapWirePayload P wirePayloadJson =
     (let payload = pf_jsonParse P (pf_toUtf8 P wirePayloadJson)
      in if toStr (jget payload CryptoText_WireFormat) \<noteq> CryptoText_WireFormatValue then payload
         else pf_jsonParse P (pf_fromBase64 P (toStr (jget payload CryptoText_WireBodyB64))))"

text \<open>The while loop appends a dash and the label until the key length is reached.\<close>

function mockFill :: "bytes \<Rightarrow> bytes \<Rightarrow> bytes" where
  "mockFill label b = (if length b < CryptoText_KeyBytes then mockFill label ((b @ [45]) @ label) else b)"
  by pat_completeness auto
termination
  by (relation "measure (\<lambda>(label, b). CryptoText_KeyBytes - length b)") auto

declare mockFill.simps [simp del]

definition encodedMockBytes :: "'x platform_scheme \<Rightarrow> qstring \<Rightarrow> qstring" where
  "encodedMockBytes P label =
     pf_toBase64 P (take CryptoText_KeyBytes (mockFill (pf_toUtf8 P label) (pf_toUtf8 P label)))"

definition mockSessionKey :: "'x platform_scheme \<Rightarrow> qstring \<Rightarrow> int \<Rightarrow> bytes" where
  "mockSessionKey P userId deviceId = pf_toUtf8 P (argInt (arg1 (Q ''%1:%2'') userId) deviceId)"

definition mockNextCounter :: "'x platform_scheme \<Rightarrow> qstring \<Rightarrow> int \<Rightarrow> provider_state \<Rightarrow> int \<times> provider_state" where
  "mockNextCounter P userId deviceId st =
     (let key = mockSessionKey P userId deviceId;
          counter = (case ps_sendCounters st key of None \<Rightarrow> 0 | Some n \<Rightarrow> n)
      in (counter, st\<lparr>ps_sendCounters := (ps_sendCounters st)(key \<mapsto> counter + 1)\<rparr>))"

definition mockLoadOrCreateDevice ::
  "'x platform_scheme \<Rightarrow> DeviceKeyMaterial \<Rightarrow> int \<Rightarrow> provider_state \<Rightarrow> DeviceKeyMaterial result \<times> provider_state" where
  "mockLoadOrCreateDevice P existing deviceId st =
     (if dk_identityKey existing \<noteq> [] then (Inr existing, st)
      else let deviceLabel = argInt (Q ''mock-device-%1'') deviceId;
               encoded = (\<lambda>suffix. encodedMockBytes P (deviceLabel @ Q suffix))
           in (Inr \<lparr>dk_deviceId = deviceId,
                    dk_registrationId = CryptoText_DefaultRegistrationIdMinimum + deviceId,
                    dk_identityKey = encoded ''-identity-public'',
                    dk_identityPrivateKey = encoded ''-identity-private'',
                    dk_identitySigningKey = encoded ''-signing-public'',
                    dk_identitySigningPrivateKey = encoded ''-signing-private'',
                    dk_signedPreKeyId = CryptoText_SignedPreKeyId,
                    dk_signedPreKey = encoded ''-signed-pre-key-public'',
                    dk_signedPreKeyPrivate = encoded ''-signed-pre-key-private'',
                    dk_signedPreKeySignature = encoded ''-signed-pre-key-signature''\<rparr>, st))"

definition mockPreKey :: "'x platform_scheme \<Rightarrow> int \<Rightarrow> int \<Rightarrow> OneTimePreKey" where
  "mockPreKey P deviceId index =
     (let preKeyId = CryptoText_FirstPreKeyId + index;
          label = argInt (argInt (Q ''mock-device-%1-pre-key-%2'') deviceId) preKeyId
      in \<lparr>otk_deviceId = deviceId, otk_preKeyId = preKeyId,
          otk_publicKey = encodedMockBytes P (label @ Q ''-public''),
          otk_privateKey = encodedMockBytes P (label @ Q ''-private''), otk_uploaded = False\<rparr>)"

definition mockCreateOneTimePreKeys ::
  "'x platform_scheme \<Rightarrow> int \<Rightarrow> int \<Rightarrow> provider_state \<Rightarrow> OneTimePreKey list result \<times> provider_state" where
  "mockCreateOneTimePreKeys P deviceId n st = (Inr (map (mockPreKey P deviceId) [0..n - 1]), st)"

definition mockVerifySignedPreKey :: "PreKeyBundle \<Rightarrow> bool result" where
  "mockVerifySignedPreKey bundle =
     (if \<not> (pkb_identityKey bundle \<noteq> [] \<and> pkb_identitySigningKey bundle \<noteq> []
             \<and> pkb_signedPreKey bundle \<noteq> [] \<and> pkb_signedPreKeySignature bundle \<noteq> [])
      then failure CryptoError (Q ''Mock pre-key bundle is missing required fields.'')
      else Inr True)"

definition mockMessageObject ::
  "'x platform_scheme \<Rightarrow> qstring \<Rightarrow> DeviceKeyMaterial \<Rightarrow> int \<Rightarrow> qstring \<Rightarrow> json_obj" where
  "mockMessageObject P senderUserId senderDevice counter plaintext =
     (let root = [(CryptoText_WireCounter, JInt counter), (CryptoText_WirePreviousCounter, JInt 0),
                  (CryptoText_WireCiphertext, JStr (pf_toBase64 P (pf_toUtf8 P plaintext))),
                  (CryptoText_WireIv, JStr (encodedMockBytes P (Q ''mock-iv''))),
                  (CryptoText_WireAuthTag, JStr (encodedMockBytes P (Q ''mock-auth-tag''))),
                  (CryptoText_WireRatchetPublicKey, JStr (dk_signedPreKey senderDevice))]
      in if counter = 0
         then jinsert CryptoText_WireX3dh
                (JObj [(CryptoText_WireIdentityKey, JStr (dk_identityKey senderDevice)),
                       (CryptoText_WireEphemeralKey,
                        JStr (encodedMockBytes P (arg1 (Q ''mock-ephemeral-%1'') senderUserId)))]) root
         else root)"

definition mockEncrypt ::
  "'x platform_scheme \<Rightarrow> qstring \<Rightarrow> DeviceKeyMaterial \<Rightarrow> PreKeyBundle \<Rightarrow> qstring \<Rightarrow> provider_state
     \<Rightarrow> EncryptedPayload result \<times> provider_state" where
  "mockEncrypt P senderUserId senderDevice recipientBundle plaintext st =
     (if trimmed plaintext = [] then (failure CryptoError AppText_EmptyMessage, st)
      else let (counter, st') = mockNextCounter P (pkb_userId recipientBundle) (pkb_deviceId recipientBundle) st
           in (Inr \<lparr>ep_wirePayloadJson = mockWrapWirePayload P
                      (mockMessageObject P senderUserId senderDevice counter plaintext) counter
                      (pkb_registrationId recipientBundle),
                    ep_consumedOneTimePreKeyId = None\<rparr>, st'))"

definition mockDecrypt ::
  "'x platform_scheme \<Rightarrow> qstring \<Rightarrow> DeviceKeyMaterial \<Rightarrow> LocalMessage \<Rightarrow> OneTimePreKey option \<Rightarrow> qstring result" where
  "mockDecrypt P userId thisDevice message oneTimePreKey =
     (let root = mockUnwrapWirePayload P (lm_wirePayloadJson message);
          encodedCiphertext = toStr (jget root CryptoText_WireCiphertext);
          plaintext = pf_fromBase64 P encodedCiphertext
      in if plaintext = [] \<and> encodedCiphertext \<noteq> []
         then failure CryptoError (Q ''Mock payload could not be decoded.'')
         else Inr (pf_fromUtf8 P plaintext))"

definition mockProvider :: "'x platform_scheme \<Rightarrow> crypto_provider" where
  "mockProvider P =
    \<lparr>cp_loadOrCreateDevice = mockLoadOrCreateDevice P,
     cp_createOneTimePreKeys = mockCreateOneTimePreKeys P,
     cp_verifySignedPreKey = mockVerifySignedPreKey,
     cp_encrypt = mockEncrypt P,
     cp_decrypt = mockDecrypt P\<rparr>"

section \<open>The envelope\<close>

lemma mock_envelope:
  assumes laws: "wire_laws P" and good: "goodJson P (JObj payload)" and reg: "inIntRange registrationId"
  shows "mockUnwrapWirePayload P (mockWrapWirePayload P payload counter registrationId) = normalObject payload"
    and "mockWrapWirePayload P payload counter registrationId \<noteq> []"
proof -
  let ?envelope = "[(CryptoText_WireFormat, JStr CryptoText_WireFormatValue),
     (CryptoText_WireType, JInt (if counter = 0 then CryptoText_WirePreKeyWhisperMessageType
                                 else CryptoText_WireWhisperMessageType)),
     (CryptoText_WireBodyB64, JStr (pf_toBase64 P (pf_jsonCompact P payload)))]"
  let ?env = "if counter = 0 then jinsert CryptoText_WireRegistrationId (JInt registrationId) ?envelope else ?envelope"
  have ins: "jinsert CryptoText_WireRegistrationId (JInt registrationId) ?envelope
      = ?envelope @ [(CryptoText_WireRegistrationId, JInt registrationId)]"
    by (simp add: jinsert_def const_defs)
  have ge: "goodJson P (JObj ?env)"
    unfolding ins
    using wire_keys [OF laws] wire_base64 [OF laws, of "pf_jsonCompact P payload"] reg
    by (simp add: goodObject_Cons del: goodJson.simps(7))
      (simp add: const_defs inIntRange_def intMin_def intMax_def)
  have js: "json_text P" and b64: "base64_roundtrip P" using laws by (simp_all add: wire_laws_def)
  have parsed: "pf_jsonParse P (pf_toUtf8 P (mockWrapWirePayload P payload counter registrationId)) = normalObject ?env"
    using json_textD [OF js ge] by (simp only: mockWrapWirePayload_def Let_def)
  have "toStr (jget (normalObject ?env) CryptoText_WireFormat) = CryptoText_WireFormatValue"
    and "toStr (jget (normalObject ?env) CryptoText_WireBodyB64) = pf_toBase64 P (pf_jsonCompact P payload)"
    by (simp_all only: jget_normalObject [OF goodObject_distinct [OF ge]] normal_conversions)
      (simp_all add: jinsert_def const_defs)
  then show "mockUnwrapWirePayload P (mockWrapWirePayload P payload counter registrationId) = normalObject payload"
    using json_textD [OF js good] b64
    by (simp add: mockUnwrapWirePayload_def parsed base64_roundtrip_def Let_def)
  show "mockWrapWirePayload P payload counter registrationId \<noteq> []"
  proof -
    have "?env \<noteq> []" by (simp add: jinsert_def)
    from printed_nonempty [OF laws ge this] show ?thesis unfolding mockWrapWirePayload_def Let_def .
  qed
qed

definition mockDevice :: "'x platform_scheme \<Rightarrow> DeviceKeyMaterial \<Rightarrow> bool" where
  "mockDevice P d \<longleftrightarrow> utf8_roundtrip P (dk_identityKey d) \<and> utf8_roundtrip P (dk_signedPreKey d)"

lemma good_mockMessageObject:
  assumes laws: "wire_laws P" and device: "mockDevice P d" and counter: "inIntRange counter"
  shows "goodJson P (JObj (mockMessageObject P u d counter t))"
proof -
  let ?root = "[(CryptoText_WireCounter, JInt counter), (CryptoText_WirePreviousCounter, JInt 0),
      (CryptoText_WireCiphertext, JStr (pf_toBase64 P (pf_toUtf8 P t))),
      (CryptoText_WireIv, JStr (encodedMockBytes P (Q ''mock-iv''))),
      (CryptoText_WireAuthTag, JStr (encodedMockBytes P (Q ''mock-auth-tag''))),
      (CryptoText_WireRatchetPublicKey, JStr (dk_signedPreKey d))]"
  have ob: "mockMessageObject P u d counter t = ?root @
     (if counter = 0 then [(CryptoText_WireX3dh, JObj [(CryptoText_WireIdentityKey, JStr (dk_identityKey d)),
        (CryptoText_WireEphemeralKey, JStr (encodedMockBytes P (arg1 (Q ''mock-ephemeral-%1'') u)))])] else [])"
    by (simp add: mockMessageObject_def jinsert_def Let_def const_defs)
  show ?thesis
    using wire_keys [OF laws] wire_base64 [OF laws] device counter
    by (simp add: ob goodObject_Cons encodedMockBytes_def mockDevice_def del: goodJson.simps(7))
      (simp add: const_defs inIntRange_def intMin_def intMax_def)
qed

lemma mockMessageObject_ciphertext:
  "jget (mockMessageObject P u d counter t) CryptoText_WireCiphertext = Some (JStr (pf_toBase64 P (pf_toUtf8 P t)))"
  by (simp add: mockMessageObject_def jinsert_def Let_def const_defs)

lemma mock_opens:
  assumes laws: "wire_laws P" and device: "mockDevice P s" and reg: "inIntRange (pkb_registrationId b)"
    and count: "inIntRange (fst (mockNextCounter P (pkb_userId b) (pkb_deviceId b) st))"
    and shown: "trimmed t \<noteq> []" "utf8_roundtrip P t"
  obtains payload st' where "mockEncrypt P u s b t st = (Inr payload, st')"
    and "ep_consumedOneTimePreKeyId payload = None" and "ep_wirePayloadJson payload \<noteq> []"
    and "\<And>m k. lm_wirePayloadJson m = ep_wirePayloadJson payload \<Longrightarrow> lm_consumedOneTimePreKeyId m = None
          \<Longrightarrow> mockDecrypt P v r m k = Inr t"
proof -
  obtain counter st' where c: "mockNextCounter P (pkb_userId b) (pkb_deviceId b) st = (counter, st')" by fastforce
  let ?ob = "mockMessageObject P u s counter t"
  let ?wire = "mockWrapWirePayload P ?ob counter (pkb_registrationId b)"
  have good: "goodJson P (JObj ?ob)"
    using good_mockMessageObject [OF laws device] count c by simp
  have "pf_toUtf8 P t \<noteq> []"
    using laws shown by (auto simp: wire_laws_def empty_text_def utf8_roundtrip_def)
  then have "mockDecrypt P v r m k = Inr t" if "lm_wirePayloadJson m = ?wire" for m k
    using laws shown that
    by (simp add: mockDecrypt_def mock_envelope(1) [OF laws good reg]
        jget_normalObject [OF goodObject_distinct [OF good]] mockMessageObject_ciphertext
        wire_laws_def base64_roundtrip_def utf8_roundtrip_def del: goodJson.simps)
  moreover have "mockEncrypt P u s b t st = (Inr \<lparr>ep_wirePayloadJson = ?wire, ep_consumedOneTimePreKeyId = None\<rparr>, st')"
    using shown(1) c by (simp add: mockEncrypt_def)
  ultimately show thesis
    using mock_envelope(2) [OF laws good reg]
    by (intro that [of "\<lparr>ep_wirePayloadJson = ?wire, ep_consumedOneTimePreKeyId = None\<rparr>" st']) simp_all
qed

end
