(* ===== verification/Providers.thy ===== *)
theory Providers
  imports Handlers NativeLaws MockCrypto
begin

text \<open>
  The interface ICryptoProvider as its clients rely on it (client/src/gateways/Gateways.h):
  what \<open>encrypt\<close> makes for a device's bundle, \<open>decrypt\<close> on that device opens. The locale states
  the contract, MessageService's use of it is proved inside, and the two providers are its
  interpretations: the laws of Qt and OpenSSL are part of \<open>ready\<close>.
\<close>

locale message_cipher =
  fixes enc :: "'e \<Rightarrow> qstring \<Rightarrow> DeviceKeyMaterial \<Rightarrow> PreKeyBundle \<Rightarrow> qstring \<Rightarrow> provider_state
      \<Rightarrow> EncryptedPayload result \<times> provider_state"
    and dec :: "'e \<Rightarrow> qstring \<Rightarrow> DeviceKeyMaterial \<Rightarrow> LocalMessage \<Rightarrow> OneTimePreKey option \<Rightarrow> qstring result"
    and ready :: "'e \<Rightarrow> DeviceKeyMaterial \<Rightarrow> DeviceKeyMaterial \<Rightarrow> PreKeyBundle \<Rightarrow> qstring \<Rightarrow> provider_state \<Rightarrow> bool"
  assumes opens: "ready E s r b t st \<Longrightarrow>
      \<exists>payload st'. enc E u s b t st = (Inr payload, st') \<and> ep_wirePayloadJson payload \<noteq> []
        \<and> (\<forall>m k. lm_wirePayloadJson m = ep_wirePayloadJson payload \<longrightarrow> lm_consumedOneTimePreKeyId m = None
             \<longrightarrow> dec E v r m k = Inr t)"
begin

lemma delivered_message_opens:
  assumes "ready E s r b t st"
  obtains payload st' where "enc E u s b t st = (Inr payload, st')"
    and "dec E v r (draft\<lparr>lm_wirePayloadJson := ep_wirePayloadJson payload, lm_consumedOneTimePreKeyId := None\<rparr>) k = Inr t"
  using opens [OF assms, of u v] by auto

text \<open>MessageService encrypts a copy to the sender's own bundle and shows it in the log.\<close>

lemma sender_copy_shown:
  assumes provider: "cp_encrypt C = enc E" "cp_decrypt C = dec E"
    and ready: "ready E d d (selfPreKeyBundleFor c d) t st"
    and own: "lm_senderUserId m = currentUserId c"
  obtains copy st' where "createLocalSenderCopy C c d t st = (Inr copy, st')"
    and "cle_plaintext (logEntry C c d (m\<lparr>lm_localSenderCopyWirePayloadJson := copy\<rparr>)) = t"
    and "decryptForCurrentUser C c d (m\<lparr>lm_localSenderCopyWirePayloadJson := copy\<rparr>) = Inr t"
proof -
  obtain payload st' where p: "enc E (currentUserId c) d (selfPreKeyBundleFor c d) t st = (Inr payload, st')"
    "ep_wirePayloadJson payload \<noteq> []"
    "\<And>m k. lm_wirePayloadJson m = ep_wirePayloadJson payload \<Longrightarrow> lm_consumedOneTimePreKeyId m = None
       \<Longrightarrow> dec E (currentUserId c) d m k = Inr t"
    using opens [OF ready, of "currentUserId c" "currentUserId c"] by blast
  show thesis
    by (rule that [of "ep_wirePayloadJson payload" st'])
      (use p own in \<open>simp_all add: createLocalSenderCopy_def provider logEntry_def decryptForCurrentUser_def senderCopyOf_def Let_def\<close>)
qed

end

section \<open>The providers\<close>

definition nativeReady :: "'x env_scheme \<Rightarrow> DeviceKeyMaterial \<Rightarrow> DeviceKeyMaterial \<Rightarrow> PreKeyBundle \<Rightarrow> qstring \<Rightarrow> provider_state \<Rightarrow> bool" where
  "nativeReady E s r b t st \<longleftrightarrow>
     native_laws E \<and> wellFormedDevice E s \<and> wellFormedDevice E r \<and> publishedBy r b
     \<and> trimmed t \<noteq> [] \<and> utf8_roundtrip E t"

definition mockReady :: "'x platform_scheme \<Rightarrow> DeviceKeyMaterial \<Rightarrow> DeviceKeyMaterial \<Rightarrow> PreKeyBundle \<Rightarrow> qstring \<Rightarrow> provider_state \<Rightarrow> bool" where
  "mockReady P s r b t st \<longleftrightarrow>
     wire_laws P \<and> mockDevice P s \<and> inIntRange (pkb_registrationId b)
     \<and> inIntRange (fst (mockNextCounter P (pkb_userId b) (pkb_deviceId b) st))
     \<and> trimmed t \<noteq> [] \<and> utf8_roundtrip P t"

interpretation native: message_cipher nativeEncrypt nativeDecrypt nativeReady
proof
  fix E :: "'x env_scheme" and s r b t st u v
  assume "nativeReady E s r b t st"
  then have ready: "native_laws E" "wellFormedDevice E s" "wellFormedDevice E r" "publishedBy r b"
    "trimmed t \<noteq> []" "utf8_roundtrip E t" by (simp_all add: nativeReady_def)
  show "\<exists>payload st'. nativeEncrypt E u s b t st = (Inr payload, st') \<and> ep_wirePayloadJson payload \<noteq> []
        \<and> (\<forall>m k. lm_wirePayloadJson m = ep_wirePayloadJson payload \<longrightarrow> lm_consumedOneTimePreKeyId m = None
             \<longrightarrow> nativeDecrypt E v r m k = Inr t)"
    by (rule native_opens [OF ready, of u st v]) blast
qed

interpretation mock: message_cipher mockEncrypt mockDecrypt mockReady
proof
  fix P :: "'x platform_scheme" and s r b t st u v
  assume "mockReady P s r b t st"
  then have ready: "wire_laws P" "mockDevice P s" "inIntRange (pkb_registrationId b)"
    "inIntRange (fst (mockNextCounter P (pkb_userId b) (pkb_deviceId b) st))"
    "trimmed t \<noteq> []" "utf8_roundtrip P t" by (simp_all add: mockReady_def)
  show "\<exists>payload st'. mockEncrypt P u s b t st = (Inr payload, st') \<and> ep_wirePayloadJson payload \<noteq> []
        \<and> (\<forall>m k. lm_wirePayloadJson m = ep_wirePayloadJson payload \<longrightarrow> lm_consumedOneTimePreKeyId m = None
             \<longrightarrow> mockDecrypt P v r m k = Inr t)"
    by (rule mock_opens [OF ready, of u v]) blast
qed


section \<open>The sample instance\<close>

definition sampleKey :: "nat \<Rightarrow> qstring" where
  "sampleKey n = map ucast (replicate 32 (of_nat n :: byte))"

definition sampleDevice :: DeviceKeyMaterial where
  "sampleDevice = \<lparr>dk_deviceId = 1, dk_registrationId = 10001, dk_identityKey = sampleKey 1,
     dk_identityPrivateKey = sampleKey 1, dk_identitySigningKey = sampleKey 2,
     dk_identitySigningPrivateKey = sampleKey 2, dk_signedPreKeyId = 1, dk_signedPreKey = sampleKey 3,
     dk_signedPreKeyPrivate = sampleKey 3,
     dk_signedPreKeySignature = map ucast (1 # replicate 32 (3 :: byte))\<rparr>"

definition sampleState :: provider_state where
  "sampleState = \<lparr>ps_draws = 0, ps_sendCounters = Map.empty\<rparr>"

lemma sample_native_laws: "native_laws sampleEnv"
proof -
  have "dh_law sampleEnv"
  proof -
    have "map2 (*) a b = map2 (*) b a" if "length a = length b" for a b :: bytes
      using that by (intro nth_equalityI) (simp_all add: mult.commute)
    then show ?thesis by (simp add: dh_law_def sampleEnv_def)
  qed
  moreover have "derive_law sampleEnv" by (simp add: derive_law_def sampleEnv_def)
  moreover have "cipher_law sampleEnv" by (simp add: cipher_law_def gcm_roundtrip_def sampleEnv_def)
  moreover have "sign_law sampleEnv" by (simp add: sign_law_def sampleEnv_def)
  moreover have "keygen_law sampleEnv" by (simp add: keygen_law_def sampleEnv_def)
  moreover have "pf_hasOpenSsl sampleEnv" by (simp add: sampleEnv_def)
  ultimately show ?thesis using sample_wire_laws by (simp add: native_laws_def)
qed

lemma sampleDevice_wellFormed: "wellFormedDevice sampleEnv sampleDevice"
  unfolding wellFormedDevice_def
  by (intro conjI exI [of _ "replicate 32 (1 :: byte)"] exI [of _ "replicate 32 (2 :: byte)"]
      exI [of _ "replicate 32 (3 :: byte)"] exI [of _ "1 # replicate 32 (3 :: byte)"])
    (simp_all add: sampleDevice_def sampleKey_def sampleEnv_def inIntRange_def intMin_def intMax_def)

lemma sample_hello: "trimmed (Q ''hi'') \<noteq> []" "utf8_roundtrip sampleEnv (Q ''hi'')"
  by (simp add: trimmed_eq_Nil Q_def isSpace_def) (rule sample_utf8, simp add: Q_def)

definition sampleDeviceBundle :: PreKeyBundle where
  "sampleDeviceBundle = \<lparr>pkb_userId = Q ''bob'', pkb_registrationId = dk_registrationId sampleDevice, pkb_deviceId = 1,
     pkb_identityKey = dk_identityKey sampleDevice, pkb_identitySigningKey = dk_identitySigningKey sampleDevice,
     pkb_signedPreKeyId = 1, pkb_signedPreKey = dk_signedPreKey sampleDevice,
     pkb_signedPreKeySignature = dk_signedPreKeySignature sampleDevice,
     pkb_oneTimePreKeyId = None, pkb_oneTimePreKey = []\<rparr>"

lemma sampleDeviceBundle_published: "publishedBy sampleDevice sampleDeviceBundle"
  by (simp add: publishedBy_def sampleDeviceBundle_def)

section \<open>Properties\<close>

text \<open>
  Property C9: what the native provider encrypts for a device's published bundle, that device
  decrypts to the same text: encryption succeeds and the message, whatever its other fields
  are and whatever pre-key is passed, opens. Assumed: OpenSSL and Qt behave as documented.
\<close>

theorem native_decrypts_what_it_encrypts:
  assumes "native_laws E" and "wellFormedDevice E sender" and "wellFormedDevice E recipient"
    and "publishedBy recipient bundle" and "trimmed plaintext \<noteq> []" and "utf8_roundtrip E plaintext"
  shows "\<exists>payload st'. nativeEncrypt E senderUserId sender bundle plaintext st = (Inr payload, st')
    \<and> nativeDecrypt E userId recipient
        (draft\<lparr>lm_wirePayloadJson := ep_wirePayloadJson payload, lm_consumedOneTimePreKeyId := None\<rparr>) preKey
      = Inr plaintext"
proof -
  have "nativeReady E sender recipient bundle plaintext st" using assms by (simp add: nativeReady_def)
  then show ?thesis by (rule native.delivered_message_opens) blast
qed

lemma native_decrypts_what_it_encrypts_witness:
  "\<exists>payload st'. nativeEncrypt sampleEnv (Q ''alice'') sampleDevice sampleDeviceBundle (Q ''hi'') sampleState = (Inr payload, st')
    \<and> nativeDecrypt sampleEnv (Q ''bob'') sampleDevice
        ((sampleMessage ''m'' ''alice'' ''bob'' 0)\<lparr>lm_wirePayloadJson := ep_wirePayloadJson payload, lm_consumedOneTimePreKeyId := None\<rparr>) None
      = Inr (Q ''hi'')"
  by (rule native_decrypts_what_it_encrypts [OF sample_native_laws sampleDevice_wellFormed sampleDevice_wellFormed
      sampleDeviceBundle_published sample_hello])

text \<open>
  Property C29: for an account without keys the native provider creates a device with the
  requested id, a registration id from 10000 to 99999 and matching key pairs, and the bundle
  published from it passes the check the peers make.
\<close>

theorem new_device_publishes_valid_bundle:
  assumes "native_laws E" and "bounded_law E" and "base64_nonempty E" and "dk_identityKey existing = []"
  shows "\<exists>device st'. nativeLoadOrCreateDevice E existing deviceId st = (Inr device, st')
    \<and> wellFormedDevice E device \<and> dk_deviceId device = deviceId
    \<and> 10000 \<le> dk_registrationId device \<and> dk_registrationId device < 100000
    \<and> nativeVerifySignedPreKey E (selfPreKeyBundleFor c device) = Inr True"
proof -
  obtain d st' where d: "nativeLoadOrCreateDevice E existing deviceId st = (Inr d, st')" "wellFormedDevice E d"
    "dk_deviceId d = deviceId" "10000 \<le> dk_registrationId d" "dk_registrationId d < 100000"
    using new_device_aux [OF assms(1,2,4)] by blast
  have "base64_roundtrip E" using assms(1) by (simp add: native_laws_def wire_laws_def)
  then have "nativeVerifySignedPreKey E (selfPreKeyBundleFor c d) = Inr True"
    using published_bundle_verifies_aux [OF _ _ assms(3) _ d(2) published_by_self] assms(1)
    by (simp add: native_laws_def)
  with d show ?thesis by blast
qed

lemma new_device_publishes_valid_bundle_witness:
  "\<exists>device st'. nativeLoadOrCreateDevice sampleEnv noDevice 1 sampleState = (Inr device, st')"
proof -
  have "bounded_law sampleEnv" "base64_nonempty sampleEnv" "dk_identityKey noDevice = []"
    by (simp_all add: bounded_law_def base64_nonempty_def sampleEnv_def noDevice_def)
  from new_device_publishes_valid_bundle [OF sample_native_laws this] show ?thesis by blast
qed

text \<open>
  Property C36: a failing signature is not noticed. When every Ed25519 signature fails, the
  cleared result is resized back to 64 uninitialised bytes, the emptiness test passes, and the
  device is created with those bytes as its signature.
\<close>

theorem failed_signature_goes_unnoticed:
  assumes "pf_hasOpenSsl E" and "keygen_law E" and "\<And>k m. ssl_sign E k m = None"
    and "length (env_stale E 64) = 64" and "dk_identityKey existing = []"
  shows "\<exists>device st'. nativeLoadOrCreateDevice E existing deviceId st = (Inr device, st')
    \<and> dk_signedPreKeySignature device = pf_toBase64 E (env_stale E 64)"
proof -
  have pair: "\<exists>k. env_keygen E t n = Some k \<and> length k = 32 \<and> length (ssl_publicKey E t k) = 32" for t n
    using assms(2) unfolding keygen_law_def by blast
  obtain a b d where keys: "env_keygen E X25519 (ps_draws st) = Some a" "env_keygen E Ed25519 (Suc (ps_draws st)) = Some b"
    "env_keygen E X25519 (Suc (Suc (ps_draws st))) = Some d"
    "length a = 32" "length b = 32" "length d = 32" "length (ssl_publicKey E X25519 a) = 32"
    "length (ssl_publicKey E Ed25519 b) = 32" "length (ssl_publicKey E X25519 d) = 32"
    using pair by metis
  have "env_stale E 64 \<noteq> []" using assms(4) by auto
  with assms(1,3,5) keys show ?thesis
    by (simp add: nativeLoadOrCreateDevice_def generateRawKeyPair_def ed25519Sign_def isKeySized_def CryptoText_KeyBytes_def)
qed

lemma failed_signature_goes_unnoticed_witness:
  "\<exists>device st'. nativeLoadOrCreateDevice (sampleEnv\<lparr>ssl_sign := \<lambda>k m. None\<rparr>) noDevice 1 sampleState = (Inr device, st')"
proof -
  let ?E = "sampleEnv\<lparr>ssl_sign := \<lambda>k m. None\<rparr>"
  have "pf_hasOpenSsl ?E" "keygen_law ?E" "ssl_sign ?E k m = None" "length (env_stale ?E 64) = 64"
    "dk_identityKey noDevice = []" for k m
    by (simp_all add: keygen_law_def sampleEnv_def noDevice_def)
  from failed_signature_goes_unnoticed [OF this] show ?thesis by blast
qed

text \<open>
  The key stream cipher returns on every input when digests have 32 bytes, keeps
  the length, and undoes itself.
\<close>

theorem keystream_cipher_is_involution:
  assumes "digest_law P"
  shows "\<exists>out. cryptWithKeystream P input key iv = Some out \<and> length out = length input
    \<and> cryptWithKeystream P out key iv = Some input"
  by (rule cryptWithKeystream_twice [OF assms]) blast

lemma keystream_cipher_is_involution_witness:
  "\<exists>out. cryptWithKeystream sampleEnv [1, 2, 3] [4] [5] = Some out"
  using keystream_cipher_is_involution [of sampleEnv "[1, 2, 3]" "[4]" "[5]"] by (auto simp: digest_law_def sampleEnv_def)

text \<open>
  The mock provider sends the X3DH header with the first message to a device and
  with no later one: two messages in a row carry the counters 0 and 1 and only the first the
  header.
\<close>

theorem mock_header_only_on_first_message:
  assumes "wire_laws P" and "mockDevice P sender" and "inIntRange (pkb_registrationId bundle)"
    and "ps_sendCounters st (mockSessionKey P (pkb_userId bundle) (pkb_deviceId bundle)) = None"
    and "trimmed t1 \<noteq> []" and "trimmed t2 \<noteq> []"
  shows "\<exists>p1 p2 st1 st2. mockEncrypt P u sender bundle t1 st = (Inr p1, st1) \<and> mockEncrypt P u sender bundle t2 st1 = (Inr p2, st2)
    \<and> jget (mockUnwrapWirePayload P (ep_wirePayloadJson p1)) CryptoText_WireX3dh \<noteq> None
    \<and> jget (mockUnwrapWirePayload P (ep_wirePayloadJson p1)) CryptoText_WireCounter = Some (JInt 0)
    \<and> jget (mockUnwrapWirePayload P (ep_wirePayloadJson p2)) CryptoText_WireX3dh = None
    \<and> jget (mockUnwrapWirePayload P (ep_wirePayloadJson p2)) CryptoText_WireCounter = Some (JInt 1)"
proof -
  have fields: "jget (mockMessageObject P u sender n t) CryptoText_WireCounter = Some (JInt n)"
    "jget (mockMessageObject P u sender n t) CryptoText_WireX3dh \<noteq> None \<longleftrightarrow> n = 0" for n t
    by (simp_all add: mockMessageObject_def jinsert_def Let_def const_defs)
  have range: "inIntRange 0" "inIntRange 1" by (simp_all add: inIntRange_def intMin_def intMax_def)
  note good = good_mockMessageObject [OF assms(1,2)]
  note wire = mock_envelope(1) [OF assms(1) good assms(3)]
  note get = jget_normalObject [OF goodObject_distinct [OF good]]
  show ?thesis
    using assms(4-6) fields(2) [of 0 t1] fields(2) [of 1 t2]
    by (simp add: mockEncrypt_def mockNextCounter_def Let_def wire get fields(1) range)
qed

lemma mock_header_only_on_first_message_witness:
  "\<exists>p1 p2 st1 st2. mockEncrypt sampleEnv (Q ''alice'') sampleDevice sampleDeviceBundle (Q ''hi'') sampleState = (Inr p1, st1)
    \<and> mockEncrypt sampleEnv (Q ''alice'') sampleDevice sampleDeviceBundle (Q ''hi'') st1 = (Inr p2, st2)"
proof -
  have "mockDevice sampleEnv sampleDevice"
    using wire_base64 [OF sample_wire_laws] sampleDevice_wellFormed unfolding wellFormedDevice_def mockDevice_def by auto
  moreover have "inIntRange (pkb_registrationId sampleDeviceBundle)"
    by (simp add: sampleDeviceBundle_def sampleDevice_def inIntRange_def intMin_def intMax_def)
  moreover have "ps_sendCounters sampleState k = None" for k by (simp add: sampleState_def)
  ultimately show ?thesis
    using mock_header_only_on_first_message [OF sample_wire_laws _ _ _ sample_hello(1) sample_hello(1)] by blast
qed

end
