(* ===== verification/Numbers.thy ===== *)
theory Numbers
  imports QtText
begin

text \<open>
  Printing and reading numbers: \<open>QString::number\<close> (and \<open>arg\<close> with an int) against
  \<open>QString::toInt\<close>. Numbered texts, such as message ids, differ when their numbers do.
\<close>

lemma digit_not_space: "isDigit c \<Longrightarrow> \<not> isSpace c"
proof -
  assume "isDigit c"
  then have "48 \<le> unat c" "unat c \<le> 57" by (simp_all add: isDigit_def word_le_nat_alt)
  then show ?thesis by (auto simp: isSpace_def word_le_nat_alt)
qed

lemma digit_char:
  assumes "d < 10"
  shows "digitValue (of_nat (48 + d)) = d" "isDigit (of_nat (48 + d))" "\<not> isSpace (of_nat (48 + d))"
proof -
  have "unat (of_nat (48 + d) :: qchar) = 48 + d"
    using assms by (subst unat_of_nat) simp
  then show "digitValue (of_nat (48 + d)) = d" and digit: "isDigit (of_nat (48 + d))"
    using assms by (simp_all only: digitValue_def isDigit_def word_le_nat_alt) simp_all
  show "\<not> isSpace (of_nat (48 + d))" by (rule digit_not_space [OF digit])
qed

lemma digitsOf_digits: "digitsOf n \<noteq> [] \<and> list_all isDigit (digitsOf n) \<and> list_all (\<lambda>c. \<not> isSpace c) (digitsOf n)"
proof (induction n rule: digitsOf.induct)
  case (1 n)
  then show ?case
    using digit_char [of n] digit_char [of "n mod 10"] by (subst (1 2 3) digitsOf.simps) auto
qed

lemma decimal_digitsOf [simp]: "decimal (digitsOf n) = n"
proof (induction n rule: digitsOf.induct)
  case (1 n)
  show ?case
  proof (cases "n < 10")
    case True
    then show ?thesis using digit_char(1) [of n] by (subst digitsOf.simps) (simp add: decimal_def)
  next
    case False
    have "decimal (digitsOf (n div 10) @ [of_nat (48 + n mod 10)]) = 10 * decimal (digitsOf (n div 10)) + n mod 10"
      using digit_char(1) [of "n mod 10"] by (simp add: decimal_def)
    with False 1 show ?thesis by (subst digitsOf.simps) simp
  qed
qed

lemma digitsOf_inj: "digitsOf m = digitsOf n \<longleftrightarrow> m = n"
  by (metis decimal_digitsOf)

lemma digitsOf_no_minus: "hd (digitsOf n) \<noteq> 45" "hd (digitsOf n) \<noteq> 43"
  using digitsOf_digits [of n] by (cases "digitsOf n"; auto simp: isDigit_def)+

lemma qNumber_inj: "qNumber a = qNumber b \<longleftrightarrow> a = b"
proof
  assume eq: "qNumber a = qNumber b"
  have minus: "Q ''-'' = [45]" by (simp add: Q_def)
  have "(a < 0) = (b < 0)"
    using eq digitsOf_no_minus [of "nat a"] digitsOf_no_minus [of "nat b"]
    by (auto simp: qNumber_def minus split: if_splits) (metis list.sel(1))+
  with eq show "a = b" by (auto simp: qNumber_def minus digitsOf_inj split: if_splits)
qed simp

lemma trimmed_spaceless: "list_all (\<lambda>c. \<not> isSpace c) s \<Longrightarrow> trimmed s = s"
  by (cases "s = []") (auto simp: list_all_iff intro: trimmed_no_space)

lemma toIntOk_qNumber:
  assumes "inIntRange i"
  shows "toIntOk (qNumber i) = Some i"
proof -
  have minus: "Q ''-'' = [45]" "Q ''+'' = [43]" by (simp_all add: Q_def)
  have "trimmed (qNumber i) = qNumber i"
    using digitsOf_digits by (intro trimmed_spaceless) (auto simp: qNumber_def minus isSpace_def)
  moreover have "startsWith (digitsOf n) [45] = False" "startsWith (digitsOf n) [43] = False" for n
    using digitsOf_no_minus [of n] digitsOf_digits [of n] by (cases "digitsOf n"; simp add: startsWith_def)+
  ultimately show ?thesis
    using assms digitsOf_digits [of "nat i"] digitsOf_digits [of "nat (- i)"]
    by (simp add: toIntOk_def minus Let_def) (auto simp: qNumber_def minus startsWith_def)
qed

end
