(* ===== verification/MockGateways.thy ===== *)
theory MockGateways
  imports Providers Numbers SampleClient
begin

text \<open>
  client/src/gateways/Gateways.cpp: the gateways of the mock mode, which answer from memory
  after a timer. \<open>mockAnswer\<close> is the work a fired timer does, one definition per method
  (a message is stored, numbered and read when the timer fires, not when the call is made);
  with them the mock mode is a closed system (\<open>mock_step\<close>) whose client states are
  reachable ones, so the client's invariants hold of it.
\<close>

definition B :: "string \<Rightarrow> bytes" where
  "B s = map of_char s"

record mock_server =
  mg_bundles :: "bytes \<Rightarrow> PreKeyBundle option"
  mg_messages :: "LocalMessage list"
  mg_nextMessageNumber :: int

definition newMockServer :: mock_server where
  "newMockServer = \<lparr>mg_bundles = (\<lambda>_. None), mg_messages = [], mg_nextMessageNumber = 1\<rparr>"

definition mockTokenFor :: "qstring \<Rightarrow> qstring" where
  "mockTokenFor username = arg1 (Q ''mock-token-%1'') username"

definition bundleKey :: "'x platform_scheme \<Rightarrow> qstring \<Rightarrow> int \<Rightarrow> bytes" where
  "bundleKey P userId deviceId = pf_toUtf8 P (argInt (arg1 (Q ''%1:%2'') userId) deviceId)"

text \<open>\<open>if (accessToken.isEmpty()) { callback(failure(AuthRequired)); return; }\<close>\<close>

definition withToken :: "qstring \<Rightarrow> 'a result \<Rightarrow> 'a result" where
  "withToken token r = (if token = [] then failure AuthRequired AppText_AuthRequired else r)"

section \<open>MockAuthGateway\<close>

definition mockRegisterUser :: "qstring \<Rightarrow> qstring \<Rightarrow> qstring \<Rightarrow> qstring \<Rightarrow> UserProfile result" where
  "mockRegisterUser uuid username email password =
     (if trimmed username = [] \<or> trimmed email = [] \<or> password = []
      then failure InvalidCommand (Q ''Username, email, and password are required.'')
      else Inr \<lparr>up_id = uuid, up_username = trimmed username, up_email = trimmed email\<rparr>)"

definition mockLogin :: "qstring \<Rightarrow> qstring \<Rightarrow> AuthSession result" where
  "mockLogin usernameOrEmail password =
     (if trimmed usernameOrEmail = [] \<or> password = []
      then failure InvalidCommand (Q ''Login identifier and password are required.'')
      else Inr \<lparr>as_user = \<lparr>up_id = arg1 (Q ''mock-user-%1'') (trimmed usernameOrEmail),
                           up_username = trimmed usernameOrEmail,
                           up_email = arg1 (Q ''%1@example.test'') (trimmed usernameOrEmail)\<rparr>,
                as_tokens = \<lparr>ts_accessToken = mockTokenFor usernameOrEmail,
                             ts_refreshToken = arg1 (Q ''mock-refresh-%1'') usernameOrEmail,
                             ts_tokenType = Q ''bearer'', ts_expiresIn = 3600\<rparr>\<rparr>)"

definition mockCurrentUser :: "qstring \<Rightarrow> UserProfile result" where
  "mockCurrentUser token =
     withToken token
       (Inr \<lparr>up_id = Q ''mock-user'', up_username = Q ''mock-user'', up_email = Q ''mock@example.test''\<rparr>)"

definition mockLogout :: "qstring \<Rightarrow> bool result" where
  "mockLogout refreshToken = Inr True"

section \<open>MockKeyGateway and MockUserDirectoryGateway\<close>

definition mockUpsertDeviceKeys ::
  "'x platform_scheme \<Rightarrow> qstring \<Rightarrow> DeviceKeyMaterial \<Rightarrow> mock_server \<Rightarrow> bool result \<times> mock_server" where
  "mockUpsertDeviceKeys P token material s =
     (if token = [] then (failure AuthRequired AppText_AuthRequired, s)
      else let userId = Q ''mock-user'';
               published = \<lparr>pkb_userId = userId, pkb_registrationId = dk_registrationId material,
                 pkb_deviceId = dk_deviceId material, pkb_identityKey = dk_identityKey material,
                 pkb_identitySigningKey = dk_identitySigningKey material,
                 pkb_signedPreKeyId = dk_signedPreKeyId material, pkb_signedPreKey = dk_signedPreKey material,
                 pkb_signedPreKeySignature = dk_signedPreKeySignature material,
                 pkb_oneTimePreKeyId = None, pkb_oneTimePreKey = []\<rparr>
           in (Inr True, s\<lparr>mg_bundles := (mg_bundles s)(bundleKey P userId (dk_deviceId material) \<mapsto> published)\<rparr>))"

definition mockUploadOneTimePreKeys :: "qstring \<Rightarrow> int \<Rightarrow> OneTimePreKey list \<Rightarrow> bool result" where
  "mockUploadOneTimePreKeys token deviceId preKeys = withToken token (Inr True)"

definition standInBundle :: "'x platform_scheme \<Rightarrow> qstring \<Rightarrow> int \<Rightarrow> PreKeyBundle" where
  "standInBundle P userId deviceId =
    \<lparr>pkb_userId = userId, pkb_registrationId = 12345, pkb_deviceId = deviceId,
     pkb_identityKey = pf_toBase64 P (B ''mock-identity-key-000000000000''),
     pkb_identitySigningKey = pf_toBase64 P (B ''mock-signing-key-0000000000000''),
     pkb_signedPreKeyId = 1,
     pkb_signedPreKey = pf_toBase64 P (B ''mock-signed-pre-key-00000000''),
     pkb_signedPreKeySignature = pf_toBase64 P (B ''mock-signature''),
     pkb_oneTimePreKeyId = Some 1,
     pkb_oneTimePreKey = pf_toBase64 P (B ''mock-one-time-pre-key-00000'')\<rparr>"

definition mockFetchPreKeyBundle ::
  "'x platform_scheme \<Rightarrow> qstring \<Rightarrow> qstring \<Rightarrow> int \<Rightarrow> mock_server \<Rightarrow> PreKeyBundle result" where
  "mockFetchPreKeyBundle P token userId deviceId s =
     withToken token
       (case mg_bundles s (bundleKey P userId deviceId) of
          Some found \<Rightarrow> Inr found | None \<Rightarrow> Inr (standInBundle P userId deviceId))"

definition mockResolveUsername :: "qstring \<Rightarrow> qstring \<Rightarrow> int \<Rightarrow> UserAddress result" where
  "mockResolveUsername token username defaultDeviceId =
     withToken token
       (if trimmed username = [] then failure InvalidCommand AppText_EmptyUsername
        else Inr \<lparr>ua_userId = arg1 (Q ''mock-user-%1'') (trimmed username), ua_username = trimmed username,
                  ua_deviceId = defaultDeviceId\<rparr>)"

section \<open>MockMessageGateway\<close>

definition withServerFields :: "'x env_scheme \<Rightarrow> LocalMessage \<Rightarrow> mock_server \<Rightarrow> LocalMessage \<times> mock_server" where
  "withServerFields E draft s =
     (draft\<lparr>lm_id := argInt (Q ''mock-message-%1'') (mg_nextMessageNumber s), lm_createdAt := env_now E\<rparr>,
      s\<lparr>mg_nextMessageNumber := mg_nextMessageNumber s + 1\<rparr>)"

definition mockSendMessage ::
  "'x env_scheme \<Rightarrow> qstring \<Rightarrow> LocalMessage \<Rightarrow> int option \<Rightarrow> mock_server \<Rightarrow> LocalMessage result \<times> mock_server" where
  "mockSendMessage E token draft consumedPreKeyId s =
     (if token = [] then (failure AuthRequired AppText_AuthRequired, s)
      else let (numbered, s1) = withServerFields E draft s;
               saved = numbered\<lparr>lm_consumedOneTimePreKeyId := consumedPreKeyId, lm_direction := SentDir\<rparr>
           in (Inr saved, s1\<lparr>mg_messages := mg_messages s1 @ [saved]\<rparr>))"

definition mockListReceived :: "qstring \<Rightarrow> mock_server \<Rightarrow> LocalMessage list result" where
  "mockListReceived token s =
     withToken token (Inr (filter (\<lambda>m. lm_direction m = ReceivedDir) (mg_messages s)))"

definition mockListSent :: "qstring \<Rightarrow> mock_server \<Rightarrow> LocalMessage list result" where
  "mockListSent token s =
     withToken token (Inr (filter (\<lambda>m. lm_direction m = SentDir) (mg_messages s)))"

definition mockGetMessage :: "qstring \<Rightarrow> qstring \<Rightarrow> mock_server \<Rightarrow> LocalMessage result" where
  "mockGetMessage token messageId s =
     withToken token
       (case find (\<lambda>m. lm_id m = messageId) (mg_messages s) of
          None \<Rightarrow> failure NotFound (Q ''Message not found.'') | Some m \<Rightarrow> Inr m)"

definition mockForwardMessage ::
  "'x env_scheme \<Rightarrow> qstring \<Rightarrow> qstring \<Rightarrow> LocalMessage \<Rightarrow> int option \<Rightarrow> mock_server \<Rightarrow> LocalMessage result \<times> mock_server" where
  "mockForwardMessage E token originalMessageId draft consumedPreKeyId s =
     mockSendMessage E token draft consumedPreKeyId s"

definition mockRevokeMessage ::
  "'x env_scheme \<Rightarrow> qstring \<Rightarrow> qstring \<Rightarrow> mock_server \<Rightarrow> LocalMessage result \<times> mock_server" where
  "mockRevokeMessage E token messageId s =
     (if token = [] then (failure AuthRequired AppText_AuthRequired, s)
      else case find (\<lambda>m. lm_id m = messageId) (mg_messages s) of
             None \<Rightarrow> (failure NotFound (Q ''Message not found.''), s)
           | Some m \<Rightarrow>
               (let revoke = (\<lambda>m. m\<lparr>lm_accessRevokedAt := pf_dateToString E (env_now E)\<rparr>)
                in (Inr (revoke m),
                    s\<lparr>mg_messages := updateFirst (\<lambda>m. lm_id m = messageId) revoke (mg_messages s)\<rparr>)))"

definition mockDeleteMessage ::
  "'x env_scheme \<Rightarrow> qstring \<Rightarrow> qstring \<Rightarrow> mock_server \<Rightarrow> bool result \<times> mock_server" where
  "mockDeleteMessage E token messageId s =
     (if token = [] then (failure AuthRequired AppText_AuthRequired, s)
      else if find (\<lambda>m. lm_id m = messageId) (mg_messages s) = None
      then (failure NotFound (Q ''Message not found.''), s)
      else (Inr True,
            s\<lparr>mg_messages := updateFirst (\<lambda>m. lm_id m = messageId)
                (\<lambda>m. m\<lparr>lm_deletedAt := pf_dateToString E (env_now E)\<rparr>) (mg_messages s)\<rparr>))"

definition mockFetchMessageAnchor :: "qstring \<Rightarrow> qstring \<Rightarrow> BlockchainAnchor result" where
  "mockFetchMessageAnchor token messageId =
     Inr \<lparr>ba_id = arg1 (Q ''mock-anchor-%1'') messageId, ba_messageId = messageId,
          ba_recordId = arg1 (Q ''mock-record-%1'') messageId, ba_digest = Q ''0xmockdigest'',
          ba_merkleRoot = [], ba_transactionHash = [], ba_contractAddress = [],
          ba_chain = Q ''mock-chain'', ba_status = Q ''pending'', ba_anchoredAt = []\<rparr>"

definition mockVerifyAnchor :: "'x env_scheme \<Rightarrow> qstring \<Rightarrow> BlockchainAnchor \<Rightarrow> BlockchainVerification result" where
  "mockVerifyAnchor E token anchor =
     Inr \<lparr>bv_valid = (ba_status anchor = Q ''confirmed''), bv_chain = ba_chain anchor, bv_status = ba_status anchor,
          bv_anchorId = ba_id anchor, bv_messageId = ba_messageId anchor, bv_recordId = ba_recordId anchor,
          bv_digest = ba_digest anchor, bv_transactionHash = ba_transactionHash anchor,
          bv_contractAddress = ba_contractAddress anchor, bv_verifiedAt = pf_dateToString E (env_now E)\<rparr>"

section \<open>The closed system\<close>

text \<open>\<open>uuid\<close> is what \<open>QUuid::createUuid\<close> gives.\<close>

fun mockAnswer :: "'x env_scheme \<Rightarrow> qstring \<Rightarrow> request \<Rightarrow> mock_server \<Rightarrow> reply \<times> mock_server" where
  "mockAnswer E uuid (RegisterUser u e p) s = (UserReply (mockRegisterUser uuid u e p), s)"
| "mockAnswer E uuid (LoginUser u p) s = (SessionReply (mockLogin u p), s)"
| "mockAnswer E uuid (LogoutUser t) s = (BoolReply (mockLogout t), s)"
| "mockAnswer E uuid (UpsertDeviceKeys t d) s = apfst BoolReply (mockUpsertDeviceKeys E t d s)"
| "mockAnswer E uuid (UploadOneTimePreKeys t i ks) s = (BoolReply (mockUploadOneTimePreKeys t i ks), s)"
| "mockAnswer E uuid (FetchPreKeyBundle t u i) s = (BundleReply (mockFetchPreKeyBundle E t u i s), s)"
| "mockAnswer E uuid (ResolveUsername t u i) s = (AddressReply (mockResolveUsername t u i), s)"
| "mockAnswer E uuid (SendMessage t d p) s = apfst MessageReply (mockSendMessage E t d p s)"
| "mockAnswer E uuid (ListReceived t) s = (MessagesReply (mockListReceived t s), s)"
| "mockAnswer E uuid (ListSent t) s = (MessagesReply (mockListSent t s), s)"
| "mockAnswer E uuid (ForwardMessage t m d p) s = apfst MessageReply (mockForwardMessage E t m d p s)"
| "mockAnswer E uuid (RevokeMessage t m) s = apfst MessageReply (mockRevokeMessage E t m s)"
| "mockAnswer E uuid (DeleteMessageOn t m) s = apfst BoolReply (mockDeleteMessage E t m s)"
| "mockAnswer E uuid (FetchMessageAnchor t m) s = (AnchorReply (mockFetchMessageAnchor t m), s)"
| "mockAnswer E uuid (VerifyAnchor t a) s = (VerificationReply (mockVerifyAnchor E t a), s)"

inductive mock_timer :: "platform \<Rightarrow> client \<times> mock_server \<Rightarrow> client \<times> mock_server \<Rightarrow> bool" for P where
  Fired: "cl_pending c = xs @ Call req k # ys \<Longrightarrow> mockAnswer (E :: env) uuid req s = (r, s')
    \<Longrightarrow> mock_timer P (c, s) (deliver E (mockProvider P) k r (c\<lparr>cl_pending := xs @ ys\<rparr>), s')"

inductive mock_step :: "platform \<Rightarrow> client \<times> mock_server \<Rightarrow> client \<times> mock_server \<Rightarrow> bool" for P where
  MockTyped: "mock_step P (c, s) (handleLine (E :: env) (mockProvider P) line c, s)"
| MockFired: "mock_timer P x y \<Longrightarrow> mock_step P x y"

inductive mock_reachable :: "platform \<Rightarrow> client \<times> mock_server \<Rightarrow> bool" for P where
  MockStart: "mock_reachable P (newClient (E :: env) config store, newMockServer)"
| MockStep: "mock_reachable P x \<Longrightarrow> mock_step P x y \<Longrightarrow> mock_reachable P y"

inductive_cases mock_timerE: "mock_timer P x y"
inductive_cases mock_stepE: "mock_step P x y"


text \<open>Every method answers with the type its callback takes.\<close>

lemma mockAnswer_kind: "kindOf (fst (mockAnswer E uuid req s)) = asks req"
  by (cases req) (simp_all add: apfst_def map_prod_def split: prod.split)

lemma mock_timer_answers:
  assumes "mock_timer P (c, s) (c', s')" and "sealedCalls (mockProvider P) [] c"
  shows "answers (mockProvider P) c c'"
  using assms(1)
proof (rule mock_timerE)
  fix c0 xs req k ys uuid s0 r s1 and E :: env
  assume eq: "(c, s) = (c0, s0)" "(c', s') = (deliver E (mockProvider P) k r (c0\<lparr>cl_pending := xs @ ys\<rparr>), s1)"
    and p: "cl_pending c0 = xs @ Call req k # ys" and m: "mockAnswer E uuid req s0 = (r, s1)"
  have "asks req = expects k" using assms(2) p eq by (auto simp: sealedCalls_def)
  then have "fits k r" using mockAnswer_kind [of E uuid req s0] m by (simp add: fits_def)
  with p eq show ?thesis by (auto intro: Answer)
qed

definition mockStart :: "client \<times> mock_server \<Rightarrow> bool" where
  "mockStart x \<longleftrightarrow> startingClient (fst x) \<and> snd x = newMockServer"

interpretation mocks: stepping_system "mock_reachable P" "mock_step P" mockStart for P
proof
  fix x y
  assume "mock_reachable P x" "mock_step P x y"
  then show "mock_reachable P y" by (rule MockStep)
next
  fix x
  assume "mockStart x"
  then show "mock_reachable P x"
    unfolding mockStart_def startingClient_def by (metis MockStart prod.collapse)
next
  fix x and Q :: "client \<times> mock_server \<Rightarrow> bool"
  assume r: "mock_reachable P x" and base: "\<And>s. mockStart s \<Longrightarrow> Q s"
    and step: "\<And>s t. mock_reachable P s \<Longrightarrow> Q s \<Longrightarrow> mock_step P s t \<Longrightarrow> Q t"
  from r show "Q x"
  proof (induction rule: mock_reachable.induct)
    case (MockStart E config store)
    show ?case by (rule base) (unfold mockStart_def startingClient_def, auto)
  next
    case (MockStep x y)
    show ?case by (rule step [OF MockStep.hyps(1) MockStep.IH MockStep.hyps(2)])
  qed
qed

text \<open>The mock mode is the client with its gateways; a timer that fires is an answer.\<close>

lemma mock_timer_client:
  assumes "reachable (mockProvider P) (fst x)" and "mock_timer P x y"
  shows "answers (mockProvider P) (fst x) (fst y)"
  using mock_timer_answers [of P "fst x" "snd x" "fst y" "snd y"] sealed_reachable [OF assms(1)] assms(2) by simp

interpretation mock_client: simulation "mock_reachable P" "mock_step P" mockStart
    "reachable (mockProvider P)" "client_step (mockProvider P)" fst for P
proof
  fix x y
  assume "reachable (mockProvider P) (fst x)" "mock_step P x y"
  then show "fst y = fst x \<or> client_step (mockProvider P) (fst x) (fst y)"
    by (auto elim!: mock_stepE intro: client_step.Typed client_step.Answered mock_timer_client)
qed (auto simp: mockStart_def intro: clients.reach_start)

interpretation mock_settling: settling_simulation "mock_reachable P" "mock_step P" mockStart
    "reachable (mockProvider P)" "client_step (mockProvider P)" fst "answers (mockProvider P)" work "mock_timer P" for P
  by unfold_locales (auto intro: MockFired mock_timer_client mock_client.simulates)

section \<open>What the mock server keeps\<close>

definition mockMessageId :: "nat \<Rightarrow> qstring" where
  "mockMessageId n = argInt (Q ''mock-message-%1'') (int n)"

definition numbered :: "mock_server \<Rightarrow> bool" where
  "numbered s \<longleftrightarrow>
     map lm_id (mg_messages s) = map mockMessageId [1..<nat (mg_nextMessageNumber s)]
     \<and> 1 \<le> mg_nextMessageNumber s
     \<and> set (map lm_direction (mg_messages s)) \<subseteq> {SentDir}"

lemma mockMessageId_eq: "mockMessageId n = Q ''mock-message-'' @ qNumber (int n)"
proof -
  have "pieces (Q ''mock-message-%1'') = map Plain (Q ''mock-message-'') @ [Marker 1 (Q ''%1'')]"
    by (simp add: Q_def markerAt_def startsWith_def isDigit_def digitValue_def)
  moreover have "markerNumbers (map Plain s @ [Marker n r]) = [n]" for s n r
    by (induction s) simp_all
  moreover have "concat (map (fillPiece al) (map Plain s)) = s" for al s
    by (induction s) simp_all
  ultimately show ?thesis by (simp add: mockMessageId_def argN_def)
qed

lemma mockMessageId_inj: "mockMessageId m = mockMessageId n \<longleftrightarrow> m = n"
  by (simp add: mockMessageId_eq qNumber_inj)

lemma numbered_send: "numbered s \<Longrightarrow> numbered (snd (mockSendMessage E t d p s))"
proof -
  assume s: "numbered s"
  then have "1 \<le> mg_nextMessageNumber s" by (simp add: numbered_def)
  then have n: "nat (mg_nextMessageNumber s + 1) = Suc (nat (mg_nextMessageNumber s))"
    "1 \<le> nat (mg_nextMessageNumber s)" "int (nat (mg_nextMessageNumber s)) = mg_nextMessageNumber s"
    by linarith+
  then have "map mockMessageId [1..<nat (mg_nextMessageNumber s + 1)]
      = map mockMessageId [1..<nat (mg_nextMessageNumber s)] @ [argInt (Q ''mock-message-%1'') (mg_nextMessageNumber s)]"
    unfolding n(1) by (simp add: mockMessageId_def)
  with s show ?thesis
    by (simp add: mockSendMessage_def withServerFields_def numbered_def Let_def)
qed

lemma numbered_update:
  assumes "numbered s" and "\<And>m. lm_id (f m) = lm_id m" and "\<And>m. lm_direction (f m) = lm_direction m"
  shows "numbered (s\<lparr>mg_messages := updateFirst p f (mg_messages s)\<rparr>)"
  using assms(1) map_key_updateFirst [of lm_id f p "mg_messages s", OF assms(2)]
    map_key_updateFirst [of lm_direction f p "mg_messages s", OF assms(3)]
  by (simp add: numbered_def del: set_map)

lemma numbered_answer: "numbered s \<Longrightarrow> numbered (snd (mockAnswer E uuid req s))"
proof (cases req)
  case (UpsertDeviceKeys t d)
  assume "numbered s"
  then show ?thesis by (simp add: UpsertDeviceKeys mockUpsertDeviceKeys_def numbered_def Let_def apfst_def)
next
  case (RevokeMessage t m)
  assume "numbered s"
  then show ?thesis
    by (simp add: RevokeMessage mockRevokeMessage_def Let_def apfst_def numbered_update split: option.split)
next
  case (DeleteMessageOn t m)
  assume "numbered s"
  then show ?thesis by (simp add: DeleteMessageOn mockDeleteMessage_def apfst_def numbered_update)
qed (simp_all add: mockForwardMessage_def numbered_send snd_apfst)

lemma numbered_step: "mock_step P x y \<Longrightarrow> numbered (snd x) \<Longrightarrow> numbered (snd y)"
  by (erule mock_stepE; auto elim!: mock_timerE) (metis numbered_answer snd_conv)

lemma numbered_start: "mockStart x \<Longrightarrow> numbered (snd x)"
  by (simp add: mockStart_def numbered_def newMockServer_def)

lemma mock_reachable_numbered: "mock_reachable P x \<Longrightarrow> numbered (snd x)"
  using numbered_start numbered_step by (rule mocks.invariant)

lemma numbered_distinct: "numbered s \<Longrightarrow> distinct (map lm_id (mg_messages s))"
  by (simp add: numbered_def distinct_map inj_on_def mockMessageId_inj)


section \<open>The mock mode settles\<close>

lemma mock_timer_enabled:
  assumes "cl_pending (fst x) \<noteq> []"
  shows "\<exists>y. mock_timer P x y"
proof -
  obtain c s where x: "x = (c, s)" by (cases x)
  obtain req k ys where p: "cl_pending c = [] @ Call req k # ys"
    using assms x by (metis append_Nil call.exhaust fst_conv list.exhaust)
  obtain r s' where "mockAnswer sampleEnv [] req s = (r, s')" by fastforce
  from Fired [OF p this] show ?thesis unfolding x by blast
qed

interpretation mock_draining: draining_system "mock_reachable P" "mock_step P" "mock_timer P"
    "\<lambda>x. work (fst x)" "\<lambda>x. cl_pending (fst x) = []" for P
  by unfold_locales (rule mock_timer_enabled)

text \<open>
  Property C11: the mock mode is a closed system that comes to rest. After any lines typed and
  timers fired, at most \<open>work\<close> further timers can fire without new input, and from every state
  on the way they can all fire, after which nothing is outstanding and the router is free:
  the mock gateways answer every request with the type its callback takes.
\<close>

theorem mock_mode_settles:
  assumes "mock_reachable P x" and "(mock_timer P ^^ n) x y"
  shows "n \<le> work (fst x)
    \<and> (\<exists>m z. (mock_timer P ^^ m) y z \<and> cl_pending (fst z) = [] \<and> \<not> rt_operationInProgress (cl_router (fst z)))"
proof -
  have y: "mock_reachable P y" "n \<le> work (fst x)"
    using mock_settling.settled.events_bounded [OF assms(2,1)] by simp_all
  obtain m z where z: "(mock_timer P ^^ m) y z" "cl_pending (fst z) = []" "mock_reachable P z"
    using mock_draining.drains [OF y(1)] by blast
  have "\<not> rt_operationInProgress (cl_router (fst z))"
    using busyOk_reachable [OF mock_client.simulates [OF z(3)]] z(2) by (simp add: busyOk_def busy_def working_def)
  with y(2) z show ?thesis by blast
qed

lemma mock_mode_settles_witness:
  "\<exists>m z. (mock_timer (platform.truncate sampleEnv) ^^ m)
       (handleLine sampleEnv (mockProvider (platform.truncate sampleEnv)) (Q ''/sync'') sampleClient, newMockServer) z
     \<and> cl_pending (fst z) = []"
proof -
  let ?P = "platform.truncate sampleEnv"
  have "mock_reachable ?P (sampleClient, newMockServer)"
    unfolding sampleClient_def by (rule MockStart)
  then have "mock_reachable ?P (handleLine sampleEnv (mockProvider ?P) (Q ''/sync'') sampleClient, newMockServer)"
    by (rule MockStep [OF _ MockTyped])
  from mock_mode_settles [OF this, of 0] show ?thesis by auto
qed

end
