(* ===== verification/HttpText.thy ===== *)
theory HttpText
  imports Services
begin

text \<open>
  The pure part of client/src/gateways/HttpGateways.cpp: paths, URLs, error texts and the
  JSON the server speaks. What Qt contributes (parsing of documents and URLs, percent
  encoding, UUID syntax) is the record \<open>http_env\<close>.
\<close>

datatype json_doc = DocNull | DocObject json_obj | DocArray "json list"

record url =
  url_base :: qstring
  url_path :: qstring
  url_query :: qstring

text \<open>
  \<open>nt_parseDocument\<close> gives the parser's error text or the document; \<open>nt_parseUrl\<close> splits a
  URL into scheme and authority, the decoded path, and the query.
\<close>

record http_env = env +
  nt_parseDocument :: "bytes \<Rightarrow> qstring + json_doc"
  nt_parseUrl :: "qstring \<Rightarrow> url"
  nt_percentEncode :: "qstring \<Rightarrow> qstring"
  nt_isUuid :: "qstring \<Rightarrow> bool"

fun docObject :: "json_doc \<Rightarrow> json_obj" where
  "docObject (DocObject ob) = ob"
| "docObject _ = []"

fun docArray :: "json_doc \<Rightarrow> json list" where
  "docArray (DocArray xs) = xs"
| "docArray _ = []"

section \<open>Paths\<close>

definition MessagePageLimit :: nat where "MessagePageLimit = 100"
definition InitialMessageOffset :: int where "InitialMessageOffset = 0"

fun chopSlashes :: "qstring \<Rightarrow> qstring" where
  "chopSlashes [] = []"
| "chopSlashes (c # s) = (if c = 47 then chopSlashes s else c # s)"

text \<open>The loop chops final slashes; \<open>chopSlashes\<close> runs on the reversed text.\<close>

definition withoutTrailingSlash :: "qstring \<Rightarrow> qstring" where
  "withoutTrailingSlash v = rev (chopSlashes (rev v))"

definition normalizedPath :: "qstring \<Rightarrow> qstring" where
  "normalizedPath path = (if \<not> startsWith path (Q ''/'') then Q ''/'' @ path else path)"

definition pathWithoutQuery :: "qstring \<Rightarrow> qstring" where
  "pathWithoutQuery path = (case indexOf 63 path of None \<Rightarrow> path | Some queryStart \<Rightarrow> take queryStart path)"

definition queryFromPath :: "qstring \<Rightarrow> qstring" where
  "queryFromPath path = (case indexOf 63 path of None \<Rightarrow> [] | Some queryStart \<Rightarrow> drop (queryStart + 1) path)"

definition authPath :: "qstring \<Rightarrow> qstring" where
  "authPath suffix = arg1 (Q ''/auth%1'') suffix"

definition keyPath :: "qstring \<Rightarrow> qstring" where
  "keyPath suffix = arg1 (Q ''/keys%1'') suffix"

definition messagePath :: "qstring \<Rightarrow> qstring" where
  "messagePath suffix = arg1 (Q ''/messages%1'') suffix"

definition pagedMessagePath :: "qstring \<Rightarrow> int \<Rightarrow> qstring" where
  "pagedMessagePath suffix offset =
     messagePath (argInt (argInt (arg1 (Q ''%1?limit=%2&offset=%3'') suffix) (int MessagePageLimit)) offset)"

definition blockchainPath :: "qstring \<Rightarrow> qstring" where
  "blockchainPath suffix = arg1 (Q ''/blockchain%1'') suffix"

definition userPath :: "qstring \<Rightarrow> qstring" where
  "userPath suffix = arg1 (Q ''/users%1'') suffix"

definition encodedPathSegment :: "'x http_env_scheme \<Rightarrow> qstring \<Rightarrow> qstring" where
  "encodedPathSegment E v = nt_percentEncode E v"

definition addOptionalString :: "json_obj \<Rightarrow> qstring \<Rightarrow> qstring \<Rightarrow> json_obj" where
  "addOptionalString object key v = (if v = [] then jinsert key JNull object else jinsert key (JStr v) object)"

definition isRefreshPath :: "qstring \<Rightarrow> bool" where
  "isRefreshPath path \<longleftrightarrow> normalizedPath path = authPath (Q ''/refresh'')"

definition urlFor :: "url \<Rightarrow> qstring \<Rightarrow> url" where
  "urlFor baseUrl path =
     (let basePath = withoutTrailingSlash (url_path baseUrl)
      in baseUrl\<lparr>url_path := basePath @ normalizedPath (pathWithoutQuery path), url_query := queryFromPath path\<rparr>)"

section \<open>Errors\<close>

text \<open>The pre-key conflict is recognised with the test KeyService makes.\<close>

definition httpIsAlreadyUploadedPreKeyError :: "'x platform_scheme \<Rightarrow> ClientError \<Rightarrow> bool" where
  "httpIsAlreadyUploadedPreKeyError P err =
     (let isHttpError = (ce_code err = HttpError);
          isConflict = containsStr (ce_message err) (qNumber ConflictStatusCode);
          mentionsPreKey = (containsFolded P (ce_message err) (Q ''prekey'')
             \<or> containsFolded P (ce_message err) (Q ''pre-key''));
          mentionsExisting = (containsFolded P (ce_message err) (Q ''already'')
             \<or> containsFolded P (ce_message err) (Q ''exists''))
      in isHttpError \<and> isConflict \<and> mentionsPreKey \<and> mentionsExisting)"

definition joinedStrings :: "qstring list \<Rightarrow> qstring \<Rightarrow> qstring" where
  "joinedStrings values separator =
     foldl (\<lambda>result v. (if result \<noteq> [] then result @ separator else result) @ v) [] values"

definition validationLocation :: "json list \<Rightarrow> qstring" where
  "validationLocation location =
     joinedStrings
       (concat (map (\<lambda>part. case part of
            JStr s \<Rightarrow> [s]
          | JInt i \<Rightarrow> [qNumber (toInt0 (Some part))]
          | JFrac \<Rightarrow> [qNumber (toInt0 (Some part))]
          | _ \<Rightarrow> []) location)) (Q ''.'')"

definition validationItem :: "json \<Rightarrow> qstring list" where
  "validationItem item =
     (let object = toObj (Some item);
          location = validationLocation (toArr (jget object (Q ''loc'')));
          message = toStr (jget object (Q ''msg''))
      in if location \<noteq> [] \<and> message \<noteq> [] then [argN (Q ''%1: %2'') [location, message]]
         else if message \<noteq> [] then [message] else [])"

definition validationDetailMessage :: "json option \<Rightarrow> qstring" where
  "validationDetailMessage detail =
     (case detail of
        Some (JStr s) \<Rightarrow> s
      | Some (JArr items) \<Rightarrow> joinedStrings (concat (map validationItem items)) (Q ''; '')
      | _ \<Rightarrow> [])"

datatype network_error = NoNetworkError | SslHandshakeFailed | TimedOut | OtherNetworkError

text \<open>A finished reply: the status is 0 when there is none, the body empty when it is not open.\<close>

record net_reply =
  np_error :: network_error
  np_statusCode :: int
  np_errorString :: qstring
  np_body :: bytes

definition statusError :: "ErrorCode \<Rightarrow> int \<Rightarrow> qstring \<Rightarrow> ClientError" where
  "statusError code statusCode message = mkError code (arg1 (argInt (Q ''HTTP %1: %2'') statusCode) message)"

definition errorForReply :: "'x http_env_scheme \<Rightarrow> net_reply \<Rightarrow> ClientError" where
  "errorForReply E r =
     (let statusCode = np_statusCode r;
          errorObject = (case nt_parseDocument E (np_body r) of Inr doc \<Rightarrow> docObject doc | Inl _ \<Rightarrow> []);
          detail = validationDetailMessage (jget errorObject (Q ''detail''));
          message = (if jcontains errorObject (Q ''detail'') \<and> detail \<noteq> [] then detail else np_errorString r)
      in if np_error r = SslHandshakeFailed then mkError TlsError message
         else if np_error r = TimedOut then mkError NetworkError AppText_HttpRequestTimedOut
         else if statusCode = 401 then statusError AuthRequired statusCode message
         else if statusCode = 404 then statusError NotFound statusCode message
         else if statusCode > 0 then statusError HttpError statusCode message
         else mkError NetworkError message)"

section \<open>What the server sends and is sent\<close>

definition tokensFromJson :: "json_obj \<Rightarrow> TokenSet" where
  "tokensFromJson j =
    \<lparr>ts_accessToken = toStr (jget j (Q ''access_token'')), ts_refreshToken = toStr (jget j (Q ''refresh_token'')),
     ts_tokenType = toStr (jget j (Q ''token_type'')), ts_expiresIn = toInt0 (jget j (Q ''expires_in''))\<rparr>"

definition httpUserFromJson :: "json_obj \<Rightarrow> UserProfile" where
  "httpUserFromJson j =
    \<lparr>up_id = toStr (jget j (Q ''id'')), up_username = toStr (jget j (Q ''username'')), up_email = toStr (jget j (Q ''email''))\<rparr>"

definition deviceBody :: "DeviceKeyMaterial \<Rightarrow> json_obj" where
  "deviceBody d =
    [(Q ''device_id'', JInt (dk_deviceId d)), (Q ''registration_id'', JInt (dk_registrationId d)),
     (Q ''identity_key_public_b64'', JStr (dk_identityKey d)),
     (Q ''identity_signing_public_b64'', JStr (dk_identitySigningKey d)),
     (Q ''signed_prekey_id'', JInt (dk_signedPreKeyId d)),
     (Q ''signed_prekey_public_b64'', JStr (dk_signedPreKey d)),
     (Q ''signed_prekey_signature_b64'', JStr (dk_signedPreKeySignature d))]"

definition preKeyBody :: "OneTimePreKey \<Rightarrow> json" where
  "preKeyBody k =
     JObj [(Q ''device_id'', JInt (otk_deviceId k)), (Q ''prekey_id'', JInt (otk_preKeyId k)),
           (Q ''prekey_public_b64'', JStr (otk_publicKey k))]"

definition bundleFromJson :: "qstring \<Rightarrow> json_obj \<Rightarrow> PreKeyBundle" where
  "bundleFromJson userId j =
    \<lparr>pkb_userId = userId, pkb_registrationId = toInt0 (jget j (Q ''registrationId'')),
     pkb_deviceId = toInt0 (jget j (Q ''deviceId'')), pkb_identityKey = toStr (jget j (Q ''identityKey'')),
     pkb_identitySigningKey = toStr (jget j (Q ''identitySigningKey'')),
     pkb_signedPreKeyId = toInt0 (jget j (Q ''signedPreKeyId'')), pkb_signedPreKey = toStr (jget j (Q ''signedPreKey'')),
     pkb_signedPreKeySignature = toStr (jget j (Q ''signedPreKeySignature'')),
     pkb_oneTimePreKeyId = (if isNullOrUndefined (jget j (Q ''oneTimePreKeyId'')) then None
                            else Some (toInt0 (jget j (Q ''oneTimePreKeyId'')))),
     pkb_oneTimePreKey = toStr (jget j (Q ''oneTimePreKey''))\<rparr>"

definition userAddressFromJson :: "json_obj \<Rightarrow> int \<Rightarrow> UserAddress" where
  "userAddressFromJson j defaultDeviceId =
     (let devices = toArr (jget j (Q ''devices''));
          active = find (\<lambda>v. toBoolD True (jget (toObj (Some v)) (Q ''is_active''))) devices;
          deviceId = (if devices = [] then defaultDeviceId
                      else let device = toObj (Some (case active of None \<Rightarrow> hd devices | Some d \<Rightarrow> d))
                           in toIntD defaultDeviceId (jget device (Q ''device_id'')))
      in \<lparr>ua_userId = toStr (jget j (Q ''id'')), ua_username = toStr (jget j (Q ''username'')), ua_deviceId = deviceId\<rparr>)"

definition sendBodyFor :: "LocalMessage \<Rightarrow> int option \<Rightarrow> json_obj" where
  "sendBodyFor draft consumedPreKeyId =
     (let body = [(Q ''sender_device_id'', JInt (lm_senderDeviceId draft)),
                  (Q ''recipient_user_id'', JStr (lm_recipientUserId draft)),
                  (Q ''recipient_device_id'', JInt (lm_recipientDeviceId draft)),
                  (Q ''wire_payload_json'', JStr (lm_wirePayloadJson draft))]
      in case consumedPreKeyId of
           None \<Rightarrow> body | Some i \<Rightarrow> jinsert (Q ''consumed_one_time_prekey_id'') (JInt i) body)"

definition httpMessageFromJson :: "'x platform_scheme \<Rightarrow> MessageDirection \<Rightarrow> json_obj \<Rightarrow> LocalMessage" where
  "httpMessageFromJson P direction j =
     (let createdAt = toStr (jget j (Q ''created_at'')) in
    \<lparr>lm_id = toStr (jget j (Q ''id'')), lm_senderUserId = toStr (jget j (Q ''sender_user_id'')),
     lm_senderDeviceId = toInt0 (jget j (Q ''sender_device_id'')),
     lm_recipientUserId = toStr (jget j (Q ''recipient_user_id'')),
     lm_recipientDeviceId = toInt0 (jget j (Q ''recipient_device_id'')),
     lm_wirePayloadJson = toStr (jget j (Q ''wire_payload_json'')),
     lm_consumedOneTimePreKeyId = (if isDoubleJ (jget j (Q ''consumed_one_time_prekey_id''))
        then Some (toInt0 (jget j (Q ''consumed_one_time_prekey_id''))) else None),
     lm_createdAt = pf_dateFromString P createdAt,
     lm_accessRevokedAt = toStr (jget j (Q ''access_revoked_at'')),
     lm_senderDeletedAt = toStr (jget j (Q ''sender_deleted_at'')),
     lm_recipientDeletedAt = toStr (jget j (Q ''recipient_deleted_at'')),
     lm_deletedAt = toStr (jget j (Q ''deleted_at'')), lm_readAt = [],
     lm_localSenderCopyWirePayloadJson = [], lm_direction = direction, lm_createdAtRaw = createdAt,
     lm_cachedAnchor = emptyAnchor\<rparr>)"

definition messageListFromJson :: "'x platform_scheme \<Rightarrow> MessageDirection \<Rightarrow> json list \<Rightarrow> LocalMessage list" where
  "messageListFromJson P direction array = map (\<lambda>v. httpMessageFromJson P direction (toObj (Some v))) array"

definition httpAnchorFromJson :: "json_obj \<Rightarrow> BlockchainAnchor" where
  "httpAnchorFromJson j =
    \<lparr>ba_id = toStr (jget j (Q ''id'')), ba_messageId = toStr (jget j (Q ''message_id'')),
     ba_recordId = toStr (jget j (Q ''record_id'')), ba_digest = toStr (jget j (Q ''digest'')),
     ba_merkleRoot = toStr (jget j (Q ''merkle_root'')), ba_transactionHash = toStr (jget j (Q ''transaction_hash'')),
     ba_contractAddress = toStr (jget j (Q ''contract_address'')), ba_chain = toStr (jget j (Q ''chain'')),
     ba_status = toStr (jget j (Q ''status'')), ba_anchoredAt = toStr (jget j (Q ''anchored_at''))\<rparr>"

definition verificationFromJson :: "json_obj \<Rightarrow> BlockchainVerification" where
  "verificationFromJson j =
    \<lparr>bv_valid = toBoolD False (jget j (Q ''valid'')), bv_chain = toStr (jget j (Q ''chain'')),
     bv_status = toStr (jget j (Q ''status'')), bv_anchorId = toStr (jget j (Q ''anchor_id'')),
     bv_messageId = toStr (jget j (Q ''message_id'')), bv_recordId = toStr (jget j (Q ''record_id'')),
     bv_digest = toStr (jget j (Q ''digest'')), bv_transactionHash = toStr (jget j (Q ''transaction_hash'')),
     bv_contractAddress = toStr (jget j (Q ''contract_address'')), bv_verifiedAt = toStr (jget j (Q ''verified_at''))\<rparr>"

definition nullIfEmpty :: "qstring \<Rightarrow> json" where
  "nullIfEmpty s = (if s = [] then JNull else JStr s)"

definition verifyBody :: "BlockchainAnchor \<Rightarrow> json_obj" where
  "verifyBody anchor =
    [(Q ''digest'', JStr (ba_digest anchor)), (Q ''record_id'', JStr (ba_recordId anchor)),
     (Q ''merkle_root'', nullIfEmpty (ba_merkleRoot anchor)),
     (Q ''transaction_hash'', nullIfEmpty (ba_transactionHash anchor)), (Q ''chain'', JStr (ba_chain anchor))]"

end
