(* ===== verification/Http.thy ===== *)
theory Http
  imports HttpText
begin

text \<open>
  HttpClient and the HTTP gateways (client/src/gateways/HttpGateways.cpp). A request that was
  handed to the network is an \<open>exchange\<close> with the variables its reply handler captured; the
  handlers' callbacks are the constructors of \<open>http_callback\<close>. \<open>onFinished\<close> is the reply
  handler; what it gives to the services (an answer to a gateway call, refreshed tokens) is
  its list of outputs.
\<close>

record http_request =
  rq_method :: qstring
  rq_url :: url
  rq_contentType :: qstring
  rq_timeout :: int
  rq_http2Allowed :: bool
  rq_authorization :: "bytes option"
  rq_payload :: bytes

datatype gateway_op =
    GRegister
  | GLoginTokens
  | GLoginUser TokenSet
  | GCurrentUser
  | GLogout
  | GDone
  | GUpload
  | GBundle qstring
  | GResolve qstring int
  | GMessage MessageDirection
  | GPage qstring qstring MessageDirection int "LocalMessage list"
  | GAnchor
  | GVerify

datatype http_callback =
    Gateway gateway_op continuation
  | RetryAfterRefresh qstring qstring qstring qstring "json_obj option" http_callback

record exchange =
  ex_request :: http_request
  ex_method :: qstring
  ex_path :: qstring
  ex_accessToken :: qstring
  ex_body :: "json_obj option"
  ex_alreadyRetried :: bool
  ex_callback :: http_callback

record http =
  ht_baseUrl :: url
  ht_tokens :: TokenSet
  ht_exchanges :: "exchange list"

datatype http_output = Answered continuation reply | TokensUpdated TokenSet

definition noTokens :: TokenSet where
  "noTokens = \<lparr>ts_accessToken = [], ts_refreshToken = [], ts_tokenType = [], ts_expiresIn = 0\<rparr>"

section \<open>HttpClient\<close>

definition newHttpClient :: "'x http_env_scheme \<Rightarrow> qstring \<Rightarrow> http" where
  "newHttpClient E baseUrl =
     (let parsed = nt_parseUrl E (withoutTrailingSlash baseUrl);
          path = withoutTrailingSlash (url_path parsed)
      in \<lparr>ht_baseUrl = (if endsWith path AppText_ApiPrefix then parsed\<lparr>url_path := path\<rparr> else parsed),
          ht_tokens = noTokens, ht_exchanges = []\<rparr>)"

definition setTokens :: "TokenSet \<Rightarrow> http \<Rightarrow> http" where
  "setTokens tokens h = h\<lparr>ht_tokens := tokens\<rparr>"

definition clearTokens :: "http \<Rightarrow> http" where
  "clearTokens h = h\<lparr>ht_tokens := noTokens\<rparr>"

definition effectiveAccessToken :: "http \<Rightarrow> qstring \<Rightarrow> qstring" where
  "effectiveAccessToken h token =
     (if token \<noteq> [] \<and> ts_accessToken (ht_tokens h) \<noteq> [] then ts_accessToken (ht_tokens h) else token)"

definition requestFor :: "'x http_env_scheme \<Rightarrow> http \<Rightarrow> qstring \<Rightarrow> qstring \<Rightarrow> qstring \<Rightarrow> bytes \<Rightarrow> http_request" where
  "requestFor E h httpMethod path token payload =
     (let effective = effectiveAccessToken h token
      in \<lparr>rq_method = httpMethod, rq_url = urlFor (ht_baseUrl h) path, rq_contentType = AppText_JsonContentType,
          rq_timeout = AppText_HttpRequestTimeoutMilliseconds, rq_http2Allowed = False,
          rq_authorization = (if effective = [] then None
                              else Some (pf_toUtf8 E (AppText_BearerPrefix @ effective))),
          rq_payload = (if httpMethod = Q ''POST'' \<or> httpMethod = Q ''PUT'' then payload else [])\<rparr>)"

definition sendRequest ::
  "'x http_env_scheme \<Rightarrow> qstring \<Rightarrow> qstring \<Rightarrow> qstring \<Rightarrow> json_obj option \<Rightarrow> http_callback \<Rightarrow> bool \<Rightarrow> http \<Rightarrow> http" where
  "sendRequest E httpMethod path token body callback alreadyRetried h =
     (let payload = (case body of None \<Rightarrow> [] | Some ob \<Rightarrow> pf_jsonCompact E ob)
      in h\<lparr>ht_exchanges := ht_exchanges h @
            [\<lparr>ex_request = requestFor E h httpMethod path token payload, ex_method = httpMethod, ex_path = path,
              ex_accessToken = token, ex_body = body, ex_alreadyRetried = alreadyRetried,
              ex_callback = callback\<rparr>]\<rparr>)"

definition httpGet :: "'x http_env_scheme \<Rightarrow> qstring \<Rightarrow> qstring \<Rightarrow> http_callback \<Rightarrow> http \<Rightarrow> http" where
  "httpGet E path token callback = sendRequest E (Q ''GET'') path token None callback False"

definition httpPost :: "'x http_env_scheme \<Rightarrow> qstring \<Rightarrow> qstring \<Rightarrow> json_obj \<Rightarrow> http_callback \<Rightarrow> http \<Rightarrow> http" where
  "httpPost E path token body callback = sendRequest E (Q ''POST'') path token (Some body) callback False"

definition httpPut :: "'x http_env_scheme \<Rightarrow> qstring \<Rightarrow> qstring \<Rightarrow> json_obj \<Rightarrow> http_callback \<Rightarrow> http \<Rightarrow> http" where
  "httpPut E path token body callback = sendRequest E (Q ''PUT'') path token (Some body) callback False"

definition deleteResource :: "'x http_env_scheme \<Rightarrow> qstring \<Rightarrow> qstring \<Rightarrow> http_callback \<Rightarrow> http \<Rightarrow> http" where
  "deleteResource E path token callback = sendRequest E (Q ''DELETE'') path token None callback False"

definition refreshTokens ::
  "'x http_env_scheme \<Rightarrow> qstring \<Rightarrow> qstring \<Rightarrow> qstring \<Rightarrow> json_obj option \<Rightarrow> http_callback \<Rightarrow> http \<Rightarrow> http" where
  "refreshTokens E httpMethod path token body callback h =
     (let previousRefreshToken = ts_refreshToken (ht_tokens h)
      in sendRequest E (Q ''POST'') (authPath (Q ''/refresh'')) []
           (Some [(Q ''refresh_token'', JStr previousRefreshToken)])
           (RetryAfterRefresh previousRefreshToken httpMethod path token body callback) True h)"

section \<open>The gateways' callbacks\<close>

definition fetchMessages ::
  "'x http_env_scheme \<Rightarrow> qstring \<Rightarrow> qstring \<Rightarrow> MessageDirection \<Rightarrow> int \<Rightarrow> LocalMessage list \<Rightarrow> continuation \<Rightarrow> http \<Rightarrow> http" where
  "fetchMessages E token suffix direction offset collected k =
     httpGet E (pagedMessagePath suffix offset) token (Gateway (GPage token suffix direction offset collected) k)"

text \<open>The callback that takes a message page: the next page is asked for after a full one.\<close>

definition pageReply ::
  "'x http_env_scheme \<Rightarrow> qstring \<Rightarrow> qstring \<Rightarrow> MessageDirection \<Rightarrow> int \<Rightarrow> LocalMessage list \<Rightarrow> continuation
     \<Rightarrow> json_doc \<Rightarrow> http \<Rightarrow> http \<times> http_output list" where
  "pageReply E token suffix direction offset collected k document h =
     (let page = messageListFromJson E direction (docArray document);
          lastPage = (length page < MessagePageLimit);
          collected' = collected @ page
      in if lastPage then (h, [Answered k (MessagesReply (Inr collected'))])
         else (fetchMessages E token suffix direction (offset + int MessagePageLimit) collected' k h, []))"

definition resolveReply :: "qstring \<Rightarrow> int \<Rightarrow> json_doc result \<Rightarrow> UserAddress result" where
  "resolveReply trimmedUsername defaultDeviceId r =
     (case r of
        Inl err \<Rightarrow> failure (ce_code err) AppText_UsernameResolveUnavailable
      | Inr document \<Rightarrow>
          (let address = userAddressFromJson (docObject document) defaultDeviceId
           in if ua_userId address = []
              then failure NotFound (arg1 (Q ''No user found for username %1.'') trimmedUsername)
              else Inr address))"

definition uploadResult :: "'x platform_scheme \<Rightarrow> json_doc result \<Rightarrow> bool result" where
  "uploadResult P r =
     (case r of
        Inr _ \<Rightarrow> Inr True
      | Inl err \<Rightarrow> (if httpIsAlreadyUploadedPreKeyError P err then Inr True else Inl err))"

fun gatewayReply ::
  "'x http_env_scheme \<Rightarrow> gateway_op \<Rightarrow> continuation \<Rightarrow> json_doc result \<Rightarrow> http \<Rightarrow> http \<times> http_output list" where
  "gatewayReply E GRegister k r h = (h, [Answered k (UserReply (map_sum id (\<lambda>d. httpUserFromJson (docObject d)) r))])"
| "gatewayReply E GLoginTokens k r h =
     (case r of
        Inl err \<Rightarrow> (h, [Answered k (SessionReply (Inl err))])
      | Inr document \<Rightarrow>
          (let tokens = tokensFromJson (docObject document)
           in (httpGet E (authPath (Q ''/me'')) (ts_accessToken tokens) (Gateway (GLoginUser tokens) k)
                 (setTokens tokens h), [])))"
| "gatewayReply E (GLoginUser tokens) k r h =
     (h, [Answered k (SessionReply
            (map_sum id (\<lambda>d. \<lparr>as_user = httpUserFromJson (docObject d), as_tokens = tokens\<rparr>) r))])"
| "gatewayReply E GCurrentUser k r h = (h, [Answered k (UserReply (map_sum id (\<lambda>d. httpUserFromJson (docObject d)) r))])"
| "gatewayReply E GLogout k r h =
     (case r of
        Inl err \<Rightarrow> (h, [Answered k (BoolReply (Inl err))])
      | Inr _ \<Rightarrow> (clearTokens h, [Answered k (BoolReply (Inr True))]))"
| "gatewayReply E GDone k r h = (h, [Answered k (BoolReply (map_sum id (\<lambda>_. True) r))])"
| "gatewayReply E GUpload k r h = (h, [Answered k (BoolReply (uploadResult E r))])"
| "gatewayReply E (GBundle userId) k r h =
     (h, [Answered k (BundleReply (map_sum id (\<lambda>d. bundleFromJson userId (docObject d)) r))])"
| "gatewayReply E (GResolve username deviceId) k r h = (h, [Answered k (AddressReply (resolveReply username deviceId r))])"
| "gatewayReply E (GMessage direction) k r h =
     (h, [Answered k (MessageReply (map_sum id (\<lambda>d. httpMessageFromJson E direction (docObject d)) r))])"
| "gatewayReply E (GPage token suffix direction offset collected) k r h =
     (case r of
        Inl err \<Rightarrow> (h, [Answered k (MessagesReply (Inl err))])
      | Inr document \<Rightarrow> pageReply E token suffix direction offset collected k document h)"
| "gatewayReply E GAnchor k r h = (h, [Answered k (AnchorReply (map_sum id (\<lambda>d. httpAnchorFromJson (docObject d)) r))])"
| "gatewayReply E GVerify k r h =
     (h, [Answered k (VerificationReply (map_sum id (\<lambda>d. verificationFromJson (docObject d)) r))])"

fun runCallback ::
  "'x http_env_scheme \<Rightarrow> http_callback \<Rightarrow> json_doc result \<Rightarrow> http \<Rightarrow> http \<times> http_output list" where
  "runCallback E (Gateway op k) r h = gatewayReply E op k r h"
| "runCallback E (RetryAfterRefresh previousRefreshToken httpMethod path token body callback) r h =
     (case r of
        Inl err \<Rightarrow> runCallback E callback (Inl err) h
      | Inr document \<Rightarrow>
          (let fresh = tokensFromJson (docObject document);
               tokens = (if ts_refreshToken fresh = [] then fresh\<lparr>ts_refreshToken := previousRefreshToken\<rparr> else fresh);
               h' = setTokens tokens h;
               retryToken = (if token = [] then [] else ts_accessToken tokens)
           in (sendRequest E httpMethod path retryToken body callback True h', [TokensUpdated tokens])))"

section \<open>The reply handler\<close>

definition isBlank :: "bytes \<Rightarrow> bool" where
  "isBlank b \<longleftrightarrow> list_all (\<lambda>c. c = 32 \<or> (9 \<le> c \<and> c \<le> 13)) b"

definition canRefresh :: "exchange \<Rightarrow> net_reply \<Rightarrow> http \<Rightarrow> bool" where
  "canRefresh ex r h \<longleftrightarrow> np_statusCode r = 401 \<and> \<not> ex_alreadyRetried ex
     \<and> ts_refreshToken (ht_tokens h) \<noteq> [] \<and> \<not> isRefreshPath (ex_path ex)"

definition onFinished :: "'x http_env_scheme \<Rightarrow> exchange \<Rightarrow> net_reply \<Rightarrow> http \<Rightarrow> http \<times> http_output list" where
  "onFinished E ex r h =
     (if np_error r \<noteq> NoNetworkError
      then (if canRefresh ex r h
            then (refreshTokens E (ex_method ex) (ex_path ex) (ex_accessToken ex) (ex_body ex) (ex_callback ex) h, [])
            else runCallback E (ex_callback ex) (Inl (errorForReply E r)) h)
      else case nt_parseDocument E (np_body r) of
             Inl parseError \<Rightarrow>
               (if \<not> isBlank (np_body r)
                then runCallback E (ex_callback ex) (failure HttpError parseError) h
                else runCallback E (ex_callback ex) (Inr DocNull) h)
           | Inr document \<Rightarrow> runCallback E (ex_callback ex) (Inr document) h)"

text \<open>Any outstanding exchange may finish next.\<close>

inductive http_step :: "http_env \<Rightarrow> http \<Rightarrow> http_output list \<Rightarrow> http \<Rightarrow> bool" for E where
  Finished: "ht_exchanges h = xs @ ex # ys \<Longrightarrow> onFinished E ex r (h\<lparr>ht_exchanges := xs @ ys\<rparr>) = (h', outs)
    \<Longrightarrow> http_step E h outs h'"

section \<open>The gateways' methods\<close>

definition httpResolveUsername ::
  "'x http_env_scheme \<Rightarrow> qstring \<Rightarrow> qstring \<Rightarrow> int \<Rightarrow> continuation \<Rightarrow> http \<Rightarrow> http \<times> http_output list" where
  "httpResolveUsername E token username defaultDeviceId k h =
     (let trimmedUsername = trimmed username
      in if trimmedUsername = []
         then (h, [Answered k (AddressReply (failure InvalidCommand AppText_EmptyUsername))])
         else if nt_isUuid E trimmedUsername
         then (h, [Answered k (AddressReply (Inr \<lparr>ua_userId = trimmedUsername, ua_username = trimmedUsername,
                                                ua_deviceId = defaultDeviceId\<rparr>))])
         else (httpGet E (userPath (arg1 (Q ''/by-username/%1'') (encodedPathSegment E trimmedUsername))) token
                 (Gateway (GResolve trimmedUsername defaultDeviceId) k) h, []))"

definition httpCurrentUser :: "'x http_env_scheme \<Rightarrow> qstring \<Rightarrow> continuation \<Rightarrow> http \<Rightarrow> http" where
  "httpCurrentUser E token k = httpGet E (authPath (Q ''/me'')) token (Gateway GCurrentUser k)"

definition httpGetMessage :: "'x http_env_scheme \<Rightarrow> qstring \<Rightarrow> qstring \<Rightarrow> continuation \<Rightarrow> http \<Rightarrow> http" where
  "httpGetMessage E token messageId k =
     httpGet E (messagePath (arg1 (Q ''/%1'') messageId)) token (Gateway (GMessage ReceivedDir) k)"

definition httpRegisterUser ::
  "'x http_env_scheme \<Rightarrow> qstring \<Rightarrow> qstring \<Rightarrow> qstring \<Rightarrow> continuation \<Rightarrow> http \<Rightarrow> http" where
  "httpRegisterUser E username email password k =
     httpPost E (authPath (Q ''/register'')) []
       [(Q ''username'', JStr username), (Q ''email'', JStr email), (Q ''password'', JStr password)]
       (Gateway GRegister k)"

definition httpLogin ::
  "'x http_env_scheme \<Rightarrow> qstring \<Rightarrow> qstring \<Rightarrow> continuation \<Rightarrow> http \<Rightarrow> http" where
  "httpLogin E usernameOrEmail password k =
     httpPost E (authPath (Q ''/login'')) []
       [(Q ''username_or_email'', JStr usernameOrEmail), (Q ''password'', JStr password)]
       (Gateway GLoginTokens k)"

definition httpLogout ::
  "'x http_env_scheme \<Rightarrow> qstring \<Rightarrow> continuation \<Rightarrow> http \<Rightarrow> http" where
  "httpLogout E refreshToken k =
     httpPost E (authPath (Q ''/logout'')) [] [(Q ''refresh_token'', JStr refreshToken)] (Gateway GLogout k)"

definition httpUpsertDeviceKeys ::
  "'x http_env_scheme \<Rightarrow> qstring \<Rightarrow> DeviceKeyMaterial \<Rightarrow> continuation \<Rightarrow> http \<Rightarrow> http" where
  "httpUpsertDeviceKeys E token material k =
     httpPut E (keyPath (argInt (Q ''/devices/%1'') (dk_deviceId material))) token (deviceBody material)
       (Gateway GDone k)"

definition httpUploadOneTimePreKeys ::
  "'x http_env_scheme \<Rightarrow> qstring \<Rightarrow> int \<Rightarrow> OneTimePreKey list \<Rightarrow> continuation \<Rightarrow> http \<Rightarrow> http" where
  "httpUploadOneTimePreKeys E token deviceId preKeys k =
     httpPost E (keyPath (argInt (Q ''/devices/%1/one-time-prekeys'') deviceId)) token
       [(Q ''prekeys'', JArr (map preKeyBody preKeys))] (Gateway GUpload k)"

definition httpFetchPreKeyBundle ::
  "'x http_env_scheme \<Rightarrow> qstring \<Rightarrow> qstring \<Rightarrow> int \<Rightarrow> continuation \<Rightarrow> http \<Rightarrow> http" where
  "httpFetchPreKeyBundle E token userId deviceId k =
     httpGet E (keyPath (argInt (arg1 (Q ''/users/%1/devices/%2/prekey-bundle'') userId) deviceId)) token
       (Gateway (GBundle userId) k)"

definition httpSendMessage ::
  "'x http_env_scheme \<Rightarrow> qstring \<Rightarrow> LocalMessage \<Rightarrow> int option \<Rightarrow> continuation \<Rightarrow> http \<Rightarrow> http" where
  "httpSendMessage E token draft consumedPreKeyId k =
     httpPost E (messagePath []) token (sendBodyFor draft consumedPreKeyId) (Gateway (GMessage SentDir) k)"

definition httpListReceived ::
  "'x http_env_scheme \<Rightarrow> qstring \<Rightarrow> continuation \<Rightarrow> http \<Rightarrow> http" where
  "httpListReceived E token k =
     fetchMessages E token (Q ''/received'') ReceivedDir InitialMessageOffset [] k"

definition httpListSent ::
  "'x http_env_scheme \<Rightarrow> qstring \<Rightarrow> continuation \<Rightarrow> http \<Rightarrow> http" where
  "httpListSent E token k =
     fetchMessages E token (Q ''/sent'') SentDir InitialMessageOffset [] k"

definition httpForwardMessage ::
  "'x http_env_scheme \<Rightarrow> qstring \<Rightarrow> qstring \<Rightarrow> LocalMessage \<Rightarrow> int option \<Rightarrow> continuation \<Rightarrow> http \<Rightarrow> http" where
  "httpForwardMessage E token messageId draft consumedPreKeyId k =
     httpPost E (messagePath (arg1 (Q ''/%1/forward'') messageId)) token (sendBodyFor draft consumedPreKeyId)
       (Gateway (GMessage SentDir) k)"

definition httpRevokeMessage ::
  "'x http_env_scheme \<Rightarrow> qstring \<Rightarrow> qstring \<Rightarrow> continuation \<Rightarrow> http \<Rightarrow> http" where
  "httpRevokeMessage E token messageId k =
     httpPost E (messagePath (arg1 (Q ''/%1/revoke'') messageId)) token [] (Gateway (GMessage SentDir) k)"

definition httpDeleteMessage ::
  "'x http_env_scheme \<Rightarrow> qstring \<Rightarrow> qstring \<Rightarrow> continuation \<Rightarrow> http \<Rightarrow> http" where
  "httpDeleteMessage E token messageId k =
     deleteResource E (messagePath (arg1 (Q ''/%1'') messageId)) token (Gateway GDone k)"

definition httpFetchMessageAnchor ::
  "'x http_env_scheme \<Rightarrow> qstring \<Rightarrow> qstring \<Rightarrow> continuation \<Rightarrow> http \<Rightarrow> http" where
  "httpFetchMessageAnchor E token messageId k =
     httpGet E (messagePath (arg1 (Q ''/%1/anchor'') messageId)) [] (Gateway GAnchor k)"

definition httpVerifyAnchor ::
  "'x http_env_scheme \<Rightarrow> qstring \<Rightarrow> BlockchainAnchor \<Rightarrow> continuation \<Rightarrow> http \<Rightarrow> http" where
  "httpVerifyAnchor E token anchor k =
     httpPost E (blockchainPath (Q ''/verify'')) [] (verifyBody anchor) (Gateway GVerify k)"

text \<open>The method of the HTTP gateways each request of the services stands for.\<close>

fun httpCall :: "'x http_env_scheme \<Rightarrow> request \<Rightarrow> continuation \<Rightarrow> http \<Rightarrow> http \<times> http_output list" where
  "httpCall E (RegisterUser username email password) k h = (httpRegisterUser E username email password k h, [])"
| "httpCall E (LoginUser usernameOrEmail password) k h = (httpLogin E usernameOrEmail password k h, [])"
| "httpCall E (LogoutUser refreshToken) k h = (httpLogout E refreshToken k h, [])"
| "httpCall E (UpsertDeviceKeys token material) k h = (httpUpsertDeviceKeys E token material k h, [])"
| "httpCall E (UploadOneTimePreKeys token deviceId preKeys) k h = (httpUploadOneTimePreKeys E token deviceId preKeys k h, [])"
| "httpCall E (FetchPreKeyBundle token userId deviceId) k h = (httpFetchPreKeyBundle E token userId deviceId k h, [])"
| "httpCall E (ResolveUsername token username deviceId) k h = httpResolveUsername E token username deviceId k h"
| "httpCall E (SendMessage token draft preKeyId) k h = (httpSendMessage E token draft preKeyId k h, [])"
| "httpCall E (ListReceived token) k h = (httpListReceived E token k h, [])"
| "httpCall E (ListSent token) k h = (httpListSent E token k h, [])"
| "httpCall E (ForwardMessage token messageId draft preKeyId) k h = (httpForwardMessage E token messageId draft preKeyId k h, [])"
| "httpCall E (RevokeMessage token messageId) k h = (httpRevokeMessage E token messageId k h, [])"
| "httpCall E (DeleteMessageOn token messageId) k h = (httpDeleteMessage E token messageId k h, [])"
| "httpCall E (FetchMessageAnchor token messageId) k h = (httpFetchMessageAnchor E token messageId k h, [])"
| "httpCall E (VerifyAnchor token anchor) k h = (httpVerifyAnchor E token anchor k h, [])"

lemmas method_defs = httpRegisterUser_def httpLogin_def httpLogout_def
  httpUpsertDeviceKeys_def httpUploadOneTimePreKeys_def httpFetchPreKeyBundle_def
  httpSendMessage_def httpListReceived_def httpListSent_def
  httpForwardMessage_def httpRevokeMessage_def httpDeleteMessage_def
  httpFetchMessageAnchor_def httpVerifyAnchor_def

end
