(* ===== verification/HttpLaws.thy ===== *)
theory HttpLaws
  imports Http Client Numbers
begin

text \<open>
  What the HTTP layer guarantees to the services: every gateway call is answered exactly
  once and with an answer of its type, an exchange is followed by a bounded number of others,
  requests go to the configured server only and carry a token only when the caller gave one,
  and a message list is fetched to its end.
\<close>

section \<open>Continuations in flight\<close>

fun callbackContinuation :: "http_callback \<Rightarrow> continuation" where
  "callbackContinuation (Gateway op k) = k"
| "callbackContinuation (RetryAfterRefresh previous m p t b callback) = callbackContinuation callback"

fun callbackOp :: "http_callback \<Rightarrow> gateway_op" where
  "callbackOp (Gateway op k) = op"
| "callbackOp (RetryAfterRefresh previous m p t b callback) = callbackOp callback"

definition waitingOf :: "exchange list \<Rightarrow> continuation list" where
  "waitingOf exs = map (\<lambda>ex. callbackContinuation (ex_callback ex)) exs"

definition waiting :: "http \<Rightarrow> continuation multiset" where
  "waiting h = mset (waitingOf (ht_exchanges h))"

fun answeredBy :: "http_output \<Rightarrow> continuation list" where
  "answeredBy (Answered k r) = [k]"
| "answeredBy (TokensUpdated t) = []"

definition answered :: "http_output list \<Rightarrow> continuation multiset" where
  "answered outs = mset (concat (map answeredBy outs))"

lemma answered_simps [simp]:
  "answered [] = {#}" "answered [Answered k r] = {#k#}" "answered [TokensUpdated t] = {#}"
  by (simp_all add: answered_def)

lemma waiting_tokens [simp]: "waiting (setTokens t h) = waiting h" "waiting (clearTokens h) = waiting h"
  by (simp_all add: waiting_def setTokens_def clearTokens_def)

lemma waiting_send [simp]:
  "waiting (sendRequest E m p t b cb retried h) = waiting h + {#callbackContinuation cb#}"
  by (simp add: waiting_def waitingOf_def sendRequest_def Let_def)

lemma waiting_verbs [simp]:
  "waiting (httpGet E p t cb h) = waiting h + {#callbackContinuation cb#}"
  "waiting (httpPost E p t ob cb h) = waiting h + {#callbackContinuation cb#}"
  "waiting (httpPut E p t ob cb h) = waiting h + {#callbackContinuation cb#}"
  "waiting (deleteResource E p t cb h) = waiting h + {#callbackContinuation cb#}"
  "waiting (fetchMessages E t s d i ms k h) = waiting h + {#k#}"
  by (simp_all add: httpGet_def httpPost_def httpPut_def deleteResource_def fetchMessages_def)

lemma gatewayReply_conserves:
  "gatewayReply E op k r h = (h', outs) \<Longrightarrow> waiting h' + answered outs = waiting h + {#k#}"
  by (cases op) (auto simp: pageReply_def Let_def split: sum.splits if_splits)

lemma runCallback_conserves:
  "runCallback E cb r h = (h', outs) \<Longrightarrow> waiting h' + answered outs = waiting h + {#callbackContinuation cb#}"
proof (induction E cb r h rule: runCallback.induct)
  case (1 E op k r h)
  then show ?case by (simp add: gatewayReply_conserves)
next
  case (2 E previous m p t b cb r h)
  then show ?case by (auto simp: Let_def split: sum.splits)
qed

lemma onFinished_conserves:
  "onFinished E ex r h = (h', outs) \<Longrightarrow> waiting h' + answered outs = waiting h + {#callbackContinuation (ex_callback ex)#}"
  by (auto simp: onFinished_def refreshTokens_def Let_def runCallback_conserves split: if_splits sum.splits)

lemma waiting_remove:
  "ht_exchanges h = xs @ ex # ys
   \<Longrightarrow> waiting h = waiting (h\<lparr>ht_exchanges := xs @ ys\<rparr>) + {#callbackContinuation (ex_callback ex)#}"
  by (simp add: waiting_def waitingOf_def)

inductive_cases http_stepE: "http_step E h outs h'"

lemma http_step_conserves: "http_step E h outs h' \<Longrightarrow> waiting h' + answered outs = waiting h"
  by (erule http_stepE) (auto simp: waiting_remove dest: onFinished_conserves)

lemma httpCall_conserves: "httpCall E req k h = (h', outs) \<Longrightarrow> waiting h' + answered outs = waiting h + {#k#}"
  by (cases req) (auto simp: httpResolveUsername_def method_defs Let_def split: if_splits)

section \<open>Answers of the right type\<close>

fun opKind :: "gateway_op \<Rightarrow> reply_kind" where
  "opKind GRegister = UserKind"
| "opKind GLoginTokens = SessionKind"
| "opKind (GLoginUser _) = SessionKind"
| "opKind GCurrentUser = UserKind"
| "opKind GLogout = BoolKind"
| "opKind GDone = BoolKind"
| "opKind GUpload = BoolKind"
| "opKind (GBundle _) = BundleKind"
| "opKind (GResolve _ _) = AddressKind"
| "opKind (GMessage _) = MessageKind"
| "opKind (GPage _ _ _ _ _) = MessagesKind"
| "opKind GAnchor = AnchorKind"
| "opKind GVerify = VerificationKind"

definition callbackFits :: "http_callback \<Rightarrow> bool" where
  "callbackFits cb \<longleftrightarrow> opKind (callbackOp cb) = expects (callbackContinuation cb)"

definition exchangesFit :: "http \<Rightarrow> bool" where
  "exchangesFit h \<longleftrightarrow> (\<forall>ex \<in> set (ht_exchanges h). callbackFits (ex_callback ex))"

fun outputFits :: "http_output \<Rightarrow> bool" where
  "outputFits (Answered k r) = fits k r"
| "outputFits (TokensUpdated t) = True"

definition fitsAll :: "http \<times> http_output list \<Rightarrow> bool" where
  "fitsAll x \<longleftrightarrow> exchangesFit (fst x) \<and> list_all outputFits (snd x)"

lemma callbackFits_simps [simp]:
  "callbackFits (Gateway op k) \<longleftrightarrow> opKind op = expects k"
  "callbackFits (RetryAfterRefresh previous m p t b cb) = callbackFits cb"
  by (simp_all add: callbackFits_def)

lemma exchangesFit_simps [simp]:
  "exchangesFit (setTokens t h) = exchangesFit h" "exchangesFit (clearTokens h) = exchangesFit h"
  "exchangesFit (sendRequest E m p tk b cb retried h) \<longleftrightarrow> exchangesFit h \<and> callbackFits cb"
  by (auto simp: exchangesFit_def setTokens_def clearTokens_def sendRequest_def Let_def)

lemmas verb_defs = method_defs httpGet_def httpPost_def httpPut_def deleteResource_def fetchMessages_def

lemma gatewayReply_fits: "exchangesFit h \<Longrightarrow> opKind op = expects k \<Longrightarrow> fitsAll (gatewayReply E op k r h)"
  by (cases op) (auto simp: fitsAll_def fits_def pageReply_def verb_defs Let_def split: sum.split)

lemma runCallback_fits: "exchangesFit h \<Longrightarrow> callbackFits cb \<Longrightarrow> fitsAll (runCallback E cb r h)"
proof (induction E cb r h rule: runCallback.induct)
  case (1 E op k r h)
  then show ?case by (simp add: gatewayReply_fits)
next
  case (2 E previous m p t b cb r h)
  then show ?case by (auto simp: fitsAll_def Let_def split: sum.split)
qed

lemma onFinished_fits: "exchangesFit h \<Longrightarrow> callbackFits (ex_callback ex) \<Longrightarrow> fitsAll (onFinished E ex r h)"
  by (auto simp: onFinished_def refreshTokens_def Let_def runCallback_fits fitsAll_def [of "(_, [])"] split: sum.split)

lemma http_step_fits: "http_step E h outs h' \<Longrightarrow> exchangesFit h \<Longrightarrow> exchangesFit h' \<and> list_all outputFits outs"
proof (erule http_stepE)
  fix xs ex ys r
  assume "exchangesFit h" and exs: "ht_exchanges h = xs @ ex # ys"
    and fin: "onFinished E ex r (h\<lparr>ht_exchanges := xs @ ys\<rparr>) = (h', outs)"
  then have "exchangesFit (h\<lparr>ht_exchanges := xs @ ys\<rparr>)" "callbackFits (ex_callback ex)"
    by (simp_all add: exchangesFit_def)
  from onFinished_fits [OF this, of E r] show "exchangesFit h' \<and> list_all outputFits outs"
    by (simp add: fin fitsAll_def)
qed

lemma httpCall_fits: "exchangesFit h \<Longrightarrow> asks req = expects k \<Longrightarrow> fitsAll (httpCall E req k h)"
  by (cases req) (auto simp: fitsAll_def fits_def httpResolveUsername_def verb_defs Let_def)

section \<open>How many exchanges follow\<close>

text \<open>
  An exchange is followed by at most a refresh and one retry; a login then asks for the user
  with the new token. Only a full page of messages leads to another page.
\<close>

fun opRank :: "gateway_op \<Rightarrow> nat" where
  "opRank GLoginTokens = 3"
| "opRank _ = 0"

fun callbackRank :: "http_callback \<Rightarrow> nat" where
  "callbackRank (Gateway op k) = opRank op"
| "callbackRank (RetryAfterRefresh previous m p t b cb) = Suc (callbackRank cb)"

definition exchangeRank :: "exchange \<Rightarrow> nat" where
  "exchangeRank ex = (if ex_alreadyRetried ex then 1 else 3) + callbackRank (ex_callback ex)"

fun isPage :: "gateway_op \<Rightarrow> bool" where
  "isPage (GPage _ _ _ _ _) = True"
| "isPage _ = False"

definition httpWork :: "http \<Rightarrow> nat" where
  "httpWork h = sum_list (map exchangeRank (ht_exchanges h))"

lemma httpWork_simps [simp]:
  "httpWork (setTokens t h) = httpWork h" "httpWork (clearTokens h) = httpWork h"
  "httpWork (sendRequest E m p tk b cb retried h) = httpWork h + ((if retried then 1 else 3) + callbackRank cb)"
  by (simp_all add: httpWork_def setTokens_def clearTokens_def sendRequest_def exchangeRank_def Let_def)

lemma gatewayReply_work:
  "\<not> isPage op \<Longrightarrow> httpWork (fst (gatewayReply E op k r h)) \<le> httpWork h + opRank op"
  by (cases op) (auto simp: verb_defs Let_def split: sum.split)

lemma runCallback_work:
  "\<not> isPage (callbackOp cb) \<Longrightarrow> httpWork (fst (runCallback E cb r h)) \<le> httpWork h + callbackRank cb"
proof (induction E cb r h rule: runCallback.induct)
  case (1 E op k r h)
  then show ?case by (simp add: gatewayReply_work)
next
  case (2 E previous m p t b cb r h)
  then show ?case by (force simp: Let_def split: sum.split)
qed

lemma onFinished_work:
  assumes "\<not> isPage (callbackOp (ex_callback ex))"
  shows "httpWork (fst (onFinished E ex r h)) < httpWork h + exchangeRank ex"
proof -
  have run: "httpWork (fst (runCallback E (ex_callback ex) x h)) < httpWork h + exchangeRank ex" for x
    using runCallback_work [OF assms, of E x h] by (simp add: exchangeRank_def)
  show ?thesis
    using run by (auto simp: onFinished_def refreshTokens_def canRefresh_def exchangeRank_def Let_def split: sum.split)
qed


text \<open>Steps of the network while no message list is being fetched.\<close>

definition noPages :: "http \<Rightarrow> bool" where
  "noPages h \<longleftrightarrow> (\<forall>ex \<in> set (ht_exchanges h). \<not> isPage (callbackOp (ex_callback ex)))"

lemma noPages_simps [simp]:
  "noPages (setTokens t h) = noPages h" "noPages (clearTokens h) = noPages h"
  "noPages (sendRequest E m p tk b cb retried h) \<longleftrightarrow> noPages h \<and> \<not> isPage (callbackOp cb)"
  by (auto simp: noPages_def setTokens_def clearTokens_def sendRequest_def Let_def)

lemma runCallback_noPages:
  "noPages h \<Longrightarrow> \<not> isPage (callbackOp cb) \<Longrightarrow> noPages (fst (runCallback E cb r h))"
proof (induction E cb r h rule: runCallback.induct)
  case (1 E op k r h)
  then show ?case by (cases op) (auto simp: verb_defs Let_def split: sum.split)
next
  case (2 E previous m p t b cb r h)
  then show ?case by (auto simp: Let_def split: sum.split)
qed

lemma onFinished_noPages:
  "noPages h \<Longrightarrow> \<not> isPage (callbackOp (ex_callback ex)) \<Longrightarrow> noPages (fst (onFinished E ex r h))"
  by (auto simp: onFinished_def refreshTokens_def Let_def runCallback_noPages split: sum.split)

lemma http_step_work:
  assumes "http_step E h outs h'" and "noPages h"
  shows "httpWork h' < httpWork h \<and> noPages h'"
  using assms(1)
proof (rule http_stepE)
  fix xs ex ys r
  assume exs: "ht_exchanges h = xs @ ex # ys" and fin: "onFinished E ex r (h\<lparr>ht_exchanges := xs @ ys\<rparr>) = (h', outs)"
  then have np: "noPages (h\<lparr>ht_exchanges := xs @ ys\<rparr>)" "\<not> isPage (callbackOp (ex_callback ex))"
    using assms(2) by (simp_all add: noPages_def)
  have "httpWork h = httpWork (h\<lparr>ht_exchanges := xs @ ys\<rparr>) + exchangeRank ex"
    by (simp add: httpWork_def exs)
  with onFinished_work [OF np(2), of E r "h\<lparr>ht_exchanges := xs @ ys\<rparr>"] onFinished_noPages [OF np, of E r] fin
  show ?thesis by simp
qed

fun isList :: "request \<Rightarrow> bool" where
  "isList (ListReceived token) = True"
| "isList (ListSent token) = True"
| "isList _ = False"

definition network :: "http_env \<Rightarrow> http \<Rightarrow> http \<Rightarrow> bool" where
  "network E h h' \<longleftrightarrow> (\<exists>outs. http_step E h outs h')"

interpretation network: settling_system noPages "network E" "network E" httpWork for E
  by unfold_locales (auto simp: network_def dest: http_step_work)

section \<open>Where requests go\<close>

fun anonymousOp :: "gateway_op \<Rightarrow> bool" where
  "anonymousOp GRegister = True"
| "anonymousOp GLoginTokens = True"
| "anonymousOp GLogout = True"
| "anonymousOp GAnchor = True"
| "anonymousOp GVerify = True"
| "anonymousOp _ = False"

fun isRefresh :: "http_callback \<Rightarrow> bool" where
  "isRefresh (Gateway op k) = False"
| "isRefresh (RetryAfterRefresh previous m p t b cb) = True"

fun callbackDiscreet :: "http_callback \<Rightarrow> bool" where
  "callbackDiscreet (Gateway op k) = True"
| "callbackDiscreet (RetryAfterRefresh previous m p t b cb) =
     ((anonymousOp (callbackOp cb) \<or> isRefresh cb \<longrightarrow> t = []) \<and> callbackDiscreet cb)"

definition exchangeDiscreet :: "qstring \<Rightarrow> exchange \<Rightarrow> bool" where
  "exchangeDiscreet base ex \<longleftrightarrow>
     url_base (rq_url (ex_request ex)) = base
     \<and> (ex_accessToken ex = [] \<longrightarrow> rq_authorization (ex_request ex) = None)
     \<and> (anonymousOp (callbackOp (ex_callback ex)) \<or> isRefresh (ex_callback ex) \<longrightarrow> ex_accessToken ex = [])
     \<and> callbackDiscreet (ex_callback ex)"

definition discreet :: "qstring \<Rightarrow> http \<Rightarrow> bool" where
  "discreet base h \<longleftrightarrow> url_base (ht_baseUrl h) = base \<and> (\<forall>ex \<in> set (ht_exchanges h). exchangeDiscreet base ex)"

lemma discreet_simps [simp]:
  "discreet base (setTokens t h) = discreet base h" "discreet base (clearTokens h) = discreet base h"
  by (simp_all add: discreet_def setTokens_def clearTokens_def)

lemma url_base_urlFor [simp]: "url_base (urlFor u p) = url_base u"
  by (simp add: urlFor_def Let_def)

lemma discreet_send [simp]:
  assumes "discreet base h"
  shows "discreet base (sendRequest E m p tk b cb retried h) \<longleftrightarrow>
    ((anonymousOp (callbackOp cb) \<or> isRefresh cb \<longrightarrow> tk = []) \<and> callbackDiscreet cb)"
  using assms
  by (auto simp: discreet_def exchangeDiscreet_def sendRequest_def requestFor_def effectiveAccessToken_def Let_def)

lemma gatewayReply_discreet: "discreet base h \<Longrightarrow> discreet base (fst (gatewayReply E op k r h))"
  by (cases op) (auto simp: pageReply_def verb_defs Let_def split: sum.split)

lemma runCallback_discreet: "discreet base h \<Longrightarrow> callbackDiscreet cb \<Longrightarrow> discreet base (fst (runCallback E cb r h))"
proof (induction E cb r h rule: runCallback.induct)
  case (1 E op k r h)
  then show ?case by (simp add: gatewayReply_discreet)
next
  case (2 E previous m p t b cb r h)
  then show ?case by (auto simp: Let_def split: sum.split)
qed

lemma onFinished_discreet:
  "discreet base h \<Longrightarrow> exchangeDiscreet base ex \<Longrightarrow> discreet base (fst (onFinished E ex r h))"
  by (auto simp: onFinished_def refreshTokens_def Let_def runCallback_discreet exchangeDiscreet_def split: sum.split)

lemma http_step_discreet: "http_step E h outs h' \<Longrightarrow> discreet base h \<Longrightarrow> discreet base h'"
proof (erule http_stepE)
  fix xs ex ys r
  assume "discreet base h" "ht_exchanges h = xs @ ex # ys"
    and fin: "onFinished E ex r (h\<lparr>ht_exchanges := xs @ ys\<rparr>) = (h', outs)"
  then have "discreet base (h\<lparr>ht_exchanges := xs @ ys\<rparr>)" "exchangeDiscreet base ex" by (simp_all add: discreet_def)
  from onFinished_discreet [OF this, of E r] show "discreet base h'" by (simp add: fin)
qed

lemma httpCall_discreet: "discreet base h \<Longrightarrow> discreet base (fst (httpCall E req k h))"
  by (cases req) (auto simp: httpResolveUsername_def verb_defs Let_def)

inductive http_reachable :: "http_env \<Rightarrow> qstring \<Rightarrow> http \<Rightarrow> bool" for E baseUrl where
  HttpStart: "http_reachable E baseUrl (newHttpClient E baseUrl)"
| HttpTokens: "http_reachable E baseUrl h \<Longrightarrow> http_reachable E baseUrl (setTokens t h)"
| HttpCalled: "http_reachable E baseUrl h \<Longrightarrow> http_reachable E baseUrl (fst (httpCall E req k h))"
| HttpStepped: "http_reachable E baseUrl h \<Longrightarrow> http_step E h outs h' \<Longrightarrow> http_reachable E baseUrl h'"

definition configuredBase :: "'x http_env_scheme \<Rightarrow> qstring \<Rightarrow> qstring" where
  "configuredBase E baseUrl = url_base (nt_parseUrl E (withoutTrailingSlash baseUrl))"

lemma http_reachable_discreet: "http_reachable E baseUrl h \<Longrightarrow> discreet (configuredBase E baseUrl) h"
proof (induction rule: http_reachable.induct)
  case HttpStart
  then show ?case by (simp add: discreet_def newHttpClient_def configuredBase_def Let_def)
qed (simp_all add: httpCall_discreet http_step_discreet)


section \<open>Fetching a list of messages\<close>

text \<open>A server that holds \<open>ms\<close> and serves them by limit and offset.\<close>

definition pageQuery :: "int \<Rightarrow> qstring" where
  "pageQuery offset = Q ''limit=100&offset='' @ qNumber offset"

definition serves :: "http_env \<Rightarrow> json list \<Rightarrow> (qstring \<Rightarrow> net_reply) \<Rightarrow> bool" where
  "serves E ms server \<longleftrightarrow>
     (\<forall>offset. np_error (server (pageQuery (int offset))) = NoNetworkError
        \<and> nt_parseDocument E (np_body (server (pageQuery (int offset)))) = Inr (DocArray (take 100 (drop offset ms))))"

text \<open>The server answers the only exchange in flight, at most \<open>n\<close> times, until there is an output.\<close>

fun serveRun :: "http_env \<Rightarrow> (qstring \<Rightarrow> net_reply) \<Rightarrow> nat \<Rightarrow> http \<Rightarrow> http \<times> http_output list" where
  "serveRun E server 0 h = (h, [])"
| "serveRun E server (Suc n) h =
     (case ht_exchanges h of
        [ex] \<Rightarrow>
          (let (h', outs) = onFinished E ex (server (url_query (rq_url (ex_request ex)))) (h\<lparr>ht_exchanges := []\<rparr>)
           in if outs = [] then serveRun E server n h' else (h', outs))
      | _ \<Rightarrow> (h, []))"

lemma pagedMessagePath_lists:
  "pagedMessagePath (Q ''/received'') i = Q ''/messages/received?limit=100&offset='' @ qNumber i"
  "pagedMessagePath (Q ''/sent'') i = Q ''/messages/sent?limit=100&offset='' @ qNumber i"
proof -
  have n100: "qNumber 100 = Q ''100''" by (simp add: qNumber_def digitsOf.simps Q_def)
  have plain: "pieces (Q ''/messages%1'') = map Plain (Q ''/messages'') @ [Marker 1 (Q ''%1'')]"
    by (simp add: Q_def markerAt_def startsWith_def isDigit_def digitValue_def)
  have path: "messagePath v = Q ''/messages'' @ v" for v
    by (simp add: messagePath_def argN_def plain) (simp add: Q_def)
  show "pagedMessagePath (Q ''/received'') i = Q ''/messages/received?limit=100&offset='' @ qNumber i"
    "pagedMessagePath (Q ''/sent'') i = Q ''/messages/sent?limit=100&offset='' @ qNumber i"
    unfolding pagedMessagePath_def path MessagePageLimit_def
    by (simp_all add: argN_def n100 Q_def markerAt_def startsWith_def isDigit_def digitValue_def)
qed

lemma queryFromPath_split: "63 \<notin> set s \<Longrightarrow> queryFromPath (s @ 63 # q) = q"
proof -
  assume "63 \<notin> set s"
  then have "indexOf 63 (s @ 63 # q) = Some (length s)" by (induction s) auto
  then show ?thesis by (simp add: queryFromPath_def)
qed

lemma page_query:
  assumes "suffix = Q ''/received'' \<or> suffix = Q ''/sent''"
  shows "url_query (urlFor u (pagedMessagePath suffix i)) = pageQuery i"
proof -
  have "Q ''/messages/received?limit=100&offset='' @ q = Q ''/messages/received'' @ 63 # Q ''limit=100&offset='' @ q"
    "Q ''/messages/sent?limit=100&offset='' @ q = Q ''/messages/sent'' @ 63 # Q ''limit=100&offset='' @ q" for q
    by (simp_all add: Q_def)
  moreover have "63 \<notin> set (Q ''/messages/received'')" "63 \<notin> set (Q ''/messages/sent'')"
    by (simp_all add: Q_def)
  ultimately have "queryFromPath (pagedMessagePath suffix i) = pageQuery i"
    using assms by (auto simp only: pagedMessagePath_lists queryFromPath_split pageQuery_def simp_thms)
  then show ?thesis by (simp add: urlFor_def Let_def)
qed

text \<open>Each exchange of the loop takes one page off what is left.\<close>

lemma fetch_run:
  assumes server: "serves E ms server" and suffix: "suffix = Q ''/received'' \<or> suffix = Q ''/sent''"
    and idle: "ht_exchanges h = []" and n: "length (drop offset ms) div 100 < n"
  shows "serveRun E server n
      (fetchMessages E token suffix direction (int offset) (messageListFromJson E direction (take offset ms)) k h)
    = (h, [Answered k (MessagesReply (Inr (messageListFromJson E direction ms)))])"
  using n
proof (induction n arbitrary: offset)
  case (Suc n)
  let ?page = "take 100 (drop offset ms)" and ?seen = "messageListFromJson E direction (take offset ms)"
  have seen: "?seen @ messageListFromJson E direction ?page = messageListFromJson E direction (take (offset + 100) ms)"
    by (simp add: messageListFromJson_def take_add)
  let ?h = "fetchMessages E token suffix direction (int offset) ?seen k h"
  obtain ex where ex: "ht_exchanges ?h = [ex]" "?h\<lparr>ht_exchanges := []\<rparr> = h"
    "url_query (rq_url (ex_request ex)) = pageQuery (int offset)"
    "ex_callback ex = Gateway (GPage token suffix direction (int offset) ?seen) k"
    using idle by (simp add: verb_defs sendRequest_def requestFor_def page_query [OF suffix] Let_def)
  have reply: "onFinished E ex (server (pageQuery (int offset))) h
     = pageReply E token suffix direction (int offset) ?seen k (DocArray ?page) h"
    using server ex(4) by (simp add: onFinished_def serves_def)
  have len: "length (messageListFromJson E direction xs) = length xs" for xs
    by (simp add: messageListFromJson_def)
  have run: "serveRun E server (Suc n) ?h =
     (let (h', outs) = pageReply E token suffix direction (int offset) ?seen k (DocArray ?page) h
      in if outs = [] then serveRun E server n h' else (h', outs))"
    by (simp add: ex reply)
  show ?case
  proof (cases "length (drop offset ms) < 100")
    case True
    then have "take (offset + 100) ms = ms" by simp
    with True seen show ?thesis
      by (simp only: run) (simp add: pageReply_def MessagePageLimit_def len Let_def)
  next
    case False
    then have rest: "length (drop (offset + 100) ms) div 100 < n" using Suc.prems by simp
    from False show ?thesis
      by (simp only: run) (simp add: pageReply_def MessagePageLimit_def len seen Let_def
          Suc.IH [OF rest, simplified of_nat_add of_nat_numeral] del: length_drop)
  qed
qed simp

end
