(* ===== verification/RealMode.thy ===== *)
theory RealMode
  imports HttpLaws
begin

text \<open>
  The real mode: the client of theory Client on the gateways of theory Http, as main puts
  them together. A call a handler makes is handed to its gateway before the next event
  (\<open>rl_queue\<close>); a callback the gateway runs, at once or when a reply finishes, and the token
  update are \<open>rl_answers\<close>. The client's states are reachable ones, and between two events its
  outstanding calls are exactly the exchanges in flight.
\<close>

record real =
  rl_client :: client
  rl_http :: http
  rl_queue :: "call list"
  rl_answers :: "http_output list"

fun callContinuation :: "call \<Rightarrow> continuation" where
  "callContinuation (Call req k) = k"

definition newCalls :: "call list \<Rightarrow> client \<Rightarrow> call list" where
  "newCalls before c = drop (length before) (cl_pending c)"

definition startReal :: "http_env \<Rightarrow> client \<Rightarrow> real" where
  "startReal E c =
     (let h = newHttpClient E (sc_apiUrl (cl_config c))
      in \<lparr>rl_client = c,
          rl_http = (case cl_session c of None \<Rightarrow> h | Some s \<Rightarrow> setTokens (as_tokens s) h),
          rl_queue = [], rl_answers = []\<rparr>)"

text \<open>Nothing of the last event is left to do: the event loop takes the next one.\<close>

definition settled :: "real \<Rightarrow> bool" where
  "settled s \<longleftrightarrow> rl_queue s = [] \<and> rl_answers s = []"

definition realTyped :: "'x env_scheme \<Rightarrow> crypto_provider \<Rightarrow> qstring \<Rightarrow> real \<Rightarrow> real" where
  "realTyped E' C line s =
     (let c = handleLine E' C line (rl_client s)
      in s\<lparr>rl_client := c, rl_queue := newCalls (cl_pending (rl_client s)) c\<rparr>)"

inductive real_event :: "crypto_provider \<Rightarrow> http_env \<Rightarrow> real \<Rightarrow> real \<Rightarrow> bool" for C E where
  RealCalled: "rl_queue s = Call req k # q \<Longrightarrow> httpCall E req k (rl_http s) = (h, outs)
    \<Longrightarrow> real_event C E s (s\<lparr>rl_http := h, rl_queue := q, rl_answers := rl_answers s @ outs\<rparr>)"
| RealFinished: "settled s \<Longrightarrow> http_step E (rl_http s) outs h
    \<Longrightarrow> real_event C E s (s\<lparr>rl_http := h, rl_answers := outs\<rparr>)"
| RealAnswered: "rl_answers s = Answered k r # rest \<Longrightarrow> cl_pending (rl_client s) = xs @ Call req k # ys
    \<Longrightarrow> c = deliver (E' :: env) C k r ((rl_client s)\<lparr>cl_pending := xs @ ys\<rparr>)
    \<Longrightarrow> real_event C E s (s\<lparr>rl_client := c, rl_answers := rest, rl_queue := rl_queue s @ newCalls (xs @ ys) c\<rparr>)"
| RealRefreshed: "rl_answers s = TokensUpdated t # rest
    \<Longrightarrow> real_event C E s (s\<lparr>rl_client := updateTokens (E' :: env) t (rl_client s), rl_answers := rest\<rparr>)"

inductive real_step :: "crypto_provider \<Rightarrow> http_env \<Rightarrow> real \<Rightarrow> real \<Rightarrow> bool" for C E where
  RealTyped: "settled s \<Longrightarrow> real_step C E s (realTyped (E' :: env) C line s)"
| RealEvent: "real_event C E s s' \<Longrightarrow> real_step C E s s'"

inductive real_reachable :: "crypto_provider \<Rightarrow> http_env \<Rightarrow> real \<Rightarrow> bool" for C E where
  RealStart: "real_reachable C E (startReal E (newClient (E' :: env) config store))"
| RealStep: "real_reachable C E s \<Longrightarrow> real_step C E s s' \<Longrightarrow> real_reachable C E s'"

definition outstanding :: "client \<Rightarrow> continuation multiset" where
  "outstanding c = mset (map callContinuation (cl_pending c))"

definition accounted :: "crypto_provider \<Rightarrow> real \<Rightarrow> bool" where
  "accounted C s \<longleftrightarrow>
     reachable C (rl_client s)
     \<and> outstanding (rl_client s)
        = waiting (rl_http s) + answered (rl_answers s) + mset (map callContinuation (rl_queue s))
     \<and> exchangesFit (rl_http s) \<and> list_all outputFits (rl_answers s)
     \<and> (\<forall>req k. Call req k \<in> set (rl_queue s) \<longrightarrow> asks req = expects k)"

lemma newCalls_append:
  assumes "sealedCalls C base c"
  shows "cl_pending c = base @ newCalls base c"
    and "Call req k \<in> set (newCalls base c) \<Longrightarrow> asks req = expects k"
proof -
  show "cl_pending c = base @ newCalls base c"
    using assms unfolding sealedCalls_def newCalls_def by (metis append_take_drop_id)
  then show "Call req k \<in> set (newCalls base c) \<Longrightarrow> asks req = expects k"
    using assms unfolding sealedCalls_def by (metis Un_iff set_append)
qed

lemma sealed_base: "sealedCalls C [] c \<Longrightarrow> sealedCalls C (cl_pending c) c"
  by (simp add: sealedCalls_def)

lemma newCalls_outstanding:
  "sealedCalls C base c \<Longrightarrow> outstanding c = mset (map callContinuation base) + mset (map callContinuation (newCalls base c))"
  using newCalls_append(1) [of C base c] by (metis outstanding_def map_append mset_append)

lemma outstanding_updateTokens [simp]: "outstanding (updateTokens E t c) = outstanding c"
  by (simp add: outstanding_def updateTokens_def storeOrFail_def orFail_def Let_def split: option.split sum.split)

inductive_cases real_stepE: "real_step C E s s'"
inductive_cases real_eventE: "real_event C E s s'"

lemma accounted_typed:
  assumes "accounted C s" "settled s"
  shows "accounted C (realTyped (E' :: env) C line s)"
proof -
  let ?c = "handleLine E' C line (rl_client s)"
  have client: "reachable C (rl_client s)" using assms(1) by (simp add: accounted_def)
  have sealed: "sealedCalls C (cl_pending (rl_client s)) ?c"
    by (rule sealed_handleLine [OF sealed_base [OF sealed_reachable [OF client]]])
  have "reachable C ?c"
    by (rule reachable.Step [OF client client_step.Typed])
  then show ?thesis
    using assms newCalls_outstanding [OF sealed] newCalls_append(2) [OF sealed]
    by (auto simp: accounted_def realTyped_def settled_def Let_def) (simp add: outstanding_def)
qed

lemma accounted_called:
  assumes "accounted C s" "rl_queue s = Call req k # q" "httpCall E req k (rl_http s) = (h, outs)"
  shows "accounted C (s\<lparr>rl_http := h, rl_queue := q, rl_answers := rl_answers s @ outs\<rparr>)"
proof -
  have "exchangesFit (rl_http s)" "asks req = expects k" using assms(1,2) by (auto simp: accounted_def)
  from httpCall_fits [OF this, of E] have "exchangesFit h" "list_all outputFits outs"
    by (simp_all add: assms(3) fitsAll_def)
  moreover have "answered (xs @ ys) = answered xs + answered ys" for xs ys
    by (simp add: answered_def)
  ultimately show ?thesis
    using assms(1,2) httpCall_conserves [OF assms(3)] by (auto simp: accounted_def ac_simps)
qed

lemma accounted_answered:
  assumes "accounted C s" "rl_answers s = Answered k r # rest" "cl_pending (rl_client s) = xs @ Call req k # ys"
    "c = deliver (E' :: env) C k r ((rl_client s)\<lparr>cl_pending := xs @ ys\<rparr>)"
  shows "accounted C (s\<lparr>rl_client := c, rl_answers := rest, rl_queue := rl_queue s @ newCalls (xs @ ys) c\<rparr>)"
proof -
  have client: "reachable C (rl_client s)" and fits: "fits k r"
    using assms(1,2) by (simp_all add: accounted_def)
  have "sealedCalls C [] ((rl_client s)\<lparr>cl_pending := xs @ ys\<rparr>)"
    using sealed_reachable [OF client] assms(3) by (auto simp: sealedCalls_def)
  from sealed_deliver [OF sealed_base [OF this], of E' k r] have sealed: "sealedCalls C (xs @ ys) c"
    by (simp add: assms(4))
  have "reachable C c"
    unfolding assms(4)
    by (rule reachable.Step [OF client client_step.Answered [OF Answer [OF assms(3) fits]]])
  moreover have "outstanding (rl_client s) = mset (map callContinuation (xs @ ys)) + {#k#}"
    by (simp add: outstanding_def assms(3))
  moreover have "answered (Answered k r # rest) = {#k#} + answered rest" by (simp add: answered_def)
  ultimately show ?thesis
    using assms(1,2) newCalls_outstanding [OF sealed] newCalls_append(2) [OF sealed]
    by (auto simp: accounted_def)
qed

lemma accounted_finished:
  assumes "accounted C s" "rl_answers s = []" "http_step E (rl_http s) outs h"
  shows "accounted C (s\<lparr>rl_http := h, rl_answers := outs\<rparr>)"
  using assms http_step_conserves [OF assms(3)] http_step_fits [OF assms(3)] by (auto simp: accounted_def)

lemma accounted_refreshed:
  assumes "accounted C s" "rl_answers s = TokensUpdated t # rest"
  shows "accounted C (s\<lparr>rl_client := updateTokens (E' :: env) t (rl_client s), rl_answers := rest\<rparr>)"
proof -
  have "answered (TokensUpdated t # rest) = answered rest" by (simp add: answered_def)
  moreover have "reachable C (updateTokens E' t (rl_client s))"
    using assms by (auto simp: accounted_def intro: reachable.Step client_step.Refreshed)
  ultimately show ?thesis using assms by (auto simp: accounted_def)
qed

lemma accounted_event:
  assumes "real_event C E s s'" and "accounted C s"
  shows "accounted C s'"
  using assms(1)
proof (cases rule: real_event.cases)
  case RealCalled
  then show ?thesis using assms(2) accounted_called by blast
next
  case RealFinished
  then show ?thesis using assms(2) accounted_finished by (auto simp: settled_def)
next
  case RealAnswered
  then show ?thesis using assms(2) accounted_answered by blast
next
  case RealRefreshed
  then show ?thesis using assms(2) accounted_refreshed by blast
qed

lemma accounted_step:
  "real_step C E s s' \<Longrightarrow> accounted C s \<Longrightarrow> accounted C s'"
  by (erule real_stepE) (auto intro: accounted_typed accounted_event)

definition realStart :: "http_env \<Rightarrow> real \<Rightarrow> bool" where
  "realStart E s \<longleftrightarrow> (\<exists>c. startingClient c \<and> s = startReal E c)"

interpretation reals: stepping_system "real_reachable C E" "real_step C E" "realStart E" for C E
proof
  fix s t
  assume "real_reachable C E s" "real_step C E s t"
  then show "real_reachable C E t" by (rule RealStep)
next
  fix s
  assume "realStart E s"
  then show "real_reachable C E s" unfolding realStart_def startingClient_def by (elim exE conjE, hypsubst) (rule RealStart)
next
  fix s and P :: "real \<Rightarrow> bool"
  assume r: "real_reachable C E s" and base: "\<And>s. realStart E s \<Longrightarrow> P s"
    and step: "\<And>s t. real_reachable C E s \<Longrightarrow> P s \<Longrightarrow> real_step C E s t \<Longrightarrow> P t"
  from r show "P s"
  proof (induction rule: real_reachable.induct)
    case (RealStart E' config store)
    show ?case by (rule base) (unfold realStart_def startingClient_def, blast)
  next
    case (RealStep s t)
    show ?case by (rule step [OF RealStep.hyps(1) RealStep.IH RealStep.hyps(2)])
  qed
qed

lemma startReal_client: "rl_client (startReal E c) = c"
  by (simp add: startReal_def Let_def)

lemma accounted_start: "realStart E s \<Longrightarrow> accounted C s"
proof -
  assume "realStart E s"
  then obtain c where c: "startingClient c" "s = startReal E c" unfolding realStart_def by blast
  have "waiting (rl_http s) = {#}" "exchangesFit (rl_http s)" "rl_answers s = []" "rl_queue s = []"
    by (simp_all add: c(2) startReal_def newHttpClient_def waiting_def waitingOf_def exchangesFit_def setTokens_def Let_def
        split: option.split)
  moreover have "outstanding c = {#}" using c(1) by (auto simp: startingClient_def outstanding_def newClient_def)
  moreover have "reachable C c" using c(1) by (rule clients.reach_start)
  ultimately show ?thesis by (simp add: accounted_def c(2) startReal_client)
qed

lemma real_accounted: "real_reachable C E s \<Longrightarrow> accounted C s"
  using accounted_start accounted_step by (rule reals.invariant)

text \<open>Each event leaves the client alone or is a step of it.\<close>

lemma real_event_client:
  assumes "real_event C E s s'" and "accounted C s"
  shows "rl_client s' = rl_client s \<or> client_step C (rl_client s) (rl_client s')"
  using assms(1)
proof (cases rule: real_event.cases)
  case (RealAnswered k r rest xs req ys c E')
  then have "fits k r" using assms(2) by (simp add: accounted_def)
  with RealAnswered show ?thesis by (auto intro: client_step.Answered Answer)
qed (auto intro: client_step.Refreshed)

text \<open>The real mode is the client with its gateways.\<close>

interpretation real_client: simulation "real_reachable C E" "real_step C E" "realStart E"
    "reachable C" "client_step C" rl_client for C E
proof
  fix s
  assume "realStart E s"
  then show "reachable C (rl_client s)" unfolding realStart_def by (auto simp: startReal_client intro: clients.reach_start)
next
  fix s t
  assume s: "real_reachable C E s" "reachable C (rl_client s)" "real_step C E s t"
  from s(3) show "rl_client t = rl_client s \<or> client_step C (rl_client s) (rl_client t)"
  proof (rule real_stepE)
    fix line and E' :: env
    assume "t = realTyped E' C line s"
    then show ?thesis by (auto simp: realTyped_def Let_def intro: client_step.Typed)
  next
    assume "real_event C E s t"
    then show ?thesis using real_event_client real_accounted [OF s(1)] by blast
  qed
qed

end
