(* ===== verification/HttpProperties.thy ===== *)
theory HttpProperties
  imports RealMode SampleClient
begin

text \<open>
  A concrete network to run the HTTP layer on, and the properties of the HTTP layer and of
  the real mode that rests on it.
\<close>

definition sampleParseDocument :: "bytes \<Rightarrow> qstring + json_doc" where
  "sampleParseDocument b =
     (case readJson (length b) b of
        Some (JObj ob, []) \<Rightarrow> Inr (DocObject ob)
      | Some (JArr xs, []) \<Rightarrow> Inr (DocArray xs)
      | _ \<Rightarrow> Inl (Q ''syntax error''))"

definition sampleUrl :: url where
  "sampleUrl = \<lparr>url_base = Q ''https://host'', url_path = Q ''/api/v1'', url_query = []\<rparr>"

definition sampleHttpEnv :: http_env where
  "sampleHttpEnv =
     env.extend sampleEnv (http_env.fields sampleParseDocument (\<lambda>s. sampleUrl) (\<lambda>s. s) (\<lambda>s. False))"

definition sampleHttp :: http where
  "sampleHttp = \<lparr>ht_baseUrl = sampleUrl,
     ht_tokens = \<lparr>ts_accessToken = Q ''old'', ts_refreshToken = Q ''r0'', ts_tokenType = [], ts_expiresIn = 0\<rparr>,
     ht_exchanges = []\<rparr>"

text \<open>Replies to the single exchange in flight, in order, with everything they put out.\<close>

fun runReplies :: "http_env \<Rightarrow> net_reply list \<Rightarrow> http \<Rightarrow> http \<times> http_output list" where
  "runReplies E [] h = (h, [])"
| "runReplies E (r # rs) h =
     (case ht_exchanges h of
        [ex] \<Rightarrow>
          (let (h1, outs) = onFinished E ex r (h\<lparr>ht_exchanges := []\<rparr>);
               (h2, more) = runReplies E rs h1
           in (h2, outs @ more))
      | _ \<Rightarrow> (h, []))"

definition documentReply :: "json \<Rightarrow> net_reply" where
  "documentReply j = \<lparr>np_error = NoNetworkError, np_statusCode = 200, np_errorString = [], np_body = jsonBytes j\<rparr>"

definition errorReply :: "int \<Rightarrow> net_reply" where
  "errorReply code = \<lparr>np_error = OtherNetworkError, np_statusCode = code, np_errorString = Q ''error'', np_body = []\<rparr>"

lemma documentReply_ok: "np_error (documentReply j) = NoNetworkError"
  by (simp add: documentReply_def)

lemma errorReply_error: "np_error (errorReply code) \<noteq> NoNetworkError"
  by (simp add: errorReply_def)

lemma errorReply_status: "np_statusCode (errorReply code) = code"
  by (simp add: errorReply_def)

lemma parse_documentReply:
  "goodJson P (JObj ob) \<Longrightarrow> nt_parseDocument sampleHttpEnv (np_body (documentReply (JObj ob))) = Inr (DocObject ob)"
  "goodJson P (JArr xs) \<Longrightarrow> nt_parseDocument sampleHttpEnv (np_body (documentReply (JArr xs))) = Inr (DocArray xs)"
  using readJson_jsonBytes [of P "JObj ob" "length (jsonBytes (JObj ob))" "[]"]
    readJson_jsonBytes [of P "JArr xs" "length (jsonBytes (JArr xs))" "[]"]
  by (simp_all add: sampleHttpEnv_def http_env.defs env.defs documentReply_def sampleParseDocument_def
      del: jsonBytes.simps goodJson.simps)

section \<open>One answer per call\<close>

text \<open>
  Property C10: in the real mode no gateway call is lost or answered twice. In every reachable
  state of client, HTTP layer and network, the client is in a reachable state of its own and
  its outstanding calls are, with multiplicity, the exchanges in flight, the answers about to
  be delivered and the calls about to be made; and when the router is busy and nothing of the
  last event is left to do, a request is in flight.
\<close>

theorem real_mode_never_loses_a_call:
  assumes "real_reachable C E s"
  shows "reachable C (rl_client s)
    \<and> outstanding (rl_client s)
        = waiting (rl_http s) + answered (rl_answers s) + mset (map callContinuation (rl_queue s))
    \<and> (rl_queue s = [] \<and> rl_answers s = [] \<and> rt_operationInProgress (cl_router (rl_client s))
        \<longrightarrow> ht_exchanges (rl_http s) \<noteq> [])"
proof -
  have ok: "accounted C s" using assms by (rule real_accounted)
  have client: "reachable C (rl_client s)" using assms by (rule real_client.simulates)
  have "cl_pending (rl_client s) \<noteq> []" if "rt_operationInProgress (cl_router (rl_client s))"
    using busyOk_reachable [OF client] that by (auto simp: busyOk_def busy_def working_def)
  with ok show ?thesis
    by (auto simp: accounted_def outstanding_def waiting_def waitingOf_def)
qed

lemma real_mode_never_loses_a_call_witness:
  "\<exists>s. real_reachable sampleCrypto sampleHttpEnv s \<and> rt_operationInProgress (cl_router (rl_client s))
     \<and> ht_exchanges (rl_http s) \<noteq> []"
proof -
  let ?c = "handleLine sampleEnv sampleCrypto (Q ''/sync'') sampleClient"
  let ?s0 = "startReal sampleHttpEnv sampleClient"
  let ?s1 = "realTyped sampleEnv sampleCrypto (Q ''/sync'') ?s0"
  obtain h outs where call: "httpCall sampleHttpEnv (ListReceived (Q ''t'')) OnReceived (rl_http ?s1) = (h, outs)"
    by fastforce
  let ?s2 = "?s1\<lparr>rl_http := h, rl_queue := [], rl_answers := rl_answers ?s1 @ outs\<rparr>"
  have s0: "rl_client ?s0 = sampleClient" "rl_queue ?s0 = []" "rl_answers ?s0 = []"
    by (simp_all add: startReal_def Let_def)
  have "real_reachable sampleCrypto sampleHttpEnv ?s0"
    unfolding sampleClient_def by (rule RealStart)
  moreover have "real_step sampleCrypto sampleHttpEnv ?s0 ?s1"
    by (rule RealTyped) (simp add: s0 settled_def)
  moreover have s1: "rl_queue ?s1 = [Call (ListReceived (Q ''t'')) OnReceived]" "rl_client ?s1 = ?c" "rl_answers ?s1 = []"
    by (simp_all add: s0 realTyped_def newCalls_def syncing_pending Let_def)
  then have "real_event sampleCrypto sampleHttpEnv ?s1 ?s2"
    using call by (blast intro: RealCalled)
  ultimately have reach: "real_reachable sampleCrypto sampleHttpEnv ?s2"
    by (blast intro: RealStep RealEvent)
  have busy: "rt_operationInProgress (cl_router ?c)" using syncing_reachable [of sampleCrypto] by blast
  have "outs = []" using call by simp
  with real_mode_never_loses_a_call [OF reach] reach busy s1 show ?thesis by (intro exI [of _ ?s2]) simp
qed

section \<open>A bounded number of exchanges\<close>

text \<open>
  Property C28: a gateway call needs at most six exchanges with the server, whatever the server
  replies: one exchange, a token refresh and one retry, and for a login the same again for the
  user. Refreshing never leads to another refresh. Only the two message lists may need more,
  one exchange per page.
\<close>

theorem call_needs_at_most_six_exchanges:
  assumes "ht_exchanges h = []" and "\<not> isList req" and "(network E ^^ n) (fst (httpCall E req k h)) h'"
  shows "n \<le> 6"
proof -
  have "noPages h" "httpWork h = 0" using assms(1) by (simp_all add: noPages_def httpWork_def)
  then have "noPages (fst (httpCall E req k h))" "httpWork (fst (httpCall E req k h)) \<le> 6"
    using assms(2) by (cases req; simp add: httpResolveUsername_def verb_defs Let_def)+
  with network.events_bounded [OF assms(3)] show ?thesis by simp
qed


lemma call_needs_at_most_six_exchanges_witness:
  "\<exists>h'. (network sampleHttpEnv ^^ 1) (fst (httpCall sampleHttpEnv (LogoutUser (Q ''r0'')) OnLogout sampleHttp)) h' \<and> (1::nat) \<le> 6"
proof -
  let ?h = "fst (httpCall sampleHttpEnv (LogoutUser (Q ''r0'')) OnLogout sampleHttp)"
  have idle: "ht_exchanges sampleHttp = []" by (simp add: sampleHttp_def)
  then obtain ex where ex: "ht_exchanges ?h = [] @ ex # []" by (simp add: verb_defs sendRequest_def Let_def)
  obtain h' outs where "onFinished sampleHttpEnv ex (errorReply 500) (?h\<lparr>ht_exchanges := [] @ []\<rparr>) = (h', outs)" by fastforce
  with ex have "network sampleHttpEnv ?h h'" unfolding network_def by (blast intro: Finished)
  then have "(network sampleHttpEnv ^^ 1) ?h h'" by (simp only: relpowp_1)
  from call_needs_at_most_six_exchanges [OF idle _ this] this show ?thesis by auto
qed

section \<open>Where requests and tokens go\<close>

text \<open>
  Property C17: every request the HTTP layer ever has in flight goes to the scheme and host of
  the configured URL, and registration, login, logout, the public anchor and its verification,
  and token refreshes carry no Authorization header, also when they are retried.
\<close>

theorem requests_go_to_the_configured_server:
  assumes "http_reachable E baseUrl h" and "ex \<in> set (ht_exchanges h)"
  shows "url_base (rq_url (ex_request ex)) = configuredBase E baseUrl
    \<and> (if anonymousOp (callbackOp (ex_callback ex)) \<or> isRefresh (ex_callback ex)
       then rq_authorization (ex_request ex) = None else True)"
  using http_reachable_discreet [OF assms(1)] assms(2) by (auto simp: discreet_def exchangeDiscreet_def)

lemma requests_go_to_the_configured_server_witness:
  "\<exists>ex. ht_exchanges (fst (httpCall sampleHttpEnv (LogoutUser (Q ''r0'')) OnLogout
        (setTokens (ht_tokens sampleHttp) (newHttpClient sampleHttpEnv (Q ''https://host/api/v1''))))) = [ex]
    \<and> url_base (rq_url (ex_request ex)) = Q ''https://host'' \<and> rq_authorization (ex_request ex) = None"
proof -
  let ?h = "fst (httpCall sampleHttpEnv (LogoutUser (Q ''r0'')) OnLogout
        (setTokens (ht_tokens sampleHttp) (newHttpClient sampleHttpEnv (Q ''https://host/api/v1''))))"
  have "http_reachable sampleHttpEnv (Q ''https://host/api/v1'') ?h"
    by (intro HttpCalled HttpTokens HttpStart)
  moreover obtain ex where ex: "ht_exchanges ?h = [ex]" "ex_callback ex = Gateway GLogout OnLogout"
    by (simp add: verb_defs sendRequest_def setTokens_def newHttpClient_def Let_def)
  moreover have "configuredBase sampleHttpEnv u = Q ''https://host''" for u
    by (simp add: configuredBase_def sampleHttpEnv_def http_env.defs env.defs sampleUrl_def)
  ultimately show ?thesis
    using requests_go_to_the_configured_server [of sampleHttpEnv "Q ''https://host/api/v1''" ?h ex] by simp
qed

section \<open>Lists of messages\<close>

text \<open>
  Property C27: a message list is fetched completely. Against a server that holds any number of
  messages and serves them by limit and offset, listing the received messages ends after one
  exchange per hundred messages and one more, with every message once and in the server's
  order.
\<close>

theorem message_list_is_fetched_completely:
  assumes "serves E ms server" and "ht_exchanges h = []"
  shows "serveRun E server (length ms div 100 + 1) (fst (httpCall E (ListReceived token) k h))
    = (h, [Answered k (MessagesReply (Inr (messageListFromJson E ReceivedDir ms)))])"
  using fetch_run [OF assms(1) disjI1 [OF refl] assms(2), of 0 "length ms div 100 + 1" token ReceivedDir k]
  by (simp add: httpListReceived_def InitialMessageOffset_def messageListFromJson_def)

lemma message_list_is_fetched_completely_witness:
  "\<exists>server. serveRun sampleHttpEnv server 1 (fst (httpCall sampleHttpEnv (ListReceived (Q ''old'')) OnReceived sampleHttp))
    = (sampleHttp, [Answered OnReceived (MessagesReply (Inr (messageListFromJson sampleHttpEnv ReceivedDir [JNull])))])"
proof -
  let ?server = "\<lambda>q. if q = pageQuery 0 then documentReply (JArr [JNull]) else documentReply (JArr [])"
  have "pageQuery (int i) = pageQuery 0 \<longleftrightarrow> i = 0" for i
    by (simp add: pageQuery_def qNumber_inj)
  then have "serves sampleHttpEnv [JNull] ?server"
    using parse_documentReply(2) [of sampleEnv "[JNull]"] parse_documentReply(2) [of sampleEnv "[]"]
    by (simp add: serves_def documentReply_def)
  from message_list_is_fetched_completely [OF this, of sampleHttp "Q ''old''" OnReceived] show ?thesis
    by (intro exI [of _ ?server]) (simp add: sampleHttp_def)
qed


section \<open>Tokens out of step\<close>

text \<open>
  Property C33: a login that fails after its first exchange leaves the HTTP layer with the tokens
  of the account that was not logged in. The server accepts the credentials, the request for
  the user then fails (with anything but a refreshable 401): the caller is told that the login
  failed and keeps its old session, and from then on every request made with the old session's
  access token is sent with the other account's token.
\<close>

theorem failed_login_switches_tokens:
  assumes "ht_exchanges h = []" and "np_error r1 = NoNetworkError"
    and "nt_parseDocument E (np_body r1) = Inr (DocObject ob)" and "tokensFromJson ob = tokens"
    and "ts_accessToken tokens \<noteq> []" and "np_error r2 \<noteq> NoNetworkError" and "np_statusCode r2 \<noteq> 401"
    and "old \<noteq> []"
  shows "\<exists>h'. runReplies E [r1, r2] (fst (httpCall E (LoginUser user password) k h))
        = (h', [Answered k (SessionReply (Inl (errorForReply E r2)))])
      \<and> ht_tokens h' = tokens \<and> effectiveAccessToken h' old = ts_accessToken tokens"
  using assms
  by (simp add: verb_defs sendRequest_def onFinished_def canRefresh_def setTokens_def effectiveAccessToken_def Let_def)

lemma failed_login_switches_tokens_witness:
  "\<exists>h'. ht_tokens h' = tokensFromJson [(Q ''access_token'', JStr (Q ''mallory''))]
     \<and> effectiveAccessToken h' (Q ''old'') = Q ''mallory''"
proof -
  have "goodJson sampleEnv (JObj [(Q ''access_token'', JStr (Q ''mallory''))])"
    by (simp, intro conjI; rule sample_utf8; simp add: Q_def)
  from parse_documentReply(1) [OF this]
  have parsed: "nt_parseDocument sampleHttpEnv (np_body (documentReply (JObj [(Q ''access_token'', JStr (Q ''mallory''))])))
     = Inr (DocObject [(Q ''access_token'', JStr (Q ''mallory''))])" .
  have idle: "ht_exchanges sampleHttp = []" by (simp add: sampleHttp_def)
  have tokens: "ts_accessToken (tokensFromJson [(Q ''access_token'', JStr (Q ''mallory''))]) = Q ''mallory''"
    by (simp add: tokensFromJson_def)
  have nonempty: "ts_accessToken (tokensFromJson [(Q ''access_token'', JStr (Q ''mallory''))]) \<noteq> []" by (simp add: tokens)
  have failed: "np_statusCode (errorReply 500) \<noteq> 401" and old: "Q ''old'' \<noteq> []" by (simp_all add: errorReply_status)
  obtain h' where "ht_tokens h' = tokensFromJson [(Q ''access_token'', JStr (Q ''mallory''))]"
    "effectiveAccessToken h' (Q ''old'') = ts_accessToken (tokensFromJson [(Q ''access_token'', JStr (Q ''mallory''))])"
    using failed_login_switches_tokens [OF idle documentReply_ok parsed refl nonempty errorReply_error failed old] by blast
  then show ?thesis using tokens by auto
qed

text \<open>
  Property C34: a logout whose access token has expired is retried with the refresh token it was
  first made with, although refreshing has replaced that token: after the 401 and the refresh,
  the exchange in flight is the logout with the old refresh token, while the session's tokens
  are the new ones, which the server is never asked to revoke.
\<close>

theorem logout_retry_sends_stale_token:
  assumes "ht_exchanges h = []" and "np_error r1 \<noteq> NoNetworkError" and "np_statusCode r1 = 401"
    and "ts_refreshToken (ht_tokens h) = t0" and "t0 \<noteq> []"
    and "np_error r2 = NoNetworkError" and "nt_parseDocument E (np_body r2) = Inr (DocObject ob)"
    and "tokensFromJson ob = tokens" and "ts_refreshToken tokens \<noteq> []"
  shows "\<exists>h' ex. runReplies E [r1, r2] (fst (httpCall E (LogoutUser t0) k h)) = (h', [TokensUpdated tokens])
      \<and> ht_exchanges h' = [ex] \<and> ex_path ex = authPath (Q ''/logout'')
      \<and> ex_body ex = Some [(Q ''refresh_token'', JStr t0)] \<and> ht_tokens h' = tokens"
proof -
  have "authPath s = Q ''/auth'' @ s" for s
  proof -
    have "pieces (Q ''/auth%1'') = map Plain (Q ''/auth'') @ [Marker 1 (Q ''%1'')]"
      by (simp add: Q_def markerAt_def startsWith_def isDigit_def digitValue_def)
    then show ?thesis by (simp add: authPath_def argN_def) (simp add: Q_def)
  qed
  then have "\<not> isRefreshPath (authPath (Q ''/logout''))"
    by (simp add: isRefreshPath_def normalizedPath_def) (simp add: Q_def startsWith_def)
  with assms show ?thesis
    by (simp add: verb_defs sendRequest_def onFinished_def canRefresh_def refreshTokens_def setTokens_def Let_def)
qed

lemma logout_retry_sends_stale_token_witness:
  "\<exists>(h' :: http) ex. ht_exchanges h' = [ex] \<and> ex_body ex = Some [(Q ''refresh_token'', JStr (Q ''r0''))]
     \<and> ts_refreshToken (ht_tokens h') = Q ''r1''"
proof -
  have "goodJson sampleEnv (JObj [(Q ''refresh_token'', JStr (Q ''r1''))])"
    by (simp, intro conjI; rule sample_utf8; simp add: Q_def)
  from parse_documentReply(1) [OF this]
  have parsed: "nt_parseDocument sampleHttpEnv (np_body (documentReply (JObj [(Q ''refresh_token'', JStr (Q ''r1''))])))
     = Inr (DocObject [(Q ''refresh_token'', JStr (Q ''r1''))])" .
  have idle: "ht_exchanges sampleHttp = []" "ts_refreshToken (ht_tokens sampleHttp) = Q ''r0''" by (simp_all add: sampleHttp_def)
  have tokens: "ts_refreshToken (tokensFromJson [(Q ''refresh_token'', JStr (Q ''r1''))]) = Q ''r1''"
    by (simp add: tokensFromJson_def)
  have r0: "Q ''r0'' \<noteq> []"
    and nonempty: "ts_refreshToken (tokensFromJson [(Q ''refresh_token'', JStr (Q ''r1''))]) \<noteq> []" by (simp_all add: tokens)
  obtain h' :: http and ex where "ht_exchanges h' = [ex]" "ex_body ex = Some [(Q ''refresh_token'', JStr (Q ''r0''))]"
    "ht_tokens h' = tokensFromJson [(Q ''refresh_token'', JStr (Q ''r1''))]"
    using logout_retry_sends_stale_token [OF idle(1) errorReply_error errorReply_status idle(2) r0 documentReply_ok parsed refl nonempty, of OnLogout] by blast
  with tokens show ?thesis by (intro exI [of _ h'] exI [of _ ex]) simp
qed

section \<open>A reply without content\<close>

text \<open>
  Property C35: a successful reply with an empty body to the first page of the received messages
  counts as the end of an empty list, and the client then hides every message the user has
  received: no cached message addressed to the user is visible any more.
\<close>

theorem blank_reply_empties_the_inbox:
  assumes "ex_callback ex = Gateway (GPage token suffix ReceivedDir 0 []) OnReceived"
    and "np_error r = NoNetworkError" and "nt_parseDocument E (np_body r) = Inl e" and "isBlank (np_body r)"
    and "pf_dateToString E' (env_now E') \<noteq> []"
  shows "onFinished E ex r h = (h, [Answered OnReceived (MessagesReply (Inr []))])
    \<and> filter (\<lambda>m. lm_recipientUserId m = currentUserId c \<and> isMessageVisibleToUser m (currentUserId c))
        (ls_messages (cl_store (deliver E' C OnReceived (MessagesReply (Inr [])) c))) = []"
proof
  show "onFinished E ex r h = (h, [Answered OnReceived (MessagesReply (Inr []))])"
    using assms(1-4) by (simp add: onFinished_def pageReply_def messageListFromJson_def MessagePageLimit_def)
next
  let ?now = "pf_dateToString E' (env_now E')"
  have none: "filter (\<lambda>m. lm_recipientUserId m = u \<and> isMessageVisibleToUser m u)
      (map (reconcileMessage ?now u ReceivedDir {}) ms) = []" for u ms
    using reconcileMessage_visible(1) [OF assms(5), where u = u and d = ReceivedDir and ids = "{}"]
    by (simp add: filter_map listedFor_def comp_def)
  then show "filter (\<lambda>m. lm_recipientUserId m = currentUserId c \<and> isMessageVisibleToUser m (currentUserId c))
        (ls_messages (cl_store (deliver E' C OnReceived (MessagesReply (Inr [])) c))) = []"
    by (simp add: deliver_def listReply_def saveAndReconcileMessages_def storeOrFail_def orFail_def
        reconcileVisibleMessages_def Let_def split: sum.split)
qed


lemma blank_reply_empties_the_inbox_witness:
  "filter (\<lambda>m. lm_recipientUserId m = currentUserId sampleClient \<and> isMessageVisibleToUser m (currentUserId sampleClient))
     (ls_messages (cl_store (deliver sampleEnv sampleCrypto OnReceived (MessagesReply (Inr [])) sampleClient))) = []"
proof -
  let ?blank = "\<lparr>np_error = NoNetworkError, np_statusCode = 200, np_errorString = [], np_body = []\<rparr>"
  obtain ex where ex: "ht_exchanges (fst (httpCall sampleHttpEnv (ListReceived (Q ''old'')) OnReceived sampleHttp)) = [ex]"
    "ex_callback ex = Gateway (GPage (Q ''old'') (Q ''/received'') ReceivedDir 0 []) OnReceived"
    by (simp add: verb_defs sendRequest_def sampleHttp_def InitialMessageOffset_def Let_def)
  have "nt_parseDocument sampleHttpEnv (np_body ?blank) = Inl (Q ''syntax error'')"
    by (simp add: sampleHttpEnv_def http_env.defs env.defs sampleParseDocument_def)
  from blank_reply_empties_the_inbox [OF ex(2) _ this, of sampleEnv] show ?thesis
    by (simp add: isBlank_def Q_def)
qed

end
