(* ===== verification/Program.thy ===== *)
theory Program
  imports Accounts ClientViews MockGateways HttpProperties
begin

text \<open>
  The whole program: client/src/main.cpp with the reader thread of console/ConsoleInputWorker.cpp.
  \<open>runMain\<close> is main up to its event loop: the configuration, the store with the prompt for its
  password, and the system of client and gateways that the mode selects. From then on the
  reader thread and the event loop take steps (\<open>program_step\<close>): the thread reads lines and
  posts them, the loop hands a posted line to the router, lets a gateway proceed, or returns
  once the client has asked to quit.
\<close>

section \<open>Logging\<close>

datatype QtMsgType = QtDebugMsg | QtWarningMsg | QtCriticalMsg | QtFatalMsg | QtInfoMsg

definition Http2LogCategory :: qstring where "Http2LogCategory = Q ''qt.network.http2''"
definition NetworkLogCategoryPrefix :: qstring where "NetworkLogCategoryPrefix = Q ''qt.network''"

definition isNoisyNetworkLog :: "'x platform_scheme \<Rightarrow> bytes \<Rightarrow> bool" where
  "isNoisyNetworkLog P contextCategory =
     (let category = pf_fromUtf8 P contextCategory
      in category = Http2LogCategory \<or> startsWith category NetworkLogCategoryPrefix)"

text \<open>What it writes to standard error.\<close>

definition clientQtMessageHandler :: "'x platform_scheme \<Rightarrow> bool \<Rightarrow> QtMsgType \<Rightarrow> bytes \<Rightarrow> qstring \<Rightarrow> qstring" where
  "clientQtMessageHandler P showRawQtMessages type contextCategory message =
     (let shouldHideWarning = (type = QtWarningMsg \<and> \<not> showRawQtMessages);
          shouldHideNetworkLog = (type = QtWarningMsg \<and> isNoisyNetworkLog P contextCategory)
      in if shouldHideWarning \<or> shouldHideNetworkLog then [] else message @ [10])"

section \<open>The machine the program starts on\<close>

text \<open>
  \<open>mc_input\<close> are the lines on standard input up to its end. The prompt for the password has a
  stream of its own, whose buffer is lost with it: \<open>mc_leftInput\<close> tells which lines the reader
  thread still gets after it.
\<close>

record machine =
  mc_arguments :: "qstring list"
  mc_appDataLocation :: qstring
  mc_currentPath :: qstring
  mc_filePath :: "qstring \<Rightarrow> qstring \<Rightarrow> qstring"
  mc_files :: "qstring \<Rightarrow> json_obj option"
  mc_draws :: nat
  mc_input :: "qstring list"
  mc_leftInput :: "qstring list \<Rightarrow> qstring list"

definition defaultStatePath :: "machine \<Rightarrow> qstring" where
  "defaultStatePath m =
     (let basePath = (if mc_appDataLocation m = [] then mc_currentPath m else mc_appDataLocation m)
      in mc_filePath m basePath AppText_DefaultStateFile)"

section \<open>The reader thread\<close>

text \<open>\<open>Checking\<close>: at the loop's condition; \<open>Reading\<close>: inside \<open>readLine\<close>. \<open>joinable\<close> is: not \<open>NotStarted\<close>.\<close>

datatype reader = NotStarted | Checking | Reading | Finished

record input_worker =
  iw_stopRequested :: bool
  iw_thread :: reader
  iw_detached :: bool

definition newInputWorker :: input_worker where
  "newInputWorker = \<lparr>iw_stopRequested = False, iw_thread = NotStarted, iw_detached = False\<rparr>"

definition workerStart :: "input_worker \<Rightarrow> input_worker" where
  "workerStart w = (if iw_thread w \<noteq> NotStarted then w else w\<lparr>iw_thread := Checking\<rparr>)"

definition requestStop :: "input_worker \<Rightarrow> input_worker" where
  "requestStop w = w\<lparr>iw_stopRequested := True\<rparr>"

text \<open>The destructor: a thread that was started is not waited for.\<close>

definition destroyWorker :: "input_worker \<Rightarrow> input_worker" where
  "destroyWorker w =
     (let w1 = requestStop w in if iw_thread w1 \<noteq> NotStarted then w1\<lparr>iw_detached := True\<rparr> else w1)"

text \<open>One step of the thread: what is left of the input, and the lines it emits.\<close>

definition readInput :: "input_worker \<Rightarrow> qstring list \<Rightarrow> (input_worker \<times> qstring list \<times> qstring list) option" where
  "readInput w input =
     (case iw_thread w of
        NotStarted \<Rightarrow> None
      | Finished \<Rightarrow> None
      | Checking \<Rightarrow> Some (w\<lparr>iw_thread := (if iw_stopRequested w then Finished else Reading)\<rparr>, input, [])
      | Reading \<Rightarrow>
          (case input of
             [] \<Rightarrow> Some (w\<lparr>iw_thread := Finished\<rparr>, [], [])
           | line # rest \<Rightarrow> Some (w\<lparr>iw_thread := Checking\<rparr>, rest, [line])))"

section \<open>The system a mode selects\<close>

datatype mode_system = RealSystem real | MockSystem client mock_server

fun systemClient :: "mode_system \<Rightarrow> client" where
  "systemClient (RealSystem s) = rl_client s"
| "systemClient (MockSystem c s) = c"

fun cryptoProvider :: "http_env \<Rightarrow> mode_system \<Rightarrow> crypto_provider" where
  "cryptoProvider E (RealSystem s) = nativeProvider E"
| "cryptoProvider E (MockSystem c s) = mockProvider (platform.truncate E)"

definition startSystem :: "http_env \<Rightarrow> client \<Rightarrow> mode_system" where
  "startSystem E c = (if sc_mode (cl_config c) = Real then RealSystem (startReal E c) else MockSystem c newMockServer)"

inductive system_line :: "http_env \<Rightarrow> qstring \<Rightarrow> mode_system \<Rightarrow> mode_system \<Rightarrow> bool" for E line where
  RealLine: "settled s \<Longrightarrow> system_line E line (RealSystem s) (RealSystem (realTyped (E' :: env) (nativeProvider E) line s))"
| MockLine: "system_line E line (MockSystem c s)
    (MockSystem (handleLine (E' :: env) (mockProvider (platform.truncate E)) line c) s)"

inductive system_event :: "http_env \<Rightarrow> mode_system \<Rightarrow> mode_system \<Rightarrow> bool" for E where
  RealProceeds: "real_event (nativeProvider E) E s s' \<Longrightarrow> system_event E (RealSystem s) (RealSystem s')"
| MockProceeds: "mock_timer (platform.truncate E) (c, s) (c', s') \<Longrightarrow> system_event E (MockSystem c s) (MockSystem c' s')"

text \<open>A run of the system on lines, with any events before, between and after them.\<close>

inductive system_run :: "http_env \<Rightarrow> mode_system \<Rightarrow> qstring list \<Rightarrow> mode_system \<Rightarrow> bool" for E s where
  RunStart: "system_run E s [] s"
| RunLine: "system_run E s lines t \<Longrightarrow> system_line E line t u \<Longrightarrow> system_run E s (lines @ [line]) u"
| RunEvent: "system_run E s lines t \<Longrightarrow> system_event E t u \<Longrightarrow> system_run E s lines u"

inductive_cases system_lineE: "system_line E line s t"
inductive_cases system_eventE: "system_event E s t"

section \<open>main\<close>

record program =
  pg_prompt :: qstring
  pg_showRawQtMessages :: bool
  pg_system :: mode_system
  pg_worker :: input_worker
  pg_input :: "qstring list"
  pg_posted :: "qstring list"
  pg_quit :: bool
  pg_exit :: "int option"

definition passwordPrompted ::
  "'x env_scheme \<Rightarrow> StartupConfig \<Rightarrow> (qstring \<Rightarrow> json_obj option) \<Rightarrow> nat \<Rightarrow> bool" where
  "passwordPrompted E config files draws \<longleftrightarrow>
     sc_mode config = Real \<and> \<not> sc_statePathExplicit config
     \<and> (let store = newStore E (sc_statePath config) True files draws
        in case lastAccountId E store of
             Inr (Some accountId) \<Rightarrow>
               (case fst (useAccountScopedPath E accountId False store) of Inr _ \<Rightarrow> True | Inl _ \<Rightarrow> False)
           | _ \<Rightarrow> False)"

definition startConfig :: "'x platform_scheme \<Rightarrow> machine \<Rightarrow> StartupConfig result" where
  "startConfig P m = parseStartup P (defaultStatePath m) (mc_arguments m)"

definition firstLine :: "qstring list \<Rightarrow> qstring" where
  "firstLine input = (case input of [] \<Rightarrow> [] | line # _ \<Rightarrow> line)"

text \<open>\<open>Inl\<close>: the exit status and the text on standard error of a start that fails.\<close>

definition runMain :: "http_env \<Rightarrow> machine \<Rightarrow> int \<times> qstring + program" where
  "runMain E m =
     (case startConfig E m of
        Inl err \<Rightarrow> Inl (1, ce_message err @ [10])
      | Inr config \<Rightarrow>
          (let prompted = passwordPrompted E config (mc_files m) (mc_draws m);
               password = (if prompted then firstLine (mc_input m) else []);
               input = (if prompted then mc_leftInput m (mc_input m) else mc_input m)
           in case startClient E config (mc_files m) (mc_draws m) password of
                Inl message \<Rightarrow> Inl (1, message @ [10])
              | Inr c \<Rightarrow>
                  Inr \<lparr>pg_prompt = (if prompted
                         then Q ''Enter local state password to restore the previous session, or press Enter to skip.''
                                @ [10] @ AppText_PasswordPrompt
                         else []),
                       pg_showRawQtMessages = sc_showRawErrors config,
                       pg_system = startSystem E c, pg_worker = workerStart newInputWorker,
                       pg_input = input, pg_posted = [], pg_quit = False, pg_exit = None\<rparr>))"

text \<open>
  The steps of the reader thread and of the event loop, with the lines given to the router.
  After \<open>quit\<close> the loop may still hand out events it has already collected.
\<close>

inductive program_step :: "http_env \<Rightarrow> program \<Rightarrow> qstring list \<Rightarrow> program \<Rightarrow> bool" for E where
  WorkerSteps: "pg_exit p = None \<Longrightarrow> readInput (pg_worker p) (pg_input p) = Some (w, input, lines)
    \<Longrightarrow> program_step E p [] (p\<lparr>pg_worker := w, pg_input := input, pg_posted := pg_posted p @ lines\<rparr>)"
| MainLine: "pg_exit p = None \<Longrightarrow> pg_posted p = line # rest \<Longrightarrow> system_line E line (pg_system p) s
    \<Longrightarrow> program_step E p [line] (p\<lparr>pg_system := s, pg_posted := rest, pg_quit := cl_exited (systemClient s)\<rparr>)"
| MainEvent: "pg_exit p = None \<Longrightarrow> system_event E (pg_system p) s
    \<Longrightarrow> program_step E p [] (p\<lparr>pg_system := s, pg_quit := cl_exited (systemClient s)\<rparr>)"
| MainReturns: "pg_exit p = None \<Longrightarrow> pg_quit p
    \<Longrightarrow> program_step E p [] (p\<lparr>pg_exit := Some 0, pg_worker := destroyWorker (requestStop (pg_worker p))\<rparr>)"

inductive program_run :: "http_env \<Rightarrow> program \<Rightarrow> qstring list \<Rightarrow> program \<Rightarrow> bool" for E p where
  ProgramStarts: "program_run E p [] p"
| ProgramSteps: "program_run E p lines q \<Longrightarrow> program_step E q handled r \<Longrightarrow> program_run E p (lines @ handled) r"

inductive_cases program_stepE: "program_step E p lines q"

section \<open>What every run keeps\<close>

fun callRequest :: "call \<Rightarrow> request" where
  "callRequest (Call req k) = req"

lemma real_url:
  assumes "parseStartup P d args = Inr config" and "sc_mode config = Real"
  shows "pf_urlScheme P (sc_apiUrl config) = AppText_HttpsScheme"
  using assms by (auto simp: parseStartup_def startupFinish_def Let_def split: sum.splits if_splits)

lemma real_event_http:
  "real_event C E s s' \<Longrightarrow> http_reachable E u (rl_http s) \<Longrightarrow> http_reachable E u (rl_http s')"
  by (erule real_eventE) (auto intro: HttpStepped, metis HttpCalled fst_conv)

fun sound :: "http_env \<Rightarrow> StartupConfig \<Rightarrow> mode_system \<Rightarrow> bool" where
  "sound E config (RealSystem s) \<longleftrightarrow>
     accounted (nativeProvider E) s \<and> http_reachable E (sc_apiUrl config) (rl_http s) \<and> sc_mode config = Real
     \<and> cl_config (rl_client s) = config \<and> ls_secretProtectionRequired (cl_store (rl_client s))"
| "sound E config (MockSystem c s) \<longleftrightarrow>
     mock_reachable (platform.truncate E) (c, s) \<and> sc_mode config = Mock \<and> cl_config c = config"

lemma step_config: "client_step C c c' \<Longrightarrow> cl_config c' = cl_config c"
  by (erule client_stepE)
    (auto elim!: answersE simp: configuration.view_handleLine configuration.view_deliver configuration.view_updateTokens
      configuration.view_pending)

lemma sound_client: "sound E config s \<Longrightarrow> reachable (cryptoProvider E s) (systemClient s)"
  using mock_client.simulates by (cases s) (fastforce simp: accounted_def)+

lemma sound_event:
  assumes "system_event E s t" and "sound E config s"
  shows "sound E config t"
  using assms(1)
proof (cases rule: system_event.cases)
  case (RealProceeds s1 s2)
  then have ok: "accounted (nativeProvider E) s1" using assms(2) by simp
  from real_event_client [OF RealProceeds(3) ok] have
    "cl_config (rl_client s2) = cl_config (rl_client s1)
     \<and> ls_secretProtectionRequired (cl_store (rl_client s2)) = ls_secretProtectionRequired (cl_store (rl_client s1))"
    by (auto simp: step_config step_settings)
  with RealProceeds assms(2) accounted_event [OF RealProceeds(3) ok] real_event_http [OF RealProceeds(3)]
  show ?thesis by auto
next
  case (MockProceeds c1 s1 c2 s2)
  let ?P = "platform.truncate E"
  have reach: "mock_reachable ?P (c1, s1)" using assms(2) MockProceeds by simp
  have "client_step (mockProvider ?P) c1 c2"
    using MockProceeds(3) sealed_reachable [OF mock_client.simulates [OF reach]]
    by (auto intro: client_step.Answered mock_timer_answers)
  with MockProceeds assms(2) reach show ?thesis
    by (auto simp: step_config intro: MockStep MockFired)
qed

lemma sound_line:
  assumes "system_line E line s t" and "sound E config s"
  shows "sound E config t"
  using assms(1)
proof (cases rule: system_line.cases)
  case (RealLine s1 E')
  then have "accounted (nativeProvider E) (realTyped E' (nativeProvider E) line s1)"
    using assms(2) by (simp add: accounted_typed)
  moreover have "client_step (nativeProvider E) (rl_client s1) (handleLine E' (nativeProvider E) line (rl_client s1))"
    by (rule client_step.Typed)
  ultimately show ?thesis
    using RealLine assms(2) by (simp add: realTyped_def step_config step_settings Let_def)
next
  case (MockLine c s1 E')
  have "client_step (mockProvider (platform.truncate E)) c (handleLine E' (mockProvider (platform.truncate E)) line c)"
    by (rule client_step.Typed)
  with MockLine assms(2) show ?thesis
    by (auto simp: step_config intro: MockStep MockTyped)
qed

lemma sound_run: "system_run E s lines t \<Longrightarrow> sound E config s \<Longrightarrow> sound E config t"
  by (induction rule: system_run.induct) (auto intro: sound_line sound_event)

section \<open>How a program starts\<close>

lemma startStore_required:
  "startStore E config files draws password = Inr s \<Longrightarrow> ls_secretProtectionRequired s \<longleftrightarrow> sc_mode config = Real"
  by (auto simp: startStore_def newStore_def load_keeps Let_def setSecretPassphrase_def reload_def
      dest!: arg_cong [where f = "\<lambda>r. ls_secretProtectionRequired (snd r)"]
      split: if_splits sum.splits option.splits prod.splits)
    (simp_all add: useAccountScopedPath_files load_keeps)

lemma startClient_new:
  assumes "startClient E config files draws password = Inr c"
  obtains s where "c = newClient E config s" "ls_secretProtectionRequired s \<longleftrightarrow> sc_mode config = Real"
    "sc_mode config = Real \<longrightarrow> pf_hasOpenSsl E"
  using assms startStore_required [of E config files draws password]
  by (auto simp: startClient_def split: sum.splits if_splits)

lemma newClient_env: "newClient E = newClient (E' :: env)"
  by (simp add: newClient_def fun_eq_iff)

lemma newClient_fields:
  "cl_config (newClient E config s) = config" "cl_store (newClient E config s) = s"
  "\<not> cl_exited (newClient E config s)"
  by (simp_all add: newClient_def)

lemma sound_start:
  assumes "ls_secretProtectionRequired s \<longleftrightarrow> sc_mode config = Real"
  shows "sound E config (startSystem E (newClient E config s))"
proof (cases "sc_mode config")
  case Real
  let ?s = "startReal E (newClient (undefined :: env) config s)"
  have "accounted (nativeProvider E) ?s" by (rule real_accounted [OF RealStart])
  moreover have "http_reachable E (sc_apiUrl config) (rl_http ?s)"
    by (auto simp: startReal_def Let_def newClient_fields intro: HttpStart HttpTokens split: option.split)
  moreover have "rl_client ?s = newClient (undefined :: env) config s" by (simp add: startReal_def Let_def)
  ultimately show ?thesis
    using assms Real
    by (simp add: startSystem_def newClient_fields newClient_env [of E undefined])
next
  case Mock
  then show ?thesis
    by (simp add: startSystem_def newClient_fields newClient_env [of E undefined] MockStart)
qed

lemma runMain_started:
  assumes "runMain E m = Inr p"
  obtains config where "startConfig E m = Inr config" "sound E config (pg_system p)"
    "sc_mode config = Real \<longrightarrow> pf_hasOpenSsl E"
    "\<not> cl_exited (systemClient (pg_system p))" "pg_worker p = workerStart newInputWorker"
    "iw_thread (pg_worker p) \<noteq> NotStarted" "pg_posted p = []" "\<not> pg_quit p" "pg_exit p = None"
proof -
  obtain config where config: "startConfig E m = Inr config"
    using assms by (auto simp: runMain_def split: sum.splits)
  with assms obtain password c where c: "startClient E config (mc_files m) (mc_draws m) password = Inr c"
    "pg_system p = startSystem E c" "pg_worker p = workerStart newInputWorker"
    "pg_posted p = []" "\<not> pg_quit p" "pg_exit p = None"
    by (fastforce simp: runMain_def Let_def split: sum.splits)
  obtain s where s: "c = newClient E config s" "ls_secretProtectionRequired s \<longleftrightarrow> sc_mode config = Real"
    "sc_mode config = Real \<longrightarrow> pf_hasOpenSsl E"
    using c(1) by (rule startClient_new)
  have "sound E config (pg_system p)" unfolding c(2) s(1) by (rule sound_start [OF s(2)])
  moreover have "systemClient (startSystem E c) = c" by (simp add: startSystem_def startReal_def Let_def)
  ultimately show thesis using that config c s(1,3) by (simp add: newClient_fields workerStart_def newInputWorker_def)
qed

section \<open>Lines\<close>

text \<open>The lines handled, posted and not yet read are the input; the system has run on the handled ones.\<close>

lemma readInput_lines: "readInput w input = Some (w', input', lines) \<Longrightarrow> input = lines @ input'"
  by (auto simp: readInput_def split: reader.splits list.splits)

lemma readInput_thread: "readInput w input = Some (w', input', lines) \<Longrightarrow> iw_thread w' \<noteq> NotStarted"
  by (auto simp: readInput_def split: reader.splits list.splits if_splits)

lemma program_run_lines:
  assumes "program_run E p lines q"
  shows "lines @ pg_posted q @ pg_input q = pg_posted p @ pg_input p \<and> system_run E (pg_system p) lines (pg_system q)"
  using assms
proof induction
  case ProgramStarts
  then show ?case by (simp add: RunStart)
next
  case (ProgramSteps lines q handled r)
  from ProgramSteps.hyps(2) ProgramSteps.IH show ?case
    by (cases rule: program_step.cases) (auto dest: readInput_lines intro: RunLine RunEvent)
qed

lemma exit_event: "system_event E s t \<Longrightarrow> cl_exited (systemClient t) = cl_exited (systemClient s)"
  by (erule system_eventE)
    (auto elim!: real_eventE mock_timerE simp: exiting.view_deliver exiting.view_updateTokens exiting.view_pending)

lemma exit_line:
  "system_line E line s t \<Longrightarrow>
   cl_exited (systemClient t) \<Longrightarrow> cl_exited (systemClient s) \<or> (\<exists>E' :: env. exitCommand E' (systemClient s) line)"
  by (erule system_lineE) (auto simp: exit_typed realTyped_def Let_def)

lemma exit_run:
  assumes "system_run E s lines t" and "\<not> cl_exited (systemClient s)" and "cl_exited (systemClient t)"
  shows "\<exists>before line after u. lines = before @ line # after \<and> system_run E s before u
    \<and> (\<exists>E' :: env. exitCommand E' (systemClient u) line)"
  using assms
proof induction
  case (RunLine lines t line u)
  show ?case
  proof (cases "cl_exited (systemClient t)")
    case True
    with RunLine obtain before l after v where "lines = before @ l # after" "system_run E s before v"
      "\<exists>E' :: env. exitCommand E' (systemClient v) l" by blast
    then have "lines @ [line] = before @ l # (after @ [line])" by simp
    with \<open>system_run E s before v\<close> \<open>\<exists>E' :: env. _ E' _ l\<close> show ?thesis by blast
  next
    case False
    with exit_line [OF RunLine.hyps(2)] RunLine.prems(2) RunLine.hyps(1) show ?thesis by blast
  qed
next
  case (RunEvent lines t u)
  then show ?case using exit_event by blast
qed simp

text \<open>The program has quit exactly when the client has asked for it.\<close>

lemma program_run_quit:
  assumes "program_run E p lines q" and "pg_quit p = cl_exited (systemClient (pg_system p))" and "pg_exit p = None"
    and "iw_thread (pg_worker p) \<noteq> NotStarted"
  shows "pg_quit q = cl_exited (systemClient (pg_system q)) \<and> iw_thread (pg_worker q) \<noteq> NotStarted
    \<and> (pg_exit q = None \<or> pg_exit q = Some 0 \<and> pg_quit q \<and> iw_stopRequested (pg_worker q) \<and> iw_detached (pg_worker q))"
  using assms
proof induction
  case (ProgramSteps lines q handled r)
  from ProgramSteps.hyps(2) ProgramSteps.IH ProgramSteps.prems show ?case
    by (cases rule: program_step.cases)
      (auto simp: requestStop_def destroyWorker_def dest: readInput_thread)
qed simp

section \<open>A machine to start on\<close>

definition sampleMachine :: "qstring list \<Rightarrow> qstring list \<Rightarrow> machine" where
  "sampleMachine arguments input =
     \<lparr>mc_arguments = arguments, mc_appDataLocation = [], mc_currentPath = Q ''/work'',
      mc_filePath = (\<lambda>d f. d @ Q ''/'' @ f), mc_files = (\<lambda>_. None), mc_draws = 0,
      mc_input = input, mc_leftInput = tl\<rparr>"

lemma sample_fields: "lower_ascii sampleHttpEnv" "pf_hasOpenSsl sampleHttpEnv"
    "pf_urlScheme sampleHttpEnv (Q ''https://h'') = AppText_HttpsScheme"
  using sample_lower sample_scheme
  by (simp_all add: sampleHttpEnv_def http_env.defs env.defs lower_ascii_def) (simp add: sampleEnv_def)

lemma sample_real_start:
  "\<exists>p. runMain sampleHttpEnv (sampleMachine (sampleArgs (Q ''9'')) input) = Inr p \<and> pg_input p = input
     \<and> (\<exists>s. pg_system p = RealSystem s)"
proof -
  let ?m = "sampleMachine (sampleArgs (Q ''9'')) input"
  obtain config where config: "startConfig sampleHttpEnv ?m = Inr config" "sc_mode config = Real" "\<not> sc_statePathExplicit config"
    using startup_accepts_aux [OF sample_fields(1,3) sample_scheme(2) sample_number]
    by (simp add: startConfig_def sampleMachine_def sampleArgs_def)
  have empty: "lastAccountId sampleHttpEnv (newStore sampleHttpEnv path b (\<lambda>_. None) n) = Inr None" for path b n
    by (simp add: lastAccountId_def newStore_def load_keeps)
  have "\<exists>c. startClient sampleHttpEnv config (mc_files ?m) (mc_draws ?m) [] = Inr c \<and> cl_config c = config"
    using config(2,3) by (simp add: startClient_def startStore_def sampleMachine_def empty sample_fields newClient_fields)
  moreover have "\<not> passwordPrompted sampleHttpEnv config (mc_files ?m) (mc_draws ?m)"
    by (simp add: passwordPrompted_def sampleMachine_def empty)
  ultimately show ?thesis
    using config by (auto simp: runMain_def startSystem_def sampleMachine_def)
qed

lemma sample_mock_start:
  "\<exists>p c. runMain sampleHttpEnv (sampleMachine [Q ''client'', AppText_DebugFlag] input) = Inr p \<and> pg_input p = input
     \<and> pg_system p = MockSystem c newMockServer \<and> cl_router c = newRouter"
proof -
  let ?m = "sampleMachine [Q ''client'', AppText_DebugFlag] input"
  obtain config where config: "startConfig sampleHttpEnv ?m = Inr config" "sc_mode config = Mock"
    by (simp add: startConfig_def sampleMachine_def parseStartup_def startupFlag_def startupFinish_def startupInit_def Let_def flag_defs)
  then have "startClient sampleHttpEnv config (mc_files ?m) (mc_draws ?m) []
      = Inr (newClient sampleHttpEnv config (newStore sampleHttpEnv (sc_statePath config) False (mc_files ?m) (mc_draws ?m)))"
    by (simp add: startClient_def startStore_def)
  moreover have "\<not> passwordPrompted sampleHttpEnv config (mc_files ?m) (mc_draws ?m)"
    using config(2) by (simp add: passwordPrompted_def)
  ultimately show ?thesis
    using config by (simp add: runMain_def startSystem_def newClient_fields) (simp add: newClient_def sampleMachine_def)
qed

text \<open>The thread reads the only line, the loop hands it to the router.\<close>

lemma sample_handled:
  assumes "runMain E m = Inr p" "pg_input p = [line]" "system_line E line (pg_system p) s"
  obtains q where "program_run E p [line] q" "pg_exit q = None" "pg_quit q = cl_exited (systemClient s)" "pg_system q = s"
proof -
  obtain config where start: "pg_worker p = workerStart newInputWorker" "pg_posted p = []" "\<not> pg_quit p" "pg_exit p = None"
    using assms(1) by (rule runMain_started)
  let ?w = "\<lparr>iw_stopRequested = False, iw_thread = Reading, iw_detached = False\<rparr>"
  let ?p1 = "p\<lparr>pg_worker := ?w, pg_input := [line], pg_posted := pg_posted p @ []\<rparr>"
  let ?p2 = "?p1\<lparr>pg_worker := ?w\<lparr>iw_thread := Checking\<rparr>, pg_input := [], pg_posted := pg_posted ?p1 @ [line]\<rparr>"
  let ?p3 = "?p2\<lparr>pg_system := s, pg_posted := [], pg_quit := cl_exited (systemClient s)\<rparr>"
  have "program_step E p [] ?p1"
    by (rule WorkerSteps) (simp_all add: start assms readInput_def workerStart_def newInputWorker_def)
  moreover have "program_step E ?p1 [] ?p2"
    by (rule WorkerSteps) (simp_all add: start readInput_def)
  moreover have "program_step E ?p2 [line] ?p3"
    by (rule MainLine) (simp_all add: start assms(3))
  ultimately have "program_run E p ((([] @ []) @ []) @ [line]) ?p3"
    by (blast intro: ProgramStarts ProgramSteps)
  then show thesis using start by (intro that [of ?p3]) simp_all
qed

lemma sample_exit: "exitCommand sampleEnv (c :: client) (Q ''/exit'')" if "cl_router c = newRouter"
proof -
  have "lower_ascii sampleEnv" by (simp add: lower_ascii_def sampleEnv_def)
  moreover have "commandLine Exit [] = Q ''/exit''"
    by (simp add: commandLine_def commandTypeName_def commandLookup_def const_defs quotedArguments_def Q_def)
  ultimately have "parseCommand sampleEnv (Q ''/exit'') = Inr \<lparr>cmd_type = Exit, cmd_name = commandTypeName Exit,
      cmd_arguments = [], cmd_originalLine = Q ''/exit''\<rparr>"
    using parse_commandLine_aux [of sampleEnv "[]" Exit] by simp
  moreover have "trimmed (Q ''/exit'') \<noteq> []" by (simp add: trimmed_eq_Nil) (simp add: Q_def isSpace_def)
  ultimately show ?thesis using that by (simp add: exitCommand_def newRouter_def)
qed

section \<open>Properties\<close>

text \<open>
  Property C5: the program is its client run on its input. From every successful start, whatever
  the reader thread, the event loop and the gateways do in whatever order, the lines given to
  the router, those posted and those not yet read are the input, in order and each once; the
  client has run on exactly the lines given to it and is in a reachable state with the crypto
  provider of the mode; and the program only ever returns status 0.
\<close>

theorem program_runs_client_on_input:
  assumes "runMain E m = Inr p" and "program_run E p lines q"
  shows "lines @ pg_posted q @ pg_input q = pg_input p
    \<and> system_run E (pg_system p) lines (pg_system q)
    \<and> reachable (cryptoProvider E (pg_system q)) (systemClient (pg_system q))
    \<and> pg_exit q \<in> {None, Some 0}"
proof -
  obtain config where start: "sound E config (pg_system p)" "\<not> cl_exited (systemClient (pg_system p))"
    "iw_thread (pg_worker p) \<noteq> NotStarted" "pg_posted p = []" "\<not> pg_quit p" "pg_exit p = None"
    using assms(1) by (rule runMain_started)
  have run: "lines @ pg_posted q @ pg_input q = pg_posted p @ pg_input p" "system_run E (pg_system p) lines (pg_system q)"
    using program_run_lines [OF assms(2)] by simp_all
  have "sound E config (pg_system q)" using run(2) start(1) by (rule sound_run)
  then have "reachable (cryptoProvider E (pg_system q)) (systemClient (pg_system q))" by (rule sound_client)
  with run program_run_quit [OF assms(2)] start show ?thesis by auto
qed

theorem program_runs_client_on_input_witness:
  "\<exists>p q. pg_input p = [Q ''/help''] \<and> program_run sampleHttpEnv p [Q ''/help''] q \<and> pg_posted q @ pg_input q = []
     \<and> system_run sampleHttpEnv (pg_system p) [Q ''/help''] (pg_system q)"
proof -
  obtain p c where p: "runMain sampleHttpEnv (sampleMachine [Q ''client'', AppText_DebugFlag] [Q ''/help'']) = Inr p"
    "pg_input p = [Q ''/help'']" "pg_system p = MockSystem c newMockServer"
    using sample_mock_start by blast
  obtain q where q: "program_run sampleHttpEnv p [Q ''/help''] q"
    using sample_handled [OF p(1,2)] p(3) MockLine by metis
  from program_runs_client_on_input [OF p(1) q] p(2) q show ?thesis by (intro exI [of _ p] exI [of _ q]) simp
qed

text \<open>
  Property C16: only the command to exit ends the program. When it has returned, its status is 0,
  one of the lines given to the router was /exit without arguments, typed in command mode while
  no operation was in progress, after the client had run on the lines before it, and the reader
  thread, which nobody waits for, has been left to itself with the worker it uses destroyed.
\<close>

theorem program_ends_only_by_exit:
  assumes "runMain E m = Inr p" and "program_run E p lines q" and "pg_exit q = Some code"
  shows "code = 0 \<and> iw_detached (pg_worker q)
    \<and> (\<exists>before line after s. lines = before @ line # after \<and> system_run E (pg_system p) before s
         \<and> (\<exists>E' :: env. exitCommand E' (systemClient s) line))"
proof -
  obtain config where start: "\<not> cl_exited (systemClient (pg_system p))" "iw_thread (pg_worker p) \<noteq> NotStarted"
    "\<not> pg_quit p" "pg_exit p = None"
    using assms(1) by (rule runMain_started)
  have "cl_exited (systemClient (pg_system q))" "code = 0" "iw_detached (pg_worker q)"
    using program_run_quit [OF assms(2)] start assms(3) by auto
  with exit_run [OF conjunct2 [OF program_run_lines [OF assms(2)]] start(1)] show ?thesis by blast
qed

theorem program_ends_only_by_exit_witness:
  "\<exists>p q. program_run sampleHttpEnv p [Q ''/exit''] q \<and> pg_exit q = Some 0
     \<and> (\<exists>s. system_run sampleHttpEnv (pg_system p) [] s \<and> (\<exists>E' :: env. exitCommand E' (systemClient s) (Q ''/exit'')))"
proof -
  let ?P = "platform.truncate sampleHttpEnv"
  obtain p c where p: "runMain sampleHttpEnv (sampleMachine [Q ''client'', AppText_DebugFlag] [Q ''/exit'']) = Inr p"
    "pg_input p = [Q ''/exit'']" "pg_system p = MockSystem c newMockServer" "cl_router c = newRouter"
    using sample_mock_start by blast
  let ?s = "MockSystem (handleLine sampleEnv (mockProvider ?P) (Q ''/exit'') c) newMockServer"
  have exited: "cl_exited (systemClient ?s)" using sample_exit [OF p(4)] by (simp add: exit_typed)
  have "system_line sampleHttpEnv (Q ''/exit'') (pg_system p) ?s" unfolding p(3) by (rule MockLine)
  then obtain q where q: "program_run sampleHttpEnv p [Q ''/exit''] q" "pg_exit q = None" "pg_quit q"
    using sample_handled [OF p(1,2)] exited by metis
  let ?r = "q\<lparr>pg_exit := Some 0, pg_worker := destroyWorker (requestStop (pg_worker q))\<rparr>"
  have run: "program_run sampleHttpEnv p ([Q ''/exit''] @ []) ?r"
    by (rule ProgramSteps [OF q(1) MainReturns [OF q(2,3)]])
  have "pg_exit ?r = Some 0" by simp
  from program_ends_only_by_exit [OF p(1) run this] run show ?thesis
    by (intro exI [of _ p] exI [of _ ?r]) (auto simp: Cons_eq_append_conv)
qed

text \<open>
  Property C32: the end of the input never ends the program. Once the reader thread has met the end
  of standard input and every line it posted is handled, with no /exit among them, no step of
  the gateways or the thread ever makes the program return, and it takes no line any more.
\<close>

theorem end_of_input_never_ends_the_program:
  assumes "runMain E m = Inr p" and "program_run E p lines q"
    and "iw_thread (pg_worker q) = Finished" and "pg_posted q = []" and "\<not> pg_quit q"
    and "program_run E q more_lines r"
  shows "more_lines = [] \<and> pg_exit r = None \<and> iw_thread (pg_worker r) = Finished"
proof -
  obtain config where "\<not> cl_exited (systemClient (pg_system p))" "iw_thread (pg_worker p) \<noteq> NotStarted"
    "\<not> pg_quit p" "pg_exit p = None"
    using assms(1) by (rule runMain_started)
  then have q: "pg_quit q = cl_exited (systemClient (pg_system q))" "pg_exit q = None"
    using program_run_quit [OF assms(2)] assms(5) by auto
  from assms(6) have "more_lines = [] \<and> pg_exit r = None \<and> iw_thread (pg_worker r) = Finished
      \<and> pg_posted r = [] \<and> \<not> pg_quit r \<and> \<not> cl_exited (systemClient (pg_system r))"
  proof induction
    case (ProgramSteps xs r handled s)
    from ProgramSteps.hyps(2) ProgramSteps.IH show ?case
      by (cases rule: program_step.cases) (auto simp: readInput_def exit_event)
  qed (use q assms(3-5) in simp)
  then show ?thesis by simp
qed

theorem end_of_input_never_ends_the_program_witness:
  "\<exists>p q. program_run sampleHttpEnv p [] q \<and> iw_thread (pg_worker q) = Finished \<and> pg_exit q = None"
proof -
  obtain p where p: "runMain sampleHttpEnv (sampleMachine [Q ''client'', AppText_DebugFlag] []) = Inr p" "pg_input p = []"
    using sample_mock_start by blast
  obtain config where start: "pg_worker p = workerStart newInputWorker" "pg_posted p = []" "\<not> pg_quit p" "pg_exit p = None"
    using p(1) by (rule runMain_started)
  let ?w = "\<lparr>iw_stopRequested = False, iw_thread = Reading, iw_detached = False\<rparr>"
  let ?p1 = "p\<lparr>pg_worker := ?w, pg_input := [], pg_posted := pg_posted p @ []\<rparr>"
  let ?q = "?p1\<lparr>pg_worker := ?w\<lparr>iw_thread := Finished\<rparr>, pg_input := [], pg_posted := pg_posted ?p1 @ []\<rparr>"
  have "program_step sampleHttpEnv p [] ?p1"
    by (rule WorkerSteps) (simp_all add: start p readInput_def workerStart_def newInputWorker_def)
  moreover have "program_step sampleHttpEnv ?p1 [] ?q"
    by (rule WorkerSteps) (simp_all add: start readInput_def)
  ultimately have run: "program_run sampleHttpEnv p (([] @ []) @ []) ?q"
    by (blast intro: ProgramStarts ProgramSteps)
  have "iw_thread (pg_worker ?q) = Finished" "pg_posted ?q = []" "\<not> pg_quit ?q" by (simp_all add: start)
  from end_of_input_never_ends_the_program [OF p(1) run this ProgramStarts] run show ?thesis
    by (intro exI [of _ p] exI [of _ ?q]) simp
qed

text \<open>
  Property C6: the real program is secure from its first step on. Started in the real mode, its
  URL has the scheme https and OpenSSL is present; and in every state it comes to, secrets are
  protected on disk, every request in flight goes to the scheme and host of that URL, and every
  message about to be transmitted was encrypted by the native provider to a bundle whose
  signature it accepted.
\<close>

theorem real_program_is_secure:
  assumes "runMain E m = Inr p" and "program_run E p lines q" and "pg_system q = RealSystem s"
  shows "\<exists>config. startConfig E m = Inr config \<and> sc_mode config = Real
    \<and> pf_urlScheme E (sc_apiUrl config) = AppText_HttpsScheme \<and> pf_hasOpenSsl E
    \<and> ls_secretProtectionRequired (cl_store (rl_client s))
    \<and> url_base ` rq_url ` ex_request ` set (ht_exchanges (rl_http s)) \<subseteq> {configuredBase E (sc_apiUrl config)}
    \<and> callRequest ` set (cl_pending (rl_client s)) \<subseteq> {req. sealedRequest (nativeProvider E) req}"
proof -
  obtain config where start: "startConfig E m = Inr config" "sound E config (pg_system p)"
      "sc_mode config = Real \<longrightarrow> pf_hasOpenSsl E"
    using assms(1) by (rule runMain_started)
  have ok: "sound E config (RealSystem s)"
    using sound_run [OF conjunct2 [OF program_run_lines [OF assms(2)]] start(2)] assms(3) by simp
  have "pf_urlScheme E (sc_apiUrl config) = AppText_HttpsScheme" if "sc_mode config = Real"
    using start(1) that unfolding startConfig_def by (rule real_url)
  moreover have "discreet (configuredBase E (sc_apiUrl config)) (rl_http s)"
    using ok by (auto intro: http_reachable_discreet)
  moreover have "sealedCalls (nativeProvider E) [] (rl_client s)"
    using sealed_reachable ok by (auto simp: accounted_def)
  then have "sealedRequest (nativeProvider E) (callRequest x)" if "x \<in> set (cl_pending (rl_client s))" for x
    using that by (cases x) (auto simp: sealedCalls_def)
  ultimately show ?thesis
    using ok start by (auto simp: discreet_def exchangeDiscreet_def)
qed

theorem real_program_is_secure_witness:
  "\<exists>p s. runMain sampleHttpEnv (sampleMachine (sampleArgs (Q ''9'')) []) = Inr p \<and> pg_system p = RealSystem s
     \<and> ls_secretProtectionRequired (cl_store (rl_client s))"
proof -
  obtain p s where p: "runMain sampleHttpEnv (sampleMachine (sampleArgs (Q ''9'')) []) = Inr p" "pg_system p = RealSystem s"
    using sample_real_start by blast
  from real_program_is_secure [OF p(1) ProgramStarts p(2)] p show ?thesis
    by (intro exI [of _ p] exI [of _ s]) auto
qed

end
