(* ===== verification/Restart.thy ===== *)
theory Restart
  imports Program
begin

text \<open>
  Ending and starting again: a program of the real mode started on the files another run has
  left, with the password of the account at the prompt, has that account's state back.
\<close>

lemma saved_passphrase:
  "fst (save E s) = Inr x \<Longrightarrow> ls_secretProtectionRequired s \<Longrightarrow> ls_secretPassphrase s \<noteq> []"
  by (rule save_writes [of E s x]) (auto simp: protectSecrets_def)

lemma newStore_keeps:
  "ls_path (newStore E path b files n) = path" "ls_indexPath (newStore E path b files n) = path"
  "ls_files (newStore E path b files n) = files" "ls_secretProtectionRequired (newStore E path b files n) = b"
  by (simp_all add: newStore_def load_keeps)

lemma lastAccountId_cong:
  "ls_files s (ls_indexPath s) = ls_files t (ls_indexPath t) \<Longrightarrow> ls_indexPath s = ls_indexPath t
   \<Longrightarrow> lastAccountId E s = lastAccountId E t"
  by (simp add: lastAccountId_def split: option.split)

lemma useAccountScopedPath_again:
  "useAccountScopedPath E u False s =
     (Inr True, s\<lparr>ls_path := ls_path (snd (useAccountScopedPath E u False t))\<rparr>)" if "ls_indexPath t = ls_indexPath s"
  using that by (simp add: useAccountScopedPath_def Let_def)

text \<open>The store a restarted client works on, before and after the password is taken.\<close>

lemma restarted_store:
  assumes config: "sc_mode config = Real" "\<not> sc_statePathExplicit config"
    and saved: "fst (save E s) = Inr True" "ls_secretProtectionRequired s"
    and laws: "storable E s" "textSafe E s" "secret_laws E"
    and readable: "env_canRead E (ls_path s)"
    and account: "lastAccountId E (snd (save E s)) = Inr (Some u)" "ls_indexPath s = sc_statePath config"
      "ls_path s = ls_path (snd (useAccountScopedPath E u False s))"
  obtains t where "startStore E config (ls_files (snd (save E s))) draws (ls_secretPassphrase s) = Inr t"
    "sameAccount s t" "ls_path t = ls_path s" "ls_files t = ls_files (snd (save E s))"
    "passwordPrompted E config (ls_files (snd (save E s))) draws"
proof -
  let ?files = "ls_files (snd (save E s))"
  let ?s0 = "newStore E (sc_statePath config) True ?files draws"
  let ?s1 = "setSecretPassphrase (ls_secretPassphrase s) (?s0\<lparr>ls_path := ls_path s\<rparr>)"
  have last: "lastAccountId E ?s0 = Inr (Some u)"
    using account(1,2) lastAccountId_cong [of ?s0 "snd (save E s)" E] by (simp add: newStore_keeps)
  have scoped: "useAccountScopedPath E u False ?s0 = (Inr True, ?s0\<lparr>ls_path := ls_path s\<rparr>)"
    using useAccountScopedPath_again [of s ?s0 E u] account(2,3) by (simp add: newStore_keeps)
  have "fst (load E ?s1) = Inr True \<and> sameAccount s (snd (load E ?s1))"
    by (rule saved_file_loads [OF saved(1) laws]) (simp_all add: readable setSecretPassphrase_def newStore_keeps)
  moreover have "ls_path (snd (load E ?s1)) = ls_path s" "ls_files (snd (load E ?s1)) = ?files"
    by (simp_all add: load_keeps setSecretPassphrase_def newStore_keeps)
  moreover obtain r t where load: "reload E ?s1 = (r, t)" by fastforce
  ultimately have t: "r = Inr True" "sameAccount s t" "ls_path t = ls_path s" "ls_files t = ?files"
    by (simp_all add: reload_def)
  have "startStore E config ?files draws (ls_secretPassphrase s) = Inr t"
    using config last scoped saved_passphrase [OF saved] load t(1) by (simp add: startStore_def)
  moreover have "passwordPrompted E config ?files draws"
    using config last scoped by (simp add: passwordPrompted_def)
  ultimately show thesis using that t by blast
qed

text \<open>
  Property C7: a restart brings the account back. When a run of the real mode has saved its state
  and the index file names the account, a program started on those files, with the account's
  passphrase as the first line of its input, starts; it works on the same state file, its
  memory is that of the saved store, its session is the saved one, and the HTTP layer has that
  session's access token.
\<close>

theorem restart_restores_the_account:
  assumes "startConfig E m = Inr config" "sc_mode config = Real" "\<not> sc_statePathExplicit config" "pf_hasOpenSsl E"
    and "fst (save E s) = Inr True" "ls_secretProtectionRequired s" "storable E s" "textSafe E s" "secret_laws E"
    and "env_canRead E (ls_path s)" "lastAccountId E (snd (save E s)) = Inr (Some u)"
    and "ls_indexPath s = sc_statePath config" "ls_path s = ls_path (snd (useAccountScopedPath E u False s))"
    and "mc_files m = ls_files (snd (save E s))" "mc_input m = ls_secretPassphrase s # rest"
  shows "\<exists>p r. runMain E m = Inr p \<and> pg_system p = RealSystem r \<and> pg_input p = mc_leftInput m (mc_input m)
    \<and> sameAccount s (cl_store (rl_client r)) \<and> ls_path (cl_store (rl_client r)) = ls_path s
    \<and> cl_session (rl_client r) = (if ls_hasSession s then Some (storedSession (ls_session s)) else None)
    \<and> ts_accessToken (ht_tokens (rl_http r)) = (if ls_hasSession s then ts_accessToken (as_tokens (ls_session s)) else [])"
proof -
  obtain t where t: "startStore E config (mc_files m) (mc_draws m) (ls_secretPassphrase s) = Inr t"
    "sameAccount s t" "ls_path t = ls_path s" "passwordPrompted E config (mc_files m) (mc_draws m)"
    using restarted_store [OF assms(2,3,5-13)] assms(14) by metis
  let ?c = "newClient E config t"
  have "startClient E config (mc_files m) (mc_draws m) (ls_secretPassphrase s) = Inr ?c"
    using t(1) assms(4) by (simp add: startClient_def)
  moreover have "startSystem E ?c = RealSystem (startReal E ?c)"
    using assms(2) by (simp add: startSystem_def newClient_fields)
  moreover have "cl_session ?c = (if ls_hasSession s then Some (storedSession (ls_session s)) else None)"
    using t(2) by (simp add: newClient_def startingSession_def loadSession_def sameAccount_def)
  moreover have "rl_client (startReal E ?c) = ?c" by (simp add: startReal_def Let_def)
  moreover have "ht_tokens (rl_http (startReal E ?c)) = (case cl_session ?c of None \<Rightarrow> noTokens | Some x \<Rightarrow> as_tokens x)"
    by (simp add: startReal_def newHttpClient_def setTokens_def Let_def split: option.split)
  ultimately show ?thesis
    using assms(1,15) t by (simp add: runMain_def firstLine_def newClient_fields storedSession_def noTokens_def)
qed

text \<open>The sample machine, and a state that was saved next to its index file.\<close>

definition indexFile :: qstring where
  "indexFile = defaultStatePath (sampleMachine [] [])"

definition leftState :: local_store where
  "leftState = protectedStore\<lparr>ls_indexPath := indexFile,
     ls_path := ls_path (snd (useAccountScopedPath sampleHttpEnv (Q ''alice'') False (protectedStore\<lparr>ls_indexPath := indexFile\<rparr>))),
     ls_files := [indexFile \<mapsto> [(StorageKeys_LastAccountId, JStr (Q ''alice''))]]\<rparr>"

definition restartMachine :: machine where
  "restartMachine = (sampleMachine (sampleArgs (Q ''9'')) [Q ''pw'', Q ''/exit''])
     \<lparr>mc_files := ls_files (snd (save sampleHttpEnv leftState))\<rparr>"

lemma left_fields [simp]:
  "ls_indexPath leftState = indexFile" "ls_secretProtectionRequired leftState" "ls_hasSession leftState"
  "ls_session leftState = sampleSession" "ls_secretPassphrase leftState = Q ''pw''" "ls_secretSalt leftState = []"
  "ls_files leftState = [indexFile \<mapsto> [(StorageKeys_LastAccountId, JStr (Q ''alice''))]]"
  by (simp_all add: leftState_def protectedStore_def sampleStore_def)

lemma left_paths: "ls_path leftState = ls_path (snd (useAccountScopedPath sampleHttpEnv (Q ''alice'') False leftState))"
    "ls_path leftState \<noteq> indexFile"
  by (simp_all add: useAccountScopedPath_def leftState_def Let_def)
    (simp add: sampleHttpEnv_def http_env.defs env.defs sampleEnv_def indexFile_def defaultStatePath_def sampleMachine_def Let_def Q_def)

lemma left_ready:
  "librariesWork sampleHttpEnv" "env_dirReady sampleHttpEnv f" "env_canWrite sampleHttpEnv f" "env_canRead sampleHttpEnv f"
  "secret_laws sampleHttpEnv" "storable sampleHttpEnv leftState" "textSafe sampleHttpEnv leftState"
  using sample_libraries sample_laws sample_utf8
  by (simp_all add: librariesWork_def secret_laws_def gcm_roundtrip_def base64_roundtrip_def deriveStorageKey_def utf8_roundtrip_def
      storable_def textSafe_def sampleHttpEnv_def http_env.defs env.defs leftState_def protectedStore_def sampleStore_def
      sampleSession_def)
    (simp_all add: sampleEnv_def Q_def)

theorem restart_restores_the_account_witness:
  "\<exists>p r. runMain sampleHttpEnv restartMachine = Inr p \<and> pg_system p = RealSystem r \<and> pg_input p = [Q ''/exit'']
     \<and> cl_session (rl_client r) = Some (storedSession sampleSession) \<and> ts_accessToken (ht_tokens (rl_http r)) = Q ''t''"
proof -
  obtain config where config: "startConfig sampleHttpEnv restartMachine = Inr config" "sc_mode config = Real"
    "\<not> sc_statePathExplicit config" "sc_statePath config = indexFile"
    using startup_accepts_aux [OF sample_fields(1,3) sample_scheme(2) sample_number]
    by (simp add: startConfig_def restartMachine_def sampleMachine_def sampleArgs_def indexFile_def defaultStatePath_def)
  have saved: "fst (save sampleHttpEnv leftState) = Inr True"
    by (rule save_works) (simp_all add: left_ready Q_def)
  then obtain root c where "ls_files (snd (save sampleHttpEnv leftState)) = (ls_files leftState)(ls_path leftState \<mapsto> root)"
    by (rule save_writes)
  then have "lastAccountId sampleHttpEnv (snd (save sampleHttpEnv leftState)) = Inr (Some (Q ''alice''))"
    using left_paths(2) by (simp add: lastAccountId_def left_ready(4) Let_def Q_def)
  note restored = restart_restores_the_account [OF config(1-3) sample_fields(2) saved _ left_ready(6,7,5,4) this _ left_paths(1)]
  have "\<exists>p r. runMain sampleHttpEnv restartMachine = Inr p \<and> pg_system p = RealSystem r
      \<and> pg_input p = mc_leftInput restartMachine (mc_input restartMachine)
      \<and> cl_session (rl_client r) = Some (storedSession sampleSession)
      \<and> ts_accessToken (ht_tokens (rl_http r)) = ts_accessToken (as_tokens sampleSession)"
    using restored [of "[Q ''/exit'']"] config(4) by (simp add: restartMachine_def sampleMachine_def) blast
  then show ?thesis by (simp add: restartMachine_def sampleMachine_def sampleSession_def)
qed

end
