(* ===== verification/Disclosure.thy ===== *)
theory Disclosure
  imports Accounts ClientViews
begin

text \<open>
  Where the client puts what it should keep to itself: a typed password goes into the request
  that needs it and nowhere else, plaintext is written to disk only by a download, under a
  name the message's id cannot choose freely, and no step writes another account's state file.
\<close>

section \<open>Passwords\<close>

text \<open>
  Property C14: a typed password goes into one request and nowhere else. Waiting for the password
  of a login or a registration, the client puts the line, as it is, into that request (and into
  its callback for a login) and is back in command mode; everything else it holds or has
  printed, its store and its trace of events included, is the same for any password.
\<close>

theorem typed_password_stays_in_the_request:
  assumes "rt_inputMode (cl_router c) = LoginPassword \<or> rt_inputMode (cl_router c) = RegisterPassword"
  shows "cl_pending (handleLine E C password c) = cl_pending c @
      [if rt_inputMode (cl_router c) = LoginPassword
       then Call (LoginUser (rt_pendingLoginIdentifier (cl_router c)) password) (OnLogin password)
       else Call (RegisterUser (rt_pendingUsername (cl_router c)) (rt_pendingEmail (cl_router c)) password) OnRegister]
    \<and> (handleLine E C password c)\<lparr>cl_pending := cs\<rparr> = (handleLine E C other c)\<lparr>cl_pending := cs\<rparr>
    \<and> rt_inputMode (cl_router (handleLine E C password c)) = CommandMode"
  using assms
  by (cases c) (auto simp: handleLine_def handleLoginPassword_def handleRegisterPassword_def controllerLogin_def
      controllerRegister_def registerUser_def login_def onRouter_def issue_def emit_def Let_def)

text \<open>Two passwords typed after /login alice.\<close>

definition loggingIn :: client where
  "loggingIn = sampleClient\<lparr>cl_router := newRouter\<lparr>rt_inputMode := LoginPassword, rt_pendingLoginIdentifier := Q ''alice''\<rparr>\<rparr>"

theorem typed_password_stays_in_the_request_witness:
  "cl_pending (handleLine sampleEnv sampleCrypto (Q ''secret'') loggingIn)
      = [Call (LoginUser (Q ''alice'') (Q ''secret'')) (OnLogin (Q ''secret''))]
   \<and> cl_trace (handleLine sampleEnv sampleCrypto (Q ''secret'') loggingIn)
      = cl_trace (handleLine sampleEnv sampleCrypto (Q ''guess'') loggingIn)"
proof -
  have "rt_inputMode (cl_router loggingIn) = LoginPassword \<or> rt_inputMode (cl_router loggingIn) = RegisterPassword"
    by (simp add: loggingIn_def)
  from typed_password_stays_in_the_request [OF this, of sampleEnv sampleCrypto "Q ''secret''" "[]" "Q ''guess''"]
  have "cl_pending (handleLine sampleEnv sampleCrypto (Q ''secret'') loggingIn)
      = [Call (LoginUser (Q ''alice'') (Q ''secret'')) (OnLogin (Q ''secret''))]"
    and "cl_trace ((handleLine sampleEnv sampleCrypto (Q ''secret'') loggingIn)\<lparr>cl_pending := []\<rparr>)
      = cl_trace ((handleLine sampleEnv sampleCrypto (Q ''guess'') loggingIn)\<lparr>cl_pending := []\<rparr>)"
    by (simp_all add: loggingIn_def)
  then show ?thesis by simp
qed

section \<open>Exported messages\<close>

definition exportName :: "qstring \<Rightarrow> qstring" where
  "exportName name = Q ''message-'' @ name @ Q ''.txt''"

lemma exportName_arg: "arg1 (Q ''message-%1.txt'') name = exportName name"
proof -
  have "pieces (Q ''message-%1.txt'') = map Plain (Q ''message-'') @ [Marker 1 (Q ''%1'')] @ map Plain (Q ''.txt'')"
    by (simp add: Q_def markerAt_def startsWith_def isDigit_def digitValue_def)
  then show ?thesis by (simp add: argN_def exportName_def) (simp add: Q_def)
qed

definition exports :: "env \<Rightarrow> crypto_provider \<Rightarrow> client \<Rightarrow> client \<Rightarrow> bool" where
  "exports E C c c' \<longleftrightarrow>
     (\<exists>name message device plaintext. list_all idCharacter name
        \<and> message \<in> set (ls_messages (cl_store c)) \<and> device \<in> set (ls_deviceKeys (cl_store c))
        \<and> decryptForCurrentUser C c device message = Inr plaintext
        \<and> cl_textFiles c' = (cl_textFiles c)(pf_currentDirPath E (exportName name) \<mapsto> plaintext @ newline))"

lemma exported_download: "cl_textFiles (download E C i c) = cl_textFiles c \<or> exports E C c (download E C i c)"
proof -
  have dev: "currentDevice c = Inr d \<Longrightarrow> d \<in> set (ls_deviceKeys (cl_store c))" for d
    by (auto simp: currentDevice_def loadDeviceKeys_def dest!: find_Some_D split: option.splits)
  have msg: "findMessage i (cl_store c) = Inr (Some m) \<Longrightarrow> m \<in> set (ls_messages (cl_store c))" for m
    by (auto simp: findMessage_def dest!: find_Some_D)
  show ?thesis
    using dev msg safeMessageId_chars [of i]
    by (auto simp: download_def exports_def orFail_def downloadPathForMessage_def exportName_arg Let_def
        split: sum.split option.split) blast
qed

lemma exports_after_event:
  "exports E C (emit E' ev c) c' = exports E C c c'"
proof -
  have "currentUserId (emit E' ev c) = currentUserId c" "deviceIdOf (emit E' ev c) = deviceIdOf c"
    by (simp_all add: currentUserId_def deviceIdOf_def)
  then have "decryptForCurrentUser C (emit E' ev c) device m = decryptForCurrentUser C c device m" for device m
    by (simp add: decryptForCurrentUser_def oneTimePreKeyFor_def cong: option.case_cong)
  then show ?thesis by (simp add: exports_def)
qed

lemma exported_line:
  "cl_textFiles (handleLine E C line c) = cl_textFiles c \<or> exports E C c (handleLine E C line c)"
proof (cases "\<exists>command. rt_inputMode (cl_router c) = CommandMode \<and> parseCommand E line = Inr command \<and> cmd_type command = Download")
  case True
  then obtain command where command: "rt_inputMode (cl_router c) = CommandMode" "parseCommand E line = Inr command"
    "cmd_type command = Download" by blast
  have routed: "cl_textFiles (routeCommand E C command c1) = cl_textFiles c1 \<or> exports E C c1 (routeCommand E C command c1)" for c1
    using exported_download [of E C _ "emit E (OperationStarted AppText_ExportingMessage) c1"]
    by (auto simp: routeCommand_def zeroArgumentCommands_def oneArgumentCommands_def commandHasArgumentCount_def
        handleCommand_def withOne_def command(3) Let_def exports_after_event client_view_simps split: list.split)
  show ?thesis
    using routed [of "emit E (SlashCommandReceived command) c"]
    by (auto simp: handleLine_def handleCommandMode_def command exports_after_event client_view_simps Let_def)
next
  case False
  have "cl_textFiles (handleLine E C line c) = cl_textFiles c"
  proof (rule exported.view_typed [of "UNIV - {Download}"])
    fix command :: SlashCommand and c
    assume "cmd_type command \<in> UNIV - {Download}"
    then show "cl_textFiles (handleCommand E C command c) = cl_textFiles c"
      by (cases "cmd_type command = Exit") (simp add: handleCommand_def, simp add: client_view_simps)
  qed (use False in auto)
  then show ?thesis ..
qed

text \<open>
  Property C15: plaintext reaches the disk only by a download, and only under a safe name. No answer
  of a gateway writes a text file. A line writes none, or exactly one: the decrypted text of a
  stored message and a line end, in the current directory, under message-NAME.txt where NAME
  has letters, digits, underscores and hyphens only, whatever id the server gave the message.
\<close>

theorem exports_stay_in_the_current_directory:
  "cl_textFiles (deliver E' C k r c) = cl_textFiles c
    \<and> (cl_textFiles (handleLine E C line c) = cl_textFiles c \<or> exports E C c (handleLine E C line c))"
  using exported_line exported.view_deliver by simp

section \<open>Files\<close>

lemma step_texts:
  assumes "client_step C c c'"
  shows "cl_textFiles c' = cl_textFiles c \<or> (\<exists>E line. c' = handleLine E C line c \<and> exports E C c c')"
  using assms
proof (cases rule: client_step_cases)
  case (login E p r xs ys req)
  then have "c' = deliver E C (OnLogin p) (SessionReply r) (c\<lparr>cl_pending := xs @ ys\<rparr>)" by (simp add: deliver_def)
  then show ?thesis by (simp add: exported.view_deliver)
next
  case (answer E k r cs)
  then show ?thesis by (simp add: exported.view_deliver)
next
  case (line E l)
  then show ?thesis using exported_line by blast
next
  case (tokens E t)
  then show ?thesis by (simp add: exported.view_updateTokens)
qed

text \<open>
  Property C12: accounts are kept apart on disk. A step of a client (a line typed, an answer of
  any gateway, a token refresh) changes, of the store's files, none but the index file and the
  state file it works on afterwards, so never the state file of an account with another file
  name; besides them it writes at most one text file, the message a /download line exports
  (property C15). The state file becomes another one in no other step than the delivery of a
  successful login in the mode with one file per account, and then is the file of that account.
  The index file's path stays, and protection of secrets, once required, stays required.
\<close>

theorem accounts_kept_apart:
  assumes "client_step C c c'" and "f \<noteq> ls_indexPath (cl_store c)" and "f \<noteq> ls_path (cl_store c')"
  shows "ls_files (cl_store c') f = ls_files (cl_store c) f
    \<and> (cl_textFiles c' = cl_textFiles c \<or> (\<exists>E line. c' = handleLine E C line c \<and> exports E C c c'))
    \<and> (ls_path (cl_store c') = ls_path (cl_store c) \<or> switchesAccount C c c')
    \<and> ls_indexPath (cl_store c') = ls_indexPath (cl_store c)
    \<and> ls_secretProtectionRequired (cl_store c') = ls_secretProtectionRequired (cl_store c)"
  using step_files [OF assms] step_texts [OF assms(1)] step_path [OF assms(1)] step_settings [OF assms(1)]
  by (intro conjI) (elim conjE, assumption)+

text \<open>Alice is logged in when Bob's login is answered: her file stays, his becomes the state file.\<close>

theorem accounts_kept_apart_witness:
  "\<exists>c' :: client. ls_path (cl_store c') = Q ''/state/bob-client-state.json'' \<and> ls_files (cl_store c') (Q ''/state/alice'') = Some []"
proof -
  let ?c' = "deliver sampleEnv sampleCrypto (OnLogin (Q ''pw'')) (SessionReply (Inr bobsSession)) (switchingClient\<lparr>cl_pending := [] @ []\<rparr>)"
  have "client_step sampleCrypto switchingClient ?c'"
    by (rule Answered, rule Answer [of _ "[]" _ _ "[]"]) (simp_all add: switchingClient_def fits_def)
  moreover have path: "ls_path (cl_store ?c') = Q ''/state/bob-client-state.json''"
  proof -
    have "otherFiles (cl_store ?c') = otherFiles (snd (useAccountScopedPath sampleEnv (Q ''bob'') True
        (setSecretPassphrase (Q ''pw'') (cl_store switchingClient))))"
      using elsewhere.view_login [of sampleEnv sampleCrypto "Q ''pw''" "Inr bobsSession" "switchingClient\<lparr>cl_pending := []\<rparr>"]
      by (simp add: deliver_def switchingClient_def bobsSession_def)
    from otherFiles_paths [OF this] bobs_path show ?thesis by simp
  qed
  moreover have "Q ''/state/alice'' \<noteq> Q ''/state/bob-client-state.json''" "Q ''/state/alice'' \<noteq> Q ''/state/index''"
    by (simp_all add: Q_def)
  ultimately have "ls_files (cl_store ?c') (Q ''/state/alice'') = ls_files (cl_store switchingClient) (Q ''/state/alice'')"
    using accounts_kept_apart [of sampleCrypto switchingClient ?c' "Q ''/state/alice''"]
    by (simp add: switchingClient_def sampleStore_def)
  with path show ?thesis by (intro exI [of _ ?c']) (simp only: switchingClient_def, simp)
qed

end
