(* ===== verification/Spec2Isabelle.thy ===== *)
theory Spec2Isabelle
  imports EthereumHash StoreMaps Restart Disclosure
begin

text \<open>
  A verification development for the C++ console client of the repository (client/src).

  THE PROGRAM. The client reads lines from the console, turns them into slash commands, calls
  a server through asynchronous gateways, encrypts and decrypts messages through a crypto
  provider, keeps its state in a JSON file, and prints what happens. Its parts talk through
  an event bus: services emit events, the command router and the console presenter listen.

  THE THEORIES, in the order of the dependencies.
  Prelude: bytes, and updating the first match of a list in place (\<open>upsert_by\<close>).
  QtText, Json, Numbers: the members of QString (UTF-16 code units, \<open>Q\<close> for literals, \<open>arg\<close>
    with markers) and of QJsonValue that the client uses; printed numbers read back.
  Constants: support/ClientConstants.h, one definition per constant, each in \<open>const_defs\<close>.
  Models: domain/Models.h and Models.cpp and support/Result.h: enumerations, structs as
    records, \<open>result\<close>, the name tables, and the records \<open>platform\<close> (pure library functions) and
    \<open>env\<close> (with files, randomness and the clock).
  Wire: the laws of JSON, UTF-8 and base64 that messages on the wire rely on.
  SampleJson, Sample: an executable JSON codec and a concrete instance of \<open>env\<close>, proved to
    satisfy those laws, on which the theorems are exercised.
  Keccak, EthereumHash: support/EthereumHash.cpp, on 64-bit words.
  Parser: app/SlashCommandParser.cpp. Startup: app/StartupConfig.cpp.
  StoreJson, Secrets, Store: storage/JsonLocalStore.cpp: the file format, the protection of
    secrets, and the store's operations over an explicit file system.
  StoreLaws, StoreMaps, Persistence: what the store's operations guarantee. The interfaces
    \<open>keyed_table\<close>, \<open>overwriting_table\<close> and \<open>ordered_map\<close> state the laws of the store's tables
    and of std::map, interpreted on the store's own operations; \<open>abstract_store\<close> is what the
    store promises, and its operations refine it.
  Events: app/EventBus.h, the router's slots and console/ConsolePresenter.cpp.
  Services, Handlers: services/Services.cpp. A call to a gateway puts a request and the
    continuation that waits for its answer into \<open>cl_pending\<close>; \<open>deliver\<close> runs a continuation.
  Router: app/ClientController.cpp and the input side of app/CommandRouter.cpp.
  NativeCrypto, NativeLaws: crypto/NativeSignalCryptoProvider.cpp, the behaviour of OpenSSL and
    Qt it relies on (\<open>native_laws\<close>), and what it computes. MockCrypto: MockCryptoProvider.cpp.
  Providers: the contract of a message cipher (locale \<open>message_cipher\<close>), what the services
    conclude from it, and its interpretations on both providers.
  Systems: what steps, invariants, bounded work and simulations are, as locales that the
    client, the mock mode, the real mode and the network interpret.
  Client, SampleClient: what main.cpp builds, the step relation of a running client (a typed
    line, an answer to any outstanding request, a token refresh), its invariants, and a
    concrete client.
  ClientViews, StoreViews: which parts of a client and of its store an operation leaves alone,
    once for every part (\<open>client_view\<close>, \<open>store_view\<close> and their extensions).
  MockGateways: gateways/Gateways.cpp, and the mock mode as a closed system of client, server
    and timers (\<open>mock_reachable\<close>).
  HttpText, Http, HttpLaws: gateways/HttpGateways.cpp: paths, errors and JSON; requests in
    flight with the callbacks that wait for them; conservation of callbacks, bounds, tokens.
  RealMode, HttpProperties: the real mode, the client on the HTTP layer (\<open>real_step\<close>).
  Accounts, Disclosure: several accounts on one machine, and where passwords and plaintext go.
  Program, Restart: main.cpp as a whole with console/ConsoleInputWorker.cpp: \<open>runMain\<close> up to the
    event loop, then the steps of the reader thread and of the loop (\<open>program_step\<close>), and what
    a program started on the files of another run has back.

  WHAT THE LEMMAS SHOW. Program: it is its client run on its input, ends only by /exit, is
  secure in the real mode from its first step on, and a restart brings the account back. Store:
  its vectors refine maps, tombstones survive, the cache follows the server, the conversation
  list is the visible messages grouped by key, saved states come back, secrets show in the file
  only as ciphertext, failing saves and loads. Hashing: the permutation and the digest are those
  of the specification, but for one message length in 136. Text: commands survive being written and parsed. Crypto: what a
  provider encrypts for a published bundle its owner reads, new devices publish bundles that
  verify. Client: every command finishes, a busy router waits for an answer, trust pins never
  change, only ciphertext leaves, no step writes another account's state file, a login replaces
  the account in memory, passwords go into one request, raw error texts stay off the console.
  Gateways: no call is lost or answered twice, a call needs at most six exchanges, lists are
  fetched completely, requests go to the configured server. The errors the model exposes (a
  cached bundle that outlives its account, tokens out of step, an inbox emptied by a blank reply, failed signatures, an end of input that ends nothing) are
  theorems as well.

  ASSUMPTIONS. Library functions are fields of \<open>platform\<close>, \<open>env\<close> and \<open>http_env\<close>; where a
  theorem needs documented behaviour of one (base64 and UTF-8 decode what they encoded, JSON
  texts parse back, AES-GCM decrypts what it encrypted, X25519 commutes, signatures verify,
  keys have 32 bytes, lower-casing ASCII letters, std::sort sorts) it is a named hypothesis
  (\<open>base64_roundtrip\<close>, \<open>utf8_roundtrip\<close>, \<open>wire_laws\<close>, \<open>gcm_roundtrip\<close>, \<open>native_laws\<close>,
  \<open>lower_ascii\<close>, \<open>sort_law\<close>), which the sample instance satisfies. Integers that can overflow
  are words or are checked against the range of int; the message counters of the providers, int
  in the code, are unbounded here. The laws of the OpenSSL calls cover more arguments than the
  provider uses: AES-GCM encrypts under an initialisation vector of any length (12 bytes are used)
  and texts of any length. That secrets show only as ciphertext needs no law of the cipher.

  BOUNDS. \<open>work\<close> (theory Client) bounds the answers that outstanding calls can still need,
  \<open>httpWork\<close> (theory HttpLaws) the exchanges: one, a refresh and a retry, twice for a login.
  \<open>serveRun\<close> and the sample JSON reader take fuel, with the amount that suffices in the
  theorems; the key stream loop is a partial function with its termination proved.

  NOT MODELLED. Timers and replies may come in any order, which includes the order of the
  event loop, and the reader thread may run at any time; what it does after main has returned
  is left open. The registration of Qt meta types and the filter rules of the log have no
  content in the model. The OpenSSL primitives are parameters. A file that could be opened is
  written completely (\<open>writeFile\<close>; the code ignores what QFile::write returns, so a partly
  written file is outside the model). A request is one exchange at its URL: the properties of
  requests are about what is handed to QNetworkAccessManager, and redirects it may follow by
  itself (the code sets no policy) are left out. A terminal line read at the password prompt may
  take more input with it; the input of the program's loop is what the prompt leaves.
  The server (Python), the contracts (Solidity) and the TypeScript package are other programs, and the tests are not
  modelled.
\<close>

section \<open>Liveness of the command loop\<close>

text \<open>Property C2: a busy client is waiting for an answer. In every reachable state, if the router
  refuses commands because an operation is in progress, then a request of a command (not of
  the key upload in the background) is outstanding, so the client cannot be stuck busy.\<close>

theorem busy_router_waits:
  assumes "reachable C c" and "rt_operationInProgress (cl_router c)"
  shows "\<exists>req k. Call req k \<in> set (cl_pending c) \<and> foreground k"
  using busyOk_reachable [OF assms(1)] assms(2) by (simp add: busyOk_def busy_def working_def)

theorem busy_router_waits_witness:
  "\<exists>req k. Call req k \<in> set (cl_pending (handleLine sampleEnv sampleCrypto (Q ''/sync'') sampleClient)) \<and> foreground k"
  using syncing_reachable busy_router_waits by blast

text \<open>Property C1: every command finishes. From a reachable state, no sequence of gateway answers is
  longer than the work outstanding, as long as a request is outstanding it can be answered,
  and when the answers are exhausted the router is free again; so if the gateways answer, the
  client always returns to accepting commands, whatever they answer and in whatever order.\<close>

theorem every_command_finishes:
  assumes "reachable C c"
  shows "(\<forall>n c'. (answers C ^^ n) c c' \<longrightarrow> n \<le> work c)
     \<and> (\<forall>c'. (answers C)\<^sup>*\<^sup>* c c' \<longrightarrow> (if cl_pending c' = [] then \<not> rt_operationInProgress (cl_router c') else \<exists>c''. answers C c' c''))"
proof -
  have "\<not> rt_operationInProgress (cl_router c')" if "(answers C)\<^sup>*\<^sup>* c c'" "cl_pending c' = []" for c'
    using busyOk_reachable [OF answering.events_reach [OF that(1) assms]] that(2)
    by (simp add: busyOk_def busy_def working_def)
  then show ?thesis using answering.events_bounded [OF _ assms] pending_can_answer by fastforce
qed

theorem every_command_finishes_witness:
  "\<exists>c. answers sampleCrypto (handleLine sampleEnv sampleCrypto (Q ''/sync'') sampleClient) c"
proof -
  obtain c where c: "reachable sampleCrypto c" "c = handleLine sampleEnv sampleCrypto (Q ''/sync'') sampleClient"
    using syncing_reachable by blast
  from every_command_finishes [OF c(1)] syncing_pending [of sampleCrypto] c(2) show ?thesis
    by (metis list.distinct(1) rtranclp.rtrancl_refl)
qed

section \<open>Trust\<close>

text \<open>Property C3: a trust pin never changes. Once the identity key of a user's device is pinned, the
  pin stays as it is under every line typed, every token refresh and every gateway answer
  except the answer to a login (which loads another state file): not by trusting the user
  again, and not by any bundle the server returns.\<close>

theorem trust_pin_never_changes:
  assumes "trustPin u d (cl_store c) = Inr (Some pin)"
  shows "trustPin u d (cl_store (handleLine E C line c)) = Inr (Some pin)
     \<and> trustPin u d (cl_store (updateTokens E tokens c)) = Inr (Some pin)
     \<and> ((\<forall>p. k \<noteq> OnLogin p) \<longrightarrow> trustPin u d (cl_store (deliver E C k r c)) = Inr (Some pin))"
proof -
  show ?thesis
    using assms pin_kept_by_deliver [OF assms, of k E C r]
    by (simp only: trustPin_of_pins pinned.view_handleLine pinned.view_updateTokens) blast
qed

theorem trust_pin_never_changes_witness:
  "trustPin (Q ''bob'') 1 (cl_store (deliver sampleEnv sampleCrypto (OnTrustBundle bobsAddress)
      (BundleReply (Inr (sampleBundle (Q ''other'')))) sampleClient)) = Inr (Some samplePin)"
proof -
  have "trustPin (Q ''bob'') 1 (cl_store sampleClient) = Inr (Some samplePin)"
    by (simp add: trustPin_def sampleClient_pins) (simp add: samplePin_def)
  from trust_pin_never_changes [OF this, of sampleEnv sampleCrypto "[]" _ "OnTrustBundle bobsAddress"] show ?thesis
    by blast
qed

text \<open>Property C4: first use pins, later uses compare. The answer to /trust with a bundle whose
  signature verifies: with no pin for the address, a successful save pins the bundle's
  identity key and caches the bundle; with a pin for the same key the bundle is cached and the
  match is reported; with a pin for another key only the mismatch is reported, and neither the
  store nor the cached bundle changes. A bundle whose signature does not verify changes
  nothing.\<close>

theorem trust_on_first_use:
  "(case cp_verifySignedPreKey C b of
      Inl err \<Rightarrow> trustBundleReply E C a (Inr b) c = emit E (CryptoOperationFailed err) c
    | Inr _ \<Rightarrow>
       (case find (\<lambda>p. tp_userId p = ua_userId a \<and> tp_deviceId p = ua_deviceId a) (ls_trustPins (cl_store c)) of
          None \<Rightarrow>
            (let pin = \<lparr>tp_userId = ua_userId a, tp_deviceId = ua_deviceId a, tp_identityKey = pkb_identityKey b, tp_firstSeenAt = env_now E\<rparr>;
                 c' = trustBundleReply E C a (Inr b) c
             in trustPin (ua_userId a) (ua_deviceId a) (cl_store c') = Inr (Some pin)
                \<and> (case fst (saveTrustPin E pin (cl_store c)) of
                       Inr _ \<Rightarrow> cl_lastTrustedBundle c' = Some b \<and> last (cl_trace c') = TrustPinCreated pin
                     | Inl err \<Rightarrow> cl_lastTrustedBundle c' = cl_lastTrustedBundle c \<and> last (cl_trace c') = CommandFailed err))
        | Some pin \<Rightarrow>
            (if tp_identityKey pin = pkb_identityKey b
             then trustBundleReply E C a (Inr b) c = emit E (TrustPinMatched (ua_userId a) (ua_deviceId a)) (c\<lparr>cl_lastTrustedBundle := Some b\<rparr>)
             else trustBundleReply E C a (Inr b) c = emit E (TrustPinMismatch (ua_userId a) (ua_deviceId a)) c)))"
proof -
  have saved: "find (\<lambda>p. tp_userId p = tp_userId q \<and> tp_deviceId p = tp_deviceId q) (ls_trustPins (snd (saveTrustPin E q s))) = Some q" for q s
    using pins.last_write_wins [where v = q and E = E and s = s] by simp
  show ?thesis
    using saved [of "\<lparr>tp_userId = ua_userId a, tp_deviceId = ua_deviceId a, tp_identityKey = pkb_identityKey b, tp_firstSeenAt = env_now E\<rparr>" "cl_store c"]
    by (auto simp: trustBundleReply_def orFail_trustPin storeOrFail_def orFail_def trustPin_def Let_def
        split: sum.split option.split)
qed


text \<open>
  Property C31: the cached bundle outlives the account. After a logout and after a login of any
  account, whatever their outcome, the bundle one account trusted is still cached, and a
  message to its address is encrypted to it without a look at the pins of the account that is
  now logged in.
\<close>

theorem bundle_survives_account_switch:
  assumes "cl_lastTrustedBundle c = Some b"
  shows "cl_lastTrustedBundle (logoutReply E r c) = Some b
    \<and> cl_lastTrustedBundle (loginReply E C password r' c) = Some b
    \<and> trustedBundle E C (pkb_userId b) (pkb_deviceId b) use (loginReply E C password r' c)
        = useBundle E C use (Inr b) (loginReply E C password r' c)"
proof -
  have kept: "cl_lastTrustedBundle (logoutReply E r c) = Some b"
    "cl_lastTrustedBundle (loginReply E C password r' c) = Some b"
    using assms
    by (simp_all add: logoutReply_def loginReply_def emitSessionStarted_def ensureDeviceKeysUploaded_def
        storeOrFail_def orFail_def cryptoOrFail_def Let_def split: sum.split)
  then show ?thesis by (simp add: trustedBundle_def cachedBundle_def)
qed

theorem bundle_survives_account_switch_witness:
  "\<exists>c. cl_lastTrustedBundle c = Some (sampleBundle (Q ''K''))
     \<and> cl_lastTrustedBundle (logoutReply sampleEnv (Inr True) c) = Some (sampleBundle (Q ''K''))"
proof -
  let ?c = "sampleClient\<lparr>cl_lastTrustedBundle := Some (sampleBundle (Q ''K''))\<rparr>"
  have "cl_lastTrustedBundle ?c = Some (sampleBundle (Q ''K''))" by simp
  from bundle_survives_account_switch [OF this, of sampleEnv "Inr True"] show ?thesis
    by (intro exI [of _ ?c]) simp
qed

section \<open>What leaves the client and what stays readable\<close>

text \<open>
  A client with a device, in three steps: /send is typed, the directory answers with an address
  (without a user name, so nothing is saved) and the server with the pinned bundle.
\<close>

definition writingClient :: client where
  "writingClient = newClient sampleEnv sampleConfig
     ((sampleStore [])\<lparr>ls_session := sampleSession, ls_hasSession := True, ls_trustPins := [samplePin],
        ls_deviceKeys := [sampleDevice]\<rparr>)"

definition unnamedAddress :: UserAddress where
  "unnamedAddress = bobsAddress\<lparr>ua_username := []\<rparr>"

lemma writingClient_fields [simp]:
  "cl_session writingClient = Some sampleSession" "cl_pending writingClient = []"
  "cl_router writingClient = newRouter" "cl_lastTrustedBundle writingClient = None"
  "cl_store writingClient = (sampleStore [])\<lparr>ls_session := sampleSession, ls_hasSession := True,
     ls_trustPins := [samplePin], ls_deviceKeys := [sampleDevice]\<rparr>"
  "cl_config writingClient = sampleConfig"
  by (simp_all add: writingClient_def newClient_def startingSession_def loadSession_def)

lemma parse_send:
  "parseCommand sampleEnv (commandLine Send [Q ''bob'', Q ''hi'']) =
    Inr \<lparr>cmd_type = Send, cmd_name = commandTypeName Send, cmd_arguments = [Q ''bob'', Q ''hi''],
         cmd_originalLine = commandLine Send [Q ''bob'', Q ''hi'']\<rparr>"
  by (rule parse_commandLine_aux) (simp_all add: lower_ascii_def sampleEnv_def Q_def)

lemma trimmed_hi: "trimmed (Q ''hi'') \<noteq> []"
  by (simp add: trimmed_eq_Nil) (simp add: Q_def isSpace_def)

lemma writing_typed:
  obtains c where "reachable C c" "cl_pending c = [Call (ResolveUsername (Q ''t'') (Q ''bob'') 1) (OnSendAddress (Q ''hi''))]"
    "cl_session c = Some sampleSession" "cl_store c = cl_store writingClient"
    "cl_lastTrustedBundle c = None" "cl_config c = sampleConfig"
proof -
  let ?c = "handleLine sampleEnv C (commandLine Send [Q ''bob'', Q ''hi'']) writingClient"
  have "reachable C writingClient" unfolding writingClient_def by (rule reachable.Start)
  then have r: "reachable C ?c" by (rule reachable.Step) (rule client_step.Typed)
  have "trimmed (commandLine Send [Q ''bob'', Q ''hi'']) \<noteq> []"
    by (simp add: trimmed_commandLine) (simp add: commandLine_def)
  moreover have "joinedArguments [Q ''bob'', Q ''hi''] 1 = Q ''hi''"
    by (simp add: joinedArguments_def appendLine_def)
  ultimately have "?c = issue (ResolveUsername (Q ''t'') (Q ''bob'') 1) (OnSendAddress (Q ''hi''))
      (emit sampleEnv (OperationStarted AppText_SendingMessage)
        (emit sampleEnv (ConversationTargetChanged (Q ''bob''))
          (emit sampleEnv (SlashCommandReceived \<lparr>cmd_type = Send, cmd_name = commandTypeName Send,
             cmd_arguments = [Q ''bob'', Q ''hi''], cmd_originalLine = commandLine Send [Q ''bob'', Q ''hi'']\<rparr>) writingClient)))"
    by (simp add: handleLine_def handleCommandMode_def newRouter_def parse_send routeCommand_def
        handleSendCommand_def commandHasArgumentCount_def Let_def sendMessage_def send_def trimmed_hi
        requireSession_def isLoggedIn_def accessToken_def sampleSession_def deviceIdOf_def sampleConfig_def)
  with r that [of ?c] show ?thesis by simp
qed

lemma writing_sent:
  obtains c draft where "reachable sampleCrypto c"
    "cl_pending c = [Call (SendMessage (Q ''t'') draft None) (OnMessageSent (Q ''sealed:hi''))]"
    "lm_wirePayloadJson draft = Q ''sealed:hi''"
proof -
  let ?C = sampleCrypto and ?a = unnamedAddress
  let ?use = "SendWith ?a (Q ''hi'') sampleDevice"
  obtain c1 where c1: "reachable ?C c1" "cl_pending c1 = [Call (ResolveUsername (Q ''t'') (Q ''bob'') 1) (OnSendAddress (Q ''hi''))]"
    "cl_session c1 = Some sampleSession" "cl_store c1 = cl_store writingClient"
    "cl_lastTrustedBundle c1 = None" "cl_config c1 = sampleConfig" by (rule writing_typed)
  let ?c2 = "deliver sampleEnv ?C (OnSendAddress (Q ''hi'')) (AddressReply (Inr ?a)) (c1\<lparr>cl_pending := []\<rparr>)"
  have r2: "reachable ?C ?c2"
    using answers.Answer [of c1 "[]" _ _ "[]" "AddressReply (Inr ?a)" ?C sampleEnv] c1(2)
    by (auto intro!: reachable.Step [OF c1(1) client_step.Answered] simp: fits_def)
  have c2: "cl_pending ?c2 = [Call (FetchPreKeyBundle (Q ''t'') (Q ''bob'') 1) (OnPinnedBundle samplePin ?use)]"
      "cl_session ?c2 = Some sampleSession"
    by (simp_all add: deliver_def sendAddressReply_def storeOrFail_def orFail_def saveKnownUser_def unnamedAddress_def
        bobsAddress_def sendToAddress_def currentDevice_def loadDeviceKeys_def c1 sampleDevice_def deviceIdOf_def
        trustedBundle_def cachedBundle_def trustPin_def samplePin_def accessToken_def sampleConfig_def sampleSession_def)
  then obtain c where c: "reachable ?C c" "cl_session c = Some sampleSession"
      "cl_pending c = [Call (FetchPreKeyBundle (Q ''t'') (Q ''bob'') 1) (OnPinnedBundle samplePin ?use)]"
    using r2 by blast
  let ?c = "c\<lparr>cl_pending := []\<rparr>" and ?b = "sampleBundle (Q ''K'')"
  let ?c3 = "deliver sampleEnv ?C (OnPinnedBundle samplePin ?use) (BundleReply (Inr ?b)) ?c"
  have "reachable ?C ?c3"
    using answers.Answer [of c "[]" _ _ "[]" "BundleReply (Inr ?b)" ?C sampleEnv] c(3)
    by (auto intro!: reachable.Step [OF c(1) client_step.Answered] simp: fits_def)
  moreover have "cl_pending ?c3 = [Call (SendMessage (Q ''t'') (draftFor ?c (Q ''bob'') 1 (Q ''sealed:hi'')) None) (OnMessageSent (Q ''sealed:hi''))]"
    by (simp add: deliver_def pinnedBundleReply_def sampleCrypto_def samplePin_def sampleBundle_def
        encryptAndIssue_def cryptoOrFail_def orFail_def createLocalSenderCopy_def accessToken_def Let_def
        withProviderState_def draftFor_def currentUserId_def deviceIdOf_def unnamedAddress_def bobsAddress_def
        c(2) sampleSession_def Q_def)
  ultimately show thesis by (rule that) (simp add: draftFor_def)
qed

text \<open>
  Property C8: message text leaves the client only encrypted. In every reachable state each
  outstanding request that transmits a message (sending or forwarding) carries a payload that
  the crypto provider produced by encrypting to a bundle whose signature the provider
  accepted; and every request waits with a callback of the type it asks for.
\<close>

theorem only_ciphertext_leaves:
  assumes "reachable C c" and "Call req k \<in> set (cl_pending c)"
  shows "sealedRequest C req \<and> asks req = expects k"
  using sealed_reachable [OF assms(1)] assms(2) by (simp add: sealedCalls_def)

theorem only_ciphertext_leaves_witness:
  "\<exists>draft. lm_wirePayloadJson draft = Q ''sealed:hi'' \<and> sealedRequest sampleCrypto (SendMessage (Q ''t'') draft None)"
proof -
  obtain c draft where "reachable sampleCrypto c" "lm_wirePayloadJson draft = Q ''sealed:hi''"
    "cl_pending c = [Call (SendMessage (Q ''t'') draft None) (OnMessageSent (Q ''sealed:hi''))]"
    by (rule writing_sent)
  then show ?thesis using only_ciphertext_leaves by fastforce
qed

text \<open>
  Property C30: the copy of an outgoing message that MessageService encrypts to the sender's own
  device is shown with its text in the conversation log and opens when the message is
  forwarded, while the account and its device stay the same (native provider).
\<close>

theorem sent_message_stays_readable:
  assumes "native_laws E" and "wellFormedDevice E device" and "trimmed plaintext \<noteq> []"
    and "utf8_roundtrip E plaintext" and "lm_senderUserId m = currentUserId c"
  shows "\<exists>copy st'. createLocalSenderCopy (nativeProvider E) c device plaintext st = (Inr copy, st')
    \<and> cle_plaintext (logEntry (nativeProvider E) c device (m\<lparr>lm_localSenderCopyWirePayloadJson := copy\<rparr>)) = plaintext
    \<and> decryptForCurrentUser (nativeProvider E) c device (m\<lparr>lm_localSenderCopyWirePayloadJson := copy\<rparr>) = Inr plaintext"
proof -
  have provider: "cp_encrypt (nativeProvider E) = nativeEncrypt E" "cp_decrypt (nativeProvider E) = nativeDecrypt E"
    by (simp_all add: nativeProvider_def)
  have "nativeReady E device device (selfPreKeyBundleFor c device) plaintext st"
    using assms(1-4) by (simp add: nativeReady_def published_by_self)
  then show ?thesis
    by (rule native.sender_copy_shown [OF provider _ assms(5)]) blast
qed

lemma sent_message_stays_readable_witness:
  "\<exists>copy st'. createLocalSenderCopy (nativeProvider sampleEnv) sampleClient sampleDevice (Q ''hi'') sampleState = (Inr copy, st')
    \<and> cle_plaintext (logEntry (nativeProvider sampleEnv) sampleClient sampleDevice
        ((sampleMessage ''m'' ''alice'' ''bob'' 0)\<lparr>lm_localSenderCopyWirePayloadJson := copy\<rparr>)) = Q ''hi''"
proof -
  have "lm_senderUserId (sampleMessage ''m'' ''alice'' ''bob'' 0) = currentUserId sampleClient"
    by (simp add: sampleMessage_def currentUserId_def sampleSession_def)
  from sent_message_stays_readable [OF sample_native_laws sampleDevice_wellFormed sample_hello this]
  show ?thesis by blast
qed

end
